(* ===== verification/Prelude.thy ===== *)
theory Prelude
  imports Main "HOL-Library.AList" "HOL-Library.List_Lexorder" "HOL-Library.Char_ord"
    "HOL-Library.Word"
begin

text \<open>
  The vocabulary the components share.

  \<^item> A Rust \<open>Result<T, E>\<close> is a sum \<open>'e + 'a\<close>: \<open>Inl\<close> is \<open>Err\<close>, \<open>Inr\<close> is \<open>Ok\<close>.
    \<open>rbind\<close> is the question-mark operator, \<open>traverse\<close> is \<open>collect::<Result<Vec<_>, _>>\<close>,
    \<open>try_each\<close> is a \<open>for\<close> loop whose body returns early with an error.
  \<^item> A \<open>BTreeMap\<close> is an association list kept strictly sorted by \<open>btree_insert\<close>; iteration
    visits it in key order. A \<open>HashMap\<close> is an association list with distinct keys, written
    with \<open>AList.update\<close> and \<open>AList.delete\<close>; the list order stands for the unspecified
    iteration order, and what may not depend on it is proved not to.
  \<^item> \<open>u16\<close>, \<open>u32\<close>, \<open>u64\<close> are words; \<open>usize\<close> counters that count list elements
    are naturals.

  \<open>result_simps\<close> collects the case lemmas of the result combinators.
\<close>

named_theorems result_simps \<open>inversion of the result combinators\<close>

type_synonym u8 = "8 word"
type_synonym u16 = "16 word"
type_synonym u32 = "32 word"
type_synonym u64 = "64 word"

section \<open>Results\<close>

definition rbind :: "'e + 'a \<Rightarrow> ('a \<Rightarrow> 'e + 'b) \<Rightarrow> 'e + 'b" where
  "rbind r f = (case r of Inl e \<Rightarrow> Inl e | Inr x \<Rightarrow> f x)"

definition map_ok :: "('a \<Rightarrow> 'b) \<Rightarrow> 'e + 'a \<Rightarrow> 'e + 'b" where
  "map_ok f r = (case r of Inl e \<Rightarrow> Inl e | Inr x \<Rightarrow> Inr (f x))"

definition map_err :: "('e \<Rightarrow> 'f) \<Rightarrow> 'e + 'a \<Rightarrow> 'f + 'a" where
  "map_err f r = (case r of Inl e \<Rightarrow> Inl (f e) | Inr x \<Rightarrow> Inr x)"

definition ok_or :: "'e \<Rightarrow> 'a option \<Rightarrow> 'e + 'a" where
  "ok_or e m = (case m of None \<Rightarrow> Inl e | Some x \<Rightarrow> Inr x)"

definition ok :: "'e + 'a \<Rightarrow> 'a option" where
  "ok r = (case r of Inl _ \<Rightarrow> None | Inr x \<Rightarrow> Some x)"

definition is_ok :: "'e + 'a \<Rightarrow> bool" where
  "is_ok r = (case r of Inl _ \<Rightarrow> False | Inr _ \<Rightarrow> True)"

fun traverse :: "('a \<Rightarrow> 'e + 'b) \<Rightarrow> 'a list \<Rightarrow> 'e + 'b list" where
  "traverse f [] = Inr []"
| "traverse f (x # xs) = rbind (f x) (\<lambda>y. map_ok (\<lambda>ys. y # ys) (traverse f xs))"

fun try_each :: "('a \<Rightarrow> 'e + unit) \<Rightarrow> 'a list \<Rightarrow> 'e + unit" where
  "try_each f [] = Inr ()"
| "try_each f (x # xs) = rbind (f x) (\<lambda>_. try_each f xs)"

fun filter_map :: "('a \<Rightarrow> 'b option) \<Rightarrow> 'a list \<Rightarrow> 'b list" where
  "filter_map f [] = []"
| "filter_map f (x # xs) = (case f x of None \<Rightarrow> filter_map f xs | Some y \<Rightarrow> y # filter_map f xs)"

lemma rbind_simps [simp]:
  "rbind (Inl e) f = Inl e" "rbind (Inr x) f = f x"
  by (simp_all add: rbind_def)

lemma map_ok_simps [simp]:
  "map_ok f (Inl e) = Inl e" "map_ok f (Inr x) = Inr (f x)"
  by (simp_all add: map_ok_def)

lemma map_err_simps [simp]:
  "map_err f (Inl e) = Inl (f e)" "map_err f (Inr x) = Inr x"
  by (simp_all add: map_err_def)

lemma ok_or_simps [simp]:
  "ok_or e None = Inl e" "ok_or e (Some x) = Inr x"
  by (simp_all add: ok_or_def)

lemma ok_simps [simp]:
  "ok (Inl e) = None" "ok (Inr x) = Some x"
  by (simp_all add: ok_def)

lemma is_ok_simps [simp]:
  "is_ok (Inl e) = False" "is_ok (Inr x) = True"
  by (simp_all add: is_ok_def)

lemma rbind_Inr [result_simps]:
  "rbind r f = Inr y \<longleftrightarrow> (\<exists>x. r = Inr x \<and> f x = Inr y)"
  by (cases r) auto

lemma rbind_Inl [result_simps]:
  "rbind r f = Inl e \<longleftrightarrow> r = Inl e \<or> (\<exists>x. r = Inr x \<and> f x = Inl e)"
  by (cases r) auto

lemma map_ok_Inr [result_simps]: "map_ok f r = Inr y \<longleftrightarrow> (\<exists>x. r = Inr x \<and> y = f x)"
  by (cases r) auto

lemma map_ok_Inl [result_simps]: "map_ok f r = Inl e \<longleftrightarrow> r = Inl e"
  by (cases r) auto

lemma map_err_Inr [result_simps]: "map_err f r = Inr y \<longleftrightarrow> r = Inr y"
  by (cases r) auto

lemma map_err_Inl [result_simps]: "map_err f r = Inl e \<longleftrightarrow> (\<exists>d. r = Inl d \<and> e = f d)"
  by (cases r) auto

lemma ok_or_Inr [result_simps]: "ok_or e m = Inr x \<longleftrightarrow> m = Some x"
  by (cases m) auto

lemma ok_or_Inl [result_simps]: "ok_or e m = Inl d \<longleftrightarrow> m = None \<and> d = e"
  by (cases m) auto

lemma ok_Some [result_simps]: "ok r = Some x \<longleftrightarrow> r = Inr x"
  by (cases r) auto

lemma ok_None [result_simps]: "ok r = None \<longleftrightarrow> (\<exists>e. r = Inl e)"
  by (cases r) auto

lemma is_ok_iff [result_simps]: "is_ok r \<longleftrightarrow> (\<exists>x. r = Inr x)"
  by (cases r) auto

lemma try_each_Inr [result_simps]:
  "try_each f xs = Inr u \<longleftrightarrow> (\<forall>x\<in>set xs. f x = Inr ())"
  by (induction xs) (auto simp: rbind_Inr)

lemma try_each_Inl: "try_each f xs = Inl e \<Longrightarrow> \<exists>x\<in>set xs. f x = Inl e"
  by (induction xs) (auto simp: rbind_Inl)

lemma traverse_Inr:
  "traverse f xs = Inr ys \<longleftrightarrow> list_all2 (\<lambda>x y. f x = Inr y) xs ys"
  by (induction xs arbitrary: ys) (auto simp: rbind_Inr map_ok_Inr list_all2_Cons1)

lemma traverse_length: "traverse f xs = Inr ys \<Longrightarrow> length ys = length xs"
  by (simp add: traverse_Inr list_all2_lengthD)

lemma traverse_set:
  "traverse f xs = Inr ys \<Longrightarrow> y \<in> set ys \<Longrightarrow> \<exists>x\<in>set xs. f x = Inr y"
  by (induction xs arbitrary: ys) (auto simp: result_simps)

lemma traverse_ok: "(\<And>x. x \<in> set xs \<Longrightarrow> is_ok (f x)) \<Longrightarrow> is_ok (traverse f xs)"
  by (induction xs) (auto simp: result_simps)

lemma traverse_Inl: "traverse f xs = Inl e \<Longrightarrow> \<exists>x\<in>set xs. f x = Inl e"
  by (induction xs) (auto simp: result_simps)

lemma set_filter_map: "set (filter_map f xs) = {y. \<exists>x\<in>set xs. f x = Some y}"
  by (induction xs) (auto split: option.splits)

lemma length_filter_map: "length (filter_map f xs) \<le> length xs"
  by (induction xs) (auto split: option.splits)

section \<open>Ordered maps\<close>

fun btree_insert :: "'k::linorder \<Rightarrow> 'v \<Rightarrow> ('k \<times> 'v) list \<Rightarrow> ('k \<times> 'v) list" where
  "btree_insert k v [] = [(k, v)]"
| "btree_insert k v ((k', v') # m) =
     (if k < k' then (k, v) # (k', v') # m
      else if k = k' then (k, v) # m
      else (k', v') # btree_insert k v m)"

text \<open>Collecting pairs into a \<open>BTreeMap\<close>: a later pair replaces an earlier one of its key.\<close>

definition btree_of :: "('k::linorder \<times> 'v) list \<Rightarrow> ('k \<times> 'v) list" where
  "btree_of ps = fold (\<lambda>(k, v). btree_insert k v) ps []"

definition btree :: "('k::linorder \<times> 'v) list \<Rightarrow> bool" where
  "btree m = sorted_wrt (<) (map fst m)"

lemma map_of_btree_insert [simp]: "map_of (btree_insert k v m) = (map_of m)(k \<mapsto> v)"
  by (induction k v m rule: btree_insert.induct) (auto simp: fun_eq_iff)

lemma keys_btree_insert [simp]: "fst ` set (btree_insert k v m) = insert k (fst ` set m)"
  by (induction k v m rule: btree_insert.induct) auto

lemma set_btree_insert_subset: "set (btree_insert k v m) \<subseteq> insert (k, v) (set m)"
  by (induction k v m rule: btree_insert.induct) auto

lemma btree_insert_nonempty [simp]: "btree_insert k v m \<noteq> []"
  by (induction k v m rule: btree_insert.induct) auto

lemma btree_Nil [simp]: "btree []"
  by (simp add: btree_def)

lemma btree_Cons: "btree ((k, v) # m) \<longleftrightarrow> (\<forall>k'\<in>fst ` set m. k < k') \<and> btree m"
  by (auto simp: btree_def)

lemma btree_insert_btree [simp]: "btree m \<Longrightarrow> btree (btree_insert k v m)"
proof (induction k v m rule: btree_insert.induct)
  case (1 k v)
  then show ?case by (simp add: btree_def)
next
  case (2 k v k' v' m)
  then show ?case by (force simp: btree_Cons)
qed

lemma btree_distinct: "btree m \<Longrightarrow> distinct (map fst m)"
  unfolding btree_def using strict_sorted_iff by blast

lemma btree_fold: "btree m \<Longrightarrow> btree (fold (\<lambda>(k, v). btree_insert k v) ps m)"
  by (induction ps arbitrary: m) auto

lemma btree_btree_of [simp]: "btree (btree_of ps)"
  by (simp add: btree_of_def btree_fold)

lemma map_of_fold_btree_insert:
  "map_of (fold (\<lambda>(k, v). btree_insert k v) ps m) = map_of (rev ps @ m)"
proof (induction ps arbitrary: m)
  case Nil
  then show ?case by simp
next
  case (Cons p ps)
  obtain k v where "p = (k, v)" by (cases p)
  with Cons show ?case
    by (simp add: fun_eq_iff map_add_def split: option.splits)
qed

lemma map_of_btree_of: "map_of (btree_of ps) = map_of (rev ps)"
  by (simp add: btree_of_def map_of_fold_btree_insert)

lemma keys_fold_btree_insert:
  "fst ` set (fold (\<lambda>(k, v). btree_insert k v) ps m) = fst ` set ps \<union> fst ` set m"
proof (induction ps arbitrary: m)
  case Nil
  then show ?case by simp
next
  case (Cons p ps)
  obtain k v where "p = (k, v)" by (cases p)
  with Cons[of "btree_insert k v m"] show ?case by (simp only: fold_Cons o_apply) simp
qed

lemma keys_btree_of [simp]: "fst ` set (btree_of ps) = fst ` set ps"
  by (simp add: btree_of_def keys_fold_btree_insert)

lemma set_fold_btree_insert:
  "set (fold (\<lambda>(k, v). btree_insert k v) ps m) \<subseteq> set ps \<union> set m"
proof (induction ps arbitrary: m)
  case Nil
  then show ?case by simp
next
  case (Cons p ps)
  obtain k v where "p = (k, v)" by (cases p)
  with Cons[of "btree_insert k v m"] set_btree_insert_subset[of k v m] show ?case
    by auto
qed

lemma set_btree_of: "set (btree_of ps) \<subseteq> set ps"
  using set_fold_btree_insert[of ps "[]"] by (simp add: btree_of_def)

lemma btree_insert_snoc: "\<forall>k'\<in>fst ` set m. k' < k \<Longrightarrow> btree_insert k v m = m @ [(k, v)]"
  by (induction k v m rule: btree_insert.induct) auto

lemma btree_fold_append:
  "btree (m @ ps) \<Longrightarrow> fold (\<lambda>(k, v). btree_insert k v) ps m = m @ ps"
proof (induction ps arbitrary: m)
  case Nil
  then show ?case by simp
next
  case (Cons p ps)
  obtain k v where p: "p = (k, v)" by (cases p)
  from Cons.prems p have "\<forall>k'\<in>fst ` set m. k' < k"
    by (auto simp: btree_def sorted_wrt_append)
  with Cons.IH[of "m @ [(k, v)]"] Cons.prems p show ?case
    by (simp add: btree_insert_snoc)
qed

lemma btree_of_id: "btree m \<Longrightarrow> btree_of m = m"
  using btree_fold_append[of "[]" m] by (simp add: btree_of_def)

section \<open>Distinct association lists\<close>

lemma map_of_in_set: "distinct (map fst m) \<Longrightarrow> (k, v) \<in> set m \<longleftrightarrow> map_of m k = Some v"
  by (auto simp: map_of_is_SomeI dest: map_of_SomeD)

lemma map_of_AList_update [simp]: "map_of (AList.update k v m) = (map_of m)(k \<mapsto> v)"
  by (rule update_conv')

lemma keys_AList_update [simp]: "fst ` set (AList.update k v m) = insert k (fst ` set m)"
  by (induction m) auto

lemma distinct_AList_update [simp]:
  "distinct (map fst m) \<Longrightarrow> distinct (map fst (AList.update k v m))"
  by (rule distinct_update)

lemma map_of_rev_distinct: "distinct (map fst m) \<Longrightarrow> map_of (rev m) = map_of m"
proof
  fix k
  assume d: "distinct (map fst m)"
  then have "distinct (map fst (rev m))" by (simp add: rev_map[symmetric])
  with d show "map_of (rev m) k = map_of m k"
    by (metis map_of_in_set not_Some_eq set_rev)
qed

text \<open>\<open>entry(k).and_modify(f).or_insert(d)\<close> and its relatives.\<close>

definition entry_or :: "'k \<Rightarrow> 'v \<Rightarrow> ('v \<Rightarrow> 'v) \<Rightarrow> ('k \<times> 'v) list \<Rightarrow> ('k \<times> 'v) list" where
  "entry_or k d f m = AList.update k (case map_of m k of None \<Rightarrow> d | Some v \<Rightarrow> f v) m"

lemma map_of_entry_or:
  "map_of (entry_or k d f m) j =
     (if j = k then Some (case map_of m k of None \<Rightarrow> d | Some v \<Rightarrow> f v) else map_of m j)"
  by (simp add: entry_or_def)

lemma distinct_entry_or [simp]:
  "distinct (map fst m) \<Longrightarrow> distinct (map fst (entry_or k d f m))"
  by (simp add: entry_or_def)

lemma map_of_eq_None_keys: "map_of m k = None \<longleftrightarrow> k \<notin> fst ` set m"
  by (simp add: map_of_eq_None_iff)

section \<open>First occurrence\<close>

text \<open>\<open>slice::iter().find\<close>.\<close>

lemma find_None_conv: "List.find p xs = None \<longleftrightarrow> (\<forall>x\<in>set xs. \<not> p x)"
  by (auto simp: find_None_iff)

lemma find_SomeD: "List.find p xs = Some x \<Longrightarrow> x \<in> set xs \<and> p x"
  by (auto simp: find_Some_iff)

section \<open>Saturating arithmetic\<close>

definition saturating_add :: "'n::len word \<Rightarrow> 'n word \<Rightarrow> 'n word" where
  "saturating_add a b = (if unat a + unat b < 2 ^ LENGTH('n) then a + b else -1)"

definition saturating_sub :: "'n::len word \<Rightarrow> 'n word \<Rightarrow> 'n word" where
  "saturating_sub a b = (if b \<le> a then a - b else 0)"

lemma unat_saturating_add:
  "unat (saturating_add (a :: 'n::len word) b) = min (unat a + unat b) (2 ^ LENGTH('n) - 1)"
  by (auto simp: saturating_add_def unat_word_ariths unsigned_minus_1_eq_mask mask_eq_exp_minus_1)

lemma unat_saturating_sub: "unat (saturating_sub a b) = unat a - unat b"
  by (auto simp: saturating_sub_def unat_sub word_le_nat_alt)

lemma saturating_add_ge: "a \<le> saturating_add (a :: 'n::len word) b"
proof -
  have "unat a \<le> 2 ^ LENGTH('n) - 1" using unsigned_less[of a, where ?'a = nat] by linarith
  then show ?thesis by (simp add: word_le_nat_alt unat_saturating_add)
qed

end
