(* ===== verification/Rust_Text.thy ===== *)
theory Rust_Text
  imports Prelude
begin

text \<open>
  Rust's \<open>str\<close>: a sequence of UTF-8 bytes, here a \<open>string\<close> whose \<open>char\<close>s are the bytes,
  so that \<open>len()\<close> is \<open>length\<close> and a literal is written as it is. \<open>segments\<close> splits a
  byte sequence where \<open>chars()\<close> does, \<open>chars\<close> gives the Unicode scalar values; a
  malformed piece (which a \<open>str\<close> never holds, and which \<open>from_utf8_lossy\<close> replaces)
  decodes to U+FFFD. Only the parts of the standard library that the modelled code
  calls are here.
\<close>

section \<open>Decoding UTF-8\<close>

type_synonym scalar = nat

definition byte :: "char \<Rightarrow> nat" where
  "byte c = of_char c"

definition is_cont :: "char \<Rightarrow> bool" where
  "is_cont c = (128 \<le> byte c \<and> byte c < 192)"

definition replacement :: scalar where
  "replacement = 65533"

text \<open>
  The first character's byte count and, when it is well formed, its scalar value. The
  ranges of the second byte are those of the Unicode table of well-formed sequences; the
  count of a malformed sequence is that of its longest well-formed beginning.
\<close>

definition second_ok :: "nat \<Rightarrow> char \<Rightarrow> bool" where
  "second_ok b c =
     (if b = 224 then 160 \<le> byte c \<and> byte c < 192
      else if b = 237 then 128 \<le> byte c \<and> byte c < 160
      else if b = 240 then 144 \<le> byte c \<and> byte c < 192
      else if b = 244 then 128 \<le> byte c \<and> byte c < 144
      else is_cont c)"

fun decode2 :: "nat \<Rightarrow> string \<Rightarrow> nat \<times> scalar option" where
  "decode2 b (c1 # _) =
     (if is_cont c1 then (2, Some ((b - 192) * 64 + (byte c1 - 128))) else (1, None))"
| "decode2 b [] = (1, None)"

fun decode3 :: "nat \<Rightarrow> string \<Rightarrow> nat \<times> scalar option" where
  "decode3 b (c1 # c2 # _) =
     (if \<not> second_ok b c1 then (1, None)
      else if is_cont c2
      then (3, Some ((b - 224) * 4096 + (byte c1 - 128) * 64 + (byte c2 - 128)))
      else (2, None))"
| "decode3 b [c1] = (if second_ok b c1 then (2, None) else (1, None))"
| "decode3 b [] = (1, None)"

fun decode4 :: "nat \<Rightarrow> string \<Rightarrow> nat \<times> scalar option" where
  "decode4 b (c1 # c2 # c3 # _) =
     (if \<not> second_ok b c1 then (1, None)
      else if \<not> is_cont c2 then (2, None)
      else if is_cont c3
      then (4, Some ((b - 240) * 262144 + (byte c1 - 128) * 4096
              + (byte c2 - 128) * 64 + (byte c3 - 128)))
      else (3, None))"
| "decode4 b [c1, c2] =
     (if \<not> second_ok b c1 then (1, None) else if is_cont c2 then (3, None) else (2, None))"
| "decode4 b [c1] = (if second_ok b c1 then (2, None) else (1, None))"
| "decode4 b [] = (1, None)"

fun decode_first :: "string \<Rightarrow> nat \<times> scalar option" where
  "decode_first [] = (0, None)"
| "decode_first (a # r) =
     (if byte a < 128 then (1, Some (byte a))
      else if byte a < 194 then (1, None)
      else if byte a < 224 then decode2 (byte a) r
      else if byte a < 240 then decode3 (byte a) r
      else if byte a < 245 then decode4 (byte a) r
      else (1, None))"

lemma decode_width_pos:
  "0 < fst (decode2 b r)" "0 < fst (decode3 b r)" "0 < fst (decode4 b r)"
  by (cases rule: decode2.cases[of "(b, r)"]; simp)
    (cases rule: decode3.cases[of "(b, r)"]; simp; fail |
     cases rule: decode4.cases[of "(b, r)"]; simp)+

lemma decode2_ge: "194 \<le> b \<Longrightarrow> snd (decode2 b r) = Some n \<Longrightarrow> 128 \<le> n"
  by (cases rule: decode2.cases[of "(b, r)"]) (auto split: if_splits)

lemma decode3_ge: "224 \<le> b \<Longrightarrow> snd (decode3 b r) = Some n \<Longrightarrow> 128 \<le> n"
  by (cases rule: decode3.cases[of "(b, r)"]) (auto simp: second_ok_def split: if_splits)

lemma decode4_ge: "240 \<le> b \<Longrightarrow> snd (decode4 b r) = Some n \<Longrightarrow> 128 \<le> n"
  by (cases rule: decode4.cases[of "(b, r)"]) (auto simp: second_ok_def split: if_splits)

lemma decode_first_width: "s \<noteq> [] \<Longrightarrow> 0 < fst (decode_first s)"
  by (cases s) (auto simp: decode_width_pos)

function segments :: "string \<Rightarrow> string list" where
  "segments [] = []"
| "segments (a # r) =
     take (fst (decode_first (a # r))) (a # r)
       # segments (drop (fst (decode_first (a # r))) (a # r))"
  by pat_completeness auto
termination
proof (relation "measure length")
  fix a r
  have "0 < fst (decode_first (a # r))" by (rule decode_first_width) simp
  then show "(drop (fst (decode_first (a # r))) (a # r), a # r) \<in> measure length" by simp
qed simp

declare segments.simps(2) [simp del]

definition scalar_of :: "string \<Rightarrow> scalar" where
  "scalar_of seg = (case snd (decode_first seg) of Some n \<Rightarrow> n | None \<Rightarrow> replacement)"

definition chars :: "string \<Rightarrow> scalar list" where
  "chars s = map scalar_of (segments s)"

definition valid_utf8 :: "string \<Rightarrow> bool" where
  "valid_utf8 s = (\<forall>seg\<in>set (segments s). snd (decode_first seg) \<noteq> None)"

lemma concat_segments [simp]: "concat (segments s) = s"
  by (induction s rule: segments.induct) (auto simp: segments.simps(2) simp del: decode_first.simps)

definition ascii :: "char \<Rightarrow> bool" where
  "ascii c = (byte c < 128)"

lemma segments_ascii_Cons: "ascii a \<Longrightarrow> segments (a # r) = [a] # segments r"
  by (simp add: segments.simps(2) ascii_def Let_def)

lemma chars_ascii_Cons: "ascii a \<Longrightarrow> chars (a # r) = byte a # chars r"
  by (simp add: chars_def segments_ascii_Cons scalar_of_def ascii_def Let_def)

lemma chars_Nil [simp]: "chars [] = []"
  by (simp add: chars_def)

lemma chars_ascii: "\<forall>c\<in>set s. ascii c \<Longrightarrow> chars s = map byte s"
  by (induction s) (auto simp: chars_ascii_Cons)

lemma decode_first_nonascii:
  "\<not> ascii a \<Longrightarrow> snd (decode_first (a # r)) = Some n \<Longrightarrow> 128 \<le> n"
  by (auto simp: ascii_def not_less split: if_splits
      dest: decode2_ge[rotated] decode3_ge[rotated] decode4_ge[rotated])

lemma scalar_nonascii:
  assumes "\<not> ascii a"
  shows "128 \<le> scalar_of (take (fst (decode_first (a # r))) (a # r))"
proof -
  obtain r' where "take (fst (decode_first (a # r))) (a # r) = a # r'"
    using decode_first_width[of "a # r"] by (cases "fst (decode_first (a # r))") simp_all
  with decode_first_nonascii[OF assms, of r'] show ?thesis
    by (auto simp: scalar_of_def replacement_def simp del: decode_first.simps split: option.splits)
qed

text \<open>A text whose characters are all below 128 has only ASCII bytes, one per character.\<close>

lemma chars_below_128:
  "\<forall>n\<in>set (chars s). n < 128 \<Longrightarrow> (\<forall>c\<in>set s. ascii c) \<and> chars s = map byte s"
proof (induction s)
  case Nil
  then show ?case by simp
next
  case (Cons a r)
  have "ascii a"
  proof (rule ccontr)
    assume "\<not> ascii a"
    then have "128 \<le> scalar_of (take (fst (decode_first (a # r))) (a # r))"
      by (rule scalar_nonascii)
    moreover have "scalar_of (take (fst (decode_first (a # r))) (a # r)) \<in> set (chars (a # r))"
      by (simp add: chars_def segments.simps(2))
    ultimately show False using Cons.prems by fastforce
  qed
  with Cons show ?case by (simp add: chars_ascii_Cons)
qed

lemma chars_eq_Nil [simp]: "chars s = [] \<longleftrightarrow> s = []"
  by (cases s) (auto simp: chars_def segments.simps(2))

section \<open>Character classes\<close>

definition is_ascii_lowercase :: "scalar \<Rightarrow> bool" where
  "is_ascii_lowercase c = (97 \<le> c \<and> c \<le> 122)"

definition is_ascii_uppercase :: "scalar \<Rightarrow> bool" where
  "is_ascii_uppercase c = (65 \<le> c \<and> c \<le> 90)"

definition is_ascii_digit :: "scalar \<Rightarrow> bool" where
  "is_ascii_digit c = (48 \<le> c \<and> c \<le> 57)"

definition is_ascii_alphabetic :: "scalar \<Rightarrow> bool" where
  "is_ascii_alphabetic c = (is_ascii_lowercase c \<or> is_ascii_uppercase c)"

definition is_ascii_alphanumeric :: "scalar \<Rightarrow> bool" where
  "is_ascii_alphanumeric c = (is_ascii_alphabetic c \<or> is_ascii_digit c)"

text \<open>\<open>char::is_whitespace\<close>: the code points with the Unicode property White\_Space.\<close>

definition is_whitespace :: "scalar \<Rightarrow> bool" where
  "is_whitespace c =
     ((9 \<le> c \<and> c \<le> 13) \<or> c = 32 \<or> c = 133 \<or> c = 160 \<or> c = 5760
      \<or> (8192 \<le> c \<and> c \<le> 8202) \<or> c = 8232 \<or> c = 8233 \<or> c = 8239 \<or> c = 8287 \<or> c = 12288)"

definition ch :: "char \<Rightarrow> scalar" where
  "ch c = byte c"

lemmas char_class_defs =
  is_ascii_lowercase_def is_ascii_uppercase_def is_ascii_digit_def
  is_ascii_alphabetic_def is_ascii_alphanumeric_def is_whitespace_def ch_def byte_def

lemma alphanumeric_ascii: "is_ascii_alphanumeric c \<Longrightarrow> c < 128"
  by (auto simp: char_class_defs)

section \<open>ASCII case\<close>

definition to_ascii_lowercase :: "char \<Rightarrow> char" where
  "to_ascii_lowercase c = (if is_ascii_uppercase (byte c) then char_of (byte c + 32) else c)"

definition eq_ignore_ascii_case :: "string \<Rightarrow> string \<Rightarrow> bool" where
  "eq_ignore_ascii_case a b = (map to_ascii_lowercase a = map to_ascii_lowercase b)"

lemma eq_ignore_ascii_case_refl [simp]: "eq_ignore_ascii_case a a"
  by (simp add: eq_ignore_ascii_case_def)

lemma eq_ignore_ascii_case_sym: "eq_ignore_ascii_case a b = eq_ignore_ascii_case b a"
  by (auto simp: eq_ignore_ascii_case_def)

section \<open>Splitting and trimming\<close>

text \<open>\<open>str::split\<close> on a one-byte separator: always at least one piece.\<close>

fun split_on :: "char \<Rightarrow> string \<Rightarrow> string list" where
  "split_on d [] = [[]]"
| "split_on d (c # s) =
     (if c = d then [] # split_on d s
      else (case split_on d s of [] \<Rightarrow> [[c]] | p # ps \<Rightarrow> (c # p) # ps))"

lemma split_on_nonempty [simp]: "split_on d s \<noteq> []"
  by (induction s) (auto split: list.splits)

text \<open>\<open>str::split_once\<close>.\<close>

fun split_once :: "char \<Rightarrow> string \<Rightarrow> (string \<times> string) option" where
  "split_once d [] = None"
| "split_once d (c # s) =
     (if c = d then Some ([], s)
      else map_option (\<lambda>(a, b). (c # a, b)) (split_once d s))"

lemma split_once_Some: "split_once d s = Some (a, b) \<Longrightarrow> s = a @ d # b \<and> d \<notin> set a"
  by (induction s arbitrary: a) (auto split: if_splits)

lemma split_once_None: "split_once d s = None \<longleftrightarrow> d \<notin> set s"
  by (induction s) auto

text \<open>\<open>str::trim\<close> drops whole white-space characters at both ends.\<close>

definition white :: "string \<Rightarrow> bool" where
  "white seg = (case snd (decode_first seg) of Some n \<Rightarrow> is_whitespace n | None \<Rightarrow> False)"

definition trim :: "string \<Rightarrow> string" where
  "trim s = concat (rev (dropWhile white (rev (dropWhile white (segments s)))))"

lemma dropWhile_white_snoc: "\<not> p x \<Longrightarrow> \<exists>ys. dropWhile p (xs @ [x]) = ys @ [x]"
  by (induction xs) auto

lemma trim_ascii_nonempty [simp]:
  assumes "ascii a" "\<not> is_whitespace (byte a)"
  shows "trim (a # r) \<noteq> []"
proof -
  have a: "\<not> white [a]" using assms by (simp add: white_def ascii_def)
  obtain ys where "dropWhile white (rev (segments r) @ [[a]]) = ys @ [[a]]"
    using dropWhile_white_snoc[of white "[a]", OF a] by blast
  then show ?thesis using assms a by (simp add: trim_def segments_ascii_Cons)
qed

lemma segments_ascii: "\<forall>c\<in>set s. ascii c \<Longrightarrow> segments s = map (\<lambda>c. [c]) s"
  by (induction s) (simp_all add: segments_ascii_Cons)

text \<open>\<open>str::split_whitespace\<close>.\<close>

fun words_of :: "string list \<Rightarrow> string \<Rightarrow> string list" where
  "words_of [] acc = (if acc = [] then [] else [acc])"
| "words_of (seg # segs) acc =
     (if white seg then (if acc = [] then words_of segs [] else acc # words_of segs [])
      else words_of segs (acc @ seg))"

definition split_whitespace :: "string \<Rightarrow> string list" where
  "split_whitespace s = words_of (segments s) []"

definition strip_prefix :: "string \<Rightarrow> string \<Rightarrow> string option" where
  "strip_prefix p s = (if take (length p) s = p then Some (drop (length p) s) else None)"

definition starts_with :: "string \<Rightarrow> string \<Rightarrow> bool" where
  "starts_with p s = (take (length p) s = p)"

text \<open>\<open>String::from_utf8_lossy\<close>.\<close>

definition from_utf8_lossy :: "string \<Rightarrow> string" where
  "from_utf8_lossy s =
     concat (map (\<lambda>seg. if snd (decode_first seg) = None
                        then [char_of (239 :: nat), char_of (191 :: nat), char_of (189 :: nat)] else seg)
                 (segments s))"

lemma from_utf8_lossy_valid: "valid_utf8 s \<Longrightarrow> from_utf8_lossy s = s"
proof -
  assume "valid_utf8 s"
  then have "map (\<lambda>seg. if snd (decode_first seg) = None
               then [char_of (239 :: nat), char_of (191 :: nat), char_of (189 :: nat)] else seg) (segments s)
             = segments s"
    by (intro map_idI) (auto simp: valid_utf8_def)
  then show ?thesis by (simp add: from_utf8_lossy_def)
qed

section \<open>Numbers as text\<close>

fun show_nat :: "nat \<Rightarrow> string" where
  "show_nat n = (if n < 10 then [char_of (48 + n)] else show_nat (n div 10) @ [char_of (48 + n mod 10)])"

declare show_nat.simps [simp del]

text \<open>
  \<open>str::parse::<u32>\<close>: an optional plus sign, then at least one ASCII digit; anything
  else, and a value over \<open>u32::MAX\<close>, is an error.
\<close>

fun parse_digits :: "nat \<Rightarrow> string \<Rightarrow> nat option" where
  "parse_digits acc [] = Some acc"
| "parse_digits acc (c # s) =
     (if is_ascii_digit (byte c) then parse_digits (10 * acc + (byte c - 48)) s else None)"

definition parse_u32 :: "string \<Rightarrow> u32 option" where
  "parse_u32 s =
     (let digits = (case s of c # r \<Rightarrow> if c = CHR ''+'' then r else s | [] \<Rightarrow> [])
      in if digits = [] then None
         else case parse_digits 0 digits of
                None \<Rightarrow> None
              | Some n \<Rightarrow> if n < 2 ^ 32 then Some (of_nat n) else None)"

lemma parse_digits_app:
  "parse_digits acc (s @ t) = Option.bind (parse_digits acc s) (\<lambda>n. parse_digits n t)"
  by (induction s arbitrary: acc) auto

lemma byte_char_of: "n < 256 \<Longrightarrow> byte (char_of n) = n"
  by (simp add: byte_def)

lemma parse_digits_show: "\<exists>k. \<forall>acc. parse_digits acc (show_nat n) = Some (10 ^ k * acc + n)"
proof (induction n rule: show_nat.induct)
  case (1 n)
  show ?case
  proof (cases "n < 10")
    case True
    then have "parse_digits acc (show_nat n) = Some (10 ^ 1 * acc + n)" for acc
      by (subst show_nat.simps) (auto simp: byte_char_of is_ascii_digit_def)
    then show ?thesis by blast
  next
    case False
    with 1 obtain k where "\<And>acc. parse_digits acc (show_nat (n div 10)) = Some (10 ^ k * acc + n div 10)"
      by blast
    with False have "parse_digits acc (show_nat n) = Some (10 ^ Suc k * acc + n)" for acc
      by (subst show_nat.simps)
        (auto simp: parse_digits_app byte_char_of is_ascii_digit_def algebra_simps)
    then show ?thesis by blast
  qed
qed

lemma show_nat_digit: "\<exists>c r. show_nat n = c # r \<and> is_ascii_digit (byte c)"
proof (induction n rule: show_nat.induct)
  case (1 n)
  then show ?case
    by (cases "n < 10") (subst show_nat.simps, force simp: byte_char_of is_ascii_digit_def)+
qed

text \<open>Printing a \<open>u32\<close> and parsing it again gives it back.\<close>

lemma parse_u32_show: "parse_u32 (show_nat (unat (w :: u32))) = Some w"
proof -
  obtain c r where c: "show_nat (unat w) = c # r" "is_ascii_digit (byte c)"
    using show_nat_digit by blast
  then have "c \<noteq> CHR ''+''" by (auto simp: is_ascii_digit_def byte_def)
  moreover obtain k where "parse_digits 0 (show_nat (unat w)) = Some (10 ^ k * 0 + unat w)"
    using parse_digits_show by blast
  ultimately show ?thesis
    using c unsigned_less[of w] by (simp add: parse_u32_def)
qed

text \<open>\<open>slice::join\<close>.\<close>

fun join_with :: "string \<Rightarrow> string list \<Rightarrow> string" where
  "join_with d [] = []"
| "join_with d [x] = x"
| "join_with d (x # y # r) = x @ d @ join_with d (y # r)"

end
