(* ===== verification/Identifiers.thy ===== *)
theory Identifiers
  imports Rust_Text
begin

text \<open>
  The shared kernel, \<open>crates/fabric-core/src\<close>: the validated identifiers and their
  parsers (\<open>ids/\<close>), the binding revision, the operation kinds, the collection object of a
  resource, the record digest and the reader-generation report. An identifier newtype is
  a one-constructor datatype over its text; \<open>try_new\<close> is the only constructor the code
  exposes, and \<open>is_identifier\<close> and \<open>is_dns_label\<close> say what it guarantees.
\<close>

section \<open>Errors and the two parsers\<close>

datatype identifier_error =
    Empty string
  | TooLong string nat nat
  | DisallowedCharacter string scalar string
  | BadBoundary string
  | Unadmitted string string

definition MAX_LENGTH :: nat where
  "MAX_LENGTH = 63"

definition check_length :: "string \<Rightarrow> string \<Rightarrow> identifier_error + unit" where
  "check_length kind value =
     (if value = [] then Inl (Empty kind)
      else if length value > MAX_LENGTH then Inl (TooLong kind MAX_LENGTH (length value))
      else Inr ())"

definition check_boundaries :: "string \<Rightarrow> string \<Rightarrow> identifier_error + unit" where
  "check_boundaries kind value =
     (let cs = chars value;
          first_ok = (cs \<noteq> [] \<and> is_ascii_alphanumeric (hd cs));
          last_ok = (cs \<noteq> [] \<and> is_ascii_alphanumeric (last cs))
      in if first_ok \<and> last_ok then Inr () else Inl (BadBoundary kind))"

definition dns_permitted :: "scalar \<Rightarrow> bool" where
  "dns_permitted c = (is_ascii_lowercase c \<or> is_ascii_digit c \<or> c = ch CHR ''-'')"

definition identifier_permitted :: "scalar \<Rightarrow> bool" where
  "identifier_permitted c =
     (is_ascii_alphanumeric c \<or> c = ch CHR ''-'' \<or> c = ch CHR ''_'')"

definition check_characters ::
  "string \<Rightarrow> (scalar \<Rightarrow> bool) \<Rightarrow> string \<Rightarrow> string \<Rightarrow> identifier_error + unit" where
  "check_characters kind permitted expected value =
     try_each (\<lambda>c. if \<not> permitted c then Inl (DisallowedCharacter kind c expected) else Inr ())
       (chars value)"

definition parse_dns_label :: "string \<Rightarrow> string \<Rightarrow> identifier_error + string" where
  "parse_dns_label kind value =
     rbind (check_length kind value) (\<lambda>_.
     rbind (check_characters kind dns_permitted
              ''lowercase ASCII letters, digits, and hyphens'' value) (\<lambda>_.
     rbind (check_boundaries kind value) (\<lambda>_.
     Inr value)))"

definition parse_identifier :: "string \<Rightarrow> string \<Rightarrow> identifier_error + string" where
  "parse_identifier kind value =
     rbind (check_length kind value) (\<lambda>_.
     rbind (check_characters kind identifier_permitted
              ''ASCII letters, digits, hyphens, and underscores'' value) (\<lambda>_.
     (let cs = chars value;
          starts_with_letter = (cs \<noteq> [] \<and> is_ascii_alphabetic (hd cs))
      in if \<not> starts_with_letter then Inl (BadBoundary kind) else Inr value)))"

text \<open>What the parsers accept, read off the bytes.\<close>

definition is_identifier :: "string \<Rightarrow> bool" where
  "is_identifier s =
     (s \<noteq> [] \<and> length s \<le> 63 \<and> is_ascii_alphabetic (byte (hd s))
      \<and> (\<forall>c\<in>set s. identifier_permitted (byte c)))"

definition is_dns_label :: "string \<Rightarrow> bool" where
  "is_dns_label s =
     (s \<noteq> [] \<and> length s \<le> 63 \<and> (\<forall>c\<in>set s. dns_permitted (byte c))
      \<and> is_ascii_alphanumeric (byte (hd s)) \<and> is_ascii_alphanumeric (byte (last s)))"

lemma permitted_ascii:
  "identifier_permitted c \<Longrightarrow> c < 128" "dns_permitted c \<Longrightarrow> c < 128"
  by (auto simp: identifier_permitted_def dns_permitted_def char_class_defs)

lemma check_length_ok [result_simps]:
  "check_length kind s = Inr u \<longleftrightarrow> s \<noteq> [] \<and> length s \<le> 63"
  by (auto simp: check_length_def MAX_LENGTH_def)

lemma check_characters_ok:
  assumes "\<And>c. permitted c \<Longrightarrow> c < 128"
  shows "check_characters kind permitted expected s = Inr u
           \<longleftrightarrow> chars s = map byte s \<and> (\<forall>c\<in>set s. permitted (byte c))"
proof -
  have "check_characters kind permitted expected s = Inr u \<longleftrightarrow> (\<forall>c\<in>set (chars s). permitted c)"
    by (auto simp: check_characters_def try_each_Inr)
  also have "\<dots> \<longleftrightarrow> chars s = map byte s \<and> (\<forall>c\<in>set s. permitted (byte c))"
  proof
    assume all: "\<forall>c\<in>set (chars s). permitted c"
    with assms have "chars s = map byte s" using chars_below_128 by blast
    with all show "chars s = map byte s \<and> (\<forall>c\<in>set s. permitted (byte c))" by simp
  qed auto
  finally show ?thesis .
qed

lemma permitted_chars: "\<forall>c\<in>set s. identifier_permitted (byte c) \<Longrightarrow> chars s = map byte s"
  by (rule chars_ascii) (auto simp: ascii_def dest: permitted_ascii)

lemma dns_permitted_chars: "\<forall>c\<in>set s. dns_permitted (byte c) \<Longrightarrow> chars s = map byte s"
  by (rule chars_ascii) (auto simp: ascii_def dest: permitted_ascii)

lemma parse_identifier_Inr [result_simps]:
  "parse_identifier kind s = Inr t \<longleftrightarrow> is_identifier s \<and> t = s"
  using permitted_chars[of s]
  by (auto simp: parse_identifier_def rbind_Inr check_length_ok is_identifier_def hd_map
      check_characters_ok[of identifier_permitted, OF permitted_ascii(1)] split: if_splits)

lemma parse_dns_label_Inr [result_simps]:
  "parse_dns_label kind s = Inr t \<longleftrightarrow> is_dns_label s \<and> t = s"
  using dns_permitted_chars[of s]
  by (auto simp: parse_dns_label_def rbind_Inr check_length_ok is_dns_label_def hd_map last_map
      check_boundaries_def
      check_characters_ok[of dns_permitted, OF permitted_ascii(2)] split: if_splits)

lemma identifier_no_separator: "is_identifier s \<Longrightarrow> CHR '':'' \<notin> set s \<and> CHR ''/'' \<notin> set s"
  by (auto simp: is_identifier_def identifier_permitted_def char_class_defs)

section \<open>The identifier newtypes\<close>

datatype tenant_id = TenantId (tenant_str: string)
datatype data_source_id = DataSourceId (data_source_str: string)
datatype logical_data_source_name = LogicalDataSourceName (logical_source_str: string)
datatype logical_resource_name = LogicalResourceName (resource_str: string)
datatype relation_name = RelationName (relation_str: string)

definition TenantId_try_new :: "string \<Rightarrow> identifier_error + tenant_id" where
  "TenantId_try_new value = map_ok TenantId (parse_dns_label ''tenant id'' value)"

definition DataSourceId_try_new :: "string \<Rightarrow> identifier_error + data_source_id" where
  "DataSourceId_try_new value = map_ok DataSourceId (parse_identifier ''data source id'' value)"

definition LogicalDataSourceName_try_new ::
  "string \<Rightarrow> identifier_error + logical_data_source_name" where
  "LogicalDataSourceName_try_new value =
     map_ok LogicalDataSourceName (parse_identifier ''logical data source name'' value)"

definition LogicalResourceName_try_new ::
  "string \<Rightarrow> identifier_error + logical_resource_name" where
  "LogicalResourceName_try_new value =
     map_ok LogicalResourceName (parse_identifier ''logical resource name'' value)"

definition RelationName_try_new :: "string \<Rightarrow> identifier_error + relation_name" where
  "RelationName_try_new value = map_ok RelationName (parse_identifier ''relation name'' value)"

lemmas try_new_defs =
  TenantId_try_new_def DataSourceId_try_new_def LogicalDataSourceName_try_new_def
  LogicalResourceName_try_new_def RelationName_try_new_def

text \<open>The derived \<open>Ord\<close> of each newtype is the byte order of its text.\<close>

instantiation tenant_id :: linorder
begin
definition less_eq_tenant_id :: "tenant_id \<Rightarrow> tenant_id \<Rightarrow> bool" where
  "less_eq_tenant_id a b = (tenant_str a \<le> tenant_str b)"
definition less_tenant_id :: "tenant_id \<Rightarrow> tenant_id \<Rightarrow> bool" where
  "less_tenant_id a b = (tenant_str a < tenant_str b)"
instance
  by standard (auto simp: less_eq_tenant_id_def less_tenant_id_def intro: tenant_id.expand)
end

instantiation data_source_id :: linorder
begin
definition less_eq_data_source_id :: "data_source_id \<Rightarrow> data_source_id \<Rightarrow> bool" where
  "less_eq_data_source_id a b = (data_source_str a \<le> data_source_str b)"
definition less_data_source_id :: "data_source_id \<Rightarrow> data_source_id \<Rightarrow> bool" where
  "less_data_source_id a b = (data_source_str a < data_source_str b)"
instance
  by standard (auto simp: less_eq_data_source_id_def less_data_source_id_def
      intro: data_source_id.expand)
end

instantiation logical_data_source_name :: linorder
begin
definition less_eq_logical_data_source_name ::
  "logical_data_source_name \<Rightarrow> logical_data_source_name \<Rightarrow> bool" where
  "less_eq_logical_data_source_name a b = (logical_source_str a \<le> logical_source_str b)"
definition less_logical_data_source_name ::
  "logical_data_source_name \<Rightarrow> logical_data_source_name \<Rightarrow> bool" where
  "less_logical_data_source_name a b = (logical_source_str a < logical_source_str b)"
instance
  by standard (auto simp: less_eq_logical_data_source_name_def
      less_logical_data_source_name_def intro: logical_data_source_name.expand)
end

instantiation logical_resource_name :: linorder
begin
definition less_eq_logical_resource_name ::
  "logical_resource_name \<Rightarrow> logical_resource_name \<Rightarrow> bool" where
  "less_eq_logical_resource_name a b = (resource_str a \<le> resource_str b)"
definition less_logical_resource_name ::
  "logical_resource_name \<Rightarrow> logical_resource_name \<Rightarrow> bool" where
  "less_logical_resource_name a b = (resource_str a < resource_str b)"
instance
  by standard (auto simp: less_eq_logical_resource_name_def less_logical_resource_name_def
      intro: logical_resource_name.expand)
end

section \<open>Subjects\<close>

record subject_id =
  realm :: string
  subject :: string

definition MAX_SUBJECT :: nat where
  "MAX_SUBJECT = 255"

definition SUBJECT_RESERVED :: "scalar list" where
  "SUBJECT_RESERVED = [ch CHR '':'', ch CHR ''#'', ch CHR ''*'', ch CHR ''/'']"

definition SubjectId_from_verified :: "string \<Rightarrow> string \<Rightarrow> identifier_error + subject_id" where
  "SubjectId_from_verified r s =
     rbind (parse_dns_label ''realm'' r) (\<lambda>r'.
       if s = [] then Inl (Empty ''subject'')
       else if length s > MAX_SUBJECT then Inl (TooLong ''subject'' MAX_SUBJECT (length s))
       else rbind (try_each (\<lambda>c. if is_whitespace c \<or> c \<in> set SUBJECT_RESERVED
                       then Inl (DisallowedCharacter ''subject'' c
                         (''any non-whitespace character except ':', '#', '*' and '/'' @ [CHR 0x27]))
                       else Inr ()) (chars s))
              (\<lambda>_. Inr \<lparr> realm = r', subject = s \<rparr>))"

definition SubjectId_to_string :: "subject_id \<Rightarrow> string" where
  "SubjectId_to_string i = realm i @ ''/'' @ subject i"

section \<open>Binding revisions\<close>

type_synonym binding_revision = u64

definition revision_ZERO :: binding_revision where
  "revision_ZERO = 0"

definition revision_next :: "binding_revision \<Rightarrow> binding_revision" where
  "revision_next r = saturating_add r 1"

lemma revision_next_ge: "r \<le> revision_next r"
  by (simp add: revision_next_def saturating_add_ge)

section \<open>Operations\<close>

datatype operation_kind = OpRead | OpList | OpCreate | OpUpdate | OpDelete

definition OperationKind_ALL :: "operation_kind list" where
  "OperationKind_ALL = [OpRead, OpList, OpCreate, OpUpdate, OpDelete]"

fun operation_str :: "operation_kind \<Rightarrow> string" where
  "operation_str OpRead = ''read''"
| "operation_str OpList = ''list''"
| "operation_str OpCreate = ''create''"
| "operation_str OpUpdate = ''update''"
| "operation_str OpDelete = ''delete''"

fun is_write :: "operation_kind \<Rightarrow> bool" where
  "is_write OpCreate = True"
| "is_write OpUpdate = True"
| "is_write OpDelete = True"
| "is_write _ = False"

fun is_collection_operation :: "operation_kind \<Rightarrow> bool" where
  "is_collection_operation OpList = True"
| "is_collection_operation OpCreate = True"
| "is_collection_operation _ = False"

fun computed_relation :: "operation_kind \<Rightarrow> string" where
  "computed_relation OpRead = ''can_read''"
| "computed_relation OpList = ''can_list''"
| "computed_relation OpCreate = ''can_create''"
| "computed_relation OpUpdate = ''can_update''"
| "computed_relation OpDelete = ''can_delete''"

lemma computed_relation_spelling: "computed_relation k = ''can_'' @ operation_str k"
  by (cases k) simp_all

lemma computed_relation_valid: "is_ok (RelationName_try_new (computed_relation k))"
  by (cases k) (simp_all add: try_new_defs result_simps is_identifier_def
      identifier_permitted_def char_class_defs)

section \<open>The collection object of a resource\<close>

definition TYPE_SUFFIX :: string where
  "TYPE_SUFFIX = ''_collection''"

datatype collection_object = CollectionObject (collection_resource: logical_resource_name)

definition MAX_RESOURCE_LENGTH :: nat where
  "MAX_RESOURCE_LENGTH = MAX_LENGTH - length TYPE_SUFFIX"

definition CollectionObject_try_new ::
  "logical_resource_name \<Rightarrow> identifier_error + collection_object" where
  "CollectionObject_try_new r =
     (let actual = length (resource_str r) in
      if actual > MAX_RESOURCE_LENGTH
      then Inl (TooLong ''resource name with a collection'' MAX_RESOURCE_LENGTH actual)
      else Inr (CollectionObject r))"

definition type_name :: "collection_object \<Rightarrow> string" where
  "type_name c = resource_str (collection_resource c) @ TYPE_SUFFIX"

definition collides_with :: "collection_object \<Rightarrow> logical_resource_name \<Rightarrow> bool" where
  "collides_with c r = (type_name c = resource_str r)"

definition CollectionObject_to_string :: "collection_object \<Rightarrow> string" where
  "CollectionObject_to_string c = type_name c @ '':'' @ resource_str (collection_resource c)"

section \<open>Record digests\<close>

datatype record_digest = RecordDigest (digest_bytes: "u8 list")

datatype not_a_digest = NotADigest

definition nibble :: "char \<Rightarrow> not_a_digest + u8" where
  "nibble c =
     (if 48 \<le> byte c \<and> byte c \<le> 57 then Inr (of_nat (byte c) - 48)
      else if 97 \<le> byte c \<and> byte c \<le> 102 then Inr (of_nat (byte c) - 97 + 10)
      else Inl NotADigest)"

fun parse_pairs :: "string \<Rightarrow> not_a_digest + u8 list" where
  "parse_pairs (high # low # rest) =
     rbind (nibble high) (\<lambda>h. rbind (nibble low) (\<lambda>l.
       map_ok (\<lambda>bs. or (push_bit 4 h) l # bs) (parse_pairs rest)))"
| "parse_pairs _ = Inr []"

definition RecordDigest_parse :: "string \<Rightarrow> not_a_digest + record_digest" where
  "RecordDigest_parse value =
     (if length value \<noteq> 64 then Inl NotADigest else map_ok RecordDigest (parse_pairs value))"

definition hex_digit :: "nat \<Rightarrow> char" where
  "hex_digit n = (if n < 10 then char_of (48 + n) else char_of (87 + n))"

definition RecordDigest_to_string :: "record_digest \<Rightarrow> string" where
  "RecordDigest_to_string d =
     concat (map (\<lambda>b. [hex_digit (unat b div 16), hex_digit (unat b mod 16)]) (digest_bytes d))"

section \<open>The reader-generation report\<close>

definition READER_GENERATION_CONTRACT :: u32 where
  "READER_GENERATION_CONTRACT = 1"

datatype served_origin = ServedPublished | ServedLastKnownGood

record reader_generation_report =
  contract :: u32
  report_generation :: u64
  report_record_sha256 :: record_digest
  report_origin :: served_origin

datatype report_refusal = ReportUnsupportedContract u32 | NoGeneration

definition ReaderGenerationReport_new ::
  "u64 \<Rightarrow> record_digest \<Rightarrow> served_origin \<Rightarrow> reader_generation_report" where
  "ReaderGenerationReport_new g d org =
     \<lparr> contract = READER_GENERATION_CONTRACT, report_generation = g,
       report_record_sha256 = d, report_origin = org \<rparr>"

definition checked ::
  "reader_generation_report \<Rightarrow> report_refusal + reader_generation_report" where
  "checked r =
     (if contract r \<noteq> READER_GENERATION_CONTRACT then Inl (ReportUnsupportedContract (contract r))
      else if report_generation r = 0 then Inl NoGeneration
      else Inr r)"

lemma checked_new: "g \<noteq> 0 \<Longrightarrow> checked (ReaderGenerationReport_new g d org) = Inr (ReaderGenerationReport_new g d org)"
  by (simp add: checked_def ReaderGenerationReport_new_def)

section \<open>Laws of the digests\<close>

lemma nibble_hex_digit: "n < 16 \<Longrightarrow> nibble (hex_digit n) = Inr (of_nat n)"
proof -
  assume "n < 16"
  then have "n \<in> set [0..<16]" by simp
  then show ?thesis
    by (simp add: upt_rec) (elim disjE; simp add: nibble_def hex_digit_def byte_char_of)
qed

lemma or_nibbles_table:
  "\<forall>h\<in>set [0..<16]. \<forall>l\<in>set [0..<16].
     or (push_bit 4 (of_nat h :: u8)) (of_nat l) = of_nat (16 * h + l)"
  by code_simp

lemma or_nibbles:
  "h < 16 \<Longrightarrow> l < 16 \<Longrightarrow> or (push_bit 4 (of_nat h :: u8)) (of_nat l) = of_nat (16 * h + l)"
  using or_nibbles_table by simp

lemma parse_pairs_hex:
  "parse_pairs (concat (map (\<lambda>b. [hex_digit (unat b div 16), hex_digit (unat b mod 16)]) bs)) = Inr bs"
proof (induction bs)
  case Nil
  then show ?case by simp
next
  case (Cons b bs)
  have "unat b < 256" using unsigned_less[of b] by simp
  then have h: "unat b div 16 < 16" by (simp add: less_mult_imp_div_less)
  have "or (push_bit 4 (of_nat (unat b div 16) :: u8)) (of_nat (unat b mod 16)) = b"
    using h by (simp only: or_nibbles) simp
  with Cons h show ?case by (simp add: nibble_hex_digit)
qed

text \<open>Writing a 32-byte digest and parsing it gives the digest back.\<close>

lemma RecordDigest_roundtrip:
  assumes "length (digest_bytes d) = 32"
  shows "RecordDigest_parse (RecordDigest_to_string d) = Inr d"
proof -
  have "length (RecordDigest_to_string d) = 64"
    using assms by (simp add: RecordDigest_to_string_def length_concat o_def sum_list_triv)
  then show ?thesis
    by (simp add: RecordDigest_parse_def parse_pairs_hex RecordDigest_to_string_def)
qed

lemma nibble_cases:
  assumes "nibble c = Inr w"
  obtains (digit) "48 \<le> byte c" "byte c \<le> 57" "w = of_nat (byte c - 48)"
    | (letter) "97 \<le> byte c" "byte c \<le> 102" "w = of_nat (byte c - 87)"
proof (cases "48 \<le> byte c \<and> byte c \<le> 57")
  case True
  with assms have "w = of_nat (byte c - 48)" by (simp add: nibble_def of_nat_diff)
  with True digit show ?thesis by blast
next
  case False
  with assms have l: "97 \<le> byte c" "byte c \<le> 102" "w = of_nat (byte c) - 97 + 10"
    by (auto simp: nibble_def split: if_splits)
  then have "w = of_nat (byte c - 87)" by (simp add: of_nat_diff)
  with l letter show ?thesis by blast
qed

lemma char_of_byte [simp]: "char_of (byte c) = c"
  by (simp add: byte_def)

lemma unat_of_nat_u8: "n < 256 \<Longrightarrow> unat (of_nat n :: u8) = n"
  by (simp add: unat_of_nat take_bit_eq_mod)

lemma nibble_Inr: "nibble c = Inr w \<Longrightarrow> unat w < 16 \<and> hex_digit (unat w) = c"
  by (elim nibble_cases) (auto simp: unat_of_nat_u8 hex_digit_def simp del: of_nat_diff)

lemma hex_parse_pairs:
  "parse_pairs s = Inr bs \<Longrightarrow> even (length s) \<Longrightarrow>
     length s = 2 * length bs \<and>
     concat (map (\<lambda>b. [hex_digit (unat b div 16), hex_digit (unat b mod 16)]) bs) = s"
proof (induction s arbitrary: bs rule: parse_pairs.induct)
  case (1 high low rest)
  from "1.prems"(1) obtain h l bs' where
    hl: "nibble high = Inr h" "nibble low = Inr l" "parse_pairs rest = Inr bs'"
      "bs = or (push_bit 4 h) l # bs'"
    by (auto simp: result_simps)
  have n: "unat h < 16" "unat l < 16" "hex_digit (unat h) = high" "hex_digit (unat l) = low"
    using hl(1,2) nibble_Inr by auto
  have "or (push_bit 4 h) l = of_nat (16 * unat h + unat l)"
    using or_nibbles[OF n(1,2)] by simp
  with n have "unat (or (push_bit 4 h) l) = 16 * unat h + unat l"
    by (simp only: unat_of_nat_u8)
  with n have "hex_digit (unat (or (push_bit 4 h) l) div 16) = high"
    "hex_digit (unat (or (push_bit 4 h) l) mod 16) = low" by simp_all
  with "1.IH" "1.prems"(2) hl show ?case by simp
qed auto

text \<open>Only the text a digest is written as parses to it.\<close>

lemma RecordDigest_parse_canonical:
  assumes "RecordDigest_parse s = Inr d"
  shows "RecordDigest_to_string d = s \<and> length (digest_bytes d) = 32"
  using assms hex_parse_pairs[of s "digest_bytes d"]
  by (auto simp: RecordDigest_parse_def RecordDigest_to_string_def result_simps split: if_splits)

end
