(* ===== verification/Json.thy ===== *)
theory Json
  imports Identifiers
begin

text \<open>
  \<open>serde_json::Value\<close>. A number is one of serde's three forms: an unsigned 64-bit
  integer, a negative 64-bit integer (its bits), or a binary64 float (its bits). An object
  is a \<open>BTreeMap\<close> from text. Only the accessors the modelled code calls are here.
\<close>

datatype json_number = PosInt u64 | NegInt u64 | Float u64

datatype json =
    JNull
  | JBool bool
  | JNumber json_number
  | JString string
  | JArray "json list"
  | JObject "(string \<times> json) list"

fun as_u64 :: "json \<Rightarrow> u64 option" where
  "as_u64 (JNumber (PosInt n)) = Some n"
| "as_u64 _ = None"

fun as_str :: "json \<Rightarrow> string option" where
  "as_str (JString s) = Some s"
| "as_str _ = None"

fun as_array :: "json \<Rightarrow> json list option" where
  "as_array (JArray xs) = Some xs"
| "as_array _ = None"

fun as_object :: "json \<Rightarrow> (string \<times> json) list option" where
  "as_object (JObject m) = Some m"
| "as_object _ = None"

lemma as_object_Some [simp]: "as_object v = Some m \<longleftrightarrow> v = JObject m"
  by (cases v) auto

lemma as_str_Some [simp]: "as_str v = Some s \<longleftrightarrow> v = JString s"
  by (cases v) auto

lemma as_array_Some [simp]: "as_array v = Some xs \<longleftrightarrow> v = JArray xs"
  by (cases v) auto

text \<open>
  Rust's equality of floats: on the bits, except that a NaN (never in a JSON document) is
  unequal to itself and that the two zeros are equal. Equality of values follows.
\<close>

definition f64_nan :: "u64 \<Rightarrow> bool" where
  "f64_nan w = (unat w mod 2 ^ 63 > 2047 * 2 ^ 52)"

definition f64_zero :: "u64 \<Rightarrow> bool" where
  "f64_zero w = (unat w mod 2 ^ 63 = 0)"

definition f64_eq :: "u64 \<Rightarrow> u64 \<Rightarrow> bool" where
  "f64_eq a b = (\<not> f64_nan a \<and> \<not> f64_nan b \<and> (a = b \<or> f64_zero a \<and> f64_zero b))"

fun number_eq :: "json_number \<Rightarrow> json_number \<Rightarrow> bool" where
  "number_eq (Float a) (Float b) = f64_eq a b"
| "number_eq m n = (m = n)"

fun json_eq :: "json \<Rightarrow> json \<Rightarrow> bool"
  and json_list_eq :: "json list \<Rightarrow> json list \<Rightarrow> bool"
  and json_fields_eq :: "(string \<times> json) list \<Rightarrow> (string \<times> json) list \<Rightarrow> bool" where
  "json_eq (JNumber m) (JNumber n) = number_eq m n"
| "json_eq (JArray xs) (JArray ys) = json_list_eq xs ys"
| "json_eq (JObject m) (JObject n) = json_fields_eq m n"
| "json_eq v w = (v = w)"
| "json_list_eq [] [] = True"
| "json_list_eq (x # xs) (y # ys) = (json_eq x y \<and> json_list_eq xs ys)"
| "json_list_eq _ _ = False"
| "json_fields_eq [] [] = True"
| "json_fields_eq ((k, x) # xs) ((l, y) # ys) = (k = l \<and> json_eq x y \<and> json_fields_eq xs ys)"
| "json_fields_eq _ _ = False"

lemma json_eq_string [simp]: "json_eq (JString s) v \<longleftrightarrow> v = JString s"
  by (cases v) auto

lemma json_eq_string' [simp]: "json_eq v (JString s) \<longleftrightarrow> v = JString s"
  by (cases v) auto

end
