(* ===== verification/Filters.thy ===== *)
theory Filters
  imports Json
begin

text \<open>
  The neutral predicate of \<open>crates/fabric-connector/src/filter\<close> and the identifier
  newtypes of \<open>ids/\<close>: filters, their conjunction, what they reference. \<open>eval3\<close> is the
  meaning the connector contract gives a filter: three-valued, as the capability
  documentation states it (\<open>x = NULL\<close> is unknown), over a comparison \<open>cmp\<close> of
  non-null values that the backend supplies. A row is selected when its value is true.
\<close>

section \<open>Connector identifiers\<close>

datatype field_name = FieldName (field_str: string)
datatype collection_name = CollectionName (collection_str: string)
datatype connector_id = ConnectorId (connector_str: string)
datatype connection_name = ConnectionName (connection_str: string)
datatype schema_name = SchemaName (schema_str: string)

definition FieldName_try_new :: "string \<Rightarrow> identifier_error + field_name" where
  "FieldName_try_new value = map_ok FieldName (parse_identifier ''field name'' value)"

definition CollectionName_try_new :: "string \<Rightarrow> identifier_error + collection_name" where
  "CollectionName_try_new value = map_ok CollectionName (parse_identifier ''collection name'' value)"

definition ConnectorId_try_new :: "string \<Rightarrow> identifier_error + connector_id" where
  "ConnectorId_try_new value = map_ok ConnectorId (parse_identifier ''connector id'' value)"

definition ConnectionName_try_new :: "string \<Rightarrow> identifier_error + connection_name" where
  "ConnectionName_try_new value = map_ok ConnectionName (parse_identifier ''connection name'' value)"

definition SchemaName_try_new :: "string \<Rightarrow> identifier_error + schema_name" where
  "SchemaName_try_new value = map_ok SchemaName (parse_identifier ''schema name'' value)"

lemma FieldName_try_new_Inr [result_simps]:
  "FieldName_try_new s = Inr f \<longleftrightarrow> is_identifier s \<and> f = FieldName s"
  by (auto simp: FieldName_try_new_def result_simps)

instantiation field_name :: linorder
begin
definition less_eq_field_name :: "field_name \<Rightarrow> field_name \<Rightarrow> bool" where
  "less_eq_field_name a b = (field_str a \<le> field_str b)"
definition less_field_name :: "field_name \<Rightarrow> field_name \<Rightarrow> bool" where
  "less_field_name a b = (field_str a < field_str b)"
instance
  by standard (auto simp: less_eq_field_name_def less_field_name_def intro: field_name.expand)
end

instantiation collection_name :: linorder
begin
definition less_eq_collection_name :: "collection_name \<Rightarrow> collection_name \<Rightarrow> bool" where
  "less_eq_collection_name a b = (collection_str a \<le> collection_str b)"
definition less_collection_name :: "collection_name \<Rightarrow> collection_name \<Rightarrow> bool" where
  "less_collection_name a b = (collection_str a < collection_str b)"
instance
  by standard (auto simp: less_eq_collection_name_def less_collection_name_def
      intro: collection_name.expand)
end

instantiation connector_id :: linorder
begin
definition less_eq_connector_id :: "connector_id \<Rightarrow> connector_id \<Rightarrow> bool" where
  "less_eq_connector_id a b = (connector_str a \<le> connector_str b)"
definition less_connector_id :: "connector_id \<Rightarrow> connector_id \<Rightarrow> bool" where
  "less_connector_id a b = (connector_str a < connector_str b)"
instance
  by standard (auto simp: less_eq_connector_id_def less_connector_id_def intro: connector_id.expand)
end

section \<open>Rows\<close>

type_synonym row = "(field_name \<times> json) list"

definition row_new :: row where
  "row_new = []"

definition row_with :: "row \<Rightarrow> field_name \<Rightarrow> json \<Rightarrow> row" where
  "row_with r f v = btree_insert f v r"

definition row_get :: "row \<Rightarrow> field_name \<Rightarrow> json option" where
  "row_get r f = map_of r f"

lemma row_get_with [simp]: "row_get (row_with r f v) g = (if f = g then Some v else row_get r g)"
  by (simp add: row_get_def row_with_def)

section \<open>Comparison operators\<close>

datatype comparison_operator =
  Equal | NotEqual | LessThan | LessThanOrEqual | GreaterThan | GreaterThanOrEqual | Contains

fun comparison_str :: "comparison_operator \<Rightarrow> string" where
  "comparison_str Equal = ''equal''"
| "comparison_str NotEqual = ''not_equal''"
| "comparison_str LessThan = ''less_than''"
| "comparison_str LessThanOrEqual = ''less_than_or_equal''"
| "comparison_str GreaterThan = ''greater_than''"
| "comparison_str GreaterThanOrEqual = ''greater_than_or_equal''"
| "comparison_str Contains = ''contains''"

text \<open>The derived \<open>Ord\<close> is the order of declaration.\<close>

fun comparison_index :: "comparison_operator \<Rightarrow> nat" where
  "comparison_index Equal = 0"
| "comparison_index NotEqual = 1"
| "comparison_index LessThan = 2"
| "comparison_index LessThanOrEqual = 3"
| "comparison_index GreaterThan = 4"
| "comparison_index GreaterThanOrEqual = 5"
| "comparison_index Contains = 6"

lemma comparison_index_inj: "comparison_index a = comparison_index b \<Longrightarrow> a = b"
  by (cases a; cases b) simp_all

instantiation comparison_operator :: linorder
begin
definition less_eq_comparison_operator :: "comparison_operator \<Rightarrow> comparison_operator \<Rightarrow> bool" where
  "less_eq_comparison_operator a b = (comparison_index a \<le> comparison_index b)"
definition less_comparison_operator :: "comparison_operator \<Rightarrow> comparison_operator \<Rightarrow> bool" where
  "less_comparison_operator a b = (comparison_index a < comparison_index b)"
instance
  by standard (auto simp: less_eq_comparison_operator_def less_comparison_operator_def
      intro: comparison_index_inj)
end

section \<open>Filters\<close>

datatype filter_expr =
    FAnd "filter_expr list"
  | FOr "filter_expr list"
  | FNot filter_expr
  | FCompare field_name comparison_operator json
  | FIsNull field_name
  | FIn field_name "json list"

fun filter_and :: "filter_expr \<Rightarrow> filter_expr \<Rightarrow> filter_expr" where
  "filter_and (FAnd left) (FAnd right) = FAnd (left @ right)"
| "filter_and (FAnd left) right = FAnd (left @ [right])"
| "filter_and left (FAnd right) = FAnd (left # right)"
| "filter_and left right = FAnd [left, right]"

fun referenced_fields :: "filter_expr \<Rightarrow> field_name list" where
  "referenced_fields (FAnd cs) = concat (map referenced_fields cs)"
| "referenced_fields (FOr cs) = concat (map referenced_fields cs)"
| "referenced_fields (FNot c) = referenced_fields c"
| "referenced_fields (FCompare f _ _) = [f]"
| "referenced_fields (FIsNull f) = [f]"
| "referenced_fields (FIn f _) = [f]"

fun collect_operators :: "filter_expr \<Rightarrow> comparison_operator list" where
  "collect_operators (FAnd cs) = concat (map collect_operators cs)"
| "collect_operators (FOr cs) = concat (map collect_operators cs)"
| "collect_operators (FNot c) = collect_operators c"
| "collect_operators (FCompare _ op _) = [op]"
| "collect_operators (FIn _ _) = [Equal]"
| "collect_operators (FIsNull _) = []"

definition referenced_operators :: "filter_expr \<Rightarrow> comparison_operator list" where
  "referenced_operators f = remdups_adj (sort (collect_operators f))"

fun requires_null_check :: "filter_expr \<Rightarrow> bool" where
  "requires_null_check (FAnd cs) = list_ex requires_null_check cs"
| "requires_null_check (FOr cs) = list_ex requires_null_check cs"
| "requires_null_check (FNot c) = requires_null_check c"
| "requires_null_check (FIsNull _) = True"
| "requires_null_check (FCompare _ _ _) = False"
| "requires_null_check (FIn _ _) = False"

lemma set_referenced_operators [simp]:
  "set (referenced_operators f) = set (collect_operators f)"
  by (simp add: referenced_operators_def)

section \<open>Meaning\<close>

type_synonym comparison = "comparison_operator \<Rightarrow> json \<Rightarrow> json \<Rightarrow> bool"

definition k_and :: "bool option list \<Rightarrow> bool option" where
  "k_and bs = (if Some False \<in> set bs then Some False else if None \<in> set bs then None else Some True)"

definition k_or :: "bool option list \<Rightarrow> bool option" where
  "k_or bs = (if Some True \<in> set bs then Some True else if None \<in> set bs then None else Some False)"

definition k_not :: "bool option \<Rightarrow> bool option" where
  "k_not b = map_option Not b"

definition cell :: "row \<Rightarrow> field_name \<Rightarrow> json" where
  "cell r f = (case row_get r f of None \<Rightarrow> JNull | Some v \<Rightarrow> v)"

text \<open>A comparison with null is unknown; \<open>not_equal\<close> is the negation of \<open>equal\<close>.\<close>

definition compare3 :: "comparison \<Rightarrow> comparison_operator \<Rightarrow> json \<Rightarrow> json \<Rightarrow> bool option" where
  "compare3 cmp op v w =
     (if v = JNull \<or> w = JNull then None
      else if op = NotEqual then Some (\<not> cmp Equal v w) else Some (cmp op v w))"

fun eval3 :: "comparison \<Rightarrow> row \<Rightarrow> filter_expr \<Rightarrow> bool option" where
  "eval3 cmp r (FAnd cs) = k_and (map (eval3 cmp r) cs)"
| "eval3 cmp r (FOr cs) = k_or (map (eval3 cmp r) cs)"
| "eval3 cmp r (FNot c) = k_not (eval3 cmp r c)"
| "eval3 cmp r (FCompare f op v) = compare3 cmp op (cell r f) v"
| "eval3 cmp r (FIsNull f) = Some (cell r f = JNull)"
| "eval3 cmp r (FIn f vs) = k_or (map (compare3 cmp Equal (cell r f)) vs)"

definition selects :: "comparison \<Rightarrow> filter_expr \<Rightarrow> row \<Rightarrow> bool" where
  "selects cmp f r = (eval3 cmp r f = Some True)"

definition selects_opt :: "comparison \<Rightarrow> filter_expr option \<Rightarrow> row \<Rightarrow> bool" where
  "selects_opt cmp f r = (case f of None \<Rightarrow> True | Some g \<Rightarrow> selects cmp g r)"

lemma k_and_True: "k_and bs = Some True \<longleftrightarrow> (\<forall>b\<in>set bs. b = Some True)"
proof
  assume "k_and bs = Some True"
  then have "Some False \<notin> set bs" "None \<notin> set bs" by (auto simp: k_and_def split: if_splits)
  then show "\<forall>b\<in>set bs. b = Some True" by (metis option.exhaust)
qed (auto simp: k_and_def)

lemma k_or_True: "k_or bs = Some True \<longleftrightarrow> Some True \<in> set bs"
  by (auto simp: k_or_def)

lemma selects_FAnd [simp]: "selects cmp (FAnd cs) r \<longleftrightarrow> (\<forall>c\<in>set cs. selects cmp c r)"
  by (simp add: selects_def k_and_True)

lemma selects_FOr [simp]: "selects cmp (FOr cs) r \<longleftrightarrow> (\<exists>c\<in>set cs. selects cmp c r)"
  by (force simp: selects_def k_or_True image_iff)

text \<open>A conjunction selects exactly the rows both sides select, whatever their shapes.\<close>

lemma selects_filter_and [simp]:
  "selects cmp (filter_and a b) r \<longleftrightarrow> selects cmp a r \<and> selects cmp b r"
  by (cases "(a, b)" rule: filter_and.cases) auto

lemma set_operators_filter_and [simp]:
  "set (collect_operators (filter_and a b)) = set (collect_operators a) \<union> set (collect_operators b)"
  by (cases "(a, b)" rule: filter_and.cases) auto

lemma null_check_filter_and [simp]:
  "requires_null_check (filter_and a b) \<longleftrightarrow> requires_null_check a \<or> requires_null_check b"
  by (cases "(a, b)" rule: filter_and.cases) auto

text \<open>A predicate the capability check accepts does not depend on operators it does not name.\<close>

lemma eval3_cong:
  "\<forall>op\<in>insert Equal (set (collect_operators f)). cmp op = cmp' op \<Longrightarrow> eval3 cmp r f = eval3 cmp' r f"
proof (induction f)
  case (FAnd cs)
  then have "map (eval3 cmp r) cs = map (eval3 cmp' r) cs" by (intro map_cong refl) simp
  then show ?case by (simp only: eval3.simps)
next
  case (FOr cs)
  then have "map (eval3 cmp r) cs = map (eval3 cmp' r) cs" by (intro map_cong refl) simp
  then show ?case by (simp only: eval3.simps)
next
  case (FIn f vs)
  then have "map (compare3 cmp Equal (cell r f)) vs = map (compare3 cmp' Equal (cell r f)) vs"
    by (simp add: compare3_def)
  then show ?case by (simp only: eval3.simps)
qed (simp_all add: compare3_def)

end
