(* ===== verification/Connector.thy ===== *)
theory Connector
  imports Filters
begin

text \<open>
  The neutral execution boundary, \<open>crates/fabric-connector/src\<close>: secret references and
  connection selectors, isolation models and execution targets (\<open>execution/\<close>), the
  errors and what each says about a write's effect (\<open>errors/\<close>), the query and mutation
  specifications with the one place the tenant predicate is added (\<open>for_target\<close>), the
  capability gate (\<open>capabilities/\<close>), the connector schema and the connector registry.
  Error sources (boxed errors) are not carried. A connector (\<open>trait DataConnector\<close>) is a
  record of its answers over a world \<open>'w\<close>, the backend's state; health checks and the
  telemetry labels are not modelled.
\<close>

section \<open>Secrets, connections, isolation, targets\<close>

datatype secret_ref = SecretRef (secret_str: string)

definition key_char :: "string \<Rightarrow> char" where
  "key_char seg =
     (case seg of
        [c] \<Rightarrow> if is_ascii_alphanumeric (byte c)
               then (if is_ascii_lowercase (byte c) then char_of (byte c - 32) else c)
               else CHR ''_''
      | _ \<Rightarrow> CHR ''_'')"

definition distinctness_key :: "secret_ref \<Rightarrow> string" where
  "distinctness_key r = map key_char (segments (secret_str r))"

text \<open>\<open>EnvSecretResolver::variable_name\<close> of \<open>crates/fabric-api/src/secrets.rs\<close>.\<close>

definition variable_name :: "secret_ref \<Rightarrow> string" where
  "variable_name r = ''FABRIC_SECRET_'' @ map key_char (segments (secret_str r))"

datatype connection_selector =
    SelDefault
  | SelNamed connection_name
  | SelSecret secret_ref

fun needs_secret :: "connection_selector \<Rightarrow> bool" where
  "needs_secret (SelSecret _) = True"
| "needs_secret _ = False"

fun secret_reference :: "connection_selector \<Rightarrow> secret_ref option" where
  "secret_reference (SelSecret r) = Some r"
| "secret_reference SelDefault = None"
| "secret_reference (SelNamed _) = None"

datatype isolation_model =
    IsoDatabase
  | IsoSchema schema_name
  | IsoDiscriminator field_name string

fun tenant_predicate :: "isolation_model \<Rightarrow> filter_expr option" where
  "tenant_predicate IsoDatabase = None"
| "tenant_predicate (IsoSchema _) = None"
| "tenant_predicate (IsoDiscriminator column value) = Some (FCompare column Equal (JString value))"

fun isolation_schema :: "isolation_model \<Rightarrow> schema_name option" where
  "isolation_schema (IsoSchema s) = Some s"
| "isolation_schema IsoDatabase = None"
| "isolation_schema (IsoDiscriminator _ _) = None"

fun isolation_label :: "isolation_model \<Rightarrow> string" where
  "isolation_label IsoDatabase = ''database''"
| "isolation_label (IsoSchema _) = ''schema''"
| "isolation_label (IsoDiscriminator _ _) = ''discriminator''"

record execution_target =
  tgt_tenant :: tenant_id
  tgt_tenant_revision :: binding_revision
  tgt_data_source :: data_source_id
  tgt_data_source_revision :: binding_revision
  tgt_connector :: connector_id
  tgt_connection :: connection_selector
  tgt_isolation :: isolation_model

definition ExecutionTarget_new ::
  "tenant_id \<Rightarrow> binding_revision \<Rightarrow> data_source_id \<Rightarrow> binding_revision \<Rightarrow> connector_id
     \<Rightarrow> connection_selector \<Rightarrow> isolation_model \<Rightarrow> execution_target" where
  "ExecutionTarget_new t tr d dr c sel isol =
     \<lparr> tgt_tenant = t, tgt_tenant_revision = tr, tgt_data_source = d,
       tgt_data_source_revision = dr, tgt_connector = c, tgt_connection = sel,
       tgt_isolation = isol \<rparr>"

section \<open>Errors\<close>

datatype unsupported_feature =
    Filtering | FilteringOnMutations | Ordering | Paging
  | Comparison comparison_operator | Membership | NullComparison | Mutations
  | WritesToCollection | InsertsOnCollection | UpdatesOnCollection | DeletesOnCollection

datatype connector_error =
    UnknownConnector connector_id
  | Unsupported unsupported_feature "string option"
  | UnknownCollection collection_name
  | SecretUnavailable string
  | Unreachable connector_id
  | OutcomeUnknown connector_id
  | ResultLost connector_id
  | Rejected connector_id u16 string
  | MalformedResponse connector_id string
  | InvalidOperation string

fun comparison_feature_name :: "comparison_operator \<Rightarrow> string" where
  "comparison_feature_name Equal = ''the equal comparison''"
| "comparison_feature_name NotEqual = ''the not_equal comparison''"
| "comparison_feature_name LessThan = ''the less_than comparison''"
| "comparison_feature_name LessThanOrEqual = ''the less_than_or_equal comparison''"
| "comparison_feature_name GreaterThan = ''the greater_than comparison''"
| "comparison_feature_name GreaterThanOrEqual = ''the greater_than_or_equal comparison''"
| "comparison_feature_name Contains = ''the contains comparison''"

fun feature_str :: "unsupported_feature \<Rightarrow> string" where
  "feature_str Filtering = ''filtering''"
| "feature_str FilteringOnMutations = ''filtering on mutations''"
| "feature_str Ordering = ''ordering''"
| "feature_str Paging = ''paging''"
| "feature_str (Comparison op) = comparison_feature_name op"
| "feature_str Membership = ''the in comparison''"
| "feature_str NullComparison = ''null comparison''"
| "feature_str Mutations = ''mutations''"
| "feature_str WritesToCollection = ''writes to this collection''"
| "feature_str InsertsOnCollection = ''inserts on this collection''"
| "feature_str UpdatesOnCollection = ''updates on this collection''"
| "feature_str DeletesOnCollection = ''deletes on this collection''"

definition refused :: "unsupported_feature \<Rightarrow> connector_error" where
  "refused f = Unsupported f None"

definition refused_because :: "unsupported_feature \<Rightarrow> string \<Rightarrow> connector_error" where
  "refused_because f detail = Unsupported f (Some detail)"

fun is_internal :: "connector_error \<Rightarrow> bool" where
  "is_internal (UnknownConnector _) = True"
| "is_internal (SecretUnavailable _) = True"
| "is_internal (Unreachable _) = True"
| "is_internal (OutcomeUnknown _) = True"
| "is_internal (ResultLost _) = True"
| "is_internal (MalformedResponse _ _) = True"
| "is_internal (Rejected _ _ _) = True"
| "is_internal _ = False"

datatype operation_effect = NotApplied | EffectUnknown | Applied

definition rejection_effect :: "u16 \<Rightarrow> operation_effect" where
  "rejection_effect status = (if status = 400 \<or> status = 422 then NotApplied else EffectUnknown)"

fun effect :: "connector_error \<Rightarrow> operation_effect" where
  "effect (UnknownConnector _) = NotApplied"
| "effect (Unsupported _ _) = NotApplied"
| "effect (UnknownCollection _) = NotApplied"
| "effect (SecretUnavailable _) = NotApplied"
| "effect (InvalidOperation _) = NotApplied"
| "effect (Unreachable _) = NotApplied"
| "effect (OutcomeUnknown _) = EffectUnknown"
| "effect (ResultLost _) = Applied"
| "effect (MalformedResponse _ _) = Applied"
| "effect (Rejected _ status _) = rejection_effect status"

section \<open>Queries and mutations\<close>

datatype sort_direction = Ascending | Descending

record sort_field =
  sort_by :: field_name
  direction :: sort_direction

record query_spec =
  q_collection :: collection_name
  q_fields :: "field_name list"
  q_filter :: "filter_expr option"
  q_sort :: "sort_field list"
  q_limit :: "u32 option"
  q_offset :: "u32 option"

definition QuerySpec_new :: "collection_name \<Rightarrow> query_spec" where
  "QuerySpec_new c =
     \<lparr> q_collection = c, q_fields = [], q_filter = None, q_sort = [], q_limit = None, q_offset = None \<rparr>"

definition with_fields :: "query_spec \<Rightarrow> field_name list \<Rightarrow> query_spec" where
  "with_fields q fs = q\<lparr>q_fields := fs\<rparr>"

definition with_filter :: "query_spec \<Rightarrow> filter_expr \<Rightarrow> query_spec" where
  "with_filter q f = q\<lparr>q_filter := Some f\<rparr>"

definition with_sort :: "query_spec \<Rightarrow> sort_field list \<Rightarrow> query_spec" where
  "with_sort q s = q\<lparr>q_sort := s\<rparr>"

definition with_paging :: "query_spec \<Rightarrow> u32 option \<Rightarrow> u32 option \<Rightarrow> query_spec" where
  "with_paging q l off = q\<lparr>q_limit := l, q_offset := off\<rparr>"

definition query_for_target :: "query_spec \<Rightarrow> execution_target \<Rightarrow> query_spec" where
  "query_for_target q t =
     (case tenant_predicate (tgt_isolation t) of
        None \<Rightarrow> q
      | Some p \<Rightarrow>
          q\<lparr>q_filter := Some (case q_filter q of Some caller \<Rightarrow> filter_and caller p | None \<Rightarrow> p)\<rparr>)"

datatype mutation_spec =
    Insert collection_name "row list"
  | Update collection_name "filter_expr option" row
  | Delete collection_name "filter_expr option"

fun mutation_collection :: "mutation_spec \<Rightarrow> collection_name" where
  "mutation_collection (Insert c _) = c"
| "mutation_collection (Update c _ _) = c"
| "mutation_collection (Delete c _) = c"

fun operation_name :: "mutation_spec \<Rightarrow> string" where
  "operation_name (Insert _ _) = ''insert''"
| "operation_name (Update _ _ _) = ''update''"
| "operation_name (Delete _ _) = ''delete''"

definition stamp :: "row \<Rightarrow> execution_target \<Rightarrow> row" where
  "stamp r t =
     (case tgt_isolation t of
        IsoDiscriminator column value \<Rightarrow> row_with r column (JString value)
      | IsoDatabase \<Rightarrow> r
      | IsoSchema _ \<Rightarrow> r)"

definition conjoin :: "filter_expr option \<Rightarrow> filter_expr \<Rightarrow> filter_expr" where
  "conjoin caller tenant = (case caller of Some f \<Rightarrow> filter_and f tenant | None \<Rightarrow> tenant)"

definition mutation_for_target :: "mutation_spec \<Rightarrow> execution_target \<Rightarrow> mutation_spec" where
  "mutation_for_target m t =
     (case tenant_predicate (tgt_isolation t) of
        None \<Rightarrow> m
      | Some p \<Rightarrow>
          (case m of
             Insert c rows \<Rightarrow> Insert c (map (\<lambda>r. stamp r t) rows)
           | Update c f changes \<Rightarrow> Update c (Some (conjoin f p)) (stamp changes t)
           | Delete c f \<Rightarrow> Delete c (Some (conjoin f p))))"

fun mutation_filter :: "mutation_spec \<Rightarrow> filter_expr option" where
  "mutation_filter (Insert _ _) = None"
| "mutation_filter (Update _ f _) = f"
| "mutation_filter (Delete _ f) = f"

record query_outcome =
  out_rows :: "row list"
  total_count :: "u64 option"

definition QueryOutcome_from_rows :: "row list \<Rightarrow> query_outcome" where
  "QueryOutcome_from_rows rs = \<lparr> out_rows = rs, total_count = None \<rparr>"

record mutation_outcome =
  affected_rows :: u64
  returned_rows :: "row list"

definition MutationOutcome_affected :: "u64 \<Rightarrow> mutation_outcome" where
  "MutationOutcome_affected n = \<lparr> affected_rows = n, returned_rows = [] \<rparr>"

definition with_rows :: "mutation_outcome \<Rightarrow> row list \<Rightarrow> mutation_outcome" where
  "with_rows m rs = m\<lparr>returned_rows := rs\<rparr>"

section \<open>The capability gate\<close>

record connector_capabilities =
  cap_filtering :: bool
  cap_ordering :: bool
  cap_paging :: bool
  cap_mutations :: bool
  cap_transactional_mutations :: bool
  cap_total_count :: bool
  cap_null_checks :: bool
  cap_comparisons :: "comparison_operator list"

definition baseline :: connector_capabilities where
  "baseline =
     \<lparr> cap_filtering = True, cap_ordering = True, cap_paging = True, cap_mutations = False,
       cap_transactional_mutations = False, cap_total_count = False, cap_null_checks = False,
       cap_comparisons = [Equal, NotEqual] \<rparr>"

definition ensure_supports_filter ::
  "connector_capabilities \<Rightarrow> filter_expr \<Rightarrow> unsupported_feature \<Rightarrow> connector_error + unit" where
  "ensure_supports_filter caps f feature =
     (if \<not> cap_filtering caps then Inl (refused feature)
      else rbind (try_each (\<lambda>op. if op \<notin> set (cap_comparisons caps)
                                then Inl (refused (Comparison op)) else Inr ())
                    (referenced_operators f))
             (\<lambda>_. if requires_null_check f \<and> \<not> cap_null_checks caps
                  then Inl (refused NullComparison) else Inr ()))"

definition ensure_supports_query ::
  "connector_capabilities \<Rightarrow> query_spec \<Rightarrow> connector_error + unit" where
  "ensure_supports_query caps q =
     rbind (case q_filter q of None \<Rightarrow> Inr () | Some f \<Rightarrow> ensure_supports_filter caps f Filtering)
       (\<lambda>_. if q_sort q \<noteq> [] \<and> \<not> cap_ordering caps then Inl (refused Ordering)
            else if (q_limit q \<noteq> None \<or> q_offset q \<noteq> None) \<and> \<not> cap_paging caps
            then Inl (refused Paging)
            else Inr ())"

definition ensure_supports_mutation ::
  "connector_capabilities \<Rightarrow> mutation_spec \<Rightarrow> connector_error + unit" where
  "ensure_supports_mutation caps m =
     (if \<not> cap_mutations caps then Inl (refused Mutations)
      else case mutation_filter m of
             Some f \<Rightarrow> ensure_supports_filter caps f FilteringOnMutations
           | None \<Rightarrow> Inr ())"

section \<open>The connector schema\<close>

type_synonym connector_schema = "(collection_name \<times> field_name list) list"

definition ensure_fields ::
  "connector_schema \<Rightarrow> collection_name \<Rightarrow> field_name list \<Rightarrow> connector_error + unit" where
  "ensure_fields sch c fs =
     rbind (ok_or (UnknownCollection c) (map_of sch c)) (\<lambda>known.
       try_each (\<lambda>f. if f \<notin> set known
                    then Inl (InvalidOperation (''collection '' @ collection_str c
                           @ '' has no field '' @ field_str f))
                    else Inr ()) fs)"

section \<open>Connectors and their registry\<close>

record 'w data_connector =
  conn_id :: connector_id
  conn_query ::
    "'w \<Rightarrow> execution_target \<Rightarrow> query_spec \<Rightarrow> (connector_error + query_outcome) \<times> 'w"
  conn_mutate ::
    "'w \<Rightarrow> execution_target \<Rightarrow> mutation_spec \<Rightarrow> (connector_error + mutation_outcome) \<times> 'w"

type_synonym 'w connector_registry = "(connector_id \<times> 'w data_connector) list"

definition registry_with :: "'w connector_registry \<Rightarrow> 'w data_connector \<Rightarrow> 'w connector_registry" where
  "registry_with reg c = btree_insert (conn_id c) c reg"

definition registry_get ::
  "'w connector_registry \<Rightarrow> connector_id \<Rightarrow> connector_error + 'w data_connector" where
  "registry_get reg i = ok_or (UnknownConnector i) (map_of reg i)"

lemma registry_get_with:
  "registry_get (registry_with reg c) i
     = (if i = conn_id c then Inr c else registry_get reg i)"
  by (auto simp: registry_get_def registry_with_def)

section \<open>Laws of the boundary\<close>

lemma tenant_predicate_None: "tenant_predicate isol = None \<longleftrightarrow> isol = IsoDatabase \<or> (\<exists>s. isol = IsoSchema s)"
  by (cases isol) auto

lemma tenant_predicate_Some:
  "tenant_predicate isol = Some p
     \<longleftrightarrow> (\<exists>column value. isol = IsoDiscriminator column value \<and> p = FCompare column Equal (JString value))"
  by (cases isol) auto

text \<open>The filter a scoped query carries: the caller's and the tenant's, both.\<close>

lemma query_for_target_selects:
  "selects_opt cmp (q_filter (query_for_target q t)) r
     \<longleftrightarrow> selects_opt cmp (q_filter q) r \<and> selects_opt cmp (tenant_predicate (tgt_isolation t)) r"
  by (auto simp: query_for_target_def selects_opt_def split: option.splits)

lemma query_for_target_frame [simp]:
  "q_collection (query_for_target q t) = q_collection q"
  "q_fields (query_for_target q t) = q_fields q"
  "q_sort (query_for_target q t) = q_sort q"
  "q_limit (query_for_target q t) = q_limit q"
  "q_offset (query_for_target q t) = q_offset q"
  by (simp_all add: query_for_target_def split: option.splits)

lemma mutation_for_target_selects:
  "selects_opt cmp (mutation_filter (mutation_for_target m t)) r
     \<longleftrightarrow> selects_opt cmp (mutation_filter m) r
         \<and> ((\<exists>c rs. m = Insert c rs) \<or> selects_opt cmp (tenant_predicate (tgt_isolation t)) r)"
  by (cases m) (auto simp: mutation_for_target_def conjoin_def selects_opt_def split: option.splits)

lemma mutation_for_target_frame [simp]:
  "mutation_collection (mutation_for_target m t) = mutation_collection m"
  "operation_name (mutation_for_target m t) = operation_name m"
  by (cases m; simp add: mutation_for_target_def split: option.splits)+

lemma stamp_cell:
  "tgt_isolation t = IsoDiscriminator column value \<Longrightarrow> cell (stamp r t) column = JString value"
  by (simp add: stamp_def cell_def)

lemma stamp_other:
  "tgt_isolation t = IsoDiscriminator column value \<Longrightarrow> f \<noteq> column \<Longrightarrow>
     row_get (stamp r t) f = row_get r f"
  by (simp add: stamp_def)

lemma ensure_supports_filter_ok [result_simps]:
  "ensure_supports_filter caps f feature = Inr u \<longleftrightarrow>
     cap_filtering caps \<and> set (collect_operators f) \<subseteq> set (cap_comparisons caps)
     \<and> (requires_null_check f \<longrightarrow> cap_null_checks caps)"
  by (auto simp: ensure_supports_filter_def result_simps split: if_splits)

lemma ensure_supports_filter_refuses:
  "ensure_supports_filter caps f feature = Inl e \<Longrightarrow>
     (e = refused feature \<and> \<not> cap_filtering caps)
     \<or> (\<exists>op\<in>set (collect_operators f). e = refused (Comparison op) \<and> op \<notin> set (cap_comparisons caps))
     \<or> (e = refused NullComparison \<and> requires_null_check f \<and> \<not> cap_null_checks caps)"
  by (auto simp: ensure_supports_filter_def result_simps dest!: try_each_Inl split: if_splits)

lemma key_char_ascii: "key_char seg \<in> {c. ascii c}"
proof -
  have "byte c < 128 \<Longrightarrow> byte (char_of (byte c - 32)) < 128" for c
    by (simp add: byte_char_of)
  then show ?thesis
    by (auto simp: key_char_def ascii_def dest: alphanumeric_ascii split: list.splits)
      (simp_all add: byte_def)
qed

text \<open>
  Two references one environment variable would serve have one distinctness key: the key
  is as coarse as the coarsest projection this repository ships.
\<close>

lemma variable_name_eq: "variable_name a = variable_name b \<longleftrightarrow> distinctness_key a = distinctness_key b"
  by (simp add: variable_name_def distinctness_key_def)

end
