(* ===== verification/Registry.thy ===== *)
theory Registry
  imports Connector
begin

text \<open>
  The revisioned registry of \<open>crates/fabric-tenant-runtime/src/resource\<close>. The trait
  \<open>RegistryResource\<close> is the record \<open>resource_kind\<close>; the lock-free snapshot cell is
  \<open>reg_snapshot\<close> (no snapshot: never primed) and the change channel is the list of what was
  sent. A write holds the writer lock throughout, so an operation is one step. \<open>merge\<close> is
  the whole of \<open>registry/merge.rs\<close> and \<open>merged_snapshot.rs\<close>; \<open>apply_all\<close>, \<open>apply_one\<close>,
  \<open>invalidate\<close> and \<open>refuses_whole\<close> are the registry's operations. \<open>merge_key\<close> is the
  specification of a merge, key by key. Logging is not modelled; a message built from
  values is the constructor of \<open>resource_fault\<close> that carries them.
\<close>

section \<open>What a registry holds\<close>

datatype configuration_error =
    TenantHasNoDataBindings tenant_id
  | InvalidResource string

record ('t, 'k, 'f) resource_kind =
  kind_name :: string
  key_of :: "'t \<Rightarrow> 'k"
  revision_of :: "'t \<Rightarrow> binding_revision"
  validate_of :: "'t \<Rightarrow> configuration_error + unit"
  derive_set_facts :: "('k \<times> 't) list \<Rightarrow> 'f"

datatype 'k resource_fault =
    FaultInvalid string 'k configuration_error
  | FaultAppearsTwice string 'k
  | FaultBelowRevision string 'k binding_revision binding_revision
  | FaultChangedSilently string 'k binding_revision
  | FaultNothingSurvived string

record ('t, 'k, 'f) snapshot =
  entries :: "('k \<times> 't) list"
  facts :: 'f

definition ResourceSnapshot_new ::
  "('t, 'k, 'f) resource_kind \<Rightarrow> ('k \<times> 't) list \<Rightarrow> ('t, 'k, 'f) snapshot" where
  "ResourceSnapshot_new R es = \<lparr> entries = es, facts = derive_set_facts R es \<rparr>"

definition snapshot_get :: "('t, 'k, 'f) snapshot \<Rightarrow> 'k \<Rightarrow> 't option" where
  "snapshot_get s k = map_of (entries s) k"

datatype change_kind = Added | Updated | Removed

record 'k resource_change =
  change_key :: 'k
  change_kind_of :: change_kind
  previous_revision :: "binding_revision option"
  current_revision :: "binding_revision option"

definition change_added :: "'k \<Rightarrow> binding_revision \<Rightarrow> 'k resource_change" where
  "change_added k r =
     \<lparr> change_key = k, change_kind_of = Added, previous_revision = None, current_revision = Some r \<rparr>"

definition change_updated ::
  "'k \<Rightarrow> binding_revision \<Rightarrow> binding_revision \<Rightarrow> 'k resource_change" where
  "change_updated k p c =
     \<lparr> change_key = k, change_kind_of = Updated, previous_revision = Some p,
       current_revision = Some c \<rparr>"

definition change_removed :: "'k \<Rightarrow> binding_revision \<Rightarrow> 'k resource_change" where
  "change_removed k p =
     \<lparr> change_key = k, change_kind_of = Removed, previous_revision = Some p, current_revision = None \<rparr>"

record apply_report =
  added :: nat
  updated :: nat
  removed :: nat
  stale_ignored :: nat
  unchanged :: nat
  invalid_rejected :: nat
  divergent_payload :: nat
  duplicate_rejected :: nat

definition ApplyReport_default :: apply_report where
  "ApplyReport_default =
     \<lparr> added = 0, updated = 0, removed = 0, stale_ignored = 0, unchanged = 0,
       invalid_rejected = 0, divergent_payload = 0, duplicate_rejected = 0 \<rparr>"

definition is_noop :: "apply_report \<Rightarrow> bool" where
  "is_noop r = (added r = 0 \<and> updated r = 0 \<and> removed r = 0)"

definition took_every_resource :: "apply_report \<Rightarrow> bool" where
  "took_every_resource r =
     (stale_ignored r = 0 \<and> invalid_rejected r = 0 \<and> divergent_payload r = 0
      \<and> duplicate_rejected r = 0)"

section \<open>Merging a published set\<close>

record ('t, 'k) merged_snapshot =
  m_next :: "('k \<times> 't) list"
  m_events :: "'k resource_change list"
  m_report :: apply_report
  m_decided :: "'k list"
  m_first_rejection :: "'k resource_fault option"
  m_published :: nat
  m_first_load :: bool

definition against_held ::
  "('t, 'k, 'f) resource_kind \<Rightarrow> 't \<Rightarrow> 't option \<Rightarrow> ('t, 'k) merged_snapshot
     \<Rightarrow> ('t, 'k) merged_snapshot" where
  "against_held R incoming held m =
     (let k = key_of R incoming; rep = m_report m in
      case held of
        None \<Rightarrow>
          m\<lparr>m_report := rep\<lparr>added := added rep + 1\<rparr>,
            m_events := m_events m @ [change_added k (revision_of R incoming)],
            m_next := AList.update k incoming (m_next m)\<rparr>
      | Some h \<Rightarrow>
          if revision_of R incoming > revision_of R h then
            m\<lparr>m_report := rep\<lparr>updated := updated rep + 1\<rparr>,
              m_events := m_events m @ [change_updated k (revision_of R h) (revision_of R incoming)],
              m_next := AList.update k incoming (m_next m)\<rparr>
          else if revision_of R incoming < revision_of R h then
            m\<lparr>m_report := rep\<lparr>stale_ignored := stale_ignored rep + 1\<rparr>,
              m_next := AList.update k h (m_next m)\<rparr>
          else if incoming = h then
            m\<lparr>m_report := rep\<lparr>unchanged := unchanged rep + 1\<rparr>,
              m_next := AList.update k h (m_next m)\<rparr>
          else
            m\<lparr>m_report := rep\<lparr>divergent_payload := divergent_payload rep + 1\<rparr>,
              m_next := AList.update k h (m_next m)\<rparr>)"

definition accept ::
  "('t, 'k, 'f) resource_kind \<Rightarrow> 't \<Rightarrow> 't option \<Rightarrow> ('t, 'k) merged_snapshot
     \<Rightarrow> ('t, 'k) merged_snapshot" where
  "accept R incoming held m =
     (let k = key_of R incoming; rep = m_report m in
      case validate_of R incoming of
        Inl error \<Rightarrow>
          (let m1 = m\<lparr>m_report := rep\<lparr>invalid_rejected := invalid_rejected rep + 1\<rparr>,
                      m_first_rejection :=
                        (case m_first_rejection m of
                           None \<Rightarrow> Some (FaultInvalid (kind_name R) k error)
                         | Some f \<Rightarrow> Some f)\<rparr>
           in case held of
                Some h \<Rightarrow>
                  if k \<notin> set (m_decided m1) then m1\<lparr>m_next := AList.update k h (m_next m1)\<rparr> else m1
              | None \<Rightarrow> m1)
      | Inr _ \<Rightarrow>
          if k \<in> set (m_decided m)
          then m\<lparr>m_report := rep\<lparr>duplicate_rejected := duplicate_rejected rep + 1\<rparr>\<rparr>
          else against_held R incoming held (m\<lparr>m_decided := k # m_decided m\<rparr>))"

fun collect_removals ::
  "('t, 'k, 'f) resource_kind \<Rightarrow> ('k \<times> 't) list \<Rightarrow> ('t, 'k) merged_snapshot
     \<Rightarrow> ('t, 'k) merged_snapshot" where
  "collect_removals R [] m = m"
| "collect_removals R ((k, h) # es) m =
     collect_removals R es
       (if map_of (m_next m) k = None
        then m\<lparr>m_report := (m_report m)\<lparr>removed := removed (m_report m) + 1\<rparr>,
               m_events := m_events m @ [change_removed k (revision_of R h)]\<rparr>
        else m)"

definition merge_start :: "('t, 'k, 'f) snapshot option \<Rightarrow> 't list \<Rightarrow> ('t, 'k) merged_snapshot" where
  "merge_start current incoming =
     \<lparr> m_next = [], m_events = [], m_report = ApplyReport_default, m_decided = [],
       m_first_rejection = None, m_published = length incoming, m_first_load = (current = None) \<rparr>"

definition held_in :: "('t, 'k, 'f) snapshot option \<Rightarrow> 'k \<Rightarrow> 't option" where
  "held_in current k = Option.bind current (\<lambda>s. snapshot_get s k)"

definition merge ::
  "('t, 'k, 'f) resource_kind \<Rightarrow> ('t, 'k, 'f) snapshot option \<Rightarrow> 't list
     \<Rightarrow> ('t, 'k) merged_snapshot" where
  "merge R current incoming =
     (let merged = fold (\<lambda>t m. accept R t (held_in current (key_of R t)) m) incoming
                     (merge_start current incoming)
      in case current of
           Some s \<Rightarrow> collect_removals R (entries s) merged
         | None \<Rightarrow> merged)"

record 'k unusable_first_load =
  unusable_published :: nat
  unusable_reason :: "'k resource_fault"

definition refusal ::
  "('t, 'k, 'f) resource_kind \<Rightarrow> ('t, 'k) merged_snapshot \<Rightarrow> 'k unusable_first_load option" where
  "refusal R m =
     (if \<not> m_first_load m \<or> m_published m = 0 \<or> m_next m \<noteq> [] then None
      else Some \<lparr> unusable_published = m_published m,
                  unusable_reason = (case m_first_rejection m of
                                       Some f \<Rightarrow> f
                                     | None \<Rightarrow> FaultNothingSurvived (kind_name R)) \<rparr>)"

section \<open>The registry's operations\<close>

record ('t, 'k, 'f) registry =
  reg_snapshot :: "('t, 'k, 'f) snapshot option"
  reg_sent :: "'k resource_change list"

definition registry_new :: "('t, 'k, 'f) registry" where
  "registry_new = \<lparr> reg_snapshot = None, reg_sent = [] \<rparr>"

datatype lookup_error = Unavailable | NotFound

definition registry_lookup :: "('t, 'k, 'f) registry \<Rightarrow> 'k \<Rightarrow> lookup_error + 't" where
  "registry_lookup reg k =
     (case reg_snapshot reg of
        None \<Rightarrow> Inl Unavailable
      | Some s \<Rightarrow> ok_or NotFound (snapshot_get s k))"

definition is_primed :: "('t, 'k, 'f) registry \<Rightarrow> bool" where
  "is_primed reg = (reg_snapshot reg \<noteq> None)"

definition registry_len :: "('t, 'k, 'f) registry \<Rightarrow> nat" where
  "registry_len reg = (case reg_snapshot reg of None \<Rightarrow> 0 | Some s \<Rightarrow> length (entries s))"

definition publish_events ::
  "'k resource_change list \<Rightarrow> ('t, 'k, 'f) registry \<Rightarrow> ('t, 'k, 'f) registry" where
  "publish_events evs reg = reg\<lparr>reg_sent := reg_sent reg @ evs\<rparr>"

definition registry_install ::
  "('t, 'k, 'f) resource_kind \<Rightarrow> ('t, 'k) merged_snapshot \<Rightarrow> ('t, 'k, 'f) registry
     \<Rightarrow> apply_report \<times> ('t, 'k, 'f) registry" where
  "registry_install R m reg =
     (m_report m,
      publish_events (m_events m)
        (reg\<lparr>reg_snapshot := Some (ResourceSnapshot_new R (m_next m))\<rparr>))"

definition apply_all ::
  "('t, 'k, 'f) resource_kind \<Rightarrow> 't list \<Rightarrow> ('t, 'k, 'f) registry
     \<Rightarrow> ('k unusable_first_load + apply_report) \<times> ('t, 'k, 'f) registry" where
  "apply_all R incoming reg =
     (let merged = merge R (reg_snapshot reg) incoming in
      case refusal R merged of
        Some u \<Rightarrow> (Inl u, reg)
      | None \<Rightarrow> (let (report, reg') = registry_install R merged reg in (Inr report, reg')))"

definition apply_one ::
  "('t, 'k, 'f) resource_kind \<Rightarrow> 't \<Rightarrow> ('t, 'k, 'f) registry \<Rightarrow> bool \<times> ('t, 'k, 'f) registry" where
  "apply_one R t reg =
     (case validate_of R t of
        Inl error \<Rightarrow> (False, reg)
      | Inr _ \<Rightarrow>
          (let es = (case reg_snapshot reg of None \<Rightarrow> [] | Some s \<Rightarrow> entries s);
               k = key_of R t;
               store = (\<lambda>event. publish_events [event]
                         (reg\<lparr>reg_snapshot := Some (ResourceSnapshot_new R (AList.update k t es))\<rparr>))
           in case map_of es k of
                Some h \<Rightarrow>
                  if revision_of R t < revision_of R h then (False, reg)
                  else if revision_of R t = revision_of R h then (False, reg)
                  else (True, store (change_updated k (revision_of R h) (revision_of R t)))
              | None \<Rightarrow> (True, store (change_added k (revision_of R t)))))"

definition invalidate ::
  "('t, 'k, 'f) resource_kind \<Rightarrow> 'k \<Rightarrow> ('t, 'k, 'f) registry \<Rightarrow> bool \<times> ('t, 'k, 'f) registry" where
  "invalidate R k reg =
     (case reg_snapshot reg of
        None \<Rightarrow> (False, reg)
      | Some s \<Rightarrow>
          (case snapshot_get s k of
             None \<Rightarrow> (False, reg)
           | Some h \<Rightarrow>
               (True, publish_events [change_removed k (revision_of R h)]
                  (reg\<lparr>reg_snapshot :=
                     Some (ResourceSnapshot_new R (AList.delete k (entries s)))\<rparr>))))"

fun refuses_from ::
  "('t, 'k, 'f) resource_kind \<Rightarrow> ('t, 'k, 'f) snapshot option \<Rightarrow> 'k list \<Rightarrow> 't list
     \<Rightarrow> 'k resource_fault option" where
  "refuses_from R current seen [] = None"
| "refuses_from R current seen (t # ts) =
     (let k = key_of R t in
      case validate_of R t of
        Inl error \<Rightarrow> Some (FaultInvalid (kind_name R) k error)
      | Inr _ \<Rightarrow>
          if k \<in> set seen then Some (FaultAppearsTwice (kind_name R) k)
          else case held_in current k of
                 None \<Rightarrow> refuses_from R current (k # seen) ts
               | Some h \<Rightarrow>
                   if revision_of R t < revision_of R h
                   then Some (FaultBelowRevision (kind_name R) k (revision_of R t) (revision_of R h))
                   else if revision_of R t = revision_of R h \<and> t \<noteq> h
                   then Some (FaultChangedSilently (kind_name R) k (revision_of R t))
                   else refuses_from R current (k # seen) ts)"

definition refuses_whole ::
  "('t, 'k, 'f) resource_kind \<Rightarrow> ('t, 'k, 'f) registry \<Rightarrow> 't list \<Rightarrow> 'k resource_fault option" where
  "refuses_whole R reg incoming = refuses_from R (reg_snapshot reg) [] incoming"

section \<open>What a merge decides, key by key\<close>

definition valid_in :: "('t, 'k, 'f) resource_kind \<Rightarrow> 't \<Rightarrow> bool" where
  "valid_in R t = (validate_of R t = Inr ())"

definition offers_for :: "('t, 'k, 'f) resource_kind \<Rightarrow> 't list \<Rightarrow> 'k \<Rightarrow> 't list" where
  "offers_for R incoming k = filter (\<lambda>t. key_of R t = k) incoming"

definition newer_of :: "('t, 'k, 'f) resource_kind \<Rightarrow> 't option \<Rightarrow> 't \<Rightarrow> 't" where
  "newer_of R held t =
     (case held of None \<Rightarrow> t | Some h \<Rightarrow> if revision_of R h < revision_of R t then t else h)"

text \<open>
  The contract of a merge: the first valid offer of a key decides it against what is held, an
  invalid offer keeps what is held, and a key nobody offers goes.
\<close>

definition merge_key ::
  "('t, 'k, 'f) resource_kind \<Rightarrow> 't option \<Rightarrow> 't list \<Rightarrow> 't option" where
  "merge_key R held offers =
     (case List.find (valid_in R) offers of
        Some t \<Rightarrow> Some (newer_of R held t)
      | None \<Rightarrow> if offers = [] then None else held)"

lemma validate_cases [case_names Valid Invalid]:
  assumes "valid_in R t \<Longrightarrow> validate_of R t = Inr () \<Longrightarrow> P"
    and "\<And>e. \<not> valid_in R t \<Longrightarrow> validate_of R t = Inl e \<Longrightarrow> P"
  shows P
  using assms by (cases "validate_of R t") (auto simp: valid_in_def)

named_theorems merge_simps \<open>how one step of a merge changes the merged snapshot\<close>

lemma against_held_next [merge_simps]:
  "map_of (m_next (against_held R t held m)) =
     (map_of (m_next m))(key_of R t \<mapsto> newer_of R held t)"
  by (auto simp: against_held_def newer_of_def Let_def fun_eq_iff split: option.split)

lemma against_held_decided [merge_simps]:
  "m_decided (against_held R t held m) = m_decided m"
  "m_first_load (against_held R t held m) = m_first_load m"
  "m_published (against_held R t held m) = m_published m"
  "m_first_rejection (against_held R t held m) = m_first_rejection m"
  by (auto simp: against_held_def Let_def split: option.split)

lemma accept_decided [merge_simps]:
  "set (m_decided (accept R t held m)) =
     (if valid_in R t then insert (key_of R t) (set (m_decided m)) else set (m_decided m))"
  by (cases R t rule: validate_cases)
     (auto simp: accept_def merge_simps Let_def split: option.split)

lemma accept_next [merge_simps]:
  "map_of (m_next (accept R t held m)) =
     (if key_of R t \<in> set (m_decided m) then map_of (m_next m)
      else if valid_in R t then (map_of (m_next m))(key_of R t \<mapsto> newer_of R held t)
      else (case held of None \<Rightarrow> map_of (m_next m)
                       | Some h \<Rightarrow> (map_of (m_next m))(key_of R t \<mapsto> h)))"
  by (cases R t rule: validate_cases)
     (auto simp: accept_def merge_simps Let_def split: option.split)

definition accept_all ::
  "('t, 'k, 'f) resource_kind \<Rightarrow> ('t, 'k, 'f) snapshot option \<Rightarrow> 't list
     \<Rightarrow> ('t, 'k) merged_snapshot \<Rightarrow> ('t, 'k) merged_snapshot" where
  "accept_all R current incoming =
     fold (\<lambda>t m. accept R t (held_in current (key_of R t)) m) incoming"

lemma accept_all_simps [simp]:
  "accept_all R current [] m = m"
  "accept_all R current (t # ts) m =
     accept_all R current ts (accept R t (held_in current (key_of R t)) m)"
  by (simp_all add: accept_all_def)

lemma accept_all_decided:
  "k \<in> set (m_decided m) \<Longrightarrow>
   map_of (m_next (accept_all R current ts m)) k = map_of (m_next m) k
   \<and> k \<in> set (m_decided (accept_all R current ts m))"
proof (induction ts arbitrary: m)
  case Nil
  then show ?case by simp
next
  case (Cons t ts)
  from Cons.IH[of "accept R t (held_in current (key_of R t)) m"] Cons.prems
  show ?case by (auto simp: merge_simps split: option.split)
qed

lemma accept_all_next:
  assumes "k \<notin> set (m_decided m)" "map_of (m_next m) k \<in> {None, held_in current k}"
  shows "map_of (m_next (accept_all R current ts m)) k =
           (if offers_for R ts k = [] then map_of (m_next m) k
            else merge_key R (held_in current k) (offers_for R ts k))"
  using assms
proof (induction ts arbitrary: m)
  case Nil
  then show ?case by (simp add: offers_for_def)
next
  case (Cons t ts)
  let ?m = "accept R t (held_in current (key_of R t)) m"
  show ?case
  proof (cases "key_of R t = k \<and> valid_in R t")
    case True
    then have "k \<in> set (m_decided ?m)" by (simp add: merge_simps)
    from accept_all_decided[OF this, of R current ts] True Cons.prems show ?thesis
      by (simp add: offers_for_def merge_key_def merge_simps)
  next
    case False
    then have "k \<notin> set (m_decided ?m)" using Cons.prems(1) by (auto simp: merge_simps)
    moreover have "map_of (m_next ?m) k \<in> {None, held_in current k}"
      using Cons.prems False by (auto simp: merge_simps split: option.split)
    ultimately show ?thesis
      using Cons.IH[of ?m] False Cons.prems
      by (auto simp: offers_for_def merge_key_def merge_simps split: option.split)
  qed
qed

lemma collect_removals_next [merge_simps]:
  "m_next (collect_removals R es m) = m_next m"
  "m_first_load (collect_removals R es m) = m_first_load m"
  "m_published (collect_removals R es m) = m_published m"
  "m_first_rejection (collect_removals R es m) = m_first_rejection m"
  by (induction R es m rule: collect_removals.induct) auto

lemma merge_start_simps [simp]:
  "m_next (merge_start c i) = []" "m_decided (merge_start c i) = []"
  "m_events (merge_start c i) = []" "m_report (merge_start c i) = ApplyReport_default"
  "m_first_rejection (merge_start c i) = None" "m_published (merge_start c i) = length i"
  "m_first_load (merge_start c i) = (c = None)"
  by (simp_all add: merge_start_def)

lemma merge_eq:
  "merge R current incoming =
     (case current of
        Some s \<Rightarrow> collect_removals R (entries s) (accept_all R current incoming (merge_start current incoming))
      | None \<Rightarrow> accept_all R current incoming (merge_start current incoming))"
  by (cases current) (simp_all add: merge_def accept_all_def Let_def)

lemma merge_next_accept_all:
  "m_next (merge R current incoming) =
     m_next (accept_all R current incoming (merge_start current incoming))"
  by (simp add: merge_eq merge_simps split: option.split)

lemma merge_next:
  "map_of (m_next (merge R current incoming)) k =
     merge_key R (held_in current k) (offers_for R incoming k)"
  by (simp add: merge_next_accept_all accept_all_next) (simp add: merge_key_def)

section \<open>What a merge reports\<close>

definition change_of ::
  "('t, 'k, 'f) resource_kind \<Rightarrow> 'k \<Rightarrow> 't option \<Rightarrow> 't option \<Rightarrow> 'k resource_change list" where
  "change_of R k before after =
     (case (before, after) of
        (None, Some t) \<Rightarrow> [change_added k (revision_of R t)]
      | (Some h, Some t) \<Rightarrow>
          if revision_of R h < revision_of R t
          then [change_updated k (revision_of R h) (revision_of R t)] else []
      | (Some h, None) \<Rightarrow> [change_removed k (revision_of R h)]
      | (None, None) \<Rightarrow> [])"

definition changes_to :: "'k \<Rightarrow> 'k resource_change list \<Rightarrow> 'k resource_change list" where
  "changes_to k evs = filter (\<lambda>c. change_key c = k) evs"

lemma changes_to_simps [simp]:
  "changes_to k [] = []"
  "changes_to k (evs @ evs') = changes_to k evs @ changes_to k evs'"
  "changes_to k [change_added j r] = (if j = k then [change_added j r] else [])"
  "changes_to k [change_updated j p r] = (if j = k then [change_updated j p r] else [])"
  "changes_to k [change_removed j p] = (if j = k then [change_removed j p] else [])"
  by (simp_all add: changes_to_def change_added_def change_updated_def change_removed_def)

lemma against_held_events [merge_simps]:
  "changes_to k (m_events (against_held R t held m)) =
     changes_to k (m_events m) @
       (if key_of R t = k then change_of R k held (Some (newer_of R held t)) else [])"
  by (auto simp: against_held_def newer_of_def change_of_def Let_def split: option.split)

lemma accept_events [merge_simps]:
  "changes_to k (m_events (accept R t held m)) =
     changes_to k (m_events m) @
       (if key_of R t = k \<and> valid_in R t \<and> k \<notin> set (m_decided m)
        then change_of R k held (Some (newer_of R held t)) else [])"
  by (cases R t rule: validate_cases)
     (auto simp: accept_def merge_simps Let_def split: option.split)

lemma accept_all_events_decided:
  "k \<in> set (m_decided m) \<Longrightarrow>
   changes_to k (m_events (accept_all R current ts m)) = changes_to k (m_events m)"
  by (induction ts arbitrary: m) (simp_all add: merge_simps)

lemma accept_all_events:
  "k \<notin> set (m_decided m) \<Longrightarrow>
   changes_to k (m_events (accept_all R current ts m)) =
     changes_to k (m_events m) @
       (case List.find (valid_in R) (offers_for R ts k) of
          Some t \<Rightarrow> change_of R k (held_in current k) (Some (newer_of R (held_in current k) t))
        | None \<Rightarrow> [])"
proof (induction ts arbitrary: m)
  case Nil
  then show ?case by (simp add: offers_for_def)
next
  case (Cons t ts)
  let ?m = "accept R t (held_in current (key_of R t)) m"
  show ?case
  proof (cases "key_of R t = k \<and> valid_in R t")
    case True
    then have "k \<in> set (m_decided ?m)" by (simp add: merge_simps)
    from accept_all_events_decided[OF this, of R current ts] True Cons.prems show ?thesis
      by (simp add: offers_for_def merge_simps)
  next
    case False
    then have "k \<notin> set (m_decided ?m)" using Cons.prems by (auto simp: merge_simps)
    from Cons.IH[OF this] False show ?thesis
      by (auto simp: offers_for_def merge_simps)
  qed
qed

lemma collect_removals_events:
  "distinct (map fst es) \<Longrightarrow>
   changes_to k (m_events (collect_removals R es m)) =
     changes_to k (m_events m) @
       (case map_of es k of
          Some h \<Rightarrow> if map_of (m_next m) k = None then [change_removed k (revision_of R h)] else []
        | None \<Rightarrow> [])"
proof (induction R es m rule: collect_removals.induct)
  case (1 R m)
  then show ?case by simp
next
  case (2 R j h es m)
  from "2.prems" have "map_of es j = None" by (simp add: map_of_eq_None_iff)
  with 2 show ?case by (simp split: option.split)
qed

definition snapshot_wf :: "('t, 'k, 'f) resource_kind \<Rightarrow> ('t, 'k, 'f) snapshot \<Rightarrow> bool" where
  "snapshot_wf R s =
     (distinct (map fst (entries s))
      \<and> (\<forall>(k, t) \<in> set (entries s). key_of R t = k \<and> valid_in R t)
      \<and> facts s = derive_set_facts R (entries s))"

definition registry_wf :: "('t, 'k, 'f) resource_kind \<Rightarrow> ('t, 'k, 'f) registry \<Rightarrow> bool" where
  "registry_wf R reg = (case reg_snapshot reg of None \<Rightarrow> True | Some s \<Rightarrow> snapshot_wf R s)"

definition reg_get :: "('t, 'k, 'f) registry \<Rightarrow> 'k \<Rightarrow> 't option" where
  "reg_get reg k = held_in (reg_snapshot reg) k"

lemma find_offers_None: "List.find (valid_in R) [] = None"
  by simp

lemma merge_events:
  assumes "case current of None \<Rightarrow> True | Some s \<Rightarrow> distinct (map fst (entries s))"
  shows "changes_to k (m_events (merge R current incoming)) =
           change_of R k (held_in current k) (map_of (m_next (merge R current incoming)) k)"
proof -
  have next_k: "map_of (m_next (accept_all R current incoming (merge_start current incoming))) k
                  = merge_key R (held_in current k) (offers_for R incoming k)"
    using merge_next[of R current incoming k] by (simp add: merge_next_accept_all)
  show ?thesis
  proof (cases current)
    case None
    then show ?thesis
      using next_k
      by (auto simp: merge_eq accept_all_events merge_key_def held_in_def change_of_def newer_of_def
          split: option.split)
  next
    case (Some s)
    with assms have d: "distinct (map fst (entries s))" by simp
    show ?thesis
    proof (cases "offers_for R incoming k = []")
      case True
      then show ?thesis
        using Some d next_k
        by (simp add: merge_eq collect_removals_events merge_simps accept_all_events merge_key_def
            held_in_def snapshot_get_def change_of_def split: option.split)
    next
      case False
      then show ?thesis
        using Some d next_k
        by (auto simp: merge_eq collect_removals_events merge_simps accept_all_events merge_key_def
            held_in_def snapshot_get_def change_of_def simp del: map_of_eq_Some_iff
            split: option.split)
    qed
  qed
qed

text \<open>Each counter counts what its name says.\<close>

definition counted :: "change_kind \<Rightarrow> 'k resource_change list \<Rightarrow> nat" where
  "counted c evs = length (filter (\<lambda>e. change_kind_of e = c) evs)"

lemma counted_simps [simp]:
  "counted c [] = 0"
  "counted c (evs @ evs') = counted c evs + counted c evs'"
  "counted c [change_added k r] = (if c = Added then 1 else 0)"
  "counted c [change_updated k p r] = (if c = Updated then 1 else 0)"
  "counted c [change_removed k p] = (if c = Removed then 1 else 0)"
  by (simp_all add: counted_def change_added_def change_updated_def change_removed_def)

definition report_counts :: "('t, 'k) merged_snapshot \<Rightarrow> bool" where
  "report_counts m =
     (added (m_report m) = counted Added (m_events m)
      \<and> updated (m_report m) = counted Updated (m_events m)
      \<and> removed (m_report m) = counted Removed (m_events m))"

definition decided_in :: "apply_report \<Rightarrow> nat" where
  "decided_in r =
     added r + updated r + stale_ignored r + unchanged r + invalid_rejected r
       + divergent_payload r + duplicate_rejected r"

lemma against_held_counts:
  "report_counts m \<Longrightarrow> report_counts (against_held R t held m)"
  "decided_in (m_report (against_held R t held m)) = Suc (decided_in (m_report m))"
  by (auto simp: against_held_def report_counts_def decided_in_def Let_def split: option.split)

lemma report_counts_keep [simp]:
  "report_counts (m\<lparr>m_decided := ks\<rparr>) = report_counts m"
  "report_counts (m\<lparr>m_next := es\<rparr>) = report_counts m"
  "report_counts (m\<lparr>m_first_rejection := f\<rparr>) = report_counts m"
  "report_counts (m\<lparr>m_report := (m_report m)\<lparr>invalid_rejected := n\<rparr>\<rparr>) = report_counts m"
  "report_counts (m\<lparr>m_report := (m_report m)\<lparr>duplicate_rejected := n\<rparr>\<rparr>) = report_counts m"
  by (simp_all add: report_counts_def)

lemma accept_counts:
  "report_counts m \<Longrightarrow> report_counts (accept R t held m)"
  "decided_in (m_report (accept R t held m)) = Suc (decided_in (m_report m))"
proof -
  assume m: "report_counts m"
  then have "report_counts (against_held R t held (m\<lparr>m_decided := key_of R t # m_decided m\<rparr>))"
    by (intro against_held_counts) simp
  moreover have "report_counts (m\<lparr>m_report := (m_report m)\<lparr>invalid_rejected := n\<rparr>,
      m_first_rejection := f\<rparr>)" for n f
    using m by (simp add: report_counts_def)
  moreover have "report_counts (m\<lparr>m_report := (m_report m)\<lparr>invalid_rejected := n\<rparr>,
      m_first_rejection := f, m_next := es\<rparr>)" for n f es
    using m by (simp add: report_counts_def)
  ultimately show "report_counts (accept R t held m)"
    using m by (auto simp: accept_def Let_def split: option.split sum.split)
next
  show "decided_in (m_report (accept R t held m)) = Suc (decided_in (m_report m))"
    by (cases R t rule: validate_cases)
       (auto simp: accept_def Let_def against_held_counts decided_in_def
         [of "m_report m\<lparr>invalid_rejected := n\<rparr>" for n]
         decided_in_def[of "m_report m\<lparr>duplicate_rejected := n\<rparr>" for n] decided_in_def[of "m_report m"]
         split: option.split)
qed

lemma accept_all_counts:
  "report_counts m \<Longrightarrow> report_counts (accept_all R current ts m)"
  "decided_in (m_report (accept_all R current ts m)) = length ts + decided_in (m_report m)"
  by (induction ts arbitrary: m) (simp_all add: accept_counts)

lemma collect_removals_counts:
  "report_counts m \<Longrightarrow> report_counts (collect_removals R es m)"
  "decided_in (m_report (collect_removals R es m)) = decided_in (m_report m)"
proof -
  show "report_counts m \<Longrightarrow> report_counts (collect_removals R es m)"
    by (induction R es m rule: collect_removals.induct) (simp_all add: report_counts_def)
  show "decided_in (m_report (collect_removals R es m)) = decided_in (m_report m)"
    by (induction R es m rule: collect_removals.induct) (simp_all add: decided_in_def)
qed

lemma merge_counts:
  "report_counts (merge R current incoming)"
  "decided_in (m_report (merge R current incoming)) = length incoming"
proof -
  have "report_counts (merge_start current incoming)"
    by (simp add: report_counts_def ApplyReport_default_def)
  then show "report_counts (merge R current incoming)"
    by (auto simp: merge_eq intro: collect_removals_counts accept_all_counts split: option.split)
  have "decided_in (m_report (merge_start current incoming)) = 0"
    by (simp add: decided_in_def ApplyReport_default_def)
  then show "decided_in (m_report (merge R current incoming)) = length incoming"
    by (simp add: merge_eq collect_removals_counts accept_all_counts split: option.split)
qed

lemma counted_all: "evs = [] \<longleftrightarrow> (\<forall>c. counted c evs = 0)"
proof
  show "\<forall>c. counted c evs = 0 \<Longrightarrow> evs = []"
    by (cases evs) (auto simp: counted_def split: if_splits)
qed simp

lemma noop_iff_no_events: "report_counts m \<Longrightarrow> is_noop (m_report m) \<longleftrightarrow> m_events m = []"
proof -
  assume "report_counts m"
  moreover have "(\<forall>c. counted c (m_events m) = 0) \<longleftrightarrow>
      counted Added (m_events m) = 0 \<and> counted Updated (m_events m) = 0
        \<and> counted Removed (m_events m) = 0"
    by (metis change_kind.exhaust)
  ultimately show ?thesis
    unfolding counted_all by (simp add: is_noop_def report_counts_def)
qed

lemma changes_to_empty: "evs = [] \<longleftrightarrow> (\<forall>k. changes_to k evs = [])"
proof
  show "\<forall>k. changes_to k evs = [] \<Longrightarrow> evs = []"
    by (cases evs) (auto simp: changes_to_def split: if_splits)
qed simp

lemma change_of_empty:
  "change_of R k before after = [] \<longleftrightarrow>
     (before = None \<longleftrightarrow> after = None)
     \<and> (\<forall>h t. before = Some h \<longrightarrow> after = Some t \<longrightarrow> \<not> revision_of R h < revision_of R t)"
  by (auto simp: change_of_def split: option.split)

lemma merge_key_cases:
  "merge_key R held offers = None \<or> merge_key R held offers = held
   \<or> (\<exists>t. t \<in> set offers \<and> valid_in R t \<and> merge_key R held offers = Some t
        \<and> (\<forall>h. held = Some h \<longrightarrow> revision_of R h < revision_of R t))"
  by (auto simp: merge_key_def newer_of_def find_None_conv dest: find_SomeD
      split: option.split)

section \<open>What the operations keep and promise\<close>

lemma accept_all_distinct:
  "distinct (map fst (m_next m)) \<Longrightarrow> distinct (map fst (m_next (accept_all R current ts m)))"
proof (induction ts arbitrary: m)
  case Nil
  then show ?case by simp
next
  case (Cons t ts)
  have "distinct (map fst (m_next (accept R t held m)))" for held
    using Cons.prems
    by (auto simp: accept_def against_held_def Let_def distinct_update split: option.split sum.split)
  with Cons.IH show ?case by simp
qed

lemma merge_distinct: "distinct (map fst (m_next (merge R current incoming)))"
  by (simp add: merge_next_accept_all accept_all_distinct)

lemma offers_for_key: "t \<in> set (offers_for R incoming k) \<Longrightarrow> key_of R t = k"
  by (simp add: offers_for_def)

lemma snapshot_wf_get:
  "snapshot_wf R s \<Longrightarrow> map_of (entries s) k = Some t \<Longrightarrow> key_of R t = k \<and> valid_in R t"
  by (auto simp: snapshot_wf_def dest: map_of_SomeD)

lemma snapshot_wf_new:
  assumes "distinct (map fst es)"
    and "\<And>k t. map_of es k = Some t \<Longrightarrow> key_of R t = k \<and> valid_in R t"
  shows "snapshot_wf R (ResourceSnapshot_new R es)"
  using assms by (auto simp: snapshot_wf_def ResourceSnapshot_new_def intro: map_of_is_SomeI)

lemma reg_get_wf:
  "registry_wf R reg \<Longrightarrow> reg_get reg k = Some t \<Longrightarrow> key_of R t = k \<and> valid_in R t"
proof (cases "reg_snapshot reg")
  case (Some s)
  moreover assume "registry_wf R reg" "reg_get reg k = Some t"
  ultimately show ?thesis
    by (intro snapshot_wf_get[of R s])
       (simp_all add: reg_get_def held_in_def snapshot_get_def registry_wf_def)
qed (simp add: reg_get_def held_in_def)

lemma registry_lookup_get:
  "registry_lookup reg k =
     (if is_primed reg then ok_or NotFound (reg_get reg k) else Inl Unavailable)"
  by (simp add: registry_lookup_def is_primed_def reg_get_def held_in_def split: option.split)

lemma merge_snapshot_wf:
  assumes "registry_wf R reg"
  shows "snapshot_wf R (ResourceSnapshot_new R (m_next (merge R (reg_snapshot reg) incoming)))"
proof (rule snapshot_wf_new)
  fix k t
  assume "map_of (m_next (merge R (reg_snapshot reg) incoming)) k = Some t"
  then have "merge_key R (reg_get reg k) (offers_for R incoming k) = Some t"
    by (simp add: merge_next reg_get_def)
  with merge_key_cases[of R "reg_get reg k" "offers_for R incoming k"]
    reg_get_wf[OF assms] show "key_of R t = k \<and> valid_in R t"
    by (auto dest: offers_for_key)
qed (rule merge_distinct)

lemma apply_all_Inr:
  "apply_all R incoming reg = (Inr report, reg') \<longleftrightarrow>
     refusal R (merge R (reg_snapshot reg) incoming) = None
     \<and> report = m_report (merge R (reg_snapshot reg) incoming)
     \<and> reg' = publish_events (m_events (merge R (reg_snapshot reg) incoming))
          (reg\<lparr>reg_snapshot := Some (ResourceSnapshot_new R (m_next (merge R (reg_snapshot reg) incoming)))\<rparr>)"
  by (auto simp: apply_all_def registry_install_def Let_def split: option.splits)

lemma apply_all_Inl:
  "apply_all R incoming reg = (Inl u, reg') \<longleftrightarrow>
     refusal R (merge R (reg_snapshot reg) incoming) = Some u \<and> reg' = reg"
  by (auto simp: apply_all_def registry_install_def Let_def split: option.splits)

lemma reg_get_installed [simp]:
  "reg_get (publish_events evs (reg\<lparr>reg_snapshot := Some (ResourceSnapshot_new R es)\<rparr>)) k =
     map_of es k"
  "reg_snapshot (publish_events evs reg) = reg_snapshot reg"
  "reg_sent (publish_events evs reg) = reg_sent reg @ evs"
  by (simp_all add: reg_get_def held_in_def snapshot_get_def publish_events_def
      ResourceSnapshot_new_def)

lemma apply_all_get:
  "apply_all R incoming reg = (Inr report, reg') \<Longrightarrow>
   reg_get reg' k = merge_key R (reg_get reg k) (offers_for R incoming k)"
  by (auto simp: apply_all_Inr merge_next reg_get_def[of reg])

text \<open>
  C13: Applying a published set decides every key by the contract of a merge. After a set is
  taken the registry is primed, and what it holds for a key is the first valid offer of that key
  if its revision is above what was held, what was held otherwise; a key whose every offer is
  invalid keeps what was held; a key the set does not name is gone.
\<close>

theorem apply_all_decides_each_key:
  assumes "apply_all R incoming reg = (Inr report, reg')"
  shows "is_primed reg' \<and>
         (\<forall>k. registry_lookup reg' k =
                ok_or NotFound (merge_key R (reg_get reg k) (offers_for R incoming k)))"
proof -
  from assms have "is_primed reg'" by (auto simp: apply_all_Inr is_primed_def)
  then show ?thesis by (simp add: registry_lookup_get apply_all_get[OF assms])
qed

text \<open>
  A published set is announced exactly. For every key the changes sent are the difference
  between what was held and what is held now, the three change counters count those changes, the
  counters of a published set account for every resource in it once, and a report that calls
  itself a no-op is one after which nothing was sent.
\<close>

theorem apply_all_announces_the_difference:
  assumes "registry_wf R reg" and "apply_all R incoming reg = (Inr report, reg')"
  shows "\<exists>evs. reg_sent reg' = reg_sent reg @ evs
           \<and> (\<forall>k. changes_to k evs = change_of R k (reg_get reg k) (reg_get reg' k))
           \<and> added report = counted Added evs
           \<and> updated report = counted Updated evs
           \<and> removed report = counted Removed evs
           \<and> (is_noop report \<longleftrightarrow> evs = [])
           \<and> decided_in report = length incoming"
proof -
  let ?m = "merge R (reg_snapshot reg) incoming"
  from assms(2) have report: "report = m_report ?m" and sent: "reg_sent reg' = reg_sent reg @ m_events ?m"
    by (simp_all add: apply_all_Inr)
  have "changes_to k (m_events ?m) = change_of R k (reg_get reg k) (reg_get reg' k)" for k
    using assms merge_events[of "reg_snapshot reg" k R incoming]
    by (auto simp: registry_wf_def snapshot_wf_def apply_all_Inr reg_get_def[of reg]
        split: option.splits)
  then show ?thesis
    using sent report merge_counts[of R "reg_snapshot reg" incoming] noop_iff_no_events[of ?m]
    by (intro exI[of _ "m_events ?m"]) (simp add: report_counts_def)
qed

lemma accept_all_fixed:
  "m_first_load (accept_all R current ts m) = m_first_load m
   \<and> m_published (accept_all R current ts m) = m_published m"
  by (induction ts arbitrary: m)
     (auto simp: accept_def merge_simps Let_def split: option.splits sum.splits)

lemma merge_next_empty:
  "m_next (merge R None incoming) = [] \<longleftrightarrow> (\<forall>t\<in>set incoming. \<not> valid_in R t)"
proof -
  have "m_next (merge R None incoming) = [] \<longleftrightarrow> (\<forall>k. map_of (m_next (merge R None incoming)) k = None)"
    by (cases "m_next (merge R None incoming)") (auto simp: fun_eq_iff)
  also have "\<dots> \<longleftrightarrow> (\<forall>k. List.find (valid_in R) (offers_for R incoming k) = None)"
    by (auto simp: merge_next held_in_def merge_key_def split: option.split)
  also have "\<dots> \<longleftrightarrow> (\<forall>t\<in>set incoming. \<not> valid_in R t)"
    by (auto simp: find_None_conv offers_for_def)
  finally show ?thesis .
qed

text \<open>
  A first load is refused exactly when it is the first, something was published and none
  of it is valid. A refused load leaves the registry as it was, so it stays unprimed and keeps
  answering that it is unavailable rather than that nothing exists.
\<close>

theorem apply_all_refuses_unusable_first_load:
  "case apply_all R incoming reg of
     (Inl u, reg') \<Rightarrow>
       \<not> is_primed reg \<and> incoming \<noteq> [] \<and> \<not> list_ex (valid_in R) incoming
       \<and> reg' = reg \<and> registry_lookup reg' k = Inl Unavailable
       \<and> unusable_published u = length incoming
   | (Inr report, reg') \<Rightarrow>
       is_primed reg' \<and> (is_primed reg \<or> incoming = [] \<or> list_ex (valid_in R) incoming)"
proof -
  let ?m = "merge R (reg_snapshot reg) incoming"
  have kept: "m_first_load ?m = (reg_snapshot reg = None)" "m_published ?m = length incoming"
    by (simp_all add: merge_eq merge_simps accept_all_fixed split: option.split)
  have empty: "reg_snapshot reg = None \<Longrightarrow> m_next ?m = [] \<longleftrightarrow> \<not> list_ex (valid_in R) incoming"
    by (simp add: merge_next_empty list_ex_iff)
  show ?thesis
  proof (cases "apply_all R incoming reg")
    case (Pair r reg')
    show ?thesis
    proof (cases r)
      case (Inl u)
      with Pair have "refusal R ?m = Some u" "reg' = reg" by (simp_all add: apply_all_Inl)
      with Pair Inl empty show ?thesis
        using kept by (auto simp: refusal_def is_primed_def registry_lookup_def split: if_splits)
    next
      case (Inr report)
      with Pair have "refusal R ?m = None" "reg_snapshot reg' \<noteq> None" by (simp_all add: apply_all_Inr)
      with Pair Inr empty show ?thesis
        using kept by (auto simp: refusal_def is_primed_def split: if_splits)
    qed
  qed
qed

section \<open>Runs of operations\<close>

datatype ('t, 'k) registry_op = ApplyAll "'t list" | ApplyOne 't | Invalidate 'k

primrec registry_step ::
  "('t, 'k, 'f) resource_kind \<Rightarrow> ('t, 'k) registry_op \<Rightarrow> ('t, 'k, 'f) registry \<Rightarrow> ('t, 'k, 'f) registry" where
  "registry_step R (ApplyAll ts) reg = snd (apply_all R ts reg)"
| "registry_step R (ApplyOne t) reg = snd (apply_one R t reg)"
| "registry_step R (Invalidate k) reg = snd (invalidate R k reg)"

lemma apply_all_cases [case_names Refused Taken]:
  assumes "\<And>u. apply_all R ts reg = (Inl u, reg) \<Longrightarrow> P"
    and "\<And>report reg'. apply_all R ts reg = (Inr report, reg') \<Longrightarrow> P"
  shows P
proof (cases "apply_all R ts reg")
  case (Pair r reg')
  with assms show P by (cases r) (auto simp: apply_all_Inl)
qed

lemma apply_all_get_snd:
  "reg_get (snd (apply_all R ts reg)) k =
     (if is_ok (fst (apply_all R ts reg)) then merge_key R (reg_get reg k) (offers_for R ts k)
      else reg_get reg k)"
proof (cases R ts reg rule: apply_all_cases)
  case (Taken report reg')
  from apply_all_get[OF Taken] Taken show ?thesis by simp
qed simp

lemma reg_get_entries:
  "reg_get reg k = map_of (case reg_snapshot reg of None \<Rightarrow> [] | Some s \<Rightarrow> entries s) k"
  by (simp add: reg_get_def held_in_def snapshot_get_def split: option.split)

lemma apply_one_get:
  "reg_get (snd (apply_one R t reg)) k =
     (if valid_in R t \<and> k = key_of R t then Some (newer_of R (reg_get reg k) t)
      else reg_get reg k)"
  by (cases R t rule: validate_cases)
     (auto simp: apply_one_def newer_of_def Let_def reg_get_entries[of reg] split: option.split)

lemma invalidate_get:
  "reg_get (snd (invalidate R j reg)) k = (if k = j then None else reg_get reg k)"
proof (cases "reg_snapshot reg")
  case None
  then show ?thesis by (simp add: invalidate_def reg_get_def held_in_def)
next
  case (Some s)
  then show ?thesis
    by (auto simp: invalidate_def reg_get_entries[of reg] snapshot_get_def delete_conv'
        split: option.split)
qed

lemma apply_all_step_wf:
  assumes "registry_wf R reg"
  shows "registry_wf R (snd (apply_all R ts reg))"
proof (cases R ts reg rule: apply_all_cases)
  case (Taken report reg')
  then have "reg_snapshot reg' = Some (ResourceSnapshot_new R (m_next (merge R (reg_snapshot reg) ts)))"
    by (simp add: apply_all_Inr)
  with Taken merge_snapshot_wf[OF assms, of ts] show ?thesis by (simp add: registry_wf_def)
qed (simp add: assms)

lemma entries_wf:
  "registry_wf R reg \<Longrightarrow>
   distinct (map fst (case reg_snapshot reg of None \<Rightarrow> [] | Some s \<Rightarrow> entries s))"
  by (auto simp: registry_wf_def snapshot_wf_def split: option.split)

lemma apply_one_step_wf:
  assumes wf: "registry_wf R reg"
  shows "registry_wf R (snd (apply_one R t reg))"
proof -
  let ?es = "case reg_snapshot reg of None \<Rightarrow> [] | Some s \<Rightarrow> entries s"
  have "snapshot_wf R (ResourceSnapshot_new R (AList.update (key_of R t) t ?es))"
    if "validate_of R t = Inr ()"
    by (rule snapshot_wf_new)
       (use that entries_wf[OF wf] reg_get_wf[OF wf] in
         \<open>auto simp: distinct_update valid_in_def reg_get_entries split: if_splits\<close>)
  then show ?thesis
    using wf
    by (auto simp: apply_one_def Let_def registry_wf_def publish_events_def
        split: option.split sum.split)
qed

lemma invalidate_step_wf:
  assumes wf: "registry_wf R reg"
  shows "registry_wf R (snd (invalidate R k reg))"
proof -
  have "snapshot_wf R (ResourceSnapshot_new R (AList.delete k (entries s)))"
    if "reg_snapshot reg = Some s" for s
  proof (rule snapshot_wf_new)
    show "distinct (map fst (AList.delete k (entries s)))"
      using entries_wf[OF wf] that by (simp add: distinct_delete)
    show "key_of R t = j \<and> valid_in R t" if "map_of (AList.delete k (entries s)) j = Some t" for j t
      using that \<open>reg_snapshot reg = Some s\<close> reg_get_wf[OF wf, of j t]
      by (auto simp: delete_conv' reg_get_entries split: if_splits)
  qed
  then show ?thesis
    using wf by (auto simp: invalidate_def registry_wf_def publish_events_def split: option.split)
qed

lemma registry_step_wf: "registry_wf R reg \<Longrightarrow> registry_wf R (registry_step R op reg)"
  by (cases op) (simp_all add: apply_all_step_wf apply_one_step_wf invalidate_step_wf)

lemma registry_run_wf: "registry_wf R reg \<Longrightarrow> registry_wf R (fold (registry_step R) ops reg)"
  by (induction ops arbitrary: reg) (simp_all add: registry_step_wf)

text \<open>
  After any run of operations a registry is well formed: its keys are distinct, each
  resource is held under its own key and is valid, and the facts stored beside a snapshot are
  those derived from exactly that snapshot.
\<close>

theorem registry_run_keeps_wf:
  "registry_wf R (fold (registry_step R) ops registry_new)"
  by (rule registry_run_wf) (simp add: registry_wf_def registry_new_def)

section \<open>The interface of a revisioned store\<close>

text \<open>
  What a reader of a revisioned store relies on: a step never replaces a value by another of
  the same or a lower revision. Inside the locale this is carried over whole runs.
\<close>

locale revisioned_store =
  fixes look :: "'s \<Rightarrow> 'k \<Rightarrow> 'v option"
    and rev_of :: "'v \<Rightarrow> 'r::linorder"
    and step :: "'op \<Rightarrow> 's \<Rightarrow> 's"
  assumes step_monotone:
    "look s k = Some v \<Longrightarrow> look (step op s) k = Some v' \<Longrightarrow> v' = v \<or> rev_of v < rev_of v'"
begin

text \<open>The key stays held at every point of the run.\<close>

fun held_through :: "'k \<Rightarrow> 'op list \<Rightarrow> 's \<Rightarrow> bool" where
  "held_through k [] s = (look s k \<noteq> None)"
| "held_through k (op # ops) s = (look s k \<noteq> None \<and> held_through k ops (step op s))"

lemma run_monotone:
  "held_through k ops s \<Longrightarrow> look s k = Some v \<Longrightarrow>
   \<exists>v'. look (fold step ops s) k = Some v' \<and> (v' = v \<or> rev_of v < rev_of v')"
proof (induction ops arbitrary: s v)
  case Nil
  then show ?case by simp
next
  case (Cons op ops)
  from Cons.prems have through: "held_through k ops (step op s)" by simp
  then obtain u where u: "look (step op s) k = Some u" by (cases ops) auto
  from Cons.IH[OF through u] step_monotone[OF Cons.prems(2) u] show ?case by auto
qed

lemma held_through_iff:
  "held_through k ops s \<longleftrightarrow> (\<forall>n\<le>length ops. look (fold step (take n ops) s) k \<noteq> None)"
proof (induction ops arbitrary: s)
  case Nil
  then show ?case by simp
next
  case (Cons op ops)
  have "(\<forall>n\<le>Suc (length ops). look (fold step (take n (op # ops)) s) k \<noteq> None) \<longleftrightarrow>
      look s k \<noteq> None \<and> (\<forall>n\<le>length ops. look (fold step (take n ops) (step op s)) k \<noteq> None)"
    by (fastforce simp: take_Cons' gr0_conv_Suc dest: spec[of _ 0] spec[of _ "Suc n" for n])
  then show ?case by (simp add: Cons.IH)
qed

lemma same_revision_same_value:
  "held_through k ops s \<Longrightarrow> look s k = Some v \<Longrightarrow> look (fold step ops s) k = Some v' \<Longrightarrow>
   rev_of v' = rev_of v \<Longrightarrow> v' = v"
  using run_monotone by fastforce

end

lemma newer_of_monotone:
  "newer_of R (Some h) t = h \<or> revision_of R h < revision_of R (newer_of R (Some h) t)"
  by (simp add: newer_of_def)

interpretation reg: revisioned_store reg_get "revision_of R" "registry_step R"
  for R :: "('t, 'k, 'f) resource_kind"
proof unfold_locales
  fix s :: "('t, 'k, 'f) registry" and k v v' and op :: "('t, 'k) registry_op"
  assume held: "reg_get s k = Some v" and now: "reg_get (registry_step R op s) k = Some v'"
  show "v' = v \<or> revision_of R v < revision_of R v'"
  proof (cases op)
    case (ApplyAll ts)
    with held now merge_key_cases[of R "Some v" "offers_for R ts k"] show ?thesis
      by (auto simp: apply_all_get_snd split: if_splits)
  next
    case (ApplyOne t)
    with held now newer_of_monotone[of R v t] show ?thesis
      by (auto simp: apply_one_get split: if_splits)
  next
    case (Invalidate j)
    with held now show ?thesis by (auto simp: invalidate_get split: if_splits)
  qed
qed

text \<open>
  C14: A resource does not go back as long as its key stays held. Over any run of bulk
  applications, single applications and invalidations after every step of which the key is held,
  what is held at the end is what was held at the start or has a higher revision; in particular two
  resources of one revision are one. Once the key is removed by a bulk application or invalidated
  nothing is promised of what is taken under it next.
\<close>

theorem registry_never_goes_back:
  assumes "\<forall>n\<le>length ops. reg_get (fold (registry_step R) (take n ops) reg) k \<noteq> None"
    and "reg_get reg k = Some v"
  shows "\<exists>v'. reg_get (fold (registry_step R) ops reg) k = Some v'
           \<and> (v' = v \<or> revision_of R v < revision_of R v')"
  using reg.run_monotone reg.held_through_iff assms by metis

section \<open>Asking before taking\<close>

lemma took_accept:
  "took_every_resource (m_report (accept R t held m)) \<longleftrightarrow>
     took_every_resource (m_report m) \<and> valid_in R t \<and> key_of R t \<notin> set (m_decided m)
     \<and> (\<forall>h. held = Some h \<longrightarrow> revision_of R h < revision_of R t \<or> t = h)"
  by (cases R t rule: validate_cases)
     (auto simp: accept_def against_held_def took_every_resource_def Let_def split: option.split)

lemma took_accept_all:
  "took_every_resource (m_report (accept_all R current ts m)) \<Longrightarrow> took_every_resource (m_report m)"
proof (induction ts arbitrary: m)
  case (Cons t ts)
  from Cons.IH[of "accept R t (held_in current (key_of R t)) m"] Cons.prems show ?case
    by (simp add: took_accept)
qed simp

lemma refuses_from_Cons:
  "refuses_from R current seen (t # ts) = None \<longleftrightarrow>
     valid_in R t \<and> key_of R t \<notin> set seen
     \<and> (\<forall>h. held_in current (key_of R t) = Some h \<longrightarrow> revision_of R h < revision_of R t \<or> t = h)
     \<and> refuses_from R current (key_of R t # seen) ts = None"
  by (cases R t rule: validate_cases) (auto simp: Let_def split: option.split)

declare refuses_from.simps(2) [simp del]

lemma refuses_from_accept_all:
  "took_every_resource (m_report m) \<Longrightarrow> set seen = set (m_decided m) \<Longrightarrow>
   refuses_from R current seen ts = None \<longleftrightarrow>
     took_every_resource (m_report (accept_all R current ts m))"
proof (induction ts arbitrary: m seen)
  case Nil
  then show ?case by simp
next
  case (Cons t ts)
  let ?held = "held_in current (key_of R t)"
  let ?m = "accept R t ?held m"
  show ?case
  proof (cases "took_every_resource (m_report ?m)")
    case True
    then have t: "valid_in R t" "key_of R t \<notin> set seen"
      "\<And>h. ?held = Some h \<Longrightarrow> revision_of R h < revision_of R t \<or> t = h"
      using Cons.prems by (auto simp: took_accept)
    have "set (key_of R t # seen) = set (m_decided ?m)"
      using Cons.prems t by (simp add: merge_simps)
    from Cons.IH[OF True this] t show ?thesis
      by (auto simp: refuses_from_Cons)
  next
    case False
    then have "\<not> took_every_resource (m_report (accept_all R current (t # ts) m))"
      using took_accept_all[of R current ts ?m] by auto
    moreover have "refuses_from R current seen (t # ts) \<noteq> None"
      using False Cons.prems
      by (auto simp: took_accept refuses_from_Cons)
    ultimately show ?thesis by simp
  qed
qed

lemma took_collect_removals:
  "took_every_resource (m_report (collect_removals R es m)) = took_every_resource (m_report m)"
  by (induction R es m rule: collect_removals.induct) (auto simp: took_every_resource_def)

lemma refuses_whole_merge:
  "refuses_whole R reg ts = None \<longleftrightarrow>
     took_every_resource (m_report (merge R (reg_snapshot reg) ts))"
proof -
  have "took_every_resource (m_report (merge R (reg_snapshot reg) ts)) \<longleftrightarrow>
      took_every_resource
        (m_report (accept_all R (reg_snapshot reg) ts (merge_start (reg_snapshot reg) ts)))"
    by (simp add: merge_eq took_collect_removals split: option.split)
  moreover have "took_every_resource ApplyReport_default"
    by (simp add: took_every_resource_def ApplyReport_default_def)
  ultimately show ?thesis
    using refuses_from_accept_all[of "merge_start (reg_snapshot reg) ts" "[]" R "reg_snapshot reg" ts]
    by (simp add: refuses_whole_def)
qed

lemma took_whole_not_refused:
  assumes "took_every_resource (m_report (merge R current ts))"
  shows "refusal R (merge R current ts) = None"
proof (cases "current = None \<and> ts \<noteq> []")
  case True
  then obtain t ts' where "ts = t # ts'" by (cases ts) auto
  with True assms have "valid_in R t"
    using took_accept_all by (fastforce simp: merge_eq took_accept)
  with True \<open>ts = t # ts'\<close> have "m_next (merge R None ts) \<noteq> []" by (simp add: merge_next_empty)
  with True show ?thesis by (simp add: refusal_def)
next
  case False
  then show ?thesis
    by (auto simp: refusal_def merge_eq merge_simps accept_all_fixed split: option.split)
qed

text \<open>
  C15: The question asked before a set is taken whole gives the answer that taking it would:
  \<open>refuses_whole\<close> finds nothing exactly when applying the set to the registry succeeds with a
  report that took every resource in it.
\<close>

theorem refuses_whole_iff_taken_whole:
  "refuses_whole R reg incoming = None \<longleftrightarrow>
     (case apply_all R incoming reg of
        (Inr report, _) \<Rightarrow> took_every_resource report | (Inl _, _) \<Rightarrow> False)"
proof (cases R incoming reg rule: apply_all_cases)
  case (Refused u)
  then have "refusal R (merge R (reg_snapshot reg) incoming) \<noteq> None" by (simp add: apply_all_Inl)
  then have "\<not> took_every_resource (m_report (merge R (reg_snapshot reg) incoming))"
    using took_whole_not_refused[of R "reg_snapshot reg" incoming] by auto
  with Refused show ?thesis by (simp add: refuses_whole_merge)
next
  case (Taken report reg')
  then have "report = m_report (merge R (reg_snapshot reg) incoming)" by (simp add: apply_all_Inr)
  with Taken show ?thesis by (simp add: refuses_whole_merge)
qed

text \<open>A set taken whole is then held as published, key for key.\<close>

lemma taken_whole_holds:
  assumes whole: "refuses_whole R reg incoming = None"
  shows "distinct (map (key_of R) incoming)"
    and "\<forall>t\<in>set incoming. valid_in R t"
    and "\<forall>t\<in>set incoming. \<forall>h. reg_get reg (key_of R t) = Some h \<longrightarrow>
           revision_of R h < revision_of R t \<or> t = h"
proof -
  have "distinct (map (key_of R) ts) \<and> (\<forall>t\<in>set ts. valid_in R t \<and> key_of R t \<notin> set seen)
      \<and> (\<forall>t\<in>set ts. \<forall>h. held_in current (key_of R t) = Some h \<longrightarrow>
           revision_of R h < revision_of R t \<or> t = h)"
    if "refuses_from R current seen ts = None" for current seen ts
    using that
  proof (induction ts arbitrary: seen)
    case Nil
    then show ?case by simp
  next
    case (Cons t ts)
    then have h: "refuses_from R current (key_of R t # seen) ts = None"
      by (simp add: refuses_from_Cons)
    from Cons.IH[OF h] Cons.prems show ?case by (auto simp: refuses_from_Cons)
  qed
  from this[OF whole[unfolded refuses_whole_def]]
  show "distinct (map (key_of R) incoming)" "\<forall>t\<in>set incoming. valid_in R t"
    "\<forall>t\<in>set incoming. \<forall>h. reg_get reg (key_of R t) = Some h \<longrightarrow>
       revision_of R h < revision_of R t \<or> t = h"
    by (simp_all add: reg_get_def)
qed

lemma offers_for_Nil: "offers_for R ts k = [] \<longleftrightarrow> k \<notin> key_of R ` set ts"
  by (auto simp: offers_for_def filter_empty_conv)

lemma find_distinct_key:
  "distinct (map (key_of R) ts) \<Longrightarrow> t \<in> set ts \<Longrightarrow> key_of R t = k \<Longrightarrow> offers_for R ts k = [t]"
proof (induction ts)
  case (Cons u ts)
  have step: "offers_for R (u # ts) k =
      (if key_of R u = k then u # offers_for R ts k else offers_for R ts k)"
    by (simp add: offers_for_def)
  show ?case
  proof (cases "u = t")
    case True
    with Cons.prems have "offers_for R ts k = []" by (simp add: offers_for_Nil)
    with True Cons.prems step show ?thesis by simp
  next
    case False
    with Cons.prems have "t \<in> set ts" "key_of R u \<noteq> k" by auto
    with Cons step show ?thesis by simp
  qed
qed simp

lemma taken_whole_get:
  assumes whole: "refuses_whole R reg incoming = None"
    and taken: "apply_all R incoming reg = (Inr report, reg')"
  shows "reg_get reg' k = List.find (\<lambda>t. key_of R t = k) incoming"
proof (cases "List.find (\<lambda>t. key_of R t = k) incoming")
  case None
  then have "offers_for R incoming k = []" by (simp add: find_None_conv offers_for_def)
  with None apply_all_get[OF taken, of k] show ?thesis by (simp add: merge_key_def)
next
  case (Some t)
  then have t: "t \<in> set incoming" "key_of R t = k" by (auto dest: find_SomeD)
  note h = taken_whole_holds[OF whole]
  from h(1) t have "offers_for R incoming k = [t]" by (rule find_distinct_key)
  moreover have "valid_in R t" using h(2) t by simp
  moreover have "newer_of R (reg_get reg k) t = t"
    using h(3) t by (auto simp: newer_of_def split: option.split)
  ultimately show ?thesis using Some apply_all_get[OF taken, of k] by (simp add: merge_key_def)
qed

section \<open>Facts derived from a snapshot\<close>

text \<open>
  What a snapshot's facts promise the code that reads them: they answer a question about the
  resources held exactly, in whatever order the map they were derived from was visited. The
  client's lemma is that a registry's facts are always about what it holds now.
\<close>

locale set_facts =
  fixes kind :: "('t, 'k, 'f) resource_kind"
    and answer :: "'f \<Rightarrow> 'q \<Rightarrow> bool"
    and truth :: "('k \<Rightarrow> 't option) \<Rightarrow> 'q \<Rightarrow> bool"
  assumes facts_true:
    "distinct (map fst es) \<Longrightarrow> (\<And>k t. map_of es k = Some t \<Longrightarrow> key_of kind t = k) \<Longrightarrow>
     answer (derive_set_facts kind es) q = truth (map_of es) q"
begin

lemma order_independent:
  assumes "distinct (map fst es)" "distinct (map fst es')" "map_of es = map_of es'"
    and "\<And>k t. map_of es k = Some t \<Longrightarrow> key_of kind t = k"
  shows "answer (derive_set_facts kind es) q = answer (derive_set_facts kind es') q"
  using assms facts_true[of es q] facts_true[of es' q] by simp

lemma snapshot_answers:
  "snapshot_wf kind s \<Longrightarrow> answer (facts s) q = truth (snapshot_get s) q"
proof -
  assume wf: "snapshot_wf kind s"
  have "snapshot_get s = map_of (entries s)" by (simp add: fun_eq_iff snapshot_get_def)
  moreover have "answer (derive_set_facts kind (entries s)) q = truth (map_of (entries s)) q"
    using wf by (intro facts_true) (auto simp: snapshot_wf_def)
  ultimately show ?thesis using wf by (simp add: snapshot_wf_def)
qed

lemma registry_answers:
  "registry_wf kind reg \<Longrightarrow> reg_snapshot reg = Some s \<Longrightarrow> answer (facts s) q = truth (reg_get reg) q"
proof -
  assume wf: "registry_wf kind reg" "reg_snapshot reg = Some s"
  then have "reg_get reg = snapshot_get s" by (simp add: fun_eq_iff reg_get_def held_in_def)
  with wf snapshot_answers[of s q] show ?thesis by (simp add: registry_wf_def)
qed

lemma answers_after_run:
  assumes "registry_wf kind reg"
    and "reg_snapshot (fold (registry_step kind) ops reg) = Some s"
  shows "answer (facts s) q = truth (reg_get (fold (registry_step kind) ops reg)) q"
proof -
  have "registry_wf kind (fold (registry_step kind) ops reg)"
    using assms(1) by (rule registry_run_wf)
  then show ?thesis using assms(2) by (rule registry_answers)
qed

end

section \<open>A registry of numbered texts\<close>

definition example_kind :: "(nat \<times> u64 \<times> string, nat, nat) resource_kind" where
  "example_kind =
     \<lparr> kind_name = ''text'', key_of = fst, revision_of = (\<lambda>t. fst (snd t)),
       validate_of = (\<lambda>t. if snd (snd t) = [] then Inl (InvalidResource ''empty'') else Inr ()),
       derive_set_facts = length \<rparr>"

definition example_registry :: "(nat \<times> u64 \<times> string, nat, nat) registry" where
  "example_registry = snd (apply_all example_kind [(1, 1, ''a''), (2, 5, ''b''), (3, 1, ''c'')] registry_new)"

definition example_set :: "(nat \<times> u64 \<times> string) list" where
  "example_set = [(1, 2, ''z''), (2, 4, ''old''), (4, 1, []), (4, 1, ''d''), (4, 2, ''e'')]"

lemma example_registry_wf: "registry_wf example_kind example_registry"
  unfolding example_registry_def
  by (rule apply_all_step_wf) (simp add: registry_wf_def registry_new_def)

lemma example_applied:
  obtains report reg' where "apply_all example_kind example_set example_registry = (Inr report, reg')"
proof (cases example_kind example_set example_registry rule: apply_all_cases)
  case (Refused u)
  moreover have "is_ok (fst (apply_all example_kind example_set example_registry))" by code_simp
  ultimately show ?thesis by simp
qed (rule that)

theorem apply_all_decides_each_key_witness:
  "\<exists>report reg'. apply_all example_kind example_set example_registry = (Inr report, reg')
     \<and> registry_lookup reg' 1 = Inr (1, 2, ''z'') \<and> registry_lookup reg' 2 = Inr (2, 5, ''b'')
     \<and> registry_lookup reg' 3 = Inl NotFound \<and> registry_lookup reg' 4 = Inr (4, 1, ''d'')"
proof -
  obtain report reg' where a: "apply_all example_kind example_set example_registry = (Inr report, reg')"
    by (rule example_applied)
  have "ok_or NotFound (merge_key example_kind (reg_get example_registry 1) (offers_for example_kind example_set 1)) = Inr (1, 2, ''z'')"
    "ok_or NotFound (merge_key example_kind (reg_get example_registry 2) (offers_for example_kind example_set 2)) = Inr (2, 5, ''b'')"
    "ok_or NotFound (merge_key example_kind (reg_get example_registry 3) (offers_for example_kind example_set 3)) = Inl NotFound"
    "ok_or NotFound (merge_key example_kind (reg_get example_registry 4) (offers_for example_kind example_set 4)) = Inr (4, 1, ''d'')"
    by code_simp+
  with a apply_all_decides_each_key[OF a] show ?thesis by simp
qed

theorem apply_all_announces_the_difference_witness:
  "\<exists>report reg' evs. apply_all example_kind example_set example_registry = (Inr report, reg')
     \<and> reg_sent reg' = reg_sent example_registry @ evs
     \<and> changes_to 1 evs = [change_updated 1 1 2] \<and> decided_in report = 5"
proof -
  obtain report reg' where a: "apply_all example_kind example_set example_registry = (Inr report, reg')"
    by (rule example_applied)
  from apply_all_announces_the_difference[OF example_registry_wf a] obtain evs where
    "reg_sent reg' = reg_sent example_registry @ evs"
    "changes_to 1 evs = change_of example_kind 1 (reg_get example_registry 1) (reg_get reg' 1)"
    "decided_in report = length example_set" by blast
  moreover have "change_of example_kind 1 (reg_get example_registry 1)
      (merge_key example_kind (reg_get example_registry 1) (offers_for example_kind example_set 1))
        = [change_updated 1 1 2]"
    by code_simp
  ultimately show ?thesis using a by (simp add: apply_all_get[OF a]) (simp add: example_set_def)
qed

theorem registry_never_goes_back_witness:
  "\<exists>v'. reg_get (fold (registry_step example_kind) [ApplyAll example_set, ApplyOne (2, 9, ''n'')]
            example_registry) 2 = Some v'
     \<and> (v' = (2, 5, ''b'') \<or> 5 < revision_of example_kind v')"
proof -
  let ?ops = "[ApplyAll example_set, ApplyOne (2, 9, ''n'')]"
  have "list_all (\<lambda>n. reg_get (fold (registry_step example_kind) (take n ?ops) example_registry) 2 \<noteq> None)
      [0..<3]"
    by code_simp
  then have "\<forall>n\<le>length ?ops. reg_get (fold (registry_step example_kind) (take n ?ops) example_registry) 2 \<noteq> None"
    by (simp add: list_all_iff Ball_def less_Suc_eq_le del: fold_simps take_Suc_Cons not_None_eq)
  moreover have "reg_get example_registry 2 = Some (2, 5, ''b'')" by code_simp
  ultimately show ?thesis
    using registry_never_goes_back[of ?ops example_kind example_registry 2 "(2, 5, ''b'')"]
    by (simp add: example_kind_def)
qed

end
