(* ===== verification/Data_Source.thy ===== *)
theory Data_Source
  imports Registry
begin

text \<open>
  A published data source and the facts derived from a set of them
  (\<open>crates/fabric-tenant-runtime/src/data_source\<close>). \<open>peers\<close> answers which other data
  sources reach the same physical destination; that it answers exactly this, whatever the order
  the map is visited in, is the interpretation of \<open>set_facts\<close> at the end.
\<close>

section \<open>The resource\<close>

datatype placement_class =
  Shared | Dedicated | HighAvailability | Regulated | Development | Ephemeral

fun placement_str :: "placement_class \<Rightarrow> string" where
  "placement_str Shared = ''shared''"
| "placement_str Dedicated = ''dedicated''"
| "placement_str HighAvailability = ''high-availability''"
| "placement_str Regulated = ''regulated''"
| "placement_str Development = ''development''"
| "placement_str Ephemeral = ''ephemeral''"

record data_residency =
  region :: string
  jurisdiction :: "string option"

definition in_region :: "string \<Rightarrow> data_residency" where
  "in_region r = \<lparr> region = r, jurisdiction = None \<rparr>"

definition residency_label :: "data_residency \<Rightarrow> string" where
  "residency_label r =
     (case jurisdiction r of Some j \<Rightarrow> region r @ ''/'' @ j | None \<Rightarrow> region r)"

record pool_settings =
  max_connections :: u32
  idle_timeout_seconds :: u64
  acquire_timeout_seconds :: u64

definition PoolSettings_default :: pool_settings where
  "PoolSettings_default =
     \<lparr> max_connections = 20, idle_timeout_seconds = 300, acquire_timeout_seconds = 5 \<rparr>"

definition PoolSettings_validate :: "pool_settings \<Rightarrow> string + unit" where
  "PoolSettings_validate p =
     (if max_connections p = 0 then Inl ''max_connections must be greater than zero''
      else if acquire_timeout_seconds p = 0
      then Inl ''acquire_timeout_seconds must be greater than zero''
      else Inr ())"

record data_source_capabilities =
  writable :: bool
  accepts_new_tenants :: bool

definition DataSourceCapabilities_default :: data_source_capabilities where
  "DataSourceCapabilities_default = \<lparr> writable = False, accepts_new_tenants = False \<rparr>"

record data_source =
  ds_id :: data_source_id
  ds_revision :: binding_revision
  ds_connector :: connector_id
  ds_connection :: connection_selector
  ds_placement :: placement_class
  ds_residency :: data_residency
  ds_pool :: pool_settings
  ds_capabilities :: data_source_capabilities
  ds_labels :: "(string \<times> string) list"

definition DataSource_validate :: "data_source \<Rightarrow> configuration_error + unit" where
  "DataSource_validate d = Inr ()"

section \<open>Which data sources reach one destination\<close>

datatype destination_kind = DestDefault | DestNamed connection_name | DestSecret string

fun destination :: "connection_selector \<Rightarrow> destination_kind" where
  "destination SelDefault = DestDefault"
| "destination (SelNamed n) = DestNamed n"
| "destination (SelSecret r) = DestSecret (distinctness_key r)"

record destination_reuse =
  peers_of :: "(data_source_id \<times> data_source_id list) list"

type_synonym claim = "connector_id \<times> destination_kind"

definition claim_of :: "data_source \<Rightarrow> claim" where
  "claim_of s = (ds_connector s, destination (ds_connection s))"

definition claims_in :: "(data_source_id \<times> data_source) list \<Rightarrow> (claim \<times> data_source_id list) list" where
  "claims_in es =
     fold (\<lambda>(_, s). entry_or (claim_of s) [ds_id s] (\<lambda>ids. ids @ [ds_id s])) es []"

definition add_peers ::
  "data_source_id list \<Rightarrow> (data_source_id \<times> data_source_id list) list
     \<Rightarrow> (data_source_id \<times> data_source_id list) list" where
  "add_peers claimants =
     fold (\<lambda>i. let others = filter (\<lambda>other. other \<noteq> i) claimants
               in entry_or i others (\<lambda>held. held @ others)) claimants"

definition DestinationReuse_derive :: "(data_source_id \<times> data_source) list \<Rightarrow> destination_reuse" where
  "DestinationReuse_derive es =
     \<lparr> peers_of =
         fold add_peers (filter (\<lambda>claimants. length claimants > 1) (map snd (claims_in es))) [] \<rparr>"

definition peers :: "destination_reuse \<Rightarrow> data_source_id \<Rightarrow> data_source_id list" where
  "peers r i = (case map_of (peers_of r) i of None \<Rightarrow> [] | Some ids \<Rightarrow> ids)"

definition data_source_kind :: "(data_source, data_source_id, destination_reuse) resource_kind" where
  "data_source_kind =
     \<lparr> kind_name = ''data source'', key_of = ds_id, revision_of = ds_revision,
       validate_of = DataSource_validate, derive_set_facts = DestinationReuse_derive \<rparr>"

lemma data_source_kind_simps [simp]:
  "key_of data_source_kind = ds_id" "revision_of data_source_kind = ds_revision"
  "validate_of data_source_kind = DataSource_validate"
  "derive_set_facts data_source_kind = DestinationReuse_derive"
  "kind_name data_source_kind = ''data source''"
  by (simp_all add: data_source_kind_def)

section \<open>Laws of reuse\<close>

lemma claims_in_distinct: "distinct (map fst (claims_in es))"
proof -
  have "distinct (map fst m) \<Longrightarrow>
      distinct (map fst (fold (\<lambda>(_, s). entry_or (claim_of s) [ds_id s] (\<lambda>ids. ids @ [ds_id s])) es m))"
    for m :: "(claim \<times> data_source_id list) list"
    by (induction es arbitrary: m) auto
  then show ?thesis by (simp add: claims_in_def)
qed

definition claimants :: "(data_source_id \<times> data_source) list \<Rightarrow> claim \<Rightarrow> data_source_id list" where
  "claimants es c = map (ds_id \<circ> snd) (filter (\<lambda>(_, s). claim_of s = c) es)"

lemma claims_in_append: "claims_in (es @ [(k, s)]) =
    entry_or (claim_of s) [ds_id s] (\<lambda>ids. ids @ [ds_id s]) (claims_in es)"
  by (simp add: claims_in_def)

lemma map_of_claims_in:
  "map_of (claims_in es) c = (if claimants es c = [] then None else Some (claimants es c))"
proof (induction es rule: rev_induct)
  case Nil
  then show ?case by (simp add: claims_in_def claimants_def)
next
  case (snoc e es)
  obtain k s where e: "e = (k, s)" by (cases e)
  have step: "claimants (es @ [(k, s)]) c =
      (if claim_of s = c then claimants es c @ [ds_id s] else claimants es c)"
    by (simp add: claimants_def)
  show ?case
    unfolding e claims_in_append map_of_entry_or step using snoc.IH by auto
qed

definition listed :: "('k \<times> 'v list) list \<Rightarrow> 'k \<Rightarrow> 'v set" where
  "listed m i = set (case map_of m i of None \<Rightarrow> [] | Some v \<Rightarrow> v)"

lemma listed_Nil [simp]: "listed [] i = {}"
  by (simp add: listed_def)

lemma listed_entry_or:
  "listed (entry_or j others (\<lambda>held. held @ others) m) i =
     listed m i \<union> (if i = j then set others else {})"
  by (auto simp: listed_def map_of_entry_or split: option.split)

lemma listed_add_peers:
  "listed (add_peers g m) i = listed m i \<union> (if i \<in> set g then set g - {i} else {})"
proof -
  have "listed (fold (\<lambda>i. let others = filter (\<lambda>other. other \<noteq> i) g
               in entry_or i others (\<lambda>held. held @ others)) h m) i =
     listed m i \<union> (if i \<in> set h then set g - {i} else {})" for h
  proof (induction h arbitrary: m)
    case (Cons j h)
    show ?case
      by (simp only: fold_Cons o_apply Let_def Cons.IH[unfolded Let_def] listed_entry_or) auto
  qed simp
  then show ?thesis by (simp only: add_peers_def)
qed

lemma listed_groups:
  "listed (fold add_peers gs m) i =
     listed m i \<union> {j. j \<noteq> i \<and> (\<exists>g\<in>set gs. i \<in> set g \<and> j \<in> set g)}"
proof (induction gs arbitrary: m)
  case (Cons g gs)
  show ?case by (simp only: fold_Cons o_apply Cons.IH listed_add_peers) auto
qed simp

lemma groups_claimants:
  "g \<in> set (map snd (claims_in es)) \<longleftrightarrow> (\<exists>c. g = claimants es c \<and> g \<noteq> [])"
proof -
  have "g \<in> set (map snd (claims_in es)) \<longleftrightarrow> (\<exists>c. (c, g) \<in> set (claims_in es))" by force
  also have "\<dots> \<longleftrightarrow> (\<exists>c. map_of (claims_in es) c = Some g)"
    by (simp add: map_of_in_set[OF claims_in_distinct])
  also have "\<dots> \<longleftrightarrow> (\<exists>c. g = claimants es c \<and> g \<noteq> [])"
    by (auto simp: map_of_claims_in)
  finally show ?thesis .
qed

lemma two_members: "i \<in> set g \<Longrightarrow> j \<in> set g \<Longrightarrow> j \<noteq> i \<Longrightarrow> length g > 1"
  by (cases g; cases "tl g") auto

lemma peers_iff_claimants:
  "j \<in> set (peers (DestinationReuse_derive es) i) \<longleftrightarrow>
     j \<noteq> i \<and> (\<exists>c. i \<in> set (claimants es c) \<and> j \<in> set (claimants es c))"
proof -
  let ?gs = "filter (\<lambda>claimants. length claimants > 1) (map snd (claims_in es))"
  have "j \<in> set (peers (DestinationReuse_derive es) i) \<longleftrightarrow> j \<in> listed (fold add_peers ?gs []) i"
    by (simp add: peers_def listed_def DestinationReuse_derive_def)
  also have "\<dots> \<longleftrightarrow> j \<noteq> i \<and> (\<exists>g\<in>set ?gs. i \<in> set g \<and> j \<in> set g)"
    by (simp add: listed_groups)
  also have "\<dots> \<longleftrightarrow> j \<noteq> i \<and> (\<exists>g\<in>set (map snd (claims_in es)). i \<in> set g \<and> j \<in> set g)"
    using two_members[of i _ j] unfolding set_filter by blast
  also have "\<dots> \<longleftrightarrow> j \<noteq> i \<and> (\<exists>c. i \<in> set (claimants es c) \<and> j \<in> set (claimants es c))"
    unfolding Bex_def groups_claimants by (metis empty_iff list.set(1))
  finally show ?thesis .
qed

lemma claimants_iff:
  "i \<in> set (claimants es c) \<longleftrightarrow> (\<exists>s. s \<in> snd ` set es \<and> ds_id s = i \<and> claim_of s = c)"
  by (force simp: claimants_def)

lemma claim_of_eq:
  "claim_of s = claim_of t \<longleftrightarrow>
     ds_connector s = ds_connector t
     \<and> destination (ds_connection s) = destination (ds_connection t)"
  by (simp add: claim_of_def)

lemma peers_iff_claim:
  "j \<in> set (peers (DestinationReuse_derive es) i) \<longleftrightarrow>
     j \<noteq> i \<and> (\<exists>s t. s \<in> snd ` set es \<and> t \<in> snd ` set es \<and> ds_id s = i \<and> ds_id t = j
        \<and> claim_of s = claim_of t)"
  unfolding peers_iff_claimants claimants_iff by metis

text \<open>
  A data source's peers are exactly the other data sources of the set that name the same
  connector and reach the same physical destination, where two secret references count as one
  when the coarsest resolver in the repository could not tell them apart.
\<close>

theorem peers_are_the_same_destination:
  "j \<in> set (peers (DestinationReuse_derive es) i) \<longleftrightarrow>
     j \<noteq> i \<and> (\<exists>s t. s \<in> snd ` set es \<and> t \<in> snd ` set es \<and> ds_id s = i \<and> ds_id t = j
        \<and> ds_connector s = ds_connector t
        \<and> destination (ds_connection s) = destination (ds_connection t))"
  unfolding peers_iff_claim claim_of_eq ..

text \<open>Read off a map whose keys are the identifiers, in any order.\<close>

definition same_destination :: "data_source \<Rightarrow> data_source \<Rightarrow> bool" where
  "same_destination s t = (claim_of s = claim_of t)"

interpretation reuse: set_facts data_source_kind
  "\<lambda>r (i, j). j \<in> set (peers r i)"
  "\<lambda>look (i, j). j \<noteq> i \<and> (\<exists>s t. look i = Some s \<and> look j = Some t \<and> same_destination s t)"
proof unfold_locales
  fix es :: "(data_source_id \<times> data_source) list" and q :: "data_source_id \<times> data_source_id"
  assume distinct: "distinct (map fst es)"
    and key: "\<And>k t. map_of es k = Some t \<Longrightarrow> key_of data_source_kind t = k"
  obtain i j where q: "q = (i, j)" by (cases q)
  have held: "(\<exists>s. s \<in> snd ` set es \<and> ds_id s = i \<and> claim_of s = c)
      \<longleftrightarrow> (\<exists>s. map_of es i = Some s \<and> claim_of s = c)" for i c
  proof
    assume "\<exists>s. s \<in> snd ` set es \<and> ds_id s = i \<and> claim_of s = c"
    then obtain k s where "(k, s) \<in> set es" "ds_id s = i" "claim_of s = c" by auto
    with distinct key[of k s] show "\<exists>s. map_of es i = Some s \<and> claim_of s = c" by auto
  next
    assume "\<exists>s. map_of es i = Some s \<and> claim_of s = c"
    then obtain s where s: "map_of es i = Some s" "claim_of s = c" by blast
    moreover have "s \<in> snd ` set es" using map_of_SomeD[OF s(1)] by force
    ultimately show "\<exists>s. s \<in> snd ` set es \<and> ds_id s = i \<and> claim_of s = c"
      using key[OF s(1)] by auto
  qed
  show "(case q of (i, j) \<Rightarrow> j \<in> set (peers (derive_set_facts data_source_kind es) i)) =
      (case q of (i, j) \<Rightarrow> j \<noteq> i \<and>
         (\<exists>s t. map_of es i = Some s \<and> map_of es j = Some t \<and> same_destination s t))"
    unfolding q prod.case data_source_kind_simps peers_iff_claimants claimants_iff held
      same_destination_def by metis
qed

end
