(* ===== verification/Tenant.thy ===== *)
theory Tenant
  imports Data_Source
begin

text \<open>
  A tenant's runtime binding and the co-tenancy facts derived from a set of them
  (\<open>crates/fabric-tenant-runtime/src/tenant\<close>, with \<open>errors/resolve_error.rs\<close>).
  \<open>has_tenants_other_than\<close> answers whether another tenant is bound to a data source; that it
  answers exactly this is the interpretation of \<open>set_facts\<close> at the end.
\<close>

section \<open>The resource\<close>

datatype resolve_error =
    RuntimeUnavailable
  | UnknownTenant tenant_id
  | UnboundDataSource tenant_id logical_data_source_name
  | MissingDataSource logical_data_source_name data_source_id
  | IsolationNotEnforceable tenant_id data_source_id string

record tenant_data_binding =
  bd_data_source :: data_source_id
  bd_isolation :: isolation_model

definition TenantDataBinding_new :: "data_source_id \<Rightarrow> isolation_model \<Rightarrow> tenant_data_binding" where
  "TenantDataBinding_new d i = \<lparr> bd_data_source = d, bd_isolation = i \<rparr>"

record configuration_binding =
  cb_store :: string
  cb_profile :: "string option"

record storage_binding =
  sb_provider :: string
  sb_container :: string
  sb_prefix :: "string option"
  sb_credentials :: "secret_ref option"

record tenant_runtime_binding =
  tb_tenant :: tenant_id
  tb_revision :: binding_revision
  tb_data :: "(logical_data_source_name \<times> tenant_data_binding) list"
  tb_configuration :: "configuration_binding option"
  tb_secrets :: "secret_ref option"
  tb_features :: "(string \<times> bool) list"
  tb_storage :: "(string \<times> storage_binding) list"

definition TenantRuntimeBinding_new :: "tenant_id \<Rightarrow> binding_revision \<Rightarrow> tenant_runtime_binding" where
  "TenantRuntimeBinding_new t r =
     \<lparr> tb_tenant = t, tb_revision = r, tb_data = [], tb_configuration = None, tb_secrets = None,
       tb_features = [], tb_storage = [] \<rparr>"

definition with_data ::
  "tenant_runtime_binding \<Rightarrow> logical_data_source_name \<Rightarrow> tenant_data_binding
     \<Rightarrow> tenant_runtime_binding" where
  "with_data b name d = b\<lparr>tb_data := btree_insert name d (tb_data b)\<rparr>"

definition data_binding ::
  "tenant_runtime_binding \<Rightarrow> logical_data_source_name \<Rightarrow> resolve_error + tenant_data_binding" where
  "data_binding b name = ok_or (UnboundDataSource (tb_tenant b) name) (map_of (tb_data b) name)"

definition feature :: "tenant_runtime_binding \<Rightarrow> string \<Rightarrow> bool" where
  "feature b name = (case map_of (tb_features b) name of None \<Rightarrow> False | Some v \<Rightarrow> v)"

definition TenantRuntimeBinding_validate :: "tenant_runtime_binding \<Rightarrow> configuration_error + unit" where
  "TenantRuntimeBinding_validate b =
     (if tb_data b = [] then Inl (TenantHasNoDataBindings (tb_tenant b)) else Inr ())"

section \<open>Which tenants are bound to a data source\<close>

datatype occupancy = Sole tenant_id | Many

record co_tenancy =
  occupancy_of :: "(data_source_id \<times> occupancy) list"

definition bound_sources :: "tenant_runtime_binding \<Rightarrow> data_source_id list" where
  "bound_sources b = remdups (sort (map (bd_data_source \<circ> snd) (tb_data b)))"

definition CoTenancy_derive :: "(tenant_id \<times> tenant_runtime_binding) list \<Rightarrow> co_tenancy" where
  "CoTenancy_derive es =
     \<lparr> occupancy_of =
         fold (\<lambda>(_, b). fold (\<lambda>i. entry_or i (Sole (tb_tenant b)) (\<lambda>held. Many)) (bound_sources b))
           es [] \<rparr>"

definition has_tenants_other_than :: "co_tenancy \<Rightarrow> data_source_id \<Rightarrow> tenant_id \<Rightarrow> bool" where
  "has_tenants_other_than c d t =
     (case map_of (occupancy_of c) d of
        None \<Rightarrow> False
      | Some Many \<Rightarrow> True
      | Some (Sole occupant) \<Rightarrow> occupant \<noteq> t)"

definition tenant_kind :: "(tenant_runtime_binding, tenant_id, co_tenancy) resource_kind" where
  "tenant_kind =
     \<lparr> kind_name = ''tenant'', key_of = tb_tenant, revision_of = tb_revision,
       validate_of = TenantRuntimeBinding_validate, derive_set_facts = CoTenancy_derive \<rparr>"

lemma tenant_kind_simps [simp]:
  "key_of tenant_kind = tb_tenant" "revision_of tenant_kind = tb_revision"
  "validate_of tenant_kind = TenantRuntimeBinding_validate"
  "derive_set_facts tenant_kind = CoTenancy_derive"
  "kind_name tenant_kind = ''tenant''"
  by (simp_all add: tenant_kind_def)

section \<open>Laws of co-tenancy\<close>

definition binds :: "tenant_runtime_binding \<Rightarrow> data_source_id \<Rightarrow> bool" where
  "binds b d = (d \<in> bd_data_source ` snd ` set (tb_data b))"

lemma set_bound_sources: "d \<in> set (bound_sources b) \<longleftrightarrow> binds b d"
  by (auto simp: bound_sources_def binds_def)

lemma distinct_bound_sources: "distinct (bound_sources b)"
  by (simp add: bound_sources_def)

lemma occupy_one:
  "distinct ids \<Longrightarrow>
   map_of (fold (\<lambda>i. entry_or i (Sole t) (\<lambda>held. Many)) ids m) d =
     (if d \<in> set ids then Some (case map_of m d of None \<Rightarrow> Sole t | Some _ \<Rightarrow> Many) else map_of m d)"
  by (induction ids arbitrary: m) (auto simp: map_of_entry_or)

definition occupants :: "(tenant_id \<times> tenant_runtime_binding) list \<Rightarrow> data_source_id \<Rightarrow> tenant_id list" where
  "occupants es d = map (tb_tenant \<circ> snd) (filter (\<lambda>(_, b). binds b d) es)"

lemma map_of_occupancy:
  "map_of (occupancy_of (CoTenancy_derive es)) d =
     (case occupants es d of [] \<Rightarrow> None | [t] \<Rightarrow> Some (Sole t) | _ \<Rightarrow> Some Many)"
proof (induction es rule: rev_induct)
  case Nil
  then show ?case by (simp add: CoTenancy_derive_def occupants_def)
next
  case (snoc e es)
  obtain k b where e: "e = (k, b)" by (cases e)
  have "occupancy_of (CoTenancy_derive (es @ [(k, b)])) =
      fold (\<lambda>i. entry_or i (Sole (tb_tenant b)) (\<lambda>held. Many)) (bound_sources b)
        (occupancy_of (CoTenancy_derive es))"
    by (simp add: CoTenancy_derive_def)
  moreover have "occupants (es @ [(k, b)]) d =
      (if binds b d then occupants es d @ [tb_tenant b] else occupants es d)"
    by (simp add: occupants_def)
  ultimately show ?case
    using snoc.IH unfolding e
    by (simp only: occupy_one distinct_bound_sources set_bound_sources)
       (auto split: list.split)
qed

lemma occupants_distinct:
  "distinct (map fst es) \<Longrightarrow> (\<And>k b. map_of es k = Some b \<Longrightarrow> tb_tenant b = k) \<Longrightarrow>
   distinct (occupants es d)"
proof -
  assume d: "distinct (map fst es)" and key: "\<And>k b. map_of es k = Some b \<Longrightarrow> tb_tenant b = k"
  have "map (tb_tenant \<circ> snd) (filter (\<lambda>(_, b). binds b d) es)
      = map fst (filter (\<lambda>(_, b). binds b d) es)"
    using d key by (auto simp: map_of_in_set[symmetric])
  then show ?thesis unfolding occupants_def using d by (metis distinct_map_filter)
qed

lemma has_tenants_occupants:
  "distinct (occupants es d) \<Longrightarrow>
   has_tenants_other_than (CoTenancy_derive es) d t \<longleftrightarrow> (\<exists>u\<in>set (occupants es d). u \<noteq> t)"
  by (auto simp: has_tenants_other_than_def map_of_occupancy split: list.split)

text \<open>Another tenant of the map is bound to the data source.\<close>

definition other_tenant_on ::
  "(tenant_id \<Rightarrow> tenant_runtime_binding option) \<Rightarrow> data_source_id \<Rightarrow> tenant_id \<Rightarrow> bool" where
  "other_tenant_on look d t = (\<exists>u b. look u = Some b \<and> u \<noteq> t \<and> binds b d)"

interpretation occupancy: set_facts tenant_kind
  "\<lambda>c (d, t). has_tenants_other_than c d t" "\<lambda>look (d, t). other_tenant_on look d t"
proof unfold_locales
  fix es :: "(tenant_id \<times> tenant_runtime_binding) list" and q :: "data_source_id \<times> tenant_id"
  assume distinct: "distinct (map fst es)"
    and key: "\<And>k t. map_of es k = Some t \<Longrightarrow> key_of tenant_kind t = k"
  obtain d t where q: "q = (d, t)" by (cases q)
  have mem: "u \<in> set (occupants es d) \<longleftrightarrow> (\<exists>b. map_of es u = Some b \<and> binds b d)" for u
  proof -
    have "u \<in> set (occupants es d) \<longleftrightarrow> (\<exists>k b. (k, b) \<in> set es \<and> binds b d \<and> u = tb_tenant b)"
      by (force simp: occupants_def)
    also have "\<dots> \<longleftrightarrow> (\<exists>k b. map_of es k = Some b \<and> binds b d \<and> u = tb_tenant b)"
      by (simp only: map_of_in_set[OF distinct])
    also have "\<dots> \<longleftrightarrow> (\<exists>b. map_of es u = Some b \<and> binds b d)"
      using key by (metis tenant_kind_simps(1))
    finally show ?thesis .
  qed
  have "distinct (occupants es d)"
    using distinct key by (intro occupants_distinct) auto
  then have "has_tenants_other_than (CoTenancy_derive es) d t \<longleftrightarrow> other_tenant_on (map_of es) d t"
    unfolding has_tenants_occupants[OF \<open>distinct (occupants es d)\<close>] Bex_def mem other_tenant_on_def
    by blast
  then show "(case q of (d, t) \<Rightarrow> has_tenants_other_than (derive_set_facts tenant_kind es) d t) =
      (case q of (d, t) \<Rightarrow> other_tenant_on (map_of es) d t)"
    by (simp add: q)
qed

end
