(* ===== verification/Resolution.thy ===== *)
theory Resolution
  imports Tenant
begin

text \<open>
  Resolution (\<open>crates/fabric-tenant-runtime/src/resolution\<close>): a pinned view over one tenant
  snapshot and one data source snapshot, the walk from a tenant and a logical name to an
  execution target, and the check that refuses structural isolation on a destination another
  tenant reaches. The catalogue a generation carries is the type parameter \<open>'c\<close>: the runtime
  never looks inside it. The lemmas reach the meaning of the stored facts through the
  interpretations \<open>reuse\<close> and \<open>occupancy\<close>.
\<close>

section \<open>The view\<close>

type_synonym tenant_registry = "(tenant_runtime_binding, tenant_id, co_tenancy) registry"
type_synonym data_source_registry = "(data_source, data_source_id, destination_reuse) registry"

record 'c resolution_view =
  view_catalogue :: "'c option"
  view_tenants :: "(tenant_runtime_binding, tenant_id, co_tenancy) snapshot option"
  view_data_sources :: "(data_source, data_source_id, destination_reuse) snapshot option"
  view_served :: "reader_generation_report option"

definition ResolutionView_default :: "'c resolution_view" where
  "ResolutionView_default =
     \<lparr> view_catalogue = None, view_tenants = None, view_data_sources = None, view_served = None \<rparr>"

definition ResolutionView_of ::
  "'c option \<Rightarrow> tenant_registry \<Rightarrow> data_source_registry \<Rightarrow> reader_generation_report option
     \<Rightarrow> 'c resolution_view" where
  "ResolutionView_of catalogue tenants data_sources served =
     \<lparr> view_catalogue = catalogue, view_tenants = reg_snapshot tenants,
       view_data_sources = reg_snapshot data_sources, view_served = served \<rparr>"

definition view_is_primed :: "'c resolution_view \<Rightarrow> bool" where
  "view_is_primed v = (view_tenants v \<noteq> None \<and> view_data_sources v \<noteq> None)"

definition view_lookup :: "('t, 'k, 'f) snapshot option \<Rightarrow> 'k \<Rightarrow> lookup_error + 't" where
  "view_lookup s k = rbind (ok_or Unavailable s) (\<lambda>s. ok_or NotFound (snapshot_get s k))"

definition view_tenant :: "'c resolution_view \<Rightarrow> tenant_id \<Rightarrow> resolve_error + tenant_runtime_binding" where
  "view_tenant v t =
     map_err (\<lambda>e. case e of Unavailable \<Rightarrow> RuntimeUnavailable | NotFound \<Rightarrow> UnknownTenant t)
       (view_lookup (view_tenants v) t)"

definition view_data_source ::
  "'c resolution_view \<Rightarrow> logical_data_source_name \<Rightarrow> data_source_id \<Rightarrow> resolve_error + data_source" where
  "view_data_source v logical i =
     map_err (\<lambda>e. case e of Unavailable \<Rightarrow> RuntimeUnavailable | NotFound \<Rightarrow> MissingDataSource logical i)
       (view_lookup (view_data_sources v) i)"

section \<open>Whether a destination is shared\<close>

datatype exclusivity = Exclusive | SharedDestination

definition observe ::
  "co_tenancy option \<Rightarrow> destination_reuse option \<Rightarrow> tenant_id \<Rightarrow> data_source_id \<Rightarrow> exclusivity" where
  "observe co_tenancy reuse t d =
     (let shared = (case co_tenancy of
          None \<Rightarrow> False
        | Some c \<Rightarrow>
            has_tenants_other_than c d t
            \<or> (case reuse of
                 None \<Rightarrow> False
               | Some r \<Rightarrow> list_ex (\<lambda>peer. has_tenants_other_than c peer t) (peers r d)))
      in if shared then SharedDestination else Exclusive)"

fun is_structural :: "isolation_model \<Rightarrow> bool" where
  "is_structural IsoDatabase = True"
| "is_structural (IsoSchema _) = True"
| "is_structural (IsoDiscriminator _ _) = False"

definition check_isolation_is_enforceable ::
  "tenant_id \<Rightarrow> data_source \<Rightarrow> isolation_model \<Rightarrow> exclusivity \<Rightarrow> resolve_error + unit" where
  "check_isolation_is_enforceable t d isolation ex =
     (if \<not> is_structural isolation then Inr ()
      else if ds_placement d = Shared \<or> ex = SharedDestination
      then Inl (IsolationNotEnforceable t (ds_id d) (isolation_label isolation))
      else Inr ())"

section \<open>Resolving\<close>

record resolved_data_source =
  res_target :: execution_target
  res_data_source :: data_source

definition is_writable :: "resolved_data_source \<Rightarrow> bool" where
  "is_writable r = writable (ds_capabilities (res_data_source r))"

definition resolve_data_source ::
  "'c resolution_view \<Rightarrow> tenant_id \<Rightarrow> logical_data_source_name \<Rightarrow> resolve_error + resolved_data_source" where
  "resolve_data_source v t logical =
     rbind (view_tenant v t) (\<lambda>b.
     rbind (data_binding b logical) (\<lambda>db.
     rbind (view_data_source v logical (bd_data_source db)) (\<lambda>d.
     let ex = observe (map_option facts (view_tenants v)) (map_option facts (view_data_sources v))
                (tb_tenant b) (ds_id d)
     in rbind (check_isolation_is_enforceable (tb_tenant b) d (bd_isolation db) ex) (\<lambda>_.
        Inr \<lparr> res_target =
                ExecutionTarget_new (tb_tenant b) (tb_revision b) (ds_id d) (ds_revision d)
                  (ds_connector d) (ds_connection d) (bd_isolation db),
              res_data_source = d \<rparr>))))"

text \<open>
  A generation is published by one store of a view; a resolver over it pins that view, a
  resolver over two registries pins what each holds now.
\<close>

record 'c published_generation =
  pg_current :: "'c resolution_view option"

definition PublishedGeneration_default :: "'c published_generation" where
  "PublishedGeneration_default = \<lparr> pg_current = None \<rparr>"

definition publish_generation ::
  "'c \<Rightarrow> tenant_registry \<Rightarrow> data_source_registry \<Rightarrow> reader_generation_report option
     \<Rightarrow> 'c published_generation \<Rightarrow> 'c published_generation" where
  "publish_generation catalogue tenants data_sources served pg =
     pg\<lparr>pg_current := Some (ResolutionView_of (Some catalogue) tenants data_sources served)\<rparr>"

definition generation_view :: "'c published_generation \<Rightarrow> 'c resolution_view" where
  "generation_view pg = (case pg_current pg of None \<Rightarrow> ResolutionView_default | Some v \<Rightarrow> v)"

record 'c runtime_resolver =
  rr_tenants :: tenant_registry
  rr_data_sources :: data_source_registry
  rr_catalogue :: "'c option"
  rr_published :: "'c published_generation option"

definition RuntimeResolver_new :: "tenant_registry \<Rightarrow> data_source_registry \<Rightarrow> 'c runtime_resolver" where
  "RuntimeResolver_new ts ds =
     \<lparr> rr_tenants = ts, rr_data_sources = ds, rr_catalogue = None, rr_published = None \<rparr>"

definition with_catalogue :: "'c runtime_resolver \<Rightarrow> 'c \<Rightarrow> 'c runtime_resolver" where
  "with_catalogue r c = r\<lparr>rr_catalogue := Some c\<rparr>"

definition over_published ::
  "tenant_registry \<Rightarrow> data_source_registry \<Rightarrow> 'c published_generation \<Rightarrow> 'c runtime_resolver" where
  "over_published ts ds pg =
     \<lparr> rr_tenants = ts, rr_data_sources = ds, rr_catalogue = None, rr_published = Some pg \<rparr>"

definition pin :: "'c runtime_resolver \<Rightarrow> 'c resolution_view" where
  "pin r = (case rr_published r of
              None \<Rightarrow> ResolutionView_of (rr_catalogue r) (rr_tenants r) (rr_data_sources r) None
            | Some pg \<Rightarrow> generation_view pg)"

definition resolver_is_primed :: "'c runtime_resolver \<Rightarrow> bool" where
  "resolver_is_primed r = view_is_primed (pin r)"

definition resolve_tenant :: "'c runtime_resolver \<Rightarrow> tenant_id \<Rightarrow> resolve_error + tenant_runtime_binding" where
  "resolve_tenant r t = view_tenant (pin r) t"

definition resolver_resolve_data_source ::
  "'c runtime_resolver \<Rightarrow> tenant_id \<Rightarrow> logical_data_source_name \<Rightarrow> resolve_error + resolved_data_source" where
  "resolver_resolve_data_source r t logical = resolve_data_source (pin r) t logical"

definition served_generation :: "'c runtime_resolver \<Rightarrow> reader_generation_report option" where
  "served_generation r = Option.bind (rr_published r) (\<lambda>pg. view_served (generation_view pg))"

section \<open>What a view says\<close>

definition tenants_of :: "'c resolution_view \<Rightarrow> tenant_id \<Rightarrow> tenant_runtime_binding option" where
  "tenants_of v t = held_in (view_tenants v) t"

definition sources_of :: "'c resolution_view \<Rightarrow> data_source_id \<Rightarrow> data_source option" where
  "sources_of v i = held_in (view_data_sources v) i"

definition view_wf :: "'c resolution_view \<Rightarrow> bool" where
  "view_wf v =
     ((case view_tenants v of None \<Rightarrow> True | Some s \<Rightarrow> snapshot_wf tenant_kind s)
      \<and> (case view_data_sources v of None \<Rightarrow> True | Some s \<Rightarrow> snapshot_wf data_source_kind s))"

lemma view_of_registries_wf:
  "registry_wf tenant_kind ts \<Longrightarrow> registry_wf data_source_kind ds \<Longrightarrow>
   view_wf (ResolutionView_of c ts ds served)"
  by (simp add: view_wf_def ResolutionView_of_def registry_wf_def)

lemma held_in_wf:
  assumes "case s of None \<Rightarrow> True | Some s \<Rightarrow> snapshot_wf R s" "held_in s k = Some x"
  shows "key_of R x = k"
  using assms by (cases s) (auto simp: held_in_def snapshot_get_def dest: snapshot_wf_get)

lemma tenants_of_key: "view_wf v \<Longrightarrow> tenants_of v t = Some b \<Longrightarrow> tb_tenant b = t"
  using held_in_wf[of tenant_kind "view_tenants v" t b] by (simp add: view_wf_def tenants_of_def)

lemma sources_of_key: "view_wf v \<Longrightarrow> sources_of v i = Some d \<Longrightarrow> ds_id d = i"
  using held_in_wf[of data_source_kind "view_data_sources v" i d]
  by (simp add: view_wf_def sources_of_def)

lemma view_tenant_eq:
  "view_tenant v t =
     (if view_tenants v = None then Inl RuntimeUnavailable
      else ok_or (UnknownTenant t) (tenants_of v t))"
  by (auto simp: view_tenant_def view_lookup_def tenants_of_def held_in_def ok_or_def map_err_def
      split: option.split)

lemma view_data_source_eq:
  "view_data_source v logical i =
     (if view_data_sources v = None then Inl RuntimeUnavailable
      else ok_or (MissingDataSource logical i) (sources_of v i))"
  by (auto simp: view_data_source_def view_lookup_def sources_of_def held_in_def ok_or_def map_err_def
      split: option.split)

text \<open>
  The rule the stored facts answer: some other tenant of the view is bound to a data source of
  the view that reaches the same destination, this data source itself included.
\<close>

definition reached_by_another :: "'c resolution_view \<Rightarrow> tenant_id \<Rightarrow> data_source \<Rightarrow> bool" where
  "reached_by_another v t d =
     (\<exists>u b e. tenants_of v u = Some b \<and> u \<noteq> t \<and> binds b (ds_id e)
        \<and> sources_of v (ds_id e) = Some e \<and> same_destination d e)"

lemma observe_exact:
  assumes wf: "view_wf v" and loaded: "view_tenants v = Some ts" "view_data_sources v = Some ss"
    and d: "sources_of v (ds_id d) = Some d"
  shows "observe (Some (facts ts)) (Some (facts ss)) t (ds_id d) = SharedDestination
           \<longleftrightarrow> reached_by_another v t d"
proof -
  have wft: "snapshot_wf tenant_kind ts" and wfs: "snapshot_wf data_source_kind ss"
    using wf loaded by (simp_all add: view_wf_def)
  have look: "snapshot_get ts = tenants_of v" "snapshot_get ss = sources_of v"
    using loaded by (simp_all add: fun_eq_iff tenants_of_def sources_of_def held_in_def)
  have other: "has_tenants_other_than (facts ts) i t \<longleftrightarrow> other_tenant_on (tenants_of v) i t" for i
    using occupancy.snapshot_answers[OF wft, of "(i, t)"] look by simp
  have peer: "j \<in> set (peers (facts ss) i) \<longleftrightarrow>
      j \<noteq> i \<and> (\<exists>s e. sources_of v i = Some s \<and> sources_of v j = Some e \<and> same_destination s e)" for i j
    using reuse.snapshot_answers[OF wfs, of "(i, j)"] look by simp
  have "observe (Some (facts ts)) (Some (facts ss)) t (ds_id d) = SharedDestination \<longleftrightarrow>
      other_tenant_on (tenants_of v) (ds_id d) t
      \<or> (\<exists>j. j \<in> set (peers (facts ss) (ds_id d)) \<and> other_tenant_on (tenants_of v) j t)"
    by (auto simp: observe_def Let_def other list_ex_iff)
  also have "\<dots> \<longleftrightarrow> (\<exists>j e. sources_of v j = Some e \<and> same_destination d e
      \<and> other_tenant_on (tenants_of v) j t)"
  proof (intro iffI)
    show "\<exists>j e. sources_of v j = Some e \<and> same_destination d e \<and> other_tenant_on (tenants_of v) j t"
      if "other_tenant_on (tenants_of v) (ds_id d) t
          \<or> (\<exists>j. j \<in> set (peers (facts ss) (ds_id d)) \<and> other_tenant_on (tenants_of v) j t)"
      using that d unfolding peer by (auto simp: same_destination_def)
    show "other_tenant_on (tenants_of v) (ds_id d) t
          \<or> (\<exists>j. j \<in> set (peers (facts ss) (ds_id d)) \<and> other_tenant_on (tenants_of v) j t)"
      if "\<exists>j e. sources_of v j = Some e \<and> same_destination d e \<and> other_tenant_on (tenants_of v) j t"
    proof -
      from that obtain j e where j: "sources_of v j = Some e" "same_destination d e"
        "other_tenant_on (tenants_of v) j t" by blast
      show ?thesis
      proof (cases "j = ds_id d")
        case False
        with j d have "j \<in> set (peers (facts ss) (ds_id d))" unfolding peer by blast
        with j show ?thesis by blast
      qed (use j in simp)
    qed
  qed
  also have "\<dots> \<longleftrightarrow> reached_by_another v t d"
    unfolding reached_by_another_def other_tenant_on_def
  proof (intro iffI)
    assume "\<exists>j e. sources_of v j = Some e \<and> same_destination d e
        \<and> (\<exists>u b. tenants_of v u = Some b \<and> u \<noteq> t \<and> binds b j)"
    then obtain j e u b where h: "sources_of v j = Some e" "same_destination d e"
      "tenants_of v u = Some b" "u \<noteq> t" "binds b j" by blast
    from sources_of_key[OF wf h(1)] h
    show "\<exists>u b e. tenants_of v u = Some b \<and> u \<noteq> t \<and> binds b (ds_id e)
        \<and> sources_of v (ds_id e) = Some e \<and> same_destination d e" by blast
  qed blast
  finally show ?thesis .
qed

text \<open>Resolution as it is meant, over what the view holds and the rule itself.\<close>

definition resolve_spec ::
  "'c resolution_view \<Rightarrow> tenant_id \<Rightarrow> logical_data_source_name \<Rightarrow> resolve_error + resolved_data_source" where
  "resolve_spec v t logical =
     (if view_tenants v = None then Inl RuntimeUnavailable
      else case tenants_of v t of
        None \<Rightarrow> Inl (UnknownTenant t)
      | Some b \<Rightarrow> (case map_of (tb_data b) logical of
          None \<Rightarrow> Inl (UnboundDataSource t logical)
        | Some db \<Rightarrow>
            if view_data_sources v = None then Inl RuntimeUnavailable
            else case sources_of v (bd_data_source db) of
              None \<Rightarrow> Inl (MissingDataSource logical (bd_data_source db))
            | Some d \<Rightarrow>
                if is_structural (bd_isolation db)
                     \<and> (ds_placement d = Shared \<or> reached_by_another v t d)
                then Inl (IsolationNotEnforceable t (bd_data_source db) (isolation_label (bd_isolation db)))
                else Inr \<lparr> res_target =
                             \<lparr> tgt_tenant = t, tgt_tenant_revision = tb_revision b,
                               tgt_data_source = bd_data_source db,
                               tgt_data_source_revision = ds_revision d,
                               tgt_connector = ds_connector d, tgt_connection = ds_connection d,
                               tgt_isolation = bd_isolation db \<rparr>,
                           res_data_source = d \<rparr>))"

lemma resolve_data_source_meets_spec_aux:
  assumes wf: "view_wf v"
  shows "resolve_data_source v t logical = resolve_spec v t logical"
proof (cases "view_tenants v")
  case None
  then show ?thesis by (simp add: resolve_data_source_def resolve_spec_def view_tenant_eq)
next
  case ts: (Some ts)
  show ?thesis
  proof (cases "tenants_of v t")
    case None
    with ts show ?thesis by (simp add: resolve_data_source_def resolve_spec_def view_tenant_eq)
  next
    case b: (Some b)
    note bt = tenants_of_key[OF wf b]
    show ?thesis
    proof (cases "map_of (tb_data b) logical")
      case None
      with ts b bt show ?thesis
        by (simp add: resolve_data_source_def resolve_spec_def view_tenant_eq data_binding_def)
    next
      case db: (Some db)
      show ?thesis
      proof (cases "view_data_sources v = None \<or> sources_of v (bd_data_source db) = None")
        case True
        with ts b bt db show ?thesis
          by (auto simp: resolve_data_source_def resolve_spec_def view_tenant_eq data_binding_def
              view_data_source_eq)
      next
        case False
        then obtain ss d where ss: "view_data_sources v = Some ss"
          and d: "sources_of v (bd_data_source db) = Some d" by auto
        note di = sources_of_key[OF wf d]
        have "observe (Some (facts ts)) (Some (facts ss)) t (ds_id d) = SharedDestination
            \<longleftrightarrow> reached_by_another v t d"
          using observe_exact[OF wf ts ss, of d] d by (simp add: di)
        with ts b bt db ss d di show ?thesis
          by (auto simp: resolve_data_source_def resolve_spec_def view_tenant_eq data_binding_def
              view_data_source_eq check_isolation_is_enforceable_def ExecutionTarget_new_def)
      qed
    qed
  qed
qed

text \<open>
  C8: Resolution does what it is meant to. On a well-formed view the walk over stored
  facts gives, on every branch and with the same error, what the rule gives: a tenant that is
  not there, a name that is not bound, a data source that is missing, a runtime not loaded, or
  structural isolation refused exactly when the placement is declared shared or another tenant of
  the view reaches the same destination.
\<close>

theorem resolve_data_source_meets_spec:
  assumes wf: "view_wf v"
  shows "resolve_data_source v t logical = resolve_spec v t logical"
  by (rule resolve_data_source_meets_spec_aux[OF wf])

lemma resolve_spec_Inr:
  "resolve_spec v t logical = Inr r \<longleftrightarrow>
     view_tenants v \<noteq> None \<and> view_data_sources v \<noteq> None
     \<and> (\<exists>b db d. tenants_of v t = Some b \<and> map_of (tb_data b) logical = Some db
          \<and> sources_of v (bd_data_source db) = Some d
          \<and> \<not> (is_structural (bd_isolation db) \<and> (ds_placement d = Shared \<or> reached_by_another v t d))
          \<and> r = \<lparr> res_target =
                    \<lparr> tgt_tenant = t, tgt_tenant_revision = tb_revision b,
                      tgt_data_source = bd_data_source db,
                      tgt_data_source_revision = ds_revision d,
                      tgt_connector = ds_connector d, tgt_connection = ds_connection d,
                      tgt_isolation = bd_isolation db \<rparr>,
                  res_data_source = d \<rparr>)"
  by (auto simp: resolve_spec_def split: option.split if_splits)

lemma resolved_by_spec:
  assumes wf: "view_wf v" and r: "resolve_data_source v t logical = Inr r"
  obtains b db d where "tenants_of v t = Some b" "map_of (tb_data b) logical = Some db"
    "sources_of v (bd_data_source db) = Some d"
    "\<not> (is_structural (tgt_isolation (res_target r))
        \<and> (ds_placement d = Shared \<or> reached_by_another v t d))"
    "res_data_source r = d" "tgt_connector (res_target r) = ds_connector d"
    "tgt_connection (res_target r) = ds_connection d" "tgt_tenant (res_target r) = t"
    "tgt_isolation (res_target r) = bd_isolation db"
  using r unfolding resolve_data_source_meets_spec_aux[OF wf] resolve_spec_Inr
  by (elim conjE exE) (rule that, simp_all)

text \<open>Two tenants that reach one destination are both kept apart by a discriminator.\<close>

lemma shared_place_discriminated:
  assumes wf: "view_wf v"
    and r: "resolve_data_source v t logical = Inr r" and r': "resolve_data_source v t' logical' = Inr r'"
    and other: "t \<noteq> t'"
    and connector: "tgt_connector (res_target r) = tgt_connector (res_target r')"
    and dest: "destination (tgt_connection (res_target r)) = destination (tgt_connection (res_target r'))"
  shows "\<not> is_structural (tgt_isolation (res_target r))"
proof
  assume structural: "is_structural (tgt_isolation (res_target r))"
  obtain d where rules: "\<not> (is_structural (tgt_isolation (res_target r))
        \<and> (ds_placement d = Shared \<or> reached_by_another v t d))"
    and target: "tgt_connector (res_target r) = ds_connector d"
      "tgt_connection (res_target r) = ds_connection d"
    by (rule resolved_by_spec[OF wf r])
  obtain b' db' d' where b': "tenants_of v t' = Some b'"
    and db': "map_of (tb_data b') logical' = Some db'"
    and d': "sources_of v (bd_data_source db') = Some d'"
    and target': "tgt_connector (res_target r') = ds_connector d'"
      "tgt_connection (res_target r') = ds_connection d'"
    by (rule resolved_by_spec[OF wf r'])
  note di' = sources_of_key[OF wf d']
  have "binds b' (ds_id d')"
    using map_of_SomeD[OF db'] unfolding di' binds_def by force
  moreover have "same_destination d d'"
    using connector dest target target' by (auto simp: same_destination_def claim_of_eq)
  ultimately show False
    using rules structural b' other d' di' unfolding reached_by_another_def by metis
qed

text \<open>
  C6: No two tenants of one view share a destination structurally. When one tenant
  resolves with database or schema isolation, which carries no predicate, no other tenant of the
  same view resolves, under any name, to the same connector and the same physical destination.
\<close>

theorem structural_isolation_is_exclusive:
  assumes wf: "view_wf v"
    and r: "resolve_data_source v t logical = Inr r"
    and structural: "is_structural (tgt_isolation (res_target r))"
    and r': "resolve_data_source v t' logical' = Inr r'"
    and other: "t' \<noteq> t"
  shows "ds_placement (res_data_source r) \<noteq> Shared
         \<and> \<not> (tgt_connector (res_target r') = tgt_connector (res_target r)
              \<and> destination (tgt_connection (res_target r')) = destination (tgt_connection (res_target r)))"
proof -
  have "ds_placement (res_data_source r) \<noteq> Shared"
    by (rule resolved_by_spec[OF wf r]) (use structural in auto)
  with shared_place_discriminated[OF wf r r'] structural other show ?thesis by metis
qed

section \<open>A view with two tenants\<close>

definition example_source ::
  "string \<Rightarrow> placement_class \<Rightarrow> connection_selector \<Rightarrow> data_source" where
  "example_source i p sel =
     \<lparr> ds_id = DataSourceId i, ds_revision = 1, ds_connector = ConnectorId ''ndc'',
       ds_connection = sel, ds_placement = p, ds_residency = in_region ''nz'',
       ds_pool = PoolSettings_default, ds_capabilities = DataSourceCapabilities_default,
       ds_labels = [] \<rparr>"

definition example_tenant :: "string \<Rightarrow> string \<Rightarrow> isolation_model \<Rightarrow> tenant_runtime_binding" where
  "example_tenant t d isolation =
     with_data (TenantRuntimeBinding_new (TenantId t) 1) (LogicalDataSourceName ''primary'')
       (TenantDataBinding_new (DataSourceId d) isolation)"

definition example_view :: "unit resolution_view" where
  "example_view = ResolutionView_of (Some ())
     (snd (apply_all tenant_kind
        [example_tenant ''acme'' ''own'' IsoDatabase,
         example_tenant ''globex'' ''pool'' (IsoDiscriminator (FieldName ''tenant'') ''globex'')]
        registry_new))
     (snd (apply_all data_source_kind
        [example_source ''own'' Dedicated (SelSecret (SecretRef ''tenant/acme/db'')),
         example_source ''pool'' Shared SelDefault] registry_new)) None"

lemma example_view_wf: "view_wf example_view"
  unfolding example_view_def
  by (intro view_of_registries_wf apply_all_step_wf) (simp_all add: registry_wf_def registry_new_def)

theorem resolve_data_source_meets_spec_witness:
  "resolve_data_source example_view (TenantId ''acme'') (LogicalDataSourceName ''primary'')
     = resolve_spec example_view (TenantId ''acme'') (LogicalDataSourceName ''primary'')
   \<and> is_ok (resolve_spec example_view (TenantId ''acme'') (LogicalDataSourceName ''primary''))"
proof -
  have "is_ok (resolve_data_source example_view (TenantId ''acme'') (LogicalDataSourceName ''primary''))"
    by code_simp
  then show ?thesis by (simp add: resolve_data_source_meets_spec[OF example_view_wf])
qed

theorem structural_isolation_is_exclusive_witness:
  "\<exists>r r'. resolve_data_source example_view (TenantId ''acme'') (LogicalDataSourceName ''primary'') = Inr r
     \<and> resolve_data_source example_view (TenantId ''globex'') (LogicalDataSourceName ''primary'') = Inr r'
     \<and> ds_placement (res_data_source r) \<noteq> Shared
     \<and> \<not> (tgt_connector (res_target r') = tgt_connector (res_target r)
          \<and> destination (tgt_connection (res_target r')) = destination (tgt_connection (res_target r)))"
proof -
  have "map_ok (\<lambda>r. is_structural (tgt_isolation (res_target r)))
      (resolve_data_source example_view (TenantId ''acme'') (LogicalDataSourceName ''primary'')) = Inr True"
    by code_simp
  then obtain r where r: "is_structural (tgt_isolation (res_target r))"
    "resolve_data_source example_view (TenantId ''acme'') (LogicalDataSourceName ''primary'') = Inr r"
    by (auto simp: result_simps)
  have "is_ok (resolve_data_source example_view (TenantId ''globex'') (LogicalDataSourceName ''primary''))"
    by code_simp
  then obtain r' where
    "resolve_data_source example_view (TenantId ''globex'') (LogicalDataSourceName ''primary'') = Inr r'"
    by (auto simp: result_simps)
  with structural_isolation_is_exclusive[OF example_view_wf r(2) r(1)] r show ?thesis by auto
qed

end
