(* ===== verification/Identity.thy ===== *)
theory Identity
  imports Json
begin

text \<open>
  Resolving the caller's identity (\<open>crates/fabric-identity/src\<close>): the bearer credential,
  the claims of a token and its validity window, the two readers, and the binding of a token to
  the tenant its issuer is registered for. Base64, the JSON parser and the signature library are
  the parameter \<open>token_library\<close>; the clock's reading is an argument. The trait
  \<open>TokenReader\<close> is a function of the token, and what the resolver relies on is the locale
  \<open>token_reader\<close>, interpreted on both readers.
\<close>

section \<open>Errors\<close>

datatype identity_error =
    MissingAuthorization
  | NotBearer
  | MalformedToken
  | UnverifiedToken
  | ExpiredToken
  | TokenNotYetValid
  | MissingIssuerClaim
  | UnregisteredIssuer
  | MissingTenantClaim string
  | TenantClaimDisagreesWithIssuer string
  | InvalidTenantClaim string
  | TenantHeaderPresent string

fun identity_status :: "identity_error \<Rightarrow> u16" where
  "identity_status (TenantHeaderPresent _) = 400"
| "identity_status _ = 401"

section \<open>The bearer credential\<close>

text \<open>A header map lists lower-case names with their values' bytes.\<close>

type_synonym header_map = "(string \<times> string) list"

definition header_text :: "string \<Rightarrow> string option" where
  "header_text v =
     (if list_all (\<lambda>c. (32 \<le> byte c \<and> byte c < 127) \<or> byte c = 9) v then Some v else None)"

definition extract_bearer :: "header_map \<Rightarrow> identity_error + string" where
  "extract_bearer headers =
     rbind (ok_or MissingAuthorization (map_of headers ''authorization'')) (\<lambda>v.
     rbind (ok_or MissingAuthorization (header_text v)) (\<lambda>h.
     rbind (ok_or NotBearer (split_once (CHR '' '') h)) (\<lambda>(scheme, token).
     if \<not> eq_ignore_ascii_case scheme ''bearer'' \<or> token = [] then Inl NotBearer else Inr token)))"

section \<open>Claims\<close>

type_synonym token_claims = "(string \<times> json) list"

definition claim_string :: "token_claims \<Rightarrow> string \<Rightarrow> string option" where
  "claim_string c name = Option.bind (map_of c name) as_str"

definition claim_string_list :: "token_claims \<Rightarrow> string \<Rightarrow> string list" where
  "claim_string_list c name =
     (case map_of c name of
        Some (JArray items) \<Rightarrow> filter_map as_str items
      | Some (JString joined) \<Rightarrow> split_whitespace joined
      | _ \<Rightarrow> [])"

text \<open>
  A binary64 value rounded half away from zero and cast to \<open>u64\<close>, saturating at both ends:
  with sign, biased exponent and fraction read off the bits, the magnitude is
  \<open>significand * 2 ^ (exponent - 1075)\<close>.
\<close>

definition f64_negative :: "u64 \<Rightarrow> bool" where
  "f64_negative b = (unat b \<ge> 2 ^ 63)"

definition f64_exponent :: "u64 \<Rightarrow> nat" where
  "f64_exponent b = (unat b div 2 ^ 52) mod 2 ^ 11"

definition f64_fraction :: "u64 \<Rightarrow> nat" where
  "f64_fraction b = unat b mod 2 ^ 52"

definition f64_significand :: "u64 \<Rightarrow> nat" where
  "f64_significand b =
     (if f64_exponent b = 0 then f64_fraction b else 2 ^ 52 + f64_fraction b)"

definition f64_power :: "u64 \<Rightarrow> nat" where
  "f64_power b = max (f64_exponent b) 1"

definition f64_round_magnitude :: "u64 \<Rightarrow> nat" where
  "f64_round_magnitude b =
     (if f64_power b \<ge> 1075 then f64_significand b * 2 ^ (f64_power b - 1075)
      else (2 * f64_significand b + 2 ^ (1075 - f64_power b)) div 2 ^ (1076 - f64_power b))"

definition to_numeric_date :: "u64 \<Rightarrow> u64" where
  "to_numeric_date b =
     (if f64_nan b \<or> f64_negative b then 0
      else of_nat (min (f64_round_magnitude b) (2 ^ 64 - 1)))"

definition unix_seconds :: "token_claims \<Rightarrow> string \<Rightarrow> u64 option" where
  "unix_seconds c name =
     (case map_of c name of
        Some (JNumber (PosInt n)) \<Rightarrow> Some n
      | Some (JNumber (NegInt n)) \<Rightarrow> Some 0
      | Some (JNumber (Float b)) \<Rightarrow> Some (to_numeric_date b)
      | _ \<Rightarrow> None)"

section \<open>The validity window\<close>

datatype leeway_seconds = LeewaySeconds (leeway: u64)

definition LEEWAY_DEFAULT :: leeway_seconds where
  "LEEWAY_DEFAULT = LeewaySeconds 60"

definition MAX_SECONDS :: u64 where
  "MAX_SECONDS = 3600"

definition LeewaySeconds_try_new :: "u64 \<Rightarrow> string + leeway_seconds" where
  "LeewaySeconds_try_new seconds =
     (if seconds > MAX_SECONDS
      then Inl (''identity leeway must be between 0 and 3600 seconds, but was '' @ show_nat (unat seconds))
      else Inr (LeewaySeconds seconds))"

definition ensure_not_expired :: "token_claims \<Rightarrow> u64 \<Rightarrow> leeway_seconds \<Rightarrow> identity_error + unit" where
  "ensure_not_expired c now l =
     (case unix_seconds c ''exp'' of
        None \<Rightarrow> Inr ()
      | Some expiry \<Rightarrow>
          if saturating_sub now (leeway l) > expiry then Inl ExpiredToken else Inr ())"

definition ensure_already_valid :: "token_claims \<Rightarrow> u64 \<Rightarrow> leeway_seconds \<Rightarrow> identity_error + unit" where
  "ensure_already_valid c now l =
     (case unix_seconds c ''nbf'' of
        None \<Rightarrow> Inr ()
      | Some not_before \<Rightarrow>
          if not_before > saturating_add now (leeway l) then Inl TokenNotYetValid else Inr ())"

definition ensure_current :: "token_claims \<Rightarrow> u64 \<Rightarrow> leeway_seconds \<Rightarrow> identity_error + unit" where
  "ensure_current c now l =
     rbind (ensure_not_expired c now l) (\<lambda>_. ensure_already_valid c now l)"

section \<open>The readers\<close>

type_synonym token_read = "string \<Rightarrow> identity_error + token_claims"

datatype jwt_failure = ExpiredSignature | ImmatureSignature | OtherFailure string

text \<open>
  The rules handed to the signature library. \<open>None\<close> is an allowlist that was never set;
  the required claims are a set in the library, a list here whose order does not matter.
\<close>

datatype algorithm = RS256 | RS384 | RS512

record jwt_validation =
  v_algorithms :: "algorithm list"
  v_issuers :: "string list option"
  v_audiences :: "string list option"
  v_required :: "string list"
  v_exp :: bool
  v_nbf :: bool
  v_aud :: bool
  v_leeway :: u64

definition PERMITTED_ALGORITHMS :: "algorithm list" where
  "PERMITTED_ALGORITHMS = [RS256, RS384, RS512]"

definition rules_baseline :: jwt_validation where
  "rules_baseline =
     \<lparr> v_algorithms = PERMITTED_ALGORITHMS, v_issuers = None, v_audiences = None,
       v_required = [''exp''], v_exp = True, v_nbf = True, v_aud = False,
       v_leeway = leeway LEEWAY_DEFAULT \<rparr>"

definition require_claim :: "jwt_validation \<Rightarrow> string \<Rightarrow> jwt_validation" where
  "require_claim v claim = v\<lparr>v_required := v_required v @ [claim]\<rparr>"

definition require_issuers :: "jwt_validation \<Rightarrow> string list \<Rightarrow> jwt_validation" where
  "require_issuers v issuers = require_claim (v\<lparr>v_issuers := Some issuers\<rparr>) ''iss''"

definition require_audiences :: "jwt_validation \<Rightarrow> string list \<Rightarrow> jwt_validation" where
  "require_audiences v audiences =
     require_claim (v\<lparr>v_audiences := Some audiences, v_aud := True\<rparr>) ''aud''"

definition validation_with_leeway :: "jwt_validation \<Rightarrow> leeway_seconds \<Rightarrow> jwt_validation" where
  "validation_with_leeway v l = v\<lparr>v_leeway := leeway l\<rparr>"

record 'key token_library =
  base64_url :: "string \<Rightarrow> string option"
  parse_json :: "string \<Rightarrow> json option"
  jwt_header :: "string \<Rightarrow> string option option"
  jwt_decode :: "string \<Rightarrow> 'key \<Rightarrow> jwt_validation \<Rightarrow> jwt_failure + json"
  rsa_key :: "string \<Rightarrow> string \<Rightarrow> 'key option"

definition payload_segment :: "string \<Rightarrow> identity_error + string" where
  "payload_segment token =
     (case split_on (CHR ''.'') token of
        [header, payload, signature] \<Rightarrow> if payload \<noteq> [] then Inr payload else Inl MalformedToken
      | _ \<Rightarrow> Inl MalformedToken)"

definition decode_payload :: "'key token_library \<Rightarrow> string \<Rightarrow> identity_error + token_claims" where
  "decode_payload x token =
     rbind (payload_segment token) (\<lambda>payload.
     rbind (ok_or MalformedToken (base64_url x payload)) (\<lambda>decoded.
     rbind (ok_or MalformedToken (parse_json x decoded)) (\<lambda>v.
     case v of JObject object \<Rightarrow> Inr object | _ \<Rightarrow> Inl MalformedToken)))"

definition trusted_ingress_read ::
  "'key token_library \<Rightarrow> u64 \<Rightarrow> leeway_seconds \<Rightarrow> string \<Rightarrow> identity_error + token_claims" where
  "trusted_ingress_read x now l token =
     rbind (decode_payload x token) (\<lambda>c. rbind (ensure_current c now l) (\<lambda>_. Inr c))"

record 'key verification_keys =
  by_key_id :: "(string \<times> 'key) list"
  sole_key :: "'key option"

definition parse_entry :: "'key token_library \<Rightarrow> json \<Rightarrow> (string option \<times> 'key) option" where
  "parse_entry x entry =
     (let get = (\<lambda>name. Option.bind (as_object entry) (\<lambda>m. Option.bind (map_of m name) as_str)) in
      if get ''kty'' \<noteq> Some ''RSA'' then None
      else Option.bind (get ''n'') (\<lambda>modulus.
           Option.bind (get ''e'') (\<lambda>exponent.
           map_option (\<lambda>k. (get ''kid'', k)) (rsa_key x modulus exponent))))"

definition jwks_parse :: "'key token_library \<Rightarrow> string \<Rightarrow> string + (string option \<times> 'key) list" where
  "jwks_parse x document =
     rbind (ok_or ''JWKS is not valid JSON'' (parse_json x document)) (\<lambda>parsed.
     rbind (ok_or ''JWKS has no \"keys\" array''
              (Option.bind (as_object parsed) (\<lambda>m. Option.bind (map_of m ''keys'') as_array))) (\<lambda>entries.
     let keys = filter_map (parse_entry x) entries in
     if keys = [] then Inl ''JWKS contained no usable RSA keys'' else Inr keys))"

definition from_jwks_json :: "'key token_library \<Rightarrow> string \<Rightarrow> string + 'key verification_keys" where
  "from_jwks_json x document =
     map_ok (\<lambda>parsed.
       \<lparr> by_key_id = fold (\<lambda>(i, k). AList.update i k)
           (filter_map (\<lambda>(i, k). map_option (\<lambda>i. (i, k)) i) parsed) [],
         sole_key = (case parsed of [(_, k)] \<Rightarrow> Some k | _ \<Rightarrow> None) \<rparr>)
       (jwks_parse x document)"

definition select_key :: "'key verification_keys \<Rightarrow> string option \<Rightarrow> 'key option" where
  "select_key keys i =
     (case i of Some i \<Rightarrow> map_of (by_key_id keys) i | None \<Rightarrow> sole_key keys)"

fun classify :: "jwt_failure \<Rightarrow> identity_error" where
  "classify ExpiredSignature = ExpiredToken"
| "classify ImmatureSignature = TokenNotYetValid"
| "classify (OtherFailure _) = UnverifiedToken"

definition verified_claims ::
  "'key token_library \<Rightarrow> 'key verification_keys \<Rightarrow> jwt_validation \<Rightarrow> u64 \<Rightarrow> leeway_seconds
     \<Rightarrow> string \<Rightarrow> identity_error + token_claims" where
  "verified_claims x keys v now l token =
     rbind (ok_or MalformedToken (jwt_header x token)) (\<lambda>kid.
     rbind (ok_or UnverifiedToken (select_key keys kid)) (\<lambda>key.
     rbind (map_err classify (jwt_decode x token key v)) (\<lambda>claims.
     case claims of
       JObject object \<Rightarrow> rbind (ensure_current object now l) (\<lambda>_. Inr object)
     | _ \<Rightarrow> Inl MalformedToken)))"

record 'key validating_reader =
  vr_keys :: "'key verification_keys"
  vr_validation :: jwt_validation
  vr_leeway :: leeway_seconds

definition ValidatingReader_new :: "'key verification_keys \<Rightarrow> 'key validating_reader" where
  "ValidatingReader_new keys =
     \<lparr> vr_keys = keys, vr_validation = rules_baseline, vr_leeway = LEEWAY_DEFAULT \<rparr>"

definition with_issuers :: "string list \<Rightarrow> 'key validating_reader \<Rightarrow> 'key validating_reader" where
  "with_issuers issuers r = r\<lparr>vr_validation := require_issuers (vr_validation r) issuers\<rparr>"

definition with_audiences :: "string list \<Rightarrow> 'key validating_reader \<Rightarrow> 'key validating_reader" where
  "with_audiences audiences r = r\<lparr>vr_validation := require_audiences (vr_validation r) audiences\<rparr>"

definition with_leeway :: "leeway_seconds \<Rightarrow> 'key validating_reader \<Rightarrow> 'key validating_reader" where
  "with_leeway l r =
     r\<lparr>vr_validation := validation_with_leeway (vr_validation r) l, vr_leeway := l\<rparr>"

definition validating_read ::
  "'key token_library \<Rightarrow> 'key validating_reader \<Rightarrow> u64 \<Rightarrow> token_read" where
  "validating_read x r now token =
     verified_claims x (vr_keys r) (vr_validation r) now (vr_leeway r) token"

section \<open>Who the caller is\<close>

record trusted_issuer =
  ti_issuer :: string
  ti_tenant :: tenant_id

definition find_issuer :: "trusted_issuer list \<Rightarrow> string \<Rightarrow> trusted_issuer option" where
  "find_issuer registry issuer = List.find (\<lambda>r. ti_issuer r = issuer) registry"

fun validate_entries :: "string list \<Rightarrow> trusted_issuer list \<Rightarrow> string + unit" where
  "validate_entries seen [] = Inr ()"
| "validate_entries seen (r # rs) =
     (if trim (ti_issuer r) = []
      then Inl ''identity.trusted_issuers has an entry with a blank issuer, which matches nothing an identity provider emits''
      else if ti_issuer r \<in> set seen
      then Inl (''identity.trusted_issuers registers '' @ ti_issuer r @
                '' more than once; which registration wins would depend on ordering, and the two may name different tenants'')
      else validate_entries (ti_issuer r # seen) rs)"

definition validate_registry :: "trusted_issuer list \<Rightarrow> string + unit" where
  "validate_registry registry =
     (if registry = []
      then Inl ''identity.trusted_issuers is empty: a runtime that trusts no issuer cannot bind any token to a tenant. Add at least one [[identity.trusted_issuers]] entry naming an issuer and the tenant it serves''
      else validate_entries [] registry)"

record identity_config =
  tenant_claim :: string
  subject_claim :: string
  roles_claim :: string
  scope_claim :: string
  rejects_tenant_header :: bool
  trusted_issuers :: "trusted_issuer list"

definition IdentityConfig_default :: identity_config where
  "IdentityConfig_default =
     \<lparr> tenant_claim = ''tenant_id'', subject_claim = ''sub'', roles_claim = ''roles'',
       scope_claim = ''scope'', rejects_tenant_header = True, trusted_issuers = [] \<rparr>"

definition BANNED_TENANT_HEADER :: string where
  "BANNED_TENANT_HEADER = ''x-tenant-id''"

definition IdentityConfig_validate :: "identity_config \<Rightarrow> string + unit" where
  "IdentityConfig_validate c =
     rbind (try_each (\<lambda>(field, value).
              if trim value = [] then Inl (''identity.'' @ field @ '' must not be empty'') else Inr ())
              [(''tenant_claim'', tenant_claim c), (''subject_claim'', subject_claim c),
               (''roles_claim'', roles_claim c), (''scope_claim'', scope_claim c)])
       (\<lambda>_. validate_registry (trusted_issuers c))"

record tenant_identity =
  id_tenant :: tenant_id
  id_subject :: string
  id_roles :: "string list"
  id_scopes :: "string list"

definition has_role :: "tenant_identity \<Rightarrow> string \<Rightarrow> bool" where
  "has_role i role = (role \<in> set (id_roles i))"

definition has_scope :: "tenant_identity \<Rightarrow> string \<Rightarrow> bool" where
  "has_scope i scope = (scope \<in> set (id_scopes i))"

definition registration_for :: "identity_config \<Rightarrow> token_claims \<Rightarrow> identity_error + trusted_issuer" where
  "registration_for config c =
     rbind (ok_or MissingIssuerClaim (claim_string c ''iss'')) (\<lambda>issuer.
     ok_or UnregisteredIssuer (find_issuer (trusted_issuers config) issuer))"

definition claimed_tenant :: "identity_config \<Rightarrow> token_claims \<Rightarrow> identity_error + tenant_id" where
  "claimed_tenant config c =
     rbind (ok_or (MissingTenantClaim (tenant_claim config)) (claim_string c (tenant_claim config)))
       (\<lambda>raw. map_err (\<lambda>_. InvalidTenantClaim (tenant_claim config)) (TenantId_try_new raw))"

definition bind_tenant :: "identity_config \<Rightarrow> token_claims \<Rightarrow> identity_error + tenant_id" where
  "bind_tenant config c =
     rbind (registration_for config c) (\<lambda>registration.
     rbind (claimed_tenant config c) (\<lambda>claimed.
     if claimed \<noteq> ti_tenant registration
     then Inl (TenantClaimDisagreesWithIssuer (tenant_claim config))
     else Inr (ti_tenant registration)))"

definition reject_tenant_header :: "identity_config \<Rightarrow> header_map \<Rightarrow> identity_error + unit" where
  "reject_tenant_header config headers =
     (if map_of headers BANNED_TENANT_HEADER = None then Inr ()
      else if rejects_tenant_header config then Inl (TenantHeaderPresent BANNED_TENANT_HEADER)
      else Inr ())"

definition resolve_identity ::
  "identity_config \<Rightarrow> token_read \<Rightarrow> header_map \<Rightarrow> identity_error + tenant_identity" where
  "resolve_identity config read headers =
     rbind (reject_tenant_header config headers) (\<lambda>_.
     rbind (extract_bearer headers) (\<lambda>token.
     rbind (read token) (\<lambda>c.
     rbind (bind_tenant config c) (\<lambda>tenant.
     Inr \<lparr> id_tenant = tenant,
           id_subject = (case claim_string c (subject_claim config) of None \<Rightarrow> [] | Some s \<Rightarrow> s),
           id_roles = claim_string_list c (roles_claim config),
           id_scopes = claim_string_list c (scope_claim config) \<rparr>))))"

definition IdentityResolver_new ::
  "identity_config \<Rightarrow> token_read \<Rightarrow> string + (identity_config \<times> token_read)" where
  "IdentityResolver_new config read = map_ok (\<lambda>_. (config, read)) (IdentityConfig_validate config)"

section \<open>The window, as seconds\<close>

text \<open>Whether a second lies in the window, in unbounded arithmetic.\<close>

definition in_window :: "token_claims \<Rightarrow> u64 \<Rightarrow> leeway_seconds \<Rightarrow> bool" where
  "in_window c now l =
     ((case unix_seconds c ''exp'' of
         None \<Rightarrow> True | Some e \<Rightarrow> unat now \<le> unat e + unat (leeway l))
      \<and> (case unix_seconds c ''nbf'' of
           None \<Rightarrow> True | Some n \<Rightarrow> unat n \<le> unat now + unat (leeway l)))"

lemma ensure_current_iff:
  "ensure_current c now l = Inr () \<longleftrightarrow> in_window c now l"
proof -
  have "unat n \<le> 2 ^ 64 - 1" for n :: u64
    using unsigned_less[of n, where ?'a = nat] by simp
  then have nbf: "(saturating_add now (leeway l) < n) = (unat now + unat (leeway l) < unat n)" for n
    unfolding word_less_nat_alt unat_saturating_add by (auto simp: min_def) (metis linorder_not_le)
  have exp: "(e < saturating_sub now (leeway l)) = (unat e + unat (leeway l) < unat now)" for e
    unfolding word_less_nat_alt unat_saturating_sub by auto
  show ?thesis
    by (auto simp: ensure_current_def ensure_not_expired_def ensure_already_valid_def in_window_def
        nbf exp result_simps split: option.split if_splits)
qed

text \<open>
  C18: The validity window is exact at both ends. A token is taken as current exactly when,
  in unbounded arithmetic, the clock has not passed its expiry by more than the leeway and its
  not-before is not further ahead than the leeway; the saturating arithmetic on \<open>u64\<close> loses
  nothing, however small or large the clock, the leeway or the claims are.
\<close>

theorem validity_window_is_exact:
  "ensure_current c now l = Inr () \<longleftrightarrow>
     (case unix_seconds c ''exp'' of None \<Rightarrow> True | Some e \<Rightarrow> unat now \<le> unat e + unat (leeway l))
     \<and> (case unix_seconds c ''nbf'' of None \<Rightarrow> True | Some n \<Rightarrow> unat n \<le> unat now + unat (leeway l))"
  unfolding ensure_current_iff in_window_def ..

section \<open>The interface of a token reader\<close>

text \<open>What the resolver relies on: claims are only handed over inside their window.\<close>

locale token_reader =
  fixes read :: token_read and now :: u64 and allowance :: leeway_seconds
  assumes read_current: "read token = Inr c \<Longrightarrow> in_window c now allowance"
begin

lemma resolved:
  assumes "resolve_identity config read headers = Inr i"
  obtains token c r where "extract_bearer headers = Inr token" "read token = Inr c"
    "in_window c now allowance" "claim_string c ''iss'' = Some (ti_issuer r)"
    "r \<in> set (trusted_issuers config)" "id_tenant i = ti_tenant r"
    "claim_string c (tenant_claim config) = Some (tenant_str (id_tenant i))"
    "id_scopes i = claim_string_list c (scope_claim config)"
    "rejects_tenant_header config \<longrightarrow> map_of headers BANNED_TENANT_HEADER = None"
proof -
  from assms obtain token c tenant where token: "extract_bearer headers = Inr token"
    and c: "read token = Inr c" and bind: "bind_tenant config c = Inr tenant"
    and header: "reject_tenant_header config headers = Inr ()"
    and i: "id_tenant i = tenant" "id_scopes i = claim_string_list c (scope_claim config)"
    by (auto simp: resolve_identity_def rbind_Inr)
  from bind obtain issuer r raw where r: "claim_string c ''iss'' = Some issuer"
    "find_issuer (trusted_issuers config) issuer = Some r"
    "claim_string c (tenant_claim config) = Some raw" "TenantId_try_new raw = Inr (ti_tenant r)"
    "tenant = ti_tenant r"
    by (auto simp: bind_tenant_def registration_for_def claimed_tenant_def result_simps
        split: if_splits)
  from r(2) have "r \<in> set (trusted_issuers config)" "ti_issuer r = issuer"
    by (auto simp: find_issuer_def dest: find_SomeD)
  moreover have "raw = tenant_str (ti_tenant r)"
    using r(4) by (auto simp: TenantId_try_new_def result_simps)
  moreover have "rejects_tenant_header config \<longrightarrow> map_of headers BANNED_TENANT_HEADER = None"
    using header by (auto simp: reject_tenant_header_def split: if_splits)
  ultimately show ?thesis
    using that[of token c r] token c r i read_current[OF c] by simp
qed

end

lemma trusted_ingress_current:
  "trusted_ingress_read x now l token = Inr c \<Longrightarrow> in_window c now l"
  by (auto simp: trusted_ingress_read_def rbind_Inr simp flip: ensure_current_iff)

lemma object_case_Inr:
  "(case v of JObject m \<Rightarrow> f m | _ \<Rightarrow> Inl e) = Inr y \<longleftrightarrow> (\<exists>m. v = JObject m \<and> f m = Inr y)"
  by (cases v) auto

lemma validating_current:
  "validating_read x r now token = Inr c \<Longrightarrow> in_window c now (vr_leeway r)"
  by (auto simp: validating_read_def verified_claims_def rbind_Inr object_case_Inr simp flip: ensure_current_iff)

interpretation ingress: token_reader "trusted_ingress_read x now l" now l
  for x :: "'key token_library" and now l
  by unfold_locales (rule trusted_ingress_current)

interpretation verifying: token_reader "validating_read x r now" now "vr_leeway r"
  for x :: "'key token_library" and r now
  by unfold_locales (rule validating_current)

section \<open>What a resolved identity rests on\<close>

lemma validate_entries_distinct:
  "validate_entries seen rs = Inr u \<Longrightarrow>
     distinct (map ti_issuer rs) \<and> (\<forall>r\<in>set rs. ti_issuer r \<notin> set seen)"
proof (induction seen rs rule: validate_entries.induct)
  case (2 seen r rs)
  then show ?case by (auto split: if_splits)
qed simp

lemma validated_issuers_unique:
  assumes "IdentityConfig_validate config = Inr u"
    and "r \<in> set (trusted_issuers config)" "r' \<in> set (trusted_issuers config)"
    and "ti_issuer r = ti_issuer r'"
  shows "r = r'"
proof -
  have "distinct (map ti_issuer (trusted_issuers config))"
    using assms(1)
    by (auto simp: IdentityConfig_validate_def rbind_Inr validate_registry_def
        dest: validate_entries_distinct split: if_splits)
  then show ?thesis using assms(2-4) by (simp add: distinct_map inj_on_def)
qed

lemma identity_origin:
  assumes config: "IdentityConfig_validate config = Inr ()"
    and read: "read = trusted_ingress_read x now l \<or> read = validating_read x vr now \<and> l = vr_leeway vr"
    and resolved: "resolve_identity config read headers = Inr i"
  shows "\<exists>token c r. extract_bearer headers = Inr token \<and> read token = Inr c \<and> in_window c now l
    \<and> claim_string c ''iss'' = Some (ti_issuer r) \<and> r \<in> set (trusted_issuers config)
    \<and> (\<forall>r'\<in>set (trusted_issuers config). ti_issuer r' = ti_issuer r \<longrightarrow> r' = r)
    \<and> id_tenant i = ti_tenant r
    \<and> claim_string c (tenant_claim config) = Some (tenant_str (id_tenant i))
    \<and> id_scopes i = claim_string_list c (scope_claim config)
    \<and> (rejects_tenant_header config \<longrightarrow> map_of headers BANNED_TENANT_HEADER = None)"
proof -
  have unique: "\<forall>r'\<in>set (trusted_issuers config). ti_issuer r' = ti_issuer r \<longrightarrow> r' = r"
    if "r \<in> set (trusted_issuers config)" for r
    using validated_issuers_unique[OF config] that by blast
  from read show ?thesis
  proof
    assume "read = trusted_ingress_read x now l"
    with resolved have "resolve_identity config (trusted_ingress_read x now l) headers = Inr i" by simp
    from ingress.resolved[OF this] \<open>read = _\<close> unique show ?thesis by metis
  next
    assume vr: "read = validating_read x vr now \<and> l = vr_leeway vr"
    with resolved have "resolve_identity config (validating_read x vr now) headers = Inr i" by simp
    from verifying.resolved[OF this] vr unique show ?thesis by metis
  qed
qed

text \<open>
  C10: A caller's tenant comes from its issuer and nothing else. Under a validated
  configuration and either reader, a resolved identity names the tenant of the one registration
  whose issuer the token states, the token's own tenant claim agrees, the token was inside its
  window, its scopes are the token's, and a request that tried to pick a tenant by header was
  refused where the configuration says so.
\<close>

theorem identity_comes_from_its_issuer:
  assumes config: "IdentityConfig_validate config = Inr ()"
    and read: "read = trusted_ingress_read x now l \<or> read = validating_read x vr now \<and> l = vr_leeway vr"
    and resolved: "resolve_identity config read headers = Inr i"
  shows "\<exists>token c r. extract_bearer headers = Inr token \<and> read token = Inr c \<and> in_window c now l
    \<and> claim_string c ''iss'' = Some (ti_issuer r) \<and> r \<in> set (trusted_issuers config)
    \<and> (\<forall>r'\<in>set (trusted_issuers config). ti_issuer r' = ti_issuer r \<longrightarrow> r' = r)
    \<and> id_tenant i = ti_tenant r
    \<and> claim_string c (tenant_claim config) = Some (tenant_str (id_tenant i))
    \<and> id_scopes i = claim_string_list c (scope_claim config)
    \<and> (rejects_tenant_header config \<longrightarrow> map_of headers BANNED_TENANT_HEADER = None)"
  by (rule identity_origin[OF config read resolved])

section \<open>A request\<close>

definition example_library :: "unit token_library" where
  "example_library =
     \<lparr> base64_url = Some,
       parse_json = (\<lambda>s. if s = ''claims'' then
           Some (JObject [(''exp'', JNumber (PosInt 1000)),
                          (''iss'', JString ''https://id.example/acme''),
                          (''scope'', JString ''data:orders:read data:orders:write''),
                          (''tenant_id'', JString ''acme'')])
         else None),
       jwt_header = (\<lambda>_. Some None), jwt_decode = (\<lambda>_ _ _. Inl (OtherFailure ''no signature'')),
       rsa_key = (\<lambda>_ _. Some ()) \<rparr>"

definition example_identity_config :: identity_config where
  "example_identity_config =
     IdentityConfig_default\<lparr>trusted_issuers :=
       [\<lparr> ti_issuer = ''https://id.example/acme'', ti_tenant = TenantId ''acme'' \<rparr>]\<rparr>"

definition example_headers :: header_map where
  "example_headers = [(''authorization'', ''Bearer h.claims.s'')]"

lemma plain_char: "ascii (CHR ''t'')" "ascii (CHR ''s'')" "ascii (CHR ''r'')" "ascii (CHR ''h'')"
  "\<not> is_whitespace (byte (CHR ''t''))" "\<not> is_whitespace (byte (CHR ''s''))"
  "\<not> is_whitespace (byte (CHR ''r''))" "\<not> is_whitespace (byte (CHR ''h''))"
  by (simp_all add: ascii_def char_class_defs)

lemma example_config_valid: "IdentityConfig_validate example_identity_config = Inr ()"
  by (simp add: IdentityConfig_validate_def example_identity_config_def IdentityConfig_default_def
      validate_registry_def plain_char)

lemma example_tenant: "TenantId_try_new ''acme'' = Inr (TenantId ''acme'')"
proof -
  have "is_dns_label ''acme''" by code_simp
  then show ?thesis
    by (simp add: TenantId_try_new_def map_ok_Inr parse_dns_label_Inr)
qed

definition example_claims :: token_claims where
  "example_claims =
     [(''exp'', JNumber (PosInt 1000)), (''iss'', JString ''https://id.example/acme''),
      (''scope'', JString ''data:orders:read data:orders:write''), (''tenant_id'', JString ''acme'')]"

lemma example_payload: "payload_segment ''h.claims.s'' = Inr ''claims''"
  by (simp add: payload_segment_def)

lemma example_current: "ensure_current example_claims 1030 LEEWAY_DEFAULT = Inr ()"
  by (simp add: ensure_current_iff in_window_def unix_seconds_def example_claims_def LEEWAY_DEFAULT_def)

lemma example_reads:
  "trusted_ingress_read example_library 1030 LEEWAY_DEFAULT ''h.claims.s'' = Inr example_claims"
  using example_current
  by (simp add: trusted_ingress_read_def decode_payload_def example_payload example_library_def
      example_claims_def)

lemma example_bearer: "extract_bearer example_headers = Inr ''h.claims.s''"
  by code_simp

lemma example_bound: "bind_tenant example_identity_config example_claims = Inr (TenantId ''acme'')"
  by (simp add: bind_tenant_def registration_for_def claimed_tenant_def claim_string_def find_issuer_def
      example_tenant example_identity_config_def IdentityConfig_default_def example_claims_def)

lemma example_resolves:
  "\<exists>i. resolve_identity example_identity_config
     (trusted_ingress_read example_library 1030 LEEWAY_DEFAULT) example_headers = Inr i"
  by (simp add: resolve_identity_def example_bearer example_reads reject_tenant_header_def
      example_bound BANNED_TENANT_HEADER_def) (simp add: example_headers_def)

theorem identity_comes_from_its_issuer_witness:
  "\<exists>i. resolve_identity example_identity_config
         (trusted_ingress_read example_library 1030 LEEWAY_DEFAULT) example_headers = Inr i
     \<and> (\<exists>r. r \<in> set (trusted_issuers example_identity_config) \<and> id_tenant i = ti_tenant r)"
proof -
  obtain i where i: "resolve_identity example_identity_config
      (trusted_ingress_read example_library 1030 LEEWAY_DEFAULT) example_headers = Inr i"
    using example_resolves by blast
  from identity_comes_from_its_issuer[OF example_config_valid disjI1[OF refl] i] i show ?thesis by blast
qed

end
