(* ===== verification/Data_Authorization.thy ===== *)
theory Data_Authorization
  imports Identity
begin

text \<open>
  Who may do what (\<open>crates/fabric-data-api/src/authorization\<close>): the caller a request resolves
  to, the scope an operation needs, the tenants whose resources need a relation check besides,
  the object the check is asked about, and the decision. The authorization service is the
  argument \<open>check\<close>: a function of the caller's credential and the question, which may answer,
  or fail to.
\<close>

section \<open>The caller\<close>

datatype caller_credential = CallerCredential (bearer: string)

record caller =
  caller_identity :: tenant_identity
  caller_credential :: caller_credential

definition Caller_from_request ::
  "identity_config \<Rightarrow> token_read \<Rightarrow> header_map \<Rightarrow> identity_error + caller" where
  "Caller_from_request config read headers =
     rbind (resolve_identity config read headers) (\<lambda>i.
     rbind (extract_bearer headers) (\<lambda>token.
     Inr \<lparr> caller_identity = i, caller_credential = CallerCredential token \<rparr>))"

section \<open>What the check is asked about\<close>

definition OBJECT_RESERVED :: "scalar list" where
  "OBJECT_RESERVED = [ch CHR '':'', ch CHR ''#'', ch CHR ''/'']"

definition MAX_ID :: nat where
  "MAX_ID = 255"

datatype object_fault = ObjectEmpty | ObjectTooLong nat | ObjectCharacter scalar

record check_object =
  obj_resource :: logical_resource_name
  obj_id :: string

definition CheckObject_try_new :: "logical_resource_name \<Rightarrow> string \<Rightarrow> object_fault + check_object" where
  "CheckObject_try_new resource i =
     (if i = [] then Inl ObjectEmpty
      else if length i > MAX_ID then Inl (ObjectTooLong MAX_ID)
      else case List.find (\<lambda>c. is_whitespace c \<or> c \<in> set OBJECT_RESERVED) (chars i) of
             Some bad \<Rightarrow> Inl (ObjectCharacter bad)
           | None \<Rightarrow> Inr \<lparr> obj_resource = resource, obj_id = i \<rparr>)"

definition CheckObject_to_string :: "check_object \<Rightarrow> string" where
  "CheckObject_to_string x = resource_str (obj_resource x) @ '':'' @ obj_id x"

datatype check_target = TargetRecord check_object | TargetCollection collection_object

record check_question =
  asked_operation :: operation_kind
  asked_target :: check_target

datatype check_decision = Allowed | Denied

datatype check_failure = CheckUnavailable | CheckInternal | CheckNotConfigured

type_synonym authorization_check =
  "caller_credential \<Rightarrow> check_question \<Rightarrow> check_failure + check_decision"

definition no_check_configured :: authorization_check where
  "no_check_configured _ _ = Inl CheckNotConfigured"

section \<open>Scopes and tenant policies\<close>

definition required_scope :: "operation_kind \<Rightarrow> string \<Rightarrow> string" where
  "required_scope operation resource =
     ''data:'' @ resource @ '':'' @ (if is_write operation then ''write'' else ''read'')"

definition scopes_permit :: "tenant_identity \<Rightarrow> operation_kind \<Rightarrow> string \<Rightarrow> bool" where
  "scopes_permit i operation resource = has_scope i (required_scope operation resource)"

datatype tenant_posture = SyntheticTrial | RelationChecked

record tenant_authorization =
  ta_posture :: tenant_posture
  ta_resources :: "logical_resource_name list"

definition TenantAuthorization_new ::
  "tenant_posture \<Rightarrow> logical_resource_name list \<Rightarrow> tenant_authorization" where
  "TenantAuthorization_new posture resources =
     \<lparr> ta_posture = posture, ta_resources = remdups resources \<rparr>"

definition ta_requires_check :: "tenant_authorization \<Rightarrow> logical_resource_name \<Rightarrow> bool" where
  "ta_requires_check ta resource =
     (ta_posture ta = RelationChecked \<and> resource \<in> set (ta_resources ta))"

type_synonym tenant_policies = "(tenant_id \<times> tenant_authorization) list"

definition policies_with ::
  "tenant_policies \<Rightarrow> tenant_id \<Rightarrow> tenant_authorization \<Rightarrow> tenant_policies" where
  "policies_with ps tenant policy = btree_insert tenant policy ps"

definition requires_check :: "tenant_policies \<Rightarrow> tenant_id \<Rightarrow> logical_resource_name \<Rightarrow> bool" where
  "requires_check ps tenant resource =
     (case map_of ps tenant of None \<Rightarrow> False | Some policy \<Rightarrow> ta_requires_check policy resource)"

section \<open>The decision\<close>

datatype denial_reason = MissingScope | CheckDenied | UnnameableObject

fun denial_str :: "denial_reason \<Rightarrow> string" where
  "denial_str MissingScope = ''missing_scope''"
| "denial_str CheckDenied = ''check_denied''"
| "denial_str UnnameableObject = ''unnameable_object''"

datatype refusal_outcome = RefusalDenied denial_reason | RefusalUndecided check_failure

record data_authorization =
  da_policies :: tenant_policies
  da_check :: authorization_check

definition DataAuthorization_default :: data_authorization where
  "DataAuthorization_default = \<lparr> da_policies = [], da_check = no_check_configured \<rparr>"

definition check_target_for ::
  "operation_kind \<Rightarrow> logical_resource_name \<Rightarrow> string option \<Rightarrow> refusal_outcome + check_target" where
  "check_target_for operation resource key =
     (if is_collection_operation operation
      then map_err (\<lambda>_. RefusalDenied UnnameableObject)
             (map_ok TargetCollection (CollectionObject_try_new resource))
      else ok_or (RefusalDenied UnnameableObject)
             (map_option TargetRecord
               (Option.bind key (\<lambda>key. ok (CheckObject_try_new resource key)))))"

definition decide ::
  "data_authorization \<Rightarrow> caller \<Rightarrow> operation_kind \<Rightarrow> logical_resource_name \<Rightarrow> string option
     \<Rightarrow> refusal_outcome + unit" where
  "decide a c operation resource key =
     (if \<not> scopes_permit (caller_identity c) operation (resource_str resource)
      then Inl (RefusalDenied MissingScope)
      else if \<not> requires_check (da_policies a) (id_tenant (caller_identity c)) resource then Inr ()
      else rbind (check_target_for operation resource key) (\<lambda>target.
        case da_check a (caller_credential c)
               \<lparr> asked_operation = operation, asked_target = target \<rparr> of
          Inr Allowed \<Rightarrow> Inr ()
        | Inr Denied \<Rightarrow> Inl (RefusalDenied CheckDenied)
        | Inl failure \<Rightarrow> Inl (RefusalUndecided failure)))"

section \<open>What is allowed\<close>

text \<open>
  An operation is permitted to a caller: it holds the scope and, where its tenant's policy asks
  for a relation check on the resource, the service was asked about this operation on this very
  object and said yes.
\<close>

definition permitted ::
  "data_authorization \<Rightarrow> caller \<Rightarrow> operation_kind \<Rightarrow> logical_resource_name \<Rightarrow> string option \<Rightarrow> bool" where
  "permitted a c operation resource key =
     (required_scope operation (resource_str resource) \<in> set (id_scopes (caller_identity c))
      \<and> (requires_check (da_policies a) (id_tenant (caller_identity c)) resource \<longrightarrow>
           (\<exists>target. check_target_for operation resource key = Inr target
              \<and> da_check a (caller_credential c)
                  \<lparr> asked_operation = operation, asked_target = target \<rparr> = Inr Allowed)))"

lemma answer_Inr:
  "(case r of Inr Allowed \<Rightarrow> Inr () | Inr Denied \<Rightarrow> Inl d | Inl f \<Rightarrow> Inl (g f)) = Inr u
     \<longleftrightarrow> r = Inr Allowed"
  by (auto split: sum.splits check_decision.splits)

lemma decide_Inr [result_simps]:
  "decide a c operation resource key = Inr u \<longleftrightarrow> permitted a c operation resource key"
  by (auto simp: decide_def permitted_def scopes_permit_def has_scope_def rbind_Inr answer_Inr)

lemma required_scope_inj:
  assumes "required_scope k r = required_scope k' r'" "is_write k = is_write k'"
  shows "r = r'"
  using assms by (auto simp: required_scope_def)

lemma find_bad_None:
  "List.find p (chars i) = None \<longleftrightarrow> (\<forall>c\<in>set (chars i). \<not> p c)"
  by (rule find_None_conv)

lemma CheckObject_try_new_Inr [result_simps]:
  "CheckObject_try_new r i = Inr o' \<longleftrightarrow>
     i \<noteq> [] \<and> length i \<le> MAX_ID
     \<and> (\<forall>c\<in>set (chars i). \<not> is_whitespace c \<and> c \<notin> set OBJECT_RESERVED)
     \<and> o' = \<lparr> obj_resource = r, obj_id = i \<rparr>"
  by (auto simp: CheckObject_try_new_def find_bad_None split: option.split dest!: find_SomeD)

text \<open>
  An object's text names one resource and one record: a resource name holds no colon, so the
  first colon is where the record's id begins.
\<close>

lemma split_once_first: "d \<notin> set a \<Longrightarrow> split_once d (a @ d # b) = Some (a, b)"
  by (induction a) auto

lemma object_names_apart:
  assumes "is_identifier (resource_str (obj_resource p))" "is_identifier (resource_str (obj_resource q))"
    and "CheckObject_to_string p = CheckObject_to_string q"
  shows "p = q"
proof -
  have split: "split_once (CHR '':'') (CheckObject_to_string x)
      = Some (resource_str (obj_resource x), obj_id x)"
    if "is_identifier (resource_str (obj_resource x))" for x
    using identifier_no_separator[OF that]
    by (simp add: CheckObject_to_string_def split_once_first)
  from split[OF assms(1)] split[OF assms(2)] assms(3) show ?thesis
    by (cases p; cases q) (auto intro: logical_resource_name.expand)
qed

text \<open>
  C11: Authorization fails closed. An operation goes ahead exactly when the caller holds the
  scope for it on this resource and, if its tenant's policy wants a relation check there, the
  authorization service answered that this operation is allowed on this very object: for a list or
  a create the collection named as the resource is, which must fit the bound; for every other
  operation the record of this resource under the key asked for, which must be there, must fit the
  bound and hold no whitespace and no character the service reserves. A denial, an outage, a
  missing service or an object that cannot be named all refuse.
\<close>

theorem authorization_fails_closed:
  "decide a c operation resource key = Inr () \<longleftrightarrow>
     required_scope operation (resource_str resource) \<in> set (id_scopes (caller_identity c))
     \<and> (case map_of (da_policies a) (id_tenant (caller_identity c)) of
          None \<Rightarrow> True
        | Some policy \<Rightarrow>
            if ta_posture policy = RelationChecked \<and> resource \<in> set (ta_resources policy)
            then (if operation = OpList \<or> operation = OpCreate
                  then length (resource_str resource) \<le> MAX_RESOURCE_LENGTH
                    \<and> da_check a (caller_credential c)
                        \<lparr> asked_operation = operation, asked_target = TargetCollection (CollectionObject resource) \<rparr>
                      = Inr Allowed
                  else (\<exists>k. key = Some k \<and> k \<noteq> [] \<and> length k \<le> MAX_ID
                    \<and> list_all (\<lambda>x. \<not> is_whitespace x \<and> x \<notin> set OBJECT_RESERVED) (chars k)
                    \<and> da_check a (caller_credential c)
                        \<lparr> asked_operation = operation, asked_target = TargetRecord \<lparr> obj_resource = resource, obj_id = k \<rparr> \<rparr>
                      = Inr Allowed))
            else True)"
proof -
  have target: "check_target_for operation resource key = Inr target \<longleftrightarrow>
      (if operation = OpList \<or> operation = OpCreate
       then length (resource_str resource) \<le> MAX_RESOURCE_LENGTH \<and> target = TargetCollection (CollectionObject resource)
       else (\<exists>k. key = Some k \<and> k \<noteq> [] \<and> length k \<le> MAX_ID
              \<and> list_all (\<lambda>x. \<not> is_whitespace x \<and> x \<notin> set OBJECT_RESERVED) (chars k)
              \<and> target = TargetRecord \<lparr> obj_resource = resource, obj_id = k \<rparr>))" for target
    by (cases operation)
      (auto simp: check_target_for_def map_err_Inr map_ok_Inr ok_or_Inr CollectionObject_try_new_def Let_def
        ok_Some bind_eq_Some_conv CheckObject_try_new_Inr list_all_iff not_le)
  show ?thesis
    unfolding decide_Inr permitted_def requires_check_def ta_requires_check_def target
    by (auto split: option.split if_splits)
qed

end
