(* ===== verification/Data_Errors.thy ===== *)
theory Data_Errors
  imports Resolution Data_Authorization
begin

text \<open>
  What the Data API answers when it refuses (\<open>crates/fabric-data-api/src/errors\<close>): the error,
  its status, code, public message and retry advice, and the answer given for a connector's
  error under the operation it failed for. A \<open>BadRequest\<close> keeps the identifier error its text
  quotes instead of the text, since how Rust prints a character for debugging is not modelled.
\<close>

section \<open>Errors\<close>

datatype bad_request =
    BadText string
  | BadIdentifier string identifier_error

datatype data_api_error =
    ErrIdentity identity_error
  | ErrResolve resolve_error
  | ErrUnknownResource logical_resource_name
  | ErrOperationNotAllowed string string
  | ErrReadOnly string
  | ErrForbidden string string
  | ErrUndecided check_failure
  | ErrBadRequest bad_request
  | ErrNotFound
  | ErrPartiallyApplied u64 u64
  | ErrConnector connector_error operation_kind

section \<open>The answer to a connector's error\<close>

definition MASKED :: string where
  "MASKED = ''internal error''"

definition NOT_DELIVERED :: string where
  "NOT_DELIVERED = ''the backend was not reached, so this request was not carried out; it is safe to retry''"

definition READ_INCOMPLETE :: string where
  "READ_INCOMPLETE = ''the request could not be completed and nothing was changed; it is safe to retry''"

definition WRITE_UNKNOWN :: string where
  "WRITE_UNKNOWN = ''the backend was reached but did not answer, so this write may or may not have been applied; read the current state before retrying, because this request is not idempotent''"

definition WRITE_APPLIED :: string where
  "WRITE_APPLIED = ''the write was applied, but its result could not be read, so the number of affected records is unavailable; do not retry''"

definition NOT_EXECUTED :: string where
  "NOT_EXECUTED = ''the request could not be executed''"

definition WRITE_NOT_APPLIED :: string where
  "WRITE_NOT_APPLIED = ''this write was not carried out, so no records were changed; retrying cannot duplicate it''"

definition WRITE_UNREADABLE :: string where
  "WRITE_UNREADABLE = ''the write was carried out, but the backend''@ [CHR 0x27] @ ''s answer could not be understood, so the result is unavailable; do not retry''"

definition WRITE_REFUSED_UNKNOWN :: string where
  "WRITE_REFUSED_UNKNOWN = ''the backend refused this write and the platform cannot tell whether it was applied first; read the current state before retrying''"

definition internal_message :: "connector_error \<Rightarrow> bool \<Rightarrow> string" where
  "internal_message error writing =
     (if \<not> writing then MASKED
      else case effect error of
             Applied \<Rightarrow> WRITE_UNREADABLE
           | EffectUnknown \<Rightarrow> WRITE_REFUSED_UNKNOWN
           | NotApplied \<Rightarrow> WRITE_NOT_APPLIED)"

datatype answer_message = FixedMessage string | UnsupportedMessage unsupported_feature

record connector_answer =
  ans_status :: u16
  ans_code :: string
  ans_message :: answer_message

definition UNAVAILABLE_CODE :: string where
  "UNAVAILABLE_CODE = ''connector_unavailable''"

definition FAILED_CODE :: string where
  "FAILED_CODE = ''execution_failed''"

definition fallback_answer :: "connector_error \<Rightarrow> bool \<Rightarrow> connector_answer" where
  "fallback_answer error writing =
     (if is_internal error
      then \<lparr> ans_status = 500, ans_code = FAILED_CODE,
             ans_message = FixedMessage (internal_message error writing) \<rparr>
      else \<lparr> ans_status = 400, ans_code = FAILED_CODE, ans_message = FixedMessage NOT_EXECUTED \<rparr>)"

fun connector_answer_of :: "connector_error \<Rightarrow> bool \<Rightarrow> connector_answer" where
  "connector_answer_of (Unreachable _) _ =
     \<lparr> ans_status = 503, ans_code = UNAVAILABLE_CODE, ans_message = FixedMessage NOT_DELIVERED \<rparr>"
| "connector_answer_of (OutcomeUnknown _) writing =
     (if writing
      then \<lparr> ans_status = 502, ans_code = ''write_outcome_unknown'',
             ans_message = FixedMessage WRITE_UNKNOWN \<rparr>
      else \<lparr> ans_status = 503, ans_code = UNAVAILABLE_CODE,
             ans_message = FixedMessage READ_INCOMPLETE \<rparr>)"
| "connector_answer_of (ResultLost _) writing =
     (if writing
      then \<lparr> ans_status = 502, ans_code = ''write_result_unavailable'',
             ans_message = FixedMessage WRITE_APPLIED \<rparr>
      else \<lparr> ans_status = 503, ans_code = UNAVAILABLE_CODE,
             ans_message = FixedMessage READ_INCOMPLETE \<rparr>)"
| "connector_answer_of (Unsupported refused_part _) _ =
     \<lparr> ans_status = 400, ans_code = ''unsupported'', ans_message = UnsupportedMessage refused_part \<rparr>"
| "connector_answer_of other writing = fallback_answer other writing"

section \<open>Status, code, message and retry advice\<close>

fun error_status :: "data_api_error \<Rightarrow> u16" where
  "error_status (ErrIdentity e) = identity_status e"
| "error_status (ErrResolve RuntimeUnavailable) = 503"
| "error_status (ErrResolve (UnknownTenant _)) = 403"
| "error_status (ErrResolve (UnboundDataSource _ _)) = 500"
| "error_status (ErrResolve (MissingDataSource _ _)) = 500"
| "error_status (ErrResolve (IsolationNotEnforceable _ _ _)) = 500"
| "error_status (ErrUnknownResource _) = 404"
| "error_status ErrNotFound = 404"
| "error_status (ErrPartiallyApplied _ _) = 500"
| "error_status (ErrOperationNotAllowed _ _) = 405"
| "error_status (ErrReadOnly _) = 405"
| "error_status (ErrForbidden _ _) = 403"
| "error_status (ErrUndecided CheckUnavailable) = 503"
| "error_status (ErrUndecided CheckInternal) = 500"
| "error_status (ErrUndecided CheckNotConfigured) = 500"
| "error_status (ErrBadRequest _) = 400"
| "error_status (ErrConnector error operation) =
     ans_status (connector_answer_of error (is_write operation))"

definition RETRY_AFTER_SECONDS :: u32 where
  "RETRY_AFTER_SECONDS = 5"

definition retry_after :: "data_api_error \<Rightarrow> u32 option" where
  "retry_after e = (if error_status e = 503 then Some RETRY_AFTER_SECONDS else None)"

fun error_code :: "data_api_error \<Rightarrow> string" where
  "error_code (ErrIdentity _) = ''identity''"
| "error_code (ErrResolve RuntimeUnavailable) = ''runtime_unavailable''"
| "error_code (ErrResolve (UnknownTenant _)) = ''unknown_tenant''"
| "error_code (ErrResolve _) = ''internal''"
| "error_code (ErrUndecided CheckUnavailable) = ''authorization_unavailable''"
| "error_code (ErrUndecided _) = ''internal''"
| "error_code (ErrUnknownResource _) = ''unknown_resource''"
| "error_code (ErrOperationNotAllowed _ _) = ''operation_not_allowed''"
| "error_code (ErrReadOnly _) = ''read_only''"
| "error_code (ErrForbidden _ _) = ''forbidden''"
| "error_code (ErrBadRequest _) = ''bad_request''"
| "error_code ErrNotFound = ''not_found''"
| "error_code (ErrPartiallyApplied _ _) = ''partial_write''"
| "error_code (ErrConnector error operation) =
     ans_code (connector_answer_of error (is_write operation))"

fun identity_message :: "identity_error \<Rightarrow> string" where
  "identity_message MissingAuthorization = ''request has no Authorization header''"
| "identity_message NotBearer = ''Authorization header is not a Bearer token''"
| "identity_message MalformedToken = ''bearer token is malformed''"
| "identity_message UnverifiedToken = ''bearer token failed verification''"
| "identity_message ExpiredToken = ''bearer token has expired''"
| "identity_message TokenNotYetValid = ''bearer token is not yet valid''"
| "identity_message MissingIssuerClaim = ''bearer token has no iss claim''"
| "identity_message UnregisteredIssuer =
     ''the bearer token'' @ [CHR 0x27] @ ''s issuer is not registered with this runtime''"
| "identity_message (MissingTenantClaim claim) = ''bearer token has no '' @ claim @ '' claim''"
| "identity_message (TenantClaimDisagreesWithIssuer claim) =
     ''the '' @ claim @ '' claim does not name the tenant its issuer is registered to''"
| "identity_message (InvalidTenantClaim claim) =
     ''the '' @ claim @ '' claim is not a valid tenant identifier''"
| "identity_message (TenantHeaderPresent header) =
     ''tenant selection through the '' @ header @ '' header is not permitted''"

datatype public_text = PublicText string | PublicIdentifier string identifier_error

fun public_message :: "data_api_error \<Rightarrow> public_text" where
  "public_message (ErrResolve RuntimeUnavailable) =
     PublicText ''the platform is starting up; retry shortly''"
| "public_message (ErrResolve (UnknownTenant _)) = PublicText ''this tenant has no resources here''"
| "public_message (ErrUndecided CheckUnavailable) =
     PublicText ''authorization is temporarily unavailable; retry shortly''"
| "public_message (ErrResolve (UnboundDataSource _ _)) = PublicText ''internal error''"
| "public_message (ErrResolve (MissingDataSource _ _)) = PublicText ''internal error''"
| "public_message (ErrResolve (IsolationNotEnforceable _ _ _)) = PublicText ''internal error''"
| "public_message (ErrUndecided CheckInternal) = PublicText ''internal error''"
| "public_message (ErrUndecided CheckNotConfigured) = PublicText ''internal error''"
| "public_message (ErrConnector error operation) =
     (case ans_message (connector_answer_of error (is_write operation)) of
        FixedMessage m \<Rightarrow> PublicText m
      | UnsupportedMessage refused_part \<Rightarrow>
          PublicText (''this operation is not supported: '' @ feature_str refused_part))"
| "public_message (ErrIdentity e) = PublicText (identity_message e)"
| "public_message (ErrUnknownResource r) = PublicText (''no resource named '' @ resource_str r)"
| "public_message (ErrOperationNotAllowed resource operation) =
     PublicText (operation @ '' is not available on '' @ resource)"
| "public_message (ErrReadOnly resource) = PublicText (resource @ '' is read-only'')"
| "public_message (ErrForbidden resource operation) =
     PublicText (''not permitted to '' @ operation @ '' '' @ resource)"
| "public_message (ErrBadRequest (BadText m)) = PublicText m"
| "public_message (ErrBadRequest (BadIdentifier prefix e)) = PublicIdentifier prefix e"
| "public_message ErrNotFound = PublicText ''no matching record''"
| "public_message (ErrPartiallyApplied requested applied) =
     PublicText (show_nat (unat applied) @ '' of '' @ show_nat (unat requested)
       @ '' records were written; the rest were not, and the platform cannot determine which'')"

section \<open>What the answers promise\<close>

text \<open>
  C22: Advice to retry a write is sound. When the answer to a failed write carries
  \<open>Retry-After\<close>, is a 4xx, or says the write was not carried out, the connector's error is one
  after which nothing was written; and an error after which the write was applied is never
  answered with a status that asks for the request again.
\<close>

theorem retried_writes_were_not_applied:
  assumes "is_write operation"
    and "retry_after (ErrConnector error operation) \<noteq> None
         \<or> error_status (ErrConnector error operation) < 500
         \<or> public_message (ErrConnector error operation) = PublicText NOT_DELIVERED
         \<or> public_message (ErrConnector error operation) = PublicText WRITE_NOT_APPLIED"
  shows "effect error = NotApplied"
proof -
  have apart: "WRITE_UNKNOWN \<noteq> NOT_DELIVERED" "WRITE_UNKNOWN \<noteq> WRITE_NOT_APPLIED"
    "WRITE_APPLIED \<noteq> NOT_DELIVERED" "WRITE_APPLIED \<noteq> WRITE_NOT_APPLIED"
    "WRITE_UNREADABLE \<noteq> NOT_DELIVERED" "WRITE_UNREADABLE \<noteq> WRITE_NOT_APPLIED"
    "WRITE_REFUSED_UNKNOWN \<noteq> NOT_DELIVERED" "WRITE_REFUSED_UNKNOWN \<noteq> WRITE_NOT_APPLIED"
    by (simp_all add: WRITE_UNKNOWN_def NOT_DELIVERED_def WRITE_NOT_APPLIED_def WRITE_APPLIED_def
        WRITE_UNREADABLE_def WRITE_REFUSED_UNKNOWN_def)
  show ?thesis
    using assms apart
    by (cases error) (auto simp: retry_after_def fallback_answer_def internal_message_def
        split: operation_effect.splits)
qed

theorem retried_writes_were_not_applied_witness:
  "retry_after (ErrConnector (Unreachable (ConnectorId ''ndc'')) OpCreate) = Some 5
   \<and> effect (Unreachable (ConnectorId ''ndc'')) = NotApplied"
proof -
  have retry: "retry_after (ErrConnector (Unreachable (ConnectorId ''ndc'')) OpCreate) = Some 5"
    by (simp add: retry_after_def RETRY_AFTER_SECONDS_def)
  moreover have "effect (Unreachable (ConnectorId ''ndc'')) = NotApplied"
    by (rule retried_writes_were_not_applied[of OpCreate]) (simp_all add: retry)
  ultimately show ?thesis by simp
qed

text \<open>
  What a caller is told does not name the infrastructure: two connector errors of one kind get
  the same answer, whatever connector, collection, secret, status or backend text they carry.
\<close>

fun answer_kind :: "connector_error \<Rightarrow> nat \<times> unsupported_feature option \<times> operation_effect" where
  "answer_kind (UnknownConnector c) = (0, None, NotApplied)"
| "answer_kind (Unsupported f _) = (1, Some f, NotApplied)"
| "answer_kind (UnknownCollection _) = (2, None, NotApplied)"
| "answer_kind (SecretUnavailable _) = (3, None, NotApplied)"
| "answer_kind (Unreachable _) = (4, None, NotApplied)"
| "answer_kind (OutcomeUnknown _) = (5, None, EffectUnknown)"
| "answer_kind (ResultLost _) = (6, None, Applied)"
| "answer_kind (Rejected _ s _) = (7, None, rejection_effect s)"
| "answer_kind (MalformedResponse _ _) = (8, None, Applied)"
| "answer_kind (InvalidOperation _) = (9, None, NotApplied)"

text \<open>
  C23: A connector's error discloses no infrastructure. The status, code and message a
  caller gets for it depend on the kind of error, the refused feature and whether the write took
  effect, and on nothing else the error carries: not the connector, the collection, the secret,
  the backend's status or its text.
\<close>

theorem connector_answers_are_masked:
  assumes "answer_kind error = answer_kind error'"
  shows "connector_answer_of error writing = connector_answer_of error' writing"
  using assms by (cases error; cases error') (simp_all add: fallback_answer_def internal_message_def)

theorem connector_answers_are_masked_witness:
  "connector_answer_of (Rejected (ConnectorId ''ndc'') 500 ''table sales.orders'') True
   = connector_answer_of (Rejected (ConnectorId ''other'') 404 ''host db-7'') True"
  by (rule connector_answers_are_masked) (simp add: rejection_effect_def)

end
