(* ===== verification/Data_Catalog.thy ===== *)
theory Data_Catalog
  imports Data_Errors
begin

text \<open>
  What the Data API serves and shows (\<open>crates/fabric-data-api/src\<close>: \<open>catalog/\<close>, \<open>config.rs\<close>,
  \<open>models/discriminator.rs\<close>, \<open>visible_fields.rs\<close>, \<open>writable_fields.rs\<close> and the three
  responses): the catalogue of resources, the bounds of a request, which fields a response may
  carry and which a caller may write, and the bodies answered. The JSON decoder of a catalogue is
  the argument \<open>parse\<close>.
\<close>

section \<open>The catalogue\<close>

record resource_definition =
  rd_data_source :: logical_data_source_name
  rd_collection :: collection_name
  rd_key_field :: field_name
  rd_operations :: "operation_kind list"
  rd_queryable_fields :: "field_name list"

definition default_key_field :: field_name where
  "default_key_field = FieldName ''id''"

definition default_operations :: "operation_kind list" where
  "default_operations = [OpRead, OpList]"

definition rd_allows :: "resource_definition \<Rightarrow> operation_kind \<Rightarrow> bool" where
  "rd_allows r operation = (operation \<in> set (rd_operations r))"

definition permits_field :: "resource_definition \<Rightarrow> field_name \<Rightarrow> bool" where
  "permits_field r f = (rd_queryable_fields r = [] \<or> f \<in> set (rd_queryable_fields r))"

definition projection :: "resource_definition \<Rightarrow> field_name list \<Rightarrow> field_name list" where
  "projection r selected = (if selected = [] then rd_queryable_fields r else selected)"

type_synonym resource_catalog = "(logical_resource_name \<times> resource_definition) list"

definition catalog_resolve ::
  "resource_catalog \<Rightarrow> logical_resource_name \<Rightarrow> data_api_error + resource_definition" where
  "catalog_resolve c name = ok_or (ErrUnknownResource name) (map_of c name)"

datatype json_fault_category = JsonIo | JsonSyntax | JsonData | JsonEof

record json_fault =
  jf_category :: json_fault_category
  jf_line :: nat
  jf_column :: nat

definition describe_json_fault :: "json_fault \<Rightarrow> string" where
  "describe_json_fault e =
     ''the catalogue '' @
     (case jf_category e of
        JsonIo \<Rightarrow> ''could not be read''
      | JsonSyntax \<Rightarrow> ''is not valid JSON''
      | JsonData \<Rightarrow> ''does not match the catalogue shape''
      | JsonEof \<Rightarrow> ''ends before its JSON does'') @
     '' at line '' @ show_nat (jf_line e) @ '' column '' @ show_nat (jf_column e)"

definition decode_resource_catalogue ::
  "(string \<Rightarrow> json_fault + resource_catalog) \<Rightarrow> string \<Rightarrow> string + resource_catalog" where
  "decode_resource_catalogue parse bytes =
     rbind (map_err describe_json_fault (parse bytes)) (\<lambda>catalogue.
     if catalogue = []
     then Inl ''the resource catalogue is empty, so no resource can be served''
     else Inr catalogue)"

section \<open>Bounds\<close>

record data_api_config =
  default_limit :: u32
  max_limit :: u32
  max_filters :: u32
  max_sort_fields :: u32
  max_select_fields :: u32
  max_filter_depth :: u32
  max_request_body_bytes :: u32
  max_mutation_batch_size :: u32

definition DataApiConfig_default :: data_api_config where
  "DataApiConfig_default =
     \<lparr> default_limit = 50, max_limit = 1000, max_filters = 25, max_sort_fields = 5,
       max_select_fields = 50, max_filter_depth = 4, max_request_body_bytes = 1024 * 1024,
       max_mutation_batch_size = 500 \<rparr>"

definition effective_limit :: "data_api_config \<Rightarrow> u32 option \<Rightarrow> u32" where
  "effective_limit c requested =
     (case requested of
        Some limit \<Rightarrow> if limit > max_limit c then max_limit c else limit
      | None \<Rightarrow> default_limit c)"

definition DataApiConfig_validate :: "data_api_config \<Rightarrow> string + unit" where
  "DataApiConfig_validate c =
     (if max_limit c = 0 then Inl ''data_api.max_limit must be greater than zero''
      else if default_limit c > max_limit c
      then Inl ''data_api.default_limit must not exceed max_limit''
      else try_each (\<lambda>(name, value).
             if value = 0 then Inl (''data_api.'' @ name @ '' must be greater than zero'') else Inr ())
           [(''max_filters'', max_filters c), (''max_sort_fields'', max_sort_fields c),
            (''max_select_fields'', max_select_fields c), (''max_filter_depth'', max_filter_depth c),
            (''max_request_body_bytes'', max_request_body_bytes c),
            (''max_mutation_batch_size'', max_mutation_batch_size c)])"

lemma effective_limit_bounded:
  assumes "DataApiConfig_validate c = Inr ()"
  shows "effective_limit c requested \<le> max_limit c"
  using assms by (auto simp: DataApiConfig_validate_def effective_limit_def split: option.split if_splits)

section \<open>Fields shown and fields written\<close>

fun discriminator_column :: "isolation_model \<Rightarrow> field_name option" where
  "discriminator_column (IsoDiscriminator column _) = Some column"
| "discriminator_column IsoDatabase = None"
| "discriminator_column (IsoSchema _) = None"

record field_rules =
  fr_resource :: resource_definition
  fr_discriminator :: "field_name option"

definition VisibleFields_new :: "resource_definition \<Rightarrow> isolation_model \<Rightarrow> field_rules" where
  "VisibleFields_new r isolation =
     \<lparr> fr_resource = r, fr_discriminator = discriminator_column isolation \<rparr>"

definition visible_permits :: "field_rules \<Rightarrow> field_name \<Rightarrow> bool" where
  "visible_permits v f = (fr_discriminator v \<noteq> Some f \<and> permits_field (fr_resource v) f)"

definition WritableFields_new :: "resource_definition \<Rightarrow> isolation_model \<Rightarrow> field_rules" where
  "WritableFields_new r isolation =
     \<lparr> fr_resource = r, fr_discriminator = discriminator_column isolation \<rparr>"

definition names_discriminator :: "field_rules \<Rightarrow> field_name \<Rightarrow> bool" where
  "names_discriminator w f =
     (case fr_discriminator w of
        None \<Rightarrow> False
      | Some column \<Rightarrow> eq_ignore_ascii_case (field_str column) (field_str f))"

definition writable_permits :: "field_rules \<Rightarrow> field_name \<Rightarrow> bool" where
  "writable_permits w f = (\<not> names_discriminator w f \<and> permits_field (fr_resource w) f)"

text \<open>What may be written may be shown: the write rule is the stricter one.\<close>

lemma writable_visible:
  "writable_permits (WritableFields_new r isolation) f \<Longrightarrow>
     visible_permits (VisibleFields_new r isolation) f"
  by (auto simp: writable_permits_def visible_permits_def WritableFields_new_def VisibleFields_new_def
      names_discriminator_def split: option.splits)

section \<open>Responses\<close>

type_synonym row_response = "(string \<times> json) list"

definition project :: "row \<Rightarrow> field_rules \<Rightarrow> row_response" where
  "project r visible =
     btree_of (map (\<lambda>(f, v). (field_str f, v)) (filter (\<lambda>(f, v). visible_permits visible f) r))"

record paging_info =
  pi_limit :: u32
  pi_offset :: u32
  pi_returned :: nat
  pi_has_more :: bool

record list_response =
  lr_data :: "row_response list"
  lr_paging :: paging_info

definition ListResponse_from_outcome ::
  "query_outcome \<Rightarrow> field_rules \<Rightarrow> u32 \<Rightarrow> u32 \<Rightarrow> list_response" where
  "ListResponse_from_outcome outcome visible l off =
     (let has_more = length (out_rows outcome) > unat l;
          data = map (\<lambda>r. project r visible) (take (unat l) (out_rows outcome))
      in \<lparr> lr_data = data,
           lr_paging = \<lparr> pi_limit = l, pi_offset = off, pi_returned = length data,
                         pi_has_more = has_more \<rparr> \<rparr>)"

record write_response =
  wr_affected :: u64
  wr_data :: "row_response list"

definition WriteResponse_from_outcome :: "mutation_outcome \<Rightarrow> field_rules \<Rightarrow> write_response" where
  "WriteResponse_from_outcome outcome visible =
     \<lparr> wr_affected = affected_rows outcome,
       wr_data = map (\<lambda>r. project r visible) (returned_rows outcome) \<rparr>"

lemma set_project_subset:
  "set (project r visible) \<subseteq> {(field_str f, v) |f v. (f, v) \<in> set r \<and> visible_permits visible f}"
  using set_btree_of[of "map (\<lambda>(f, v). (field_str f, v)) (filter (\<lambda>(f, v). visible_permits visible f) r)"]
  by (fastforce simp: project_def)

lemma project_keys:
  "fst ` set (project r visible) = {field_str f |f. f \<in> fst ` set r \<and> visible_permits visible f}"
  by (force simp: project_def)

text \<open>A projected row shows each permitted field with the row's own value, and only those.\<close>

lemma map_of_project:
  assumes "distinct (map fst r)"
  shows "map_of (project r visible) (field_str f) =
           (if visible_permits visible f then row_get r f else None)"
proof -
  let ?p = "\<lambda>(f, v :: json). visible_permits visible f"
  let ?shown = "filter ?p r"
  have inj: "inj_on field_str A" for A by (auto intro: inj_onI field_name.expand)
  have "distinct (map fst ?shown)" using assms by (simp add: distinct_map_filter)
  then have "distinct (map fst (map (\<lambda>(f, v). (field_str f, v)) ?shown))"
    using inj by (simp add: distinct_map comp_def case_prod_beta inj_on_def) (metis field_name.expand)
  then have "map_of (rev (map (\<lambda>(f, v). (field_str f, v)) ?shown))
      = map_of (map (\<lambda>(f, v). (field_str f, v)) ?shown)"
    by (rule map_of_rev_distinct)
  then have "map_of (project r visible) (field_str f)
      = map_of (map (\<lambda>(f, v). (field_str f, v)) ?shown) (field_str f)"
    by (simp add: project_def map_of_btree_of)
  also have "\<dots> = map_of ?shown f"
    by (induction r) (auto intro: field_name.expand)
  also have "\<dots> = (if visible_permits visible f then row_get r f else None)"
    unfolding row_get_def by (induction r) auto
  finally show ?thesis .
qed

text \<open>
  C24: A response never discloses how a tenant is separated. Whatever rows a backend
  returns, no row of a list, a record or a write response carries the discriminator column of
  the tenant it was resolved for, and every field it carries is one the catalogue lists (where the
  catalogue lists any).
\<close>

theorem responses_hide_the_discriminator:
  assumes "shown \<in> set (lr_data (ListResponse_from_outcome outcome (VisibleFields_new r isolation) l off))
             \<union> set (wr_data (WriteResponse_from_outcome written (VisibleFields_new r isolation)))
             \<union> {project row (VisibleFields_new r isolation)}"
  shows "fst ` set shown \<inter> field_str ` set_option (discriminator_column isolation) = {}
     \<and> (if rd_queryable_fields r = [] then True
          else fst ` set shown \<subseteq> field_str ` set (rd_queryable_fields r))"
proof -
  obtain row where shown: "shown = project row (VisibleFields_new r isolation)"
    using assms by (auto simp: ListResponse_from_outcome_def WriteResponse_from_outcome_def Let_def)
  show ?thesis
    unfolding shown project_keys
    by (auto simp: visible_permits_def VisibleFields_new_def permits_field_def dest: field_name.expand)
qed

definition example_resource :: resource_definition where
  "example_resource =
     \<lparr> rd_data_source = LogicalDataSourceName ''primary'', rd_collection = CollectionName ''orders'',
       rd_key_field = default_key_field, rd_operations = [OpRead, OpList, OpCreate, OpUpdate],
       rd_queryable_fields = [] \<rparr>"

definition example_isolation :: isolation_model where
  "example_isolation = IsoDiscriminator (FieldName ''tenant_key'') ''t-482''"

definition example_row :: row where
  "example_row = [(FieldName ''id'', JString ''7''), (FieldName ''tenant_key'', JString ''t-482'')]"

theorem responses_hide_the_discriminator_witness:
  "project example_row (VisibleFields_new example_resource example_isolation) = [(''id'', JString ''7'')]
   \<and> ''tenant_key'' \<notin> fst ` set (project example_row (VisibleFields_new example_resource example_isolation))"
proof -
  have "project example_row (VisibleFields_new example_resource example_isolation) = [(''id'', JString ''7'')]"
    by code_simp
  moreover have "''tenant_key'' \<notin> fst ` set (project example_row (VisibleFields_new example_resource example_isolation))"
    using responses_hide_the_discriminator[of "project example_row (VisibleFields_new example_resource example_isolation)"
        "QueryOutcome_from_rows []" example_resource example_isolation 1 0 "MutationOutcome_affected 0"]
    by (auto simp: example_isolation_def)
  ultimately show ?thesis by simp
qed

end
