(* ===== verification/Data_Query.thy ===== *)
theory Data_Query
  imports Data_Catalog
begin

text \<open>
  The query of a list request (\<open>crates/fabric-data-api/src\<close>: \<open>models/query_string.rs\<close>,
  \<open>models/field_reference.rs\<close>, \<open>models/list_query.rs\<close>, \<open>request_text.rs\<close>, \<open>limits.rs\<close>): percent
  decoding, the pairs of a query string, the filters, sort, selection and paging they ask for, the
  refusal of NUL, and the bounds on all of it. \<open>percent_encode\<close> and \<open>write_pairs\<close> are the
  specification of the other direction: the encoding every client library uses.
\<close>

section \<open>Percent decoding\<close>

definition hex_digit :: "char \<Rightarrow> nat option" where
  "hex_digit c =
     (let b = byte c in
      if 48 \<le> b \<and> b \<le> 57 then Some (b - 48)
      else if 97 \<le> b \<and> b \<le> 102 then Some (b - 87)
      else if 65 \<le> b \<and> b \<le> 70 then Some (b - 55)
      else None)"

text \<open>
  \<open>u8::from_str_radix\<close> on the two bytes after the sign; it admits one leading plus. Two bytes that
  are not UTF-8 are no hexadecimal digits, so the check before it decides nothing more.
\<close>

fun hex_escape :: "string \<Rightarrow> char option" where
  "hex_escape (a # b # _) =
     (if a = CHR ''+'' then map_option char_of (hex_digit b)
      else Option.bind (hex_digit a) (\<lambda>high.
           map_option (\<lambda>low. char_of (16 * high + low)) (hex_digit b)))"
| "hex_escape _ = None"

fun percent_bytes :: "string \<Rightarrow> string" where
  "percent_bytes [] = []"
| "percent_bytes (c # s) =
     (if c = CHR ''%'' then
        (case hex_escape s of
           Some b \<Rightarrow> b # percent_bytes (drop 2 s)
         | None \<Rightarrow> CHR ''%'' # percent_bytes s)
      else c # percent_bytes s)"

definition percent_decode :: "string \<Rightarrow> string" where
  "percent_decode input =
     from_utf8_lossy (percent_bytes (map (\<lambda>c. if c = CHR ''+'' then CHR '' '' else c) input))"

definition query_pairs :: "string \<Rightarrow> (string \<times> string) list" where
  "query_pairs raw =
     map (\<lambda>pair. case split_once (CHR ''='') pair of
                   Some (k, v) \<Rightarrow> (percent_decode k, percent_decode v)
                 | None \<Rightarrow> (percent_decode pair, percent_decode []))
       (filter (\<lambda>pair. pair \<noteq> []) (split_on (CHR ''&'') raw))"

section \<open>The list query\<close>

definition refuse_nul :: "string \<Rightarrow> data_api_error + unit" where
  "refuse_nul s =
     (if CHR 0x00 \<in> set s
      then Inl (ErrBadRequest (BadText ''text must not contain the NUL character'')) else Inr ())"

record list_query =
  lq_filters :: "(field_name \<times> string) list"
  lq_sort :: "sort_field list"
  lq_select :: "field_name list"
  lq_limit :: "u32 option"
  lq_offset :: "u32 option"

definition ListQuery_default :: list_query where
  "ListQuery_default =
     \<lparr> lq_filters = [], lq_sort = [], lq_select = [], lq_limit = None, lq_offset = None \<rparr>"

definition field_reference :: "string \<Rightarrow> resource_definition \<Rightarrow> data_api_error + field_name" where
  "field_reference raw resource =
     rbind (map_err (\<lambda>e. ErrBadRequest (BadIdentifier ''invalid field name: '' e))
              (FieldName_try_new (trim raw))) (\<lambda>f.
     if \<not> permits_field resource f
     then Inl (ErrBadRequest (BadText (''unknown field '' @ field_str f)))
     else Inr f)"

definition parse_number :: "string \<Rightarrow> string \<Rightarrow> data_api_error + u32" where
  "parse_number v parameter =
     ok_or (ErrBadRequest (BadText (parameter @ '' must be a non-negative integer''))) (parse_u32 v)"

definition sort_entry :: "resource_definition \<Rightarrow> string \<Rightarrow> data_api_error + sort_field" where
  "sort_entry resource entry =
     (let (dir, name) =
        (case strip_prefix ''-'' entry of
           Some rest \<Rightarrow> (Descending, rest)
         | None \<Rightarrow> (Ascending, dropWhile (\<lambda>c. c = CHR ''+'') entry))
      in map_ok (\<lambda>f. \<lparr> sort_by = f, direction = dir \<rparr>) (field_reference name resource))"

definition entries_of :: "string \<Rightarrow> string list" where
  "entries_of v = filter (\<lambda>entry. entry \<noteq> []) (split_on (CHR '','') v)"

definition parse_sort :: "string \<Rightarrow> resource_definition \<Rightarrow> data_api_error + sort_field list" where
  "parse_sort v resource = traverse (sort_entry resource) (entries_of v)"

definition parse_select :: "string \<Rightarrow> resource_definition \<Rightarrow> data_api_error + field_name list" where
  "parse_select v resource = traverse (\<lambda>entry. field_reference entry resource) (entries_of v)"

definition list_query_pair ::
  "resource_definition \<Rightarrow> list_query \<Rightarrow> string \<times> string \<Rightarrow> data_api_error + list_query" where
  "list_query_pair resource query kv =
     (let (k, v) = kv in
      rbind (refuse_nul k) (\<lambda>_. rbind (refuse_nul v) (\<lambda>_.
      if k = ''limit'' then map_ok (\<lambda>n. query\<lparr>lq_limit := Some n\<rparr>) (parse_number v ''limit'')
      else if k = ''offset'' then map_ok (\<lambda>n. query\<lparr>lq_offset := Some n\<rparr>) (parse_number v ''offset'')
      else if k = ''sort'' then map_ok (\<lambda>s. query\<lparr>lq_sort := s\<rparr>) (parse_sort v resource)
      else if k = ''select'' then map_ok (\<lambda>s. query\<lparr>lq_select := s\<rparr>) (parse_select v resource)
      else map_ok (\<lambda>f. query\<lparr>lq_filters := btree_insert f v (lq_filters query)\<rparr>)
             (field_reference k resource))))"

fun list_query_pairs ::
  "resource_definition \<Rightarrow> list_query \<Rightarrow> (string \<times> string) list \<Rightarrow> data_api_error + list_query" where
  "list_query_pairs resource query [] = Inr query"
| "list_query_pairs resource query (kv # kvs) =
     rbind (list_query_pair resource query kv) (\<lambda>query. list_query_pairs resource query kvs)"

definition ListQuery_parse :: "string \<Rightarrow> resource_definition \<Rightarrow> data_api_error + list_query" where
  "ListQuery_parse raw resource = list_query_pairs resource ListQuery_default (query_pairs raw)"

definition to_filter :: "list_query \<Rightarrow> filter_expr option" where
  "to_filter query =
     (let clauses = map (\<lambda>(f, v). FCompare f Equal (JString v)) (lq_filters query)
      in case clauses of [] \<Rightarrow> None | [c] \<Rightarrow> Some c | _ \<Rightarrow> Some (FAnd clauses))"

section \<open>Bounds\<close>

fun filter_depth :: "filter_expr \<Rightarrow> nat" where
  "filter_depth (FAnd cs) = 1 + foldr max (map filter_depth cs) 0"
| "filter_depth (FOr cs) = 1 + foldr max (map filter_depth cs) 0"
| "filter_depth (FNot c) = 1 + filter_depth c"
| "filter_depth (FCompare _ _ _) = 1"
| "filter_depth (FIsNull _) = 1"
| "filter_depth (FIn _ _) = 1"

definition within :: "string \<Rightarrow> nat \<Rightarrow> u32 \<Rightarrow> data_api_error + unit" where
  "within what actual m =
     (if actual > unat m
      then Inl (ErrBadRequest (BadText
             (''too many '' @ what @ '': at most '' @ show_nat (unat m) @ '' allowed'')))
      else Inr ())"

definition enforce_query :: "list_query \<Rightarrow> data_api_config \<Rightarrow> data_api_error + unit" where
  "enforce_query query c =
     rbind (within ''filters'' (length (lq_filters query)) (max_filters c)) (\<lambda>_.
     rbind (within ''sort fields'' (length (lq_sort query)) (max_sort_fields c)) (\<lambda>_.
     rbind (within ''select fields'' (length (lq_select query)) (max_select_fields c)) (\<lambda>_.
     case to_filter query of
       None \<Rightarrow> Inr ()
     | Some f \<Rightarrow> within ''filter depth'' (filter_depth f) (max_filter_depth c))))"

definition enforce_batch_size :: "nat \<Rightarrow> data_api_config \<Rightarrow> data_api_error + unit" where
  "enforce_batch_size rows c = within ''records in one request'' rows (max_mutation_batch_size c)"

section \<open>Inversion\<close>

lemma refuse_nul_Inr [result_simps]: "refuse_nul s = Inr u \<longleftrightarrow> CHR 0x00 \<notin> set s"
  by (simp add: refuse_nul_def)

lemma within_Inr [result_simps]: "within what actual m = Inr u \<longleftrightarrow> actual \<le> unat m"
  by (auto simp: within_def)

lemma field_reference_Inr [result_simps]:
  "field_reference raw resource = Inr f \<longleftrightarrow>
     f = FieldName (trim raw) \<and> is_identifier (trim raw) \<and> permits_field resource f"
  by (auto simp: field_reference_def result_simps split: if_splits)

lemma enforce_query_Inr [result_simps]:
  "enforce_query query c = Inr u \<longleftrightarrow>
     length (lq_filters query) \<le> unat (max_filters c)
     \<and> length (lq_sort query) \<le> unat (max_sort_fields c)
     \<and> length (lq_select query) \<le> unat (max_select_fields c)
     \<and> (case to_filter query of None \<Rightarrow> True | Some f \<Rightarrow> filter_depth f \<le> unat (max_filter_depth c))"
  by (auto simp: enforce_query_def result_simps split: option.split)

section \<open>What an accepted query may say\<close>

text \<open>The fields a query names, and the texts it carries as values.\<close>

definition lq_fields :: "list_query \<Rightarrow> field_name set" where
  "lq_fields query = fst ` set (lq_filters query) \<union> sort_by ` set (lq_sort query) \<union> set (lq_select query)"

definition query_ok :: "resource_definition \<Rightarrow> list_query \<Rightarrow> bool" where
  "query_ok resource query =
     ((\<forall>f\<in>lq_fields query. is_identifier (field_str f) \<and> permits_field resource f)
      \<and> (\<forall>v\<in>snd ` set (lq_filters query). CHR 0x00 \<notin> set v)
      \<and> btree (lq_filters query))"

lemma parse_sort_ok:
  "parse_sort v resource = Inr s \<Longrightarrow> x \<in> set s \<Longrightarrow>
     is_identifier (field_str (sort_by x)) \<and> permits_field resource (sort_by x)"
  unfolding parse_sort_def
  by (drule (1) traverse_set) (auto simp: sort_entry_def result_simps Let_def split: option.splits)

lemma parse_select_ok:
  "parse_select v resource = Inr s \<Longrightarrow> f \<in> set s \<Longrightarrow>
     is_identifier (field_str f) \<and> permits_field resource f"
  unfolding parse_select_def by (drule (1) traverse_set) (auto simp: result_simps)

lemma query_ok_default: "query_ok resource ListQuery_default"
  by (simp add: query_ok_def lq_fields_def ListQuery_default_def)

lemma query_ok_filter:
  assumes "query_ok resource query" "is_identifier (field_str f)" "permits_field resource f"
    and "CHR 0x00 \<notin> set v"
  shows "query_ok resource (query\<lparr>lq_filters := btree_insert f v (lq_filters query)\<rparr>)"
proof -
  have "snd ` set (btree_insert f v (lq_filters query)) \<subseteq> insert v (snd ` set (lq_filters query))"
    using set_btree_insert_subset[of f v "lq_filters query"] by auto
  then have "\<forall>t\<in>snd ` set (btree_insert f v (lq_filters query)). CHR 0x00 \<notin> set t"
    using assms unfolding query_ok_def by blast
  then show ?thesis using assms unfolding query_ok_def lq_fields_def by simp
qed

lemma query_ok_pair:
  assumes ok: "query_ok resource query" and step: "list_query_pair resource query (k, v) = Inr query'"
  shows "query_ok resource query'"
proof -
  note parts = step[unfolded list_query_pair_def Let_def prod.case rbind_Inr refuse_nul_Inr]
  consider (limit) n where "query' = query\<lparr>lq_limit := Some n\<rparr>"
    | (off) n where "query' = query\<lparr>lq_offset := Some n\<rparr>"
    | (sort) s where "parse_sort v resource = Inr s" "query' = query\<lparr>lq_sort := s\<rparr>"
    | (select) s where "parse_select v resource = Inr s" "query' = query\<lparr>lq_select := s\<rparr>"
    | (flt) f where "field_reference k resource = Inr f" "CHR 0x00 \<notin> set v"
        "query' = query\<lparr>lq_filters := btree_insert f v (lq_filters query)\<rparr>"
    using parts by (auto simp: map_ok_Inr split: if_splits)
  then show ?thesis
  proof cases
    case sort
    with ok parse_sort_ok[OF sort(1)] show ?thesis by (auto simp: query_ok_def lq_fields_def)
  next
    case select
    with ok parse_select_ok[OF select(1)] show ?thesis by (auto simp: query_ok_def lq_fields_def)
  next
    case flt
    then have "is_identifier (field_str f)" "permits_field resource f"
      by (auto simp: field_reference_Inr)
    then show ?thesis unfolding flt(3) using flt(2) by (rule query_ok_filter[OF ok])
  qed (use ok in \<open>simp_all add: query_ok_def lq_fields_def\<close>)
qed

lemma query_ok_pairs:
  "query_ok resource query \<Longrightarrow> list_query_pairs resource query kvs = Inr query' \<Longrightarrow>
     query_ok resource query'"
proof (induction kvs arbitrary: query)
  case (Cons kv kvs)
  then show ?case by (cases kv) (auto simp: rbind_Inr dest: query_ok_pair)
qed simp

lemma parsed_query_ok: "ListQuery_parse raw resource = Inr query \<Longrightarrow> query_ok resource query"
  unfolding ListQuery_parse_def by (rule query_ok_pairs[OF query_ok_default])

text \<open>The predicate of a query: every filter's column equals the text given.\<close>

lemma to_filter_selects:
  "selects_opt cmp (to_filter query) r \<longleftrightarrow>
     (\<forall>(f, v)\<in>set (lq_filters query). selects cmp (FCompare f Equal (JString v)) r)"
  by (cases "lq_filters query" rule: remdups_adj.cases)
    (auto simp: to_filter_def selects_opt_def split: prod.splits)

lemma to_filter_depth: "to_filter query = Some f \<Longrightarrow> filter_depth f \<le> 2"
proof -
  have "foldr max (map filter_depth (map (\<lambda>(f, v). FCompare f Equal (JString v)) xs)) 0 \<le> 1" for xs
    by (induction xs) auto
  then show "to_filter query = Some f \<Longrightarrow> filter_depth f \<le> 2"
    by (cases "lq_filters query" rule: remdups_adj.cases) (auto simp: to_filter_def)
qed

section \<open>Encoding\<close>

definition unreserved :: "char \<Rightarrow> bool" where
  "unreserved c = (is_ascii_alphanumeric (byte c) \<or> c \<in> set ''-._~'')"

definition hex_upper :: "nat \<Rightarrow> char" where
  "hex_upper n = char_of (if n < 10 then 48 + n else 55 + n)"

definition percent_char :: "char \<Rightarrow> string" where
  "percent_char c =
     (if unreserved c then [c] else [CHR ''%'', hex_upper (byte c div 16), hex_upper (byte c mod 16)])"

definition percent_encode :: "string \<Rightarrow> string" where
  "percent_encode s = concat (map percent_char s)"

fun write_pairs :: "(string \<times> string) list \<Rightarrow> string" where
  "write_pairs [] = []"
| "write_pairs [(k, v)] = percent_encode k @ CHR ''='' # percent_encode v"
| "write_pairs ((k, v) # kvs) =
     percent_encode k @ CHR ''='' # percent_encode v @ CHR ''&'' # write_pairs kvs"

lemma hex_upper_digit: "n < 16 \<Longrightarrow> hex_digit (hex_upper n) = Some n \<and> hex_upper n \<noteq> CHR ''+''"
  by (auto simp: hex_digit_def hex_upper_def byte_char_of Let_def dest: arg_cong[of _ _ byte])
    (auto simp: byte_def dest!: arg_cong[of _ _ "of_char :: char \<Rightarrow> nat"])

lemma hex_upper_escape:
  "hex_escape (hex_upper (byte c div 16) # hex_upper (byte c mod 16) # s) = Some c"
proof -
  have "byte c < 256" by (simp add: byte_def)
  then have "byte c div 16 < 16" "byte c mod 16 < 16" by auto
  then show ?thesis
    using hex_upper_digit[of "byte c div 16"] hex_upper_digit[of "byte c mod 16"]
    by (simp add: byte_def)
qed

text \<open>An encoded text holds none of the characters that mean something in a query string.\<close>

lemma hex_upper_alnum: "n < 16 \<Longrightarrow> is_ascii_alphanumeric (byte (hex_upper n))"
  by (auto simp: hex_upper_def byte_char_of char_class_defs)

lemma percent_char_plain:
  assumes "x \<in> set (percent_char c)"
  shows "x = CHR ''%'' \<or> unreserved x"
proof -
  have "byte c < 256" by (simp add: byte_def)
  then have "byte c div 16 < 16" "byte c mod 16 < 16" by auto
  then show ?thesis
    using assms hex_upper_alnum by (auto simp: percent_char_def unreserved_def split: if_splits)
qed

lemma percent_encode_plain:
  assumes "x \<in> set (percent_encode s)"
  shows "x \<noteq> CHR ''&'' \<and> x \<noteq> CHR ''='' \<and> x \<noteq> CHR ''+''"
proof -
  obtain c where "x \<in> set (percent_char c)" using assms by (auto simp: percent_encode_def)
  then show ?thesis
    by (auto dest!: percent_char_plain simp: unreserved_def char_class_defs)
qed

lemma percent_bytes_encode: "percent_bytes (percent_encode s) = s"
proof (induction s)
  case Nil
  then show ?case by (simp add: percent_encode_def)
next
  case (Cons c s)
  have "unreserved c \<Longrightarrow> c \<noteq> CHR ''%''" by (auto simp: unreserved_def char_class_defs)
  with Cons show ?case
    using hex_upper_escape[of c] by (auto simp: percent_encode_def percent_char_def)
qed

lemma percent_decode_encode:
  assumes "valid_utf8 s"
  shows "percent_decode (percent_encode s) = s"
proof -
  have "map (\<lambda>c. if c = CHR ''+'' then CHR '' '' else c) (percent_encode s) = percent_encode s"
    by (rule map_idI) (auto dest: percent_encode_plain)
  then show ?thesis
    using from_utf8_lossy_valid[OF assms] by (simp add: percent_decode_def percent_bytes_encode)
qed

lemma split_on_piece: "d \<notin> set p \<Longrightarrow> split_on d p = [p]"
  by (induction p) auto

lemma split_on_first: "d \<notin> set p \<Longrightarrow> split_on d (p @ d # s) = p # split_on d s"
  by (induction p) auto

lemma split_once_found: "d \<notin> set a \<Longrightarrow> split_once d (a @ d # b) = Some (a, b)"
  by (induction a) auto

text \<open>
  Any filter can be asked for. Whatever texts the names and values of a query are
  (spaces, separators, percent signs, any Unicode), writing them with the usual percent encoding
  and reading the query string back gives exactly those pairs, in order.
\<close>

theorem query_string_roundtrip:
  assumes "\<forall>(k, v)\<in>set kvs. valid_utf8 k \<and> valid_utf8 v"
  shows "query_pairs (write_pairs kvs) = kvs"
proof -
  let ?piece = "\<lambda>(k, v). percent_encode k @ CHR ''='' # percent_encode v"
  have plain: "CHR ''&'' \<notin> set (?piece kv)" for kv
    by (auto dest: percent_encode_plain split: prod.splits)
  have pieces: "filter (\<lambda>p. p \<noteq> []) (split_on (CHR ''&'') (write_pairs kvs)) = map ?piece kvs"
  proof (induction kvs rule: write_pairs.induct)
    case (2 k v)
    then show ?case using plain[of "(k, v)"] by (simp add: split_on_piece)
  next
    case (3 k v kv kvs)
    have "split_on (CHR ''&'') (?piece (k, v) @ CHR ''&'' # write_pairs (kv # kvs))
        = ?piece (k, v) # split_on (CHR ''&'') (write_pairs (kv # kvs))"
      by (rule split_on_first[OF plain])
    with 3 show ?case by simp
  qed simp
  have "split_once (CHR ''='') (?piece (k, v)) = Some (percent_encode k, percent_encode v)" for k v
    by (auto intro!: split_once_found dest: percent_encode_plain)
  then show ?thesis
    unfolding query_pairs_def pieces using assms
    by (auto simp: percent_decode_encode intro!: map_idI)
qed

theorem query_string_roundtrip_witness:
  "query_pairs ''na%2Bme=a%26b+c&limit=10'' = [(''na+me'', ''a&b c''), (''limit'', ''10'')]
   \<and> query_pairs (write_pairs [(''na+me'', ''a&b c''), (''limit'', ''10'')])
       = [(''na+me'', ''a&b c''), (''limit'', ''10'')]"
proof
  show "query_pairs ''na%2Bme=a%26b+c&limit=10'' = [(''na+me'', ''a&b c''), (''limit'', ''10'')]"
    by code_simp
  show "query_pairs (write_pairs [(''na+me'', ''a&b c''), (''limit'', ''10'')])
       = [(''na+me'', ''a&b c''), (''limit'', ''10'')]"
    by (rule query_string_roundtrip) code_simp
qed

end
