(* ===== verification/Data_Service.thy ===== *)
theory Data_Service
  imports Data_Query
begin

text \<open>
  The operations of the Data API (\<open>crates/fabric-data-api/src/execution\<close>): what a request pins,
  authorisation and resolution in \<open>prepare\<close>, the five operations, and the check on what a write
  reports. An operation takes the backend's state \<open>'w\<close> and gives it back with its result. The
  specification is a \<open>service_plan\<close>: an operation is decided without the backend, and then either
  refused or exactly one call, whose answer is rendered. Every property of what reaches the
  backend is proved of the plan.
\<close>

section \<open>The service\<close>

text \<open>\<open>AnyCatalogue\<close>: the catalogue a generation carries, of this crate's type or of another.\<close>

datatype decoded_catalogue = Decoded resource_catalog | DecodedOther

record 'w data_api_service =
  svc_runtime :: "decoded_catalogue runtime_resolver"
  svc_connectors :: "'w connector_registry"
  svc_authorization :: data_authorization
  svc_config :: data_api_config

fun catalogue_get :: "decoded_catalogue \<Rightarrow> resource_catalog option" where
  "catalogue_get (Decoded c) = Some c"
| "catalogue_get DecodedOther = None"

definition pinned ::
  "'w data_api_service \<Rightarrow> logical_resource_name
     \<Rightarrow> data_api_error + (decoded_catalogue resolution_view \<times> resource_definition option)" where
  "pinned svc name =
     (let view = pin (svc_runtime svc) in
      map_ok (\<lambda>entry. (view, entry))
        (case Option.bind (view_catalogue view) catalogue_get of
           None \<Rightarrow> Inr None
         | Some catalogue \<Rightarrow> map_ok Some (catalog_resolve catalogue name)))"

definition unavailable :: data_api_error where
  "unavailable = ErrResolve RuntimeUnavailable"

definition authorize ::
  "'w data_api_service \<Rightarrow> caller \<Rightarrow> operation_kind \<Rightarrow> logical_resource_name \<Rightarrow> string option
     \<Rightarrow> data_api_error + unit" where
  "authorize svc c operation name key =
     map_err (\<lambda>r. case r of
         RefusalDenied _ \<Rightarrow> ErrForbidden (resource_str name) (operation_str operation)
       | RefusalUndecided failure \<Rightarrow> ErrUndecided failure)
       (decide (svc_authorization svc) c operation name key)"

record 'w prepared =
  prep_resource :: resource_definition
  prep_resolved :: resolved_data_source
  prep_connector :: "'w data_connector"
  prep_operation :: operation_kind

definition prep_target :: "'w prepared \<Rightarrow> execution_target" where
  "prep_target p = res_target (prep_resolved p)"

definition visible_fields :: "'w prepared \<Rightarrow> field_rules" where
  "visible_fields p = VisibleFields_new (prep_resource p) (tgt_isolation (prep_target p))"

definition writable_fields :: "'w prepared \<Rightarrow> field_rules" where
  "writable_fields p = WritableFields_new (prep_resource p) (tgt_isolation (prep_target p))"

definition prep_failed :: "'w prepared \<Rightarrow> connector_error \<Rightarrow> data_api_error" where
  "prep_failed p e = ErrConnector e (prep_operation p)"

definition prepare ::
  "'w data_api_service \<Rightarrow> caller \<Rightarrow> logical_resource_name \<Rightarrow> operation_kind \<Rightarrow> string option
     \<Rightarrow> data_api_error + 'w prepared" where
  "prepare svc c name operation key =
     rbind (pinned svc name) (\<lambda>(view, entry).
     rbind (authorize svc c operation name key) (\<lambda>_.
     rbind (ok_or unavailable entry) (\<lambda>resource.
     if \<not> rd_allows resource operation
     then Inl (ErrOperationNotAllowed (resource_str name) (operation_str operation))
     else rbind (map_err ErrResolve
                  (resolve_data_source view (id_tenant (caller_identity c)) (rd_data_source resource)))
            (\<lambda>resolved.
     if is_write operation \<and> \<not> is_writable resolved
     then Inl (ErrReadOnly (resource_str name))
     else rbind (map_err (\<lambda>e. ErrConnector e operation)
                  (registry_get (svc_connectors svc) (tgt_connector (res_target resolved))))
            (\<lambda>connector.
     Inr \<lparr> prep_resource = resource, prep_resolved = resolved, prep_connector = connector,
           prep_operation = operation \<rparr>)))))"

section \<open>Rows and budgets\<close>

definition key_filter :: "resource_definition \<Rightarrow> string \<Rightarrow> filter_expr" where
  "key_filter resource key = FCompare (rd_key_field resource) Equal (JString key)"

definition refuse_key_change ::
  "resource_definition \<Rightarrow> (string \<times> json) list \<Rightarrow> data_api_error + unit" where
  "refuse_key_change resource changes =
     (let key_field = field_str (rd_key_field resource) in
      if list_ex (\<lambda>(name, _). eq_ignore_ascii_case name key_field) changes
      then Inl (ErrBadRequest (BadText
             (''the key field '' @ key_field @
              '' cannot be changed by PATCH; delete the record and create it again to give it a new key'')))
      else Inr ())"

fun to_row_onto :: "row \<Rightarrow> (string \<times> json) list \<Rightarrow> field_rules \<Rightarrow> data_api_error + row" where
  "to_row_onto r [] rules = Inr r"
| "to_row_onto r ((name, v) # rest) rules =
     rbind (map_err (\<lambda>e. ErrBadRequest (BadIdentifier ''invalid field name: '' e))
              (FieldName_try_new name)) (\<lambda>f.
     if \<not> writable_permits rules f
     then Inl (ErrBadRequest (BadText (''unknown field '' @ field_str f)))
     else to_row_onto (row_with r f v) rest rules)"

definition to_row :: "(string \<times> json) list \<Rightarrow> field_rules \<Rightarrow> data_api_error + row" where
  "to_row object rules = to_row_onto row_new object rules"

datatype row_budget = Batch u64 | OneRecord

fun ceiling :: "row_budget \<Rightarrow> u64" where
  "ceiling (Batch rows) = rows"
| "ceiling OneRecord = 1"

definition ensure_consistent ::
  "row_budget \<Rightarrow> mutation_outcome \<Rightarrow> connector_id \<Rightarrow> operation_kind \<Rightarrow> data_api_error + unit" where
  "ensure_consistent budget outcome connector operation =
     (let affected = affected_rows outcome; top = ceiling budget in
      if affected > top
      then Inl (ErrConnector (MalformedResponse connector
             (''reported '' @ show_nat (unat affected) @ '' rows affected for a write of at most ''
              @ show_nat (unat top))) operation)
      else case budget of
             Batch sent \<Rightarrow> if affected < sent then Inl (ErrPartiallyApplied sent affected) else Inr ()
           | OneRecord \<Rightarrow> Inr ())"

section \<open>The operations\<close>

definition try_in :: "'w \<Rightarrow> 'e + 'a \<Rightarrow> ('a \<Rightarrow> ('e + 'b) \<times> 'w) \<Rightarrow> ('e + 'b) \<times> 'w" where
  "try_in w r f = (case r of Inl e \<Rightarrow> (Inl e, w) | Inr x \<Rightarrow> f x)"

definition execute_query :: "'w prepared \<Rightarrow> query_spec \<Rightarrow> 'w \<Rightarrow> (data_api_error + query_outcome) \<times> 'w" where
  "execute_query p spec w =
     (let scoped = query_for_target spec (prep_target p) in
      apfst (map_err (prep_failed p)) (conn_query (prep_connector p) w (prep_target p) scoped))"

definition list_query_spec ::
  "data_api_config \<Rightarrow> resource_definition \<Rightarrow> list_query \<Rightarrow> query_spec" where
  "list_query_spec config resource query =
     (let l = effective_limit config (lq_limit query);
          off = (case lq_offset query of None \<Rightarrow> 0 | Some n \<Rightarrow> n);
          spec = with_paging (with_sort (with_fields (QuerySpec_new (rd_collection resource))
                   (projection resource (lq_select query))) (lq_sort query))
                   (Some (saturating_add l 1)) (Some off)
      in case to_filter query of None \<Rightarrow> spec | Some f \<Rightarrow> with_filter spec f)"

definition data_list ::
  "'w data_api_service \<Rightarrow> caller \<Rightarrow> logical_resource_name \<Rightarrow> string \<Rightarrow> 'w
     \<Rightarrow> (data_api_error + list_response) \<times> 'w" where
  "data_list svc c name raw w =
     try_in w (prepare svc c name OpList None) (\<lambda>p.
     try_in w (ListQuery_parse raw (prep_resource p)) (\<lambda>query.
     try_in w (enforce_query query (svc_config svc)) (\<lambda>_.
     let l = effective_limit (svc_config svc) (lq_limit query);
         off = (case lq_offset query of None \<Rightarrow> 0 | Some n \<Rightarrow> n)
     in apfst (map_ok (\<lambda>outcome. ListResponse_from_outcome outcome (visible_fields p) l off))
          (execute_query p (list_query_spec (svc_config svc) (prep_resource p) query) w))))"

definition read_query_spec :: "resource_definition \<Rightarrow> string \<Rightarrow> query_spec" where
  "read_query_spec resource key =
     with_paging (with_filter (with_fields (QuerySpec_new (rd_collection resource))
       (projection resource [])) (key_filter resource key)) (Some 1) None"

definition data_read ::
  "'w data_api_service \<Rightarrow> caller \<Rightarrow> logical_resource_name \<Rightarrow> string \<Rightarrow> 'w
     \<Rightarrow> (data_api_error + row_response) \<times> 'w" where
  "data_read svc c name key w =
     try_in w (prepare svc c name OpRead (Some key)) (\<lambda>p.
     apfst (\<lambda>r. rbind r (\<lambda>outcome.
         ok_or ErrNotFound
           (case out_rows outcome of [] \<Rightarrow> None | r # _ \<Rightarrow> Some (project r (visible_fields p)))))
       (execute_query p (read_query_spec (prep_resource p) key) w))"

definition dispatch ::
  "'w prepared \<Rightarrow> mutation_spec \<Rightarrow> row_budget \<Rightarrow> 'w \<Rightarrow> (data_api_error + write_response) \<times> 'w" where
  "dispatch p spec budget w =
     (let scoped = mutation_for_target spec (prep_target p) in
      apfst (\<lambda>r. rbind (map_err (prep_failed p) r) (\<lambda>outcome.
          rbind (ensure_consistent budget outcome (conn_id (prep_connector p)) (prep_operation p))
            (\<lambda>_. Inr (WriteResponse_from_outcome outcome (visible_fields p)))))
        (conn_mutate (prep_connector p) w (prep_target p) scoped))"

definition data_create ::
  "'w data_api_service \<Rightarrow> caller \<Rightarrow> logical_resource_name \<Rightarrow> (string \<times> json) list list \<Rightarrow> 'w
     \<Rightarrow> (data_api_error + write_response) \<times> 'w" where
  "data_create svc c name rows w =
     try_in w (prepare svc c name OpCreate None) (\<lambda>p.
     if rows = [] then (Inl (ErrBadRequest (BadText ''no records to create'')), w)
     else try_in w (enforce_batch_size (length rows) (svc_config svc)) (\<lambda>_.
     try_in w (traverse (\<lambda>r. to_row r (writable_fields p)) rows) (\<lambda>rows.
     dispatch p (Insert (rd_collection (prep_resource p)) rows) (Batch (of_nat (length rows))) w)))"

definition data_update ::
  "'w data_api_service \<Rightarrow> caller \<Rightarrow> logical_resource_name \<Rightarrow> string \<Rightarrow> (string \<times> json) list \<Rightarrow> 'w
     \<Rightarrow> (data_api_error + write_response) \<times> 'w" where
  "data_update svc c name key changes w =
     try_in w (prepare svc c name OpUpdate (Some key)) (\<lambda>p.
     if changes = [] then (Inl (ErrBadRequest (BadText ''no fields to update'')), w)
     else try_in w (refuse_key_change (prep_resource p) changes) (\<lambda>_.
     try_in w (to_row changes (writable_fields p)) (\<lambda>row.
     dispatch p (Update (rd_collection (prep_resource p)) (Some (key_filter (prep_resource p) key)) row)
       OneRecord w)))"

definition data_delete ::
  "'w data_api_service \<Rightarrow> caller \<Rightarrow> logical_resource_name \<Rightarrow> string \<Rightarrow> 'w
     \<Rightarrow> (data_api_error + write_response) \<times> 'w" where
  "data_delete svc c name key w =
     try_in w (prepare svc c name OpDelete (Some key)) (\<lambda>p.
     dispatch p (Delete (rd_collection (prep_resource p)) (Some (key_filter (prep_resource p) key)))
       OneRecord w)"

definition build_data_api ::
  "data_api_config \<Rightarrow> data_authorization \<Rightarrow> decoded_catalogue runtime_resolver \<Rightarrow> 'w connector_registry
     \<Rightarrow> string + 'w data_api_service" where
  "build_data_api config authorization runtime connectors =
     rbind (DataApiConfig_validate config) (\<lambda>_.
     if connectors = []
     then Inl ''data_api: no connectors are registered, so nothing can be executed''
     else Inr \<lparr> svc_runtime = runtime, svc_connectors = connectors,
                svc_authorization = authorization, svc_config = config \<rparr>)"

end
