(* ===== verification/Data_Isolation.thy ===== *)
theory Data_Isolation
  imports Data_Service
begin

text \<open>
  What reaches a backend, and for whom. Each operation of the Data API is shown to be a plan: a
  refusal that no backend saw, or one call to the connector its caller's own target names, whose
  answer is rendered. The locale \<open>planned_operation\<close> states that contract once; it is interpreted
  on the five operations, and what holds of every call follows from it.
\<close>

section \<open>Calls and plans\<close>

datatype backend_call =
    CallQuery execution_target query_spec
  | CallMutate execution_target mutation_spec

datatype backend_answer =
    QueryAnswer "connector_error + query_outcome"
  | MutateAnswer "connector_error + mutation_outcome"

fun perform :: "'w data_connector \<Rightarrow> backend_call \<Rightarrow> 'w \<Rightarrow> backend_answer \<times> 'w" where
  "perform conn (CallQuery t q) w = apfst QueryAnswer (conn_query conn w t q)"
| "perform conn (CallMutate t m) w = apfst MutateAnswer (conn_mutate conn w t m)"

fun call_target :: "backend_call \<Rightarrow> execution_target" where
  "call_target (CallQuery t _) = t"
| "call_target (CallMutate t _) = t"

datatype ('w, 'r) service_plan =
    PlanRefused data_api_error
  | PlanCall "'w data_connector" backend_call "backend_answer \<Rightarrow> data_api_error + 'r"

fun run_plan :: "('w, 'r) service_plan \<Rightarrow> 'w \<Rightarrow> (data_api_error + 'r) \<times> 'w" where
  "run_plan (PlanRefused e) w = (Inl e, w)"
| "run_plan (PlanCall conn call render) w = apfst render (perform conn call w)"

text \<open>
  A call stays within a tenant's rows: what it selects the tenant's predicate selects too, under
  every backend's comparison, and what it writes carries the tenant's own discriminator.
\<close>

definition rows_within :: "isolation_model \<Rightarrow> row list \<Rightarrow> bool" where
  "rows_within isolation rows =
     (\<forall>column value. isolation = IsoDiscriminator column value \<longrightarrow>
        (\<forall>r\<in>set rows. cell r column = JString value))"

definition selection_within :: "isolation_model \<Rightarrow> filter_expr option \<Rightarrow> bool" where
  "selection_within isolation f =
     (\<forall>cmp r. selects_opt cmp f r \<longrightarrow> selects_opt cmp (tenant_predicate isolation) r)"

fun call_within :: "isolation_model \<Rightarrow> backend_call \<Rightarrow> bool" where
  "call_within isolation (CallQuery _ q) = selection_within isolation (q_filter q)"
| "call_within isolation (CallMutate _ (Insert _ rows)) = rows_within isolation rows"
| "call_within isolation (CallMutate _ (Update _ f changes)) =
     (selection_within isolation f \<and> rows_within isolation [changes])"
| "call_within isolation (CallMutate _ (Delete _ f)) = selection_within isolation f"

lemma query_within: "call_within (tgt_isolation t) (CallQuery t' (query_for_target q t))"
  by (simp add: selection_within_def query_for_target_selects)

lemma stamped_within: "rows_within (tgt_isolation t) [stamp r t]"
  by (auto simp: rows_within_def stamp_cell)

lemma mutation_within: "call_within (tgt_isolation t) (CallMutate t' (mutation_for_target m t))"
proof (cases "tenant_predicate (tgt_isolation t)")
  case None
  then have "rows_within (tgt_isolation t) rows" for rows
    by (auto simp: rows_within_def tenant_predicate_None)
  moreover have "selection_within (tgt_isolation t) f" for f
    using None by (simp add: selection_within_def selects_opt_def)
  ultimately show ?thesis using None by (cases m) (simp_all add: mutation_for_target_def)
next
  case (Some p)
  have "selection_within (tgt_isolation t) (Some (conjoin f p))" for f
    using Some by (auto simp: selection_within_def selects_opt_def conjoin_def split: option.split)
  moreover have "rows_within (tgt_isolation t) (map (\<lambda>r. stamp r t) rows)" for rows
    by (auto simp: rows_within_def stamp_cell)
  ultimately show ?thesis
    using Some stamped_within[of t] by (cases m) (simp_all add: mutation_for_target_def)
qed

section \<open>What a prepared operation rests on\<close>

definition resolved_for ::
  "'w data_api_service \<Rightarrow> caller \<Rightarrow> logical_resource_name \<Rightarrow> resource_definition
     \<Rightarrow> resolved_data_source \<Rightarrow> bool" where
  "resolved_for svc c name resource resolved =
     (\<exists>catalogue. view_catalogue (pin (svc_runtime svc)) = Some (Decoded catalogue)
        \<and> map_of catalogue name = Some resource
        \<and> resolve_data_source (pin (svc_runtime svc)) (id_tenant (caller_identity c))
            (rd_data_source resource) = Inr resolved)"

lemma authorize_Inr [result_simps]:
  "authorize svc c operation name key = Inr u \<longleftrightarrow>
     permitted (svc_authorization svc) c operation name key"
  by (simp add: authorize_def map_err_Inr decide_Inr)

lemma catalogue_get_Some [simp]: "catalogue_get a = Some c \<longleftrightarrow> a = Decoded c"
  by (cases a) auto

lemma pinned_Inr:
  assumes "pinned svc name = Inr (view, Some resource)"
  shows "view = pin (svc_runtime svc)"
    and "\<exists>catalogue. view_catalogue view = Some (Decoded catalogue)
           \<and> map_of catalogue name = Some resource"
  using assms
  by (auto simp: pinned_def Let_def map_ok_Inr catalog_resolve_def ok_or_Inr bind_eq_Some_conv
      split: option.splits)

lemma prepared:
  assumes "prepare svc c name operation key = Inr p"
  shows "permitted (svc_authorization svc) c operation name key"
    and "resolved_for svc c name (prep_resource p) (prep_resolved p)"
    and "rd_allows (prep_resource p) operation"
    and "is_write operation \<Longrightarrow> is_writable (prep_resolved p)"
    and "map_of (svc_connectors svc) (tgt_connector (prep_target p)) = Some (prep_connector p)"
    and "prep_operation p = operation"
proof -
  from assms obtain view resource resolved connector where
    view: "pinned svc name = Inr (view, Some resource)"
    and auth: "permitted (svc_authorization svc) c operation name key"
    and allows: "rd_allows resource operation"
    and resolved: "resolve_data_source view (id_tenant (caller_identity c)) (rd_data_source resource)
        = Inr resolved"
    and writes: "is_write operation \<longrightarrow> is_writable resolved"
    and connector: "registry_get (svc_connectors svc) (tgt_connector (res_target resolved)) = Inr connector"
    and p: "p = \<lparr> prep_resource = resource, prep_resolved = resolved, prep_connector = connector,
                 prep_operation = operation \<rparr>"
    by (auto simp: prepare_def rbind_Inr map_err_Inr ok_or_Inr authorize_Inr split: if_splits)
  note pinned_Inr[OF view]
  with auth allows resolved writes connector p show
    "permitted (svc_authorization svc) c operation name key"
    "resolved_for svc c name (prep_resource p) (prep_resolved p)"
    "rd_allows (prep_resource p) operation"
    "is_write operation \<Longrightarrow> is_writable (prep_resolved p)"
    "map_of (svc_connectors svc) (tgt_connector (prep_target p)) = Some (prep_connector p)"
    "prep_operation p = operation"
    by (auto simp: resolved_for_def registry_get_def ok_or_Inr prep_target_def)
qed

text \<open>
  The call of a plan is authorised and confined: the caller may do this, the connector is the
  one its own tenant's target names, the call is within that tenant's rows, and it is what the
  request asked for, scoped to the target. What a request asks is a predicate on the resource,
  the target and the call.
\<close>

type_synonym asks = "resource_definition \<Rightarrow> execution_target \<Rightarrow> backend_call \<Rightarrow> bool"

definition list_asks :: "data_api_config \<Rightarrow> string \<Rightarrow> asks" where
  "list_asks config raw resource t call =
     (\<exists>query. ListQuery_parse raw resource = Inr query \<and> enforce_query query config = Inr ()
        \<and> call = CallQuery t (query_for_target (list_query_spec config resource query) t))"

definition read_asks :: "string \<Rightarrow> asks" where
  "read_asks key resource t call =
     (call = CallQuery t (query_for_target (read_query_spec resource key) t))"

definition create_asks :: "data_api_config \<Rightarrow> (string \<times> json) list list \<Rightarrow> asks" where
  "create_asks config objects resource t call =
     (objects \<noteq> [] \<and> length objects \<le> unat (max_mutation_batch_size config)
      \<and> (\<exists>rows. traverse (\<lambda>r. to_row r (WritableFields_new resource (tgt_isolation t))) objects = Inr rows
           \<and> call = CallMutate t (mutation_for_target (Insert (rd_collection resource) rows) t)))"

definition update_asks :: "string \<Rightarrow> (string \<times> json) list \<Rightarrow> asks" where
  "update_asks key changes resource t call =
     (changes \<noteq> [] \<and> refuse_key_change resource changes = Inr ()
      \<and> (\<exists>r. to_row changes (WritableFields_new resource (tgt_isolation t)) = Inr r
           \<and> call = CallMutate t (mutation_for_target
                (Update (rd_collection resource) (Some (key_filter resource key)) r) t)))"

definition delete_asks :: "string \<Rightarrow> asks" where
  "delete_asks key resource t call =
     (call = CallMutate t (mutation_for_target
        (Delete (rd_collection resource) (Some (key_filter resource key))) t))"

definition call_confined ::
  "'w data_api_service \<Rightarrow> caller \<Rightarrow> operation_kind \<Rightarrow> logical_resource_name \<Rightarrow> string option
     \<Rightarrow> asks \<Rightarrow> 'w data_connector \<Rightarrow> backend_call \<Rightarrow> bool" where
  "call_confined svc c operation name key asked conn call =
     (permitted (svc_authorization svc) c operation name key
      \<and> map_of (svc_connectors svc) (tgt_connector (call_target call)) = Some conn
      \<and> (\<exists>resource resolved. resolved_for svc c name resource resolved
           \<and> rd_allows resource operation
           \<and> (is_write operation \<longrightarrow> is_writable resolved)
           \<and> call_target call = res_target resolved
           \<and> asked resource (res_target resolved) call)
      \<and> call_within (tgt_isolation (call_target call)) call)"

lemma prepared_query_confined:
  assumes p: "prepare svc c name operation key = Inr p"
    and asked: "asked (prep_resource p) (prep_target p)
        (CallQuery (prep_target p) (query_for_target q (prep_target p)))"
  shows "call_confined svc c operation name key asked (prep_connector p)
           (CallQuery (prep_target p) (query_for_target q (prep_target p)))"
  using prepared[OF p] asked query_within[of "prep_target p" "prep_target p" q]
  unfolding call_confined_def prep_target_def by auto

lemma prepared_mutation_confined:
  assumes p: "prepare svc c name operation key = Inr p"
    and asked: "asked (prep_resource p) (prep_target p)
        (CallMutate (prep_target p) (mutation_for_target m (prep_target p)))"
  shows "call_confined svc c operation name key asked (prep_connector p)
           (CallMutate (prep_target p) (mutation_for_target m (prep_target p)))"
  using prepared[OF p] asked mutation_within[of "prep_target p" "prep_target p" m]
  unfolding call_confined_def prep_target_def by auto

section \<open>The contract of an operation\<close>

locale planned_operation =
  fixes svc :: "'w data_api_service" and c :: caller and name :: logical_resource_name
    and operation :: operation_kind and key :: "string option" and asked :: asks
    and run :: "'w \<Rightarrow> (data_api_error + 'r) \<times> 'w"
  assumes planned:
    "(\<exists>e. run = run_plan (PlanRefused e))
     \<or> (\<exists>conn call render. run = run_plan (PlanCall conn call render)
          \<and> call_confined svc c operation name key asked conn call)"
begin

lemma answered_or_refused:
  obtains (refused) e where "\<And>w. run w = (Inl e, w)"
  | (called) conn call render where "\<And>w. run w = apfst render (perform conn call w)"
      "call_confined svc c operation name key asked conn call"
  using planned by auto

lemma not_permitted_untouched:
  assumes "\<not> permitted (svc_authorization svc) c operation name key"
  obtains e where "\<And>w. run w = (Inl e, w)"
  using assms by (cases rule: answered_or_refused) (auto simp: call_confined_def)

end

section \<open>The five operations\<close>

lemma planned_refused:
  "\<exists>e. \<forall>w. run w = (Inl e, w) \<Longrightarrow> planned_operation svc c name operation key asked run"
  by unfold_locales (auto simp: fun_eq_iff)

lemma planned_called:
  assumes "\<And>w. run w = apfst render (perform conn call w)"
    and "call_confined svc c operation name key asked conn call"
  shows "planned_operation svc c name operation key asked run"
proof
  have "run = run_plan (PlanCall conn call render)" using assms(1) by (auto simp: fun_eq_iff)
  with assms(2) show "(\<exists>e. run = run_plan (PlanRefused e))
     \<or> (\<exists>conn call render. run = run_plan (PlanCall conn call render)
          \<and> call_confined svc c operation name key asked conn call)" by blast
qed

lemma try_in_simps [simp]:
  "try_in w (Inl e) f = (Inl e, w)" "try_in w (Inr x) f = f x"
  by (simp_all add: try_in_def)

fun query_answer :: "backend_answer \<Rightarrow> connector_error + query_outcome" where
  "query_answer (QueryAnswer r) = r"
| "query_answer (MutateAnswer _) = Inr (QueryOutcome_from_rows [])"

fun mutate_answer :: "backend_answer \<Rightarrow> connector_error + mutation_outcome" where
  "mutate_answer (MutateAnswer r) = r"
| "mutate_answer (QueryAnswer _) = Inr (MutationOutcome_affected 0)"

lemma execute_query_planned:
  assumes p: "prepare svc c name operation key = Inr p"
    and asked: "asked (prep_resource p) (prep_target p)
        (CallQuery (prep_target p) (query_for_target spec (prep_target p)))"
    and run: "\<And>w. run w = apfst render (execute_query p spec w)"
  shows "planned_operation svc c name operation key asked run"
  by (rule planned_called[where render = "\<lambda>a. render (map_err (prep_failed p) (query_answer a))",
        OF _ prepared_query_confined[where asked = asked, OF p asked]])
    (simp add: run execute_query_def Let_def apfst_def map_prod_def case_prod_beta comp_def)

lemma dispatch_planned:
  assumes p: "prepare svc c name operation key = Inr p"
    and asked: "asked (prep_resource p) (prep_target p)
        (CallMutate (prep_target p) (mutation_for_target spec (prep_target p)))"
  shows "planned_operation svc c name operation key asked (dispatch p spec budget)"
  by (rule planned_called[where render = "\<lambda>a. rbind (map_err (prep_failed p) (mutate_answer a)) (\<lambda>outcome.
          rbind (ensure_consistent budget outcome (conn_id (prep_connector p)) (prep_operation p))
            (\<lambda>_. Inr (WriteResponse_from_outcome outcome (visible_fields p))))",
        OF _ prepared_mutation_confined[where asked = asked, OF p asked]])
    (simp add: dispatch_def Let_def apfst_def map_prod_def case_prod_beta comp_def)

lemma data_list_planned:
  "planned_operation svc c name OpList None (list_asks (svc_config svc) raw) (data_list svc c name raw)"
proof (cases "prepare svc c name OpList None")
  case p: (Inr p)
  show ?thesis
  proof (cases "ListQuery_parse raw (prep_resource p)")
    case q: (Inr query)
    show ?thesis
    proof (cases "enforce_query query (svc_config svc)")
      case (Inr u)
      then show ?thesis
        by (intro execute_query_planned[OF p])
          (use q in \<open>auto simp: data_list_def p Let_def list_asks_def\<close>)
    qed (auto intro!: planned_refused simp: data_list_def p q)
  qed (auto intro!: planned_refused simp: data_list_def p)
qed (auto intro!: planned_refused simp: data_list_def)

lemma data_read_planned:
  "planned_operation svc c name OpRead (Some key) (read_asks key) (data_read svc c name key)"
proof (cases "prepare svc c name OpRead (Some key)")
  case p: (Inr p)
  show ?thesis
    by (intro execute_query_planned[OF p]) (auto simp: data_read_def p Let_def read_asks_def)
qed (auto intro!: planned_refused simp: data_read_def)

lemma data_create_planned:
  "planned_operation svc c name OpCreate None (create_asks (svc_config svc) rows)
     (data_create svc c name rows)"
proof (cases "prepare svc c name OpCreate None")
  case p: (Inr p)
  show ?thesis
  proof (cases "rows = [] \<or> (\<exists>e. enforce_batch_size (length rows) (svc_config svc) = Inl e)
      \<or> (\<exists>e. traverse (\<lambda>r. to_row r (writable_fields p)) rows = Inl e)")
    case True
    then show ?thesis
      by (cases "rows = []"; cases "enforce_batch_size (length rows) (svc_config svc)")
        (auto intro!: planned_refused simp: data_create_def p)
  next
    case False
    then obtain rs where rs: "rows \<noteq> []" "enforce_batch_size (length rows) (svc_config svc) = Inr ()"
      "traverse (\<lambda>r. to_row r (writable_fields p)) rows = Inr rs"
      by (cases "enforce_batch_size (length rows) (svc_config svc)";
          cases "traverse (\<lambda>r. to_row r (writable_fields p)) rows") auto
    then have "data_create svc c name rows =
        dispatch p (Insert (rd_collection (prep_resource p)) rs) (Batch (of_nat (length rs)))"
      by (simp add: data_create_def p fun_eq_iff)
    with rs show ?thesis
      by (auto intro!: dispatch_planned[OF p]
          simp: create_asks_def writable_fields_def enforce_batch_size_def within_Inr)
  qed
qed (auto intro!: planned_refused simp: data_create_def)

lemma data_update_planned:
  "planned_operation svc c name OpUpdate (Some key) (update_asks key changes)
     (data_update svc c name key changes)"
proof (cases "prepare svc c name OpUpdate (Some key)")
  case p: (Inr p)
  show ?thesis
  proof (cases "changes = [] \<or> (\<exists>e. refuse_key_change (prep_resource p) changes = Inl e)
      \<or> (\<exists>e. to_row changes (writable_fields p) = Inl e)")
    case True
    then show ?thesis
      by (cases "changes = []"; cases "refuse_key_change (prep_resource p) changes")
        (auto intro!: planned_refused simp: data_update_def p)
  next
    case False
    then obtain r where r: "changes \<noteq> []" "refuse_key_change (prep_resource p) changes = Inr ()"
      "to_row changes (writable_fields p) = Inr r"
      by (cases "refuse_key_change (prep_resource p) changes"; cases "to_row changes (writable_fields p)") auto
    then have "data_update svc c name key changes =
        dispatch p (Update (rd_collection (prep_resource p))
          (Some (key_filter (prep_resource p) key)) r) OneRecord"
      by (simp add: data_update_def p fun_eq_iff)
    with r show ?thesis
      by (auto intro!: dispatch_planned[OF p] simp: update_asks_def writable_fields_def)
  qed
qed (auto intro!: planned_refused simp: data_update_def)

lemma data_delete_planned:
  "planned_operation svc c name OpDelete (Some key) (delete_asks key) (data_delete svc c name key)"
proof (cases "prepare svc c name OpDelete (Some key)")
  case p: (Inr p)
  then have "data_delete svc c name key =
      dispatch p (Delete (rd_collection (prep_resource p)) (Some (key_filter (prep_resource p) key)))
        OneRecord"
    by (simp add: data_delete_def fun_eq_iff)
  then show ?thesis by (auto intro!: dispatch_planned[OF p] simp: delete_asks_def)
qed (auto intro!: planned_refused simp: data_delete_def)

interpretation listing: planned_operation svc c name OpList None "list_asks (svc_config svc) raw"
  "data_list svc c name raw" for svc :: "'w data_api_service" and c name raw
  by (rule data_list_planned)

interpretation reading: planned_operation svc c name OpRead "Some key" "read_asks key"
  "data_read svc c name key" for svc :: "'w data_api_service" and c name key
  by (rule data_read_planned)

interpretation creating: planned_operation svc c name OpCreate None
  "create_asks (svc_config svc) rows" "data_create svc c name rows"
  for svc :: "'w data_api_service" and c name rows
  by (rule data_create_planned)

interpretation updating: planned_operation svc c name OpUpdate "Some key" "update_asks key changes"
  "data_update svc c name key changes" for svc :: "'w data_api_service" and c name key changes
  by (rule data_update_planned)

interpretation deleting: planned_operation svc c name OpDelete "Some key" "delete_asks key"
  "data_delete svc c name key" for svc :: "'w data_api_service" and c name key
  by (rule data_delete_planned)

end
