(* ===== verification/Data_Requests.thy ===== *)
theory Data_Requests
  imports Data_Isolation
begin

text \<open>
  A request of the Data API from its headers to its answer (\<open>crates/fabric-data-api/src\<close>:
  \<open>routes.rs\<close>, \<open>handlers/\<close>, \<open>extraction.rs\<close>, \<open>request_text.rs\<close>, \<open>request_id/correlation_id.rs\<close>).
  A \<open>data_route\<close> is what the router extracted from method and path; the JSON parser is the argument
  \<open>parse_body\<close>, the fresh identifier of a request the argument \<open>fresh\<close>. Then the properties that
  span identity, resolution and execution.
\<close>

section \<open>Bodies\<close>

fun refuse_nul_in_json :: "json \<Rightarrow> data_api_error + unit"
  and refuse_nul_in_items :: "json list \<Rightarrow> data_api_error + unit"
  and refuse_nul_in_fields :: "(string \<times> json) list \<Rightarrow> data_api_error + unit" where
  "refuse_nul_in_json (JString s) = refuse_nul s"
| "refuse_nul_in_json (JArray items) = refuse_nul_in_items items"
| "refuse_nul_in_json (JObject fs) = refuse_nul_in_fields fs"
| "refuse_nul_in_json JNull = Inr ()"
| "refuse_nul_in_json (JBool _) = Inr ()"
| "refuse_nul_in_json (JNumber _) = Inr ()"
| "refuse_nul_in_items [] = Inr ()"
| "refuse_nul_in_items (v # vs) = rbind (refuse_nul_in_json v) (\<lambda>_. refuse_nul_in_items vs)"
| "refuse_nul_in_fields [] = Inr ()"
| "refuse_nul_in_fields ((name, v) # fs) =
     rbind (rbind (refuse_nul name) (\<lambda>_. refuse_nul_in_json v)) (\<lambda>_. refuse_nul_in_fields fs)"

definition bounded_json ::
  "(string \<Rightarrow> string + json) \<Rightarrow> data_api_config \<Rightarrow> string \<Rightarrow> data_api_error + json" where
  "bounded_json parse_body config bytes =
     (if length bytes > unat (max_request_body_bytes config)
      then Inl (ErrBadRequest (BadText
             (''the request body could not be read; it must not exceed ''
              @ show_nat (unat (max_request_body_bytes config)) @ '' bytes'')))
      else map_err (\<lambda>e. ErrBadRequest (BadText (''invalid JSON body: '' @ e))) (parse_body bytes))"

definition parse_resource :: "string \<Rightarrow> data_api_error + logical_resource_name" where
  "parse_resource raw =
     map_err (\<lambda>e. ErrBadRequest (BadIdentifier ''invalid resource name: '' e))
       (LogicalResourceName_try_new raw)"

definition object_of :: "json \<Rightarrow> data_api_error + (string \<times> json) list" where
  "object_of item =
     (case item of JObject object \<Rightarrow> Inr object
      | _ \<Rightarrow> Inl (ErrBadRequest (BadText ''every element must be an object'')))"

definition to_rows :: "json \<Rightarrow> data_api_error + (string \<times> json) list list" where
  "to_rows body =
     (case body of
        JObject object \<Rightarrow> Inr [object]
      | JArray items \<Rightarrow> traverse object_of items
      | _ \<Rightarrow> Inl (ErrBadRequest
               (BadText ''the request body must be an object or an array of objects'')))"

definition to_changes :: "json \<Rightarrow> data_api_error + (string \<times> json) list" where
  "to_changes body =
     (case body of JObject object \<Rightarrow> Inr object
      | _ \<Rightarrow> Inl (ErrBadRequest (BadText ''the request body must be an object'')))"

section \<open>Routes and handlers\<close>

datatype data_route =
    RouteList string "string option"
  | RouteCreate string string
  | RouteRead string string
  | RouteUpdate string string string
  | RouteDelete string string

datatype data_response =
    ListAnswer list_response
  | RowAnswer row_response
  | WriteAnswer u16 write_response

definition list_resource ::
  "'w data_api_service \<Rightarrow> caller \<Rightarrow> string \<Rightarrow> string option \<Rightarrow> 'w
     \<Rightarrow> (data_api_error + data_response) \<times> 'w" where
  "list_resource svc c raw query w =
     try_in w (parse_resource raw) (\<lambda>resource.
     apfst (map_ok ListAnswer) (data_list svc c resource (case query of None \<Rightarrow> [] | Some q \<Rightarrow> q) w))"

definition create_resource ::
  "'w data_api_service \<Rightarrow> caller \<Rightarrow> string \<Rightarrow> json \<Rightarrow> 'w
     \<Rightarrow> (data_api_error + data_response) \<times> 'w" where
  "create_resource svc c raw body w =
     try_in w (parse_resource raw) (\<lambda>resource.
     try_in w (refuse_nul_in_json body) (\<lambda>_.
     try_in w (to_rows body) (\<lambda>rows.
     apfst (map_ok (WriteAnswer 201)) (data_create svc c resource rows w))))"

definition read_resource ::
  "'w data_api_service \<Rightarrow> caller \<Rightarrow> string \<Rightarrow> string \<Rightarrow> 'w
     \<Rightarrow> (data_api_error + data_response) \<times> 'w" where
  "read_resource svc c raw key w =
     try_in w (parse_resource raw) (\<lambda>resource.
     try_in w (refuse_nul key) (\<lambda>_.
     apfst (map_ok RowAnswer) (data_read svc c resource key w)))"

definition update_resource ::
  "'w data_api_service \<Rightarrow> caller \<Rightarrow> string \<Rightarrow> string \<Rightarrow> json \<Rightarrow> 'w
     \<Rightarrow> (data_api_error + data_response) \<times> 'w" where
  "update_resource svc c raw key body w =
     try_in w (parse_resource raw) (\<lambda>resource.
     try_in w (refuse_nul key) (\<lambda>_.
     try_in w (refuse_nul_in_json body) (\<lambda>_.
     try_in w (to_changes body) (\<lambda>changes.
     apfst (map_ok (WriteAnswer 200)) (data_update svc c resource key changes w)))))"

definition delete_resource ::
  "'w data_api_service \<Rightarrow> caller \<Rightarrow> string \<Rightarrow> string \<Rightarrow> 'w
     \<Rightarrow> (data_api_error + data_response) \<times> 'w" where
  "delete_resource svc c raw key w =
     try_in w (parse_resource raw) (\<lambda>resource.
     try_in w (refuse_nul key) (\<lambda>_.
     apfst (map_ok (WriteAnswer 200)) (data_delete svc c resource key w)))"

fun serve_route ::
  "(string \<Rightarrow> string + json) \<Rightarrow> 'w data_api_service \<Rightarrow> caller \<Rightarrow> data_route \<Rightarrow> 'w
     \<Rightarrow> (data_api_error + data_response) \<times> 'w" where
  "serve_route parse_body svc c (RouteList raw query) w = list_resource svc c raw query w"
| "serve_route parse_body svc c (RouteCreate raw bytes) w =
     try_in w (bounded_json parse_body (svc_config svc) bytes) (\<lambda>body. create_resource svc c raw body w)"
| "serve_route parse_body svc c (RouteRead raw key) w = read_resource svc c raw key w"
| "serve_route parse_body svc c (RouteUpdate raw key bytes) w =
     try_in w (bounded_json parse_body (svc_config svc) bytes)
       (\<lambda>body. update_resource svc c raw key body w)"
| "serve_route parse_body svc c (RouteDelete raw key) w = delete_resource svc c raw key w"

datatype http_outcome =
    Unauthenticated identity_error
  | Refused data_api_error
  | Answered data_response

definition handle ::
  "identity_config \<Rightarrow> token_read \<Rightarrow> (string \<Rightarrow> string + json) \<Rightarrow> 'w data_api_service
     \<Rightarrow> header_map \<Rightarrow> data_route \<Rightarrow> 'w \<Rightarrow> http_outcome \<times> 'w" where
  "handle config read parse_body svc headers route w =
     (case Caller_from_request config read headers of
        Inl e \<Rightarrow> (Unauthenticated e, w)
      | Inr c \<Rightarrow> apfst (\<lambda>r. case r of Inl e \<Rightarrow> Refused e | Inr a \<Rightarrow> Answered a)
                  (serve_route parse_body svc c route w))"

section \<open>Request identifiers\<close>

definition REQUEST_ID_MAX :: nat where
  "REQUEST_ID_MAX = 128"

definition acceptable_id :: "string \<Rightarrow> bool" where
  "acceptable_id value =
     (value \<noteq> [] \<and> length value \<le> REQUEST_ID_MAX
      \<and> list_all (\<lambda>c. is_ascii_alphanumeric c \<or> c \<in> set (map ch ''-_.:+/='')) (chars value))"

definition request_id_for :: "string \<Rightarrow> header_map \<Rightarrow> string" where
  "request_id_for fresh headers =
     (case Option.bind (map_of headers ''x-request-id'') header_text of
        None \<Rightarrow> fresh
      | Some value \<Rightarrow> if acceptable_id value then value else fresh)"

section \<open>What a route asks\<close>

fun route_operation :: "data_route \<Rightarrow> operation_kind" where
  "route_operation (RouteList _ _) = OpList"
| "route_operation (RouteCreate _ _) = OpCreate"
| "route_operation (RouteRead _ _) = OpRead"
| "route_operation (RouteUpdate _ _ _) = OpUpdate"
| "route_operation (RouteDelete _ _) = OpDelete"

fun route_key :: "data_route \<Rightarrow> string option" where
  "route_key (RouteList _ _) = None"
| "route_key (RouteCreate _ _) = None"
| "route_key (RouteRead _ key) = Some key"
| "route_key (RouteUpdate _ key _) = Some key"
| "route_key (RouteDelete _ key) = Some key"

fun route_resource :: "data_route \<Rightarrow> string" where
  "route_resource (RouteList raw _) = raw"
| "route_resource (RouteCreate raw _) = raw"
| "route_resource (RouteRead raw _) = raw"
| "route_resource (RouteUpdate raw _ _) = raw"
| "route_resource (RouteDelete raw _) = raw"

text \<open>A body that was accepted holds no NUL, neither in a name nor in a text, at any depth.\<close>

fun json_clean :: "json \<Rightarrow> bool" where
  "json_clean (JString s) = (CHR 0x00 \<notin> set s)"
| "json_clean (JArray items) = (\<forall>v\<in>set items. json_clean v)"
| "json_clean (JObject fs) = (\<forall>(name, v)\<in>set fs. CHR 0x00 \<notin> set name \<and> json_clean v)"
| "json_clean _ = True"

lemma refuse_nul_clean:
  "refuse_nul_in_json v = Inr () \<longleftrightarrow> json_clean v"
  "refuse_nul_in_items vs = Inr () \<longleftrightarrow> (\<forall>v\<in>set vs. json_clean v)"
  "refuse_nul_in_fields fs = Inr () \<longleftrightarrow> (\<forall>(name, v)\<in>set fs. CHR 0x00 \<notin> set name \<and> json_clean v)"
  by (induction v and vs and fs
      rule: refuse_nul_in_json_refuse_nul_in_items_refuse_nul_in_fields.induct)
    (auto simp: result_simps)

fun route_asks :: "(string \<Rightarrow> string + json) \<Rightarrow> data_api_config \<Rightarrow> data_route \<Rightarrow> asks" where
  "route_asks parse_body config (RouteList _ query) resource t call =
     list_asks config (case query of None \<Rightarrow> [] | Some q \<Rightarrow> q) resource t call"
| "route_asks parse_body config (RouteCreate _ bytes) resource t call =
     (\<exists>body rows. bounded_json parse_body config bytes = Inr body \<and> json_clean body
        \<and> to_rows body = Inr rows \<and> create_asks config rows resource t call)"
| "route_asks parse_body config (RouteRead _ key) resource t call =
     (CHR 0x00 \<notin> set key \<and> read_asks key resource t call)"
| "route_asks parse_body config (RouteUpdate _ key bytes) resource t call =
     (CHR 0x00 \<notin> set key
      \<and> (\<exists>body changes. bounded_json parse_body config bytes = Inr body \<and> json_clean body
           \<and> to_changes body = Inr changes \<and> update_asks key changes resource t call))"
| "route_asks parse_body config (RouteDelete _ key) resource t call =
     (CHR 0x00 \<notin> set key \<and> delete_asks key resource t call)"

lemma planned_weaken:
  assumes "planned_operation svc c name operation key asked run"
    and "\<And>resource t call. asked resource t call \<Longrightarrow> asked' resource t call"
  shows "planned_operation svc c name operation key asked' (\<lambda>w. apfst (map_ok f) (run w))"
proof (cases rule: planned_operation.answered_or_refused[OF assms(1)])
  case (1 e)
  then show ?thesis by (auto intro!: planned_refused)
next
  case (2 conn call render)
  show ?thesis
  proof (rule planned_called[where render = "\<lambda>a. map_ok f (render a)"])
    show "apfst (map_ok f) (run w) = apfst (\<lambda>a. map_ok f (render a)) (perform conn call w)" for w
      by (simp add: 2(1) apfst_def map_prod_def case_prod_beta)
    show "call_confined svc c operation name key asked' conn call"
      using 2(2) assms(2) unfolding call_confined_def by blast
  qed
qed

lemma planned_asked:
  assumes "planned_operation svc c name operation key asked run"
    and "\<And>resource t call. asked resource t call \<Longrightarrow> asked' resource t call"
    and "\<And>w. run' w = apfst (map_ok f) (run w)"
  shows "planned_operation svc c name operation key asked' run'"
proof -
  have "run' = (\<lambda>w. apfst (map_ok f) (run w))" using assms(3) by auto
  with planned_weaken[OF assms(1,2)] show ?thesis by simp
qed

lemma parse_resource_Inr [result_simps]:
  "parse_resource raw = Inr name \<longleftrightarrow> LogicalResourceName_try_new raw = Inr name"
  by (simp add: parse_resource_def map_err_Inr)

section \<open>Every route is a plan\<close>

lemma served_list:
  assumes "parse_resource raw = Inr name"
  shows "planned_operation svc c name OpList None
           (route_asks parse_body (svc_config svc) (RouteList raw query))
           (serve_route parse_body svc c (RouteList raw query))"
  by (rule planned_asked[OF data_list_planned]) (simp_all add: list_resource_def assms)

lemma served_read:
  assumes "parse_resource raw = Inr name"
  shows "planned_operation svc c name OpRead (Some key)
           (route_asks parse_body (svc_config svc) (RouteRead raw key))
           (serve_route parse_body svc c (RouteRead raw key))"
proof (cases "refuse_nul key")
  case (Inr u)
  then show ?thesis
    by (intro planned_asked[OF data_read_planned]) (auto simp: read_resource_def assms refuse_nul_def split: if_splits)
qed (auto intro!: planned_refused simp: read_resource_def assms)

lemma served_delete:
  assumes "parse_resource raw = Inr name"
  shows "planned_operation svc c name OpDelete (Some key)
           (route_asks parse_body (svc_config svc) (RouteDelete raw key))
           (serve_route parse_body svc c (RouteDelete raw key))"
proof (cases "refuse_nul key")
  case (Inr u)
  then show ?thesis
    by (intro planned_asked[OF data_delete_planned]) (auto simp: delete_resource_def assms refuse_nul_def split: if_splits)
qed (auto intro!: planned_refused simp: delete_resource_def assms)

lemma served_create:
  assumes "parse_resource raw = Inr name"
  shows "planned_operation svc c name OpCreate None
           (route_asks parse_body (svc_config svc) (RouteCreate raw bytes))
           (serve_route parse_body svc c (RouteCreate raw bytes))"
proof (cases "bounded_json parse_body (svc_config svc) bytes")
  case body: (Inr body)
  show ?thesis
  proof (cases "refuse_nul_in_json body")
    case clean: (Inr u)
    show ?thesis
    proof (cases "to_rows body")
      case rows: (Inr rows)
      show ?thesis
        by (rule planned_asked[OF data_create_planned[where rows = rows]])
          (use body clean rows in \<open>auto simp: create_resource_def assms simp flip: refuse_nul_clean\<close>)
    qed (auto intro!: planned_refused simp: create_resource_def assms body clean)
  qed (auto intro!: planned_refused simp: create_resource_def assms body)
qed (auto intro!: planned_refused simp: create_resource_def assms)

lemma served_update:
  assumes "parse_resource raw = Inr name"
  shows "planned_operation svc c name OpUpdate (Some key)
           (route_asks parse_body (svc_config svc) (RouteUpdate raw key bytes))
           (serve_route parse_body svc c (RouteUpdate raw key bytes))"
proof (cases "bounded_json parse_body (svc_config svc) bytes")
  case body: (Inr body)
  show ?thesis
  proof (cases "refuse_nul key")
    case nul: (Inr u)
    show ?thesis
    proof (cases "refuse_nul_in_json body")
      case clean: (Inr u)
      show ?thesis
      proof (cases "to_changes body")
        case changes: (Inr changes)
        show ?thesis
          by (rule planned_asked[OF data_update_planned[where changes = changes]])
            (use body clean nul changes in
              \<open>auto simp: update_resource_def assms refuse_nul_def simp flip: refuse_nul_clean split: if_splits\<close>)
      qed (auto intro!: planned_refused simp: update_resource_def assms body clean nul)
    qed (auto intro!: planned_refused simp: update_resource_def assms body nul)
  qed (auto intro!: planned_refused simp: update_resource_def assms body)
qed (auto intro!: planned_refused simp: update_resource_def assms)

lemma served_planned:
  assumes "parse_resource (route_resource route) = Inr name"
  shows "planned_operation svc c name (route_operation route) (route_key route)
           (route_asks parse_body (svc_config svc) route) (serve_route parse_body svc c route)"
  using assms
  by (cases route) (simp_all add: served_list served_create served_read served_update served_delete)

lemma unparsed_refused:
  assumes "parse_resource (route_resource route) = Inl e"
  shows "\<exists>e. \<forall>w. serve_route parse_body svc c route w = (Inl e, w)"
proof (cases route)
  case (RouteCreate raw bytes)
  with assms show ?thesis
    by (cases "bounded_json parse_body (svc_config svc) bytes") (auto simp: create_resource_def)
next
  case (RouteUpdate raw key bytes)
  with assms show ?thesis
    by (cases "bounded_json parse_body (svc_config svc) bytes") (auto simp: update_resource_def)
qed (use assms in \<open>auto simp: list_resource_def read_resource_def delete_resource_def\<close>)

text \<open>A request, from its headers: refused without the backend, or one confined call.\<close>

lemma handled:
  obtains (refused) out where "\<And>w. handle config read parse_body svc headers route w = (out, w)"
  | (called) c name conn call render where
      "Caller_from_request config read headers = Inr c"
      "LogicalResourceName_try_new (route_resource route) = Inr name"
      "call_confined svc c (route_operation route) name (route_key route)
         (route_asks parse_body (svc_config svc) route) conn call"
      "\<And>w. handle config read parse_body svc headers route w = apfst render (perform conn call w)"
proof (cases "Caller_from_request config read headers")
  case (Inl e)
  then show ?thesis by (intro refused) (simp add: handle_def)
next
  case c: (Inr c)
  let ?finish = "\<lambda>r. case r of Inl e \<Rightarrow> Refused e | Inr a \<Rightarrow> Answered a"
  have run: "handle config read parse_body svc headers route w
      = apfst ?finish (serve_route parse_body svc c route w)" for w
    by (simp add: handle_def c)
  show ?thesis
  proof (cases "parse_resource (route_resource route)")
    case (Inl e)
    then obtain e' where "\<And>w. serve_route parse_body svc c route w = (Inl e', w)"
      using unparsed_refused by blast
    then show ?thesis by (intro refused) (simp add: run)
  next
    case name: (Inr name)
    show ?thesis
    proof (cases rule: planned_operation.answered_or_refused[OF served_planned[OF name, where c = c
            and svc = svc and parse_body = parse_body]])
      case (1 e)
      then show ?thesis by (intro refused) (simp add: run)
    next
      case (2 conn call render)
      show ?thesis
      proof (rule called)
        show "Caller_from_request config read headers = Inr c" by (rule c)
        show "LogicalResourceName_try_new (route_resource route) = Inr name"
          using name by (simp add: parse_resource_Inr)
        show "call_confined svc c (route_operation route) name (route_key route)
            (route_asks parse_body (svc_config svc) route) conn call" by (rule 2(2))
        show "handle config read parse_body svc headers route w
            = apfst (\<lambda>a. ?finish (render a)) (perform conn call w)" for w
          by (simp add: run 2(1) apfst_def map_prod_def case_prod_beta)
      qed
    qed
  qed
qed

end
