(* ===== verification/Data_Promises.thy ===== *)
theory Data_Promises
  imports Data_Requests
begin

text \<open>
  What the Data API promises of every request: what two tenants' calls can touch, what a page and
  a write report, which fields a write may name, and that no NUL leaves the service. Each rests on
  the plan of the request (\<open>handled\<close>, \<open>call_confined\<close>) and on what the route asks.
\<close>

section \<open>Rows touched\<close>

fun call_touches :: "comparison \<Rightarrow> backend_call \<Rightarrow> row \<Rightarrow> bool" where
  "call_touches cmp (CallQuery _ q) r = selects_opt cmp (q_filter q) r"
| "call_touches cmp (CallMutate _ (Insert _ rows)) r = (r \<in> set rows)"
| "call_touches cmp (CallMutate _ (Update _ f _)) r = selects_opt cmp f r"
| "call_touches cmp (CallMutate _ (Delete _ f)) r = selects_opt cmp f r"

text \<open>A backend compares texts exactly.\<close>

definition exact_texts :: "comparison \<Rightarrow> bool" where
  "exact_texts cmp = (\<forall>v b. cmp Equal v (JString b) \<longrightarrow> v = JString b)"

lemma selected_cell:
  assumes "exact_texts cmp" "selection_within (IsoDiscriminator column value) f" "selects_opt cmp f r"
  shows "cell r column = JString value"
proof -
  have "selects cmp (FCompare column Equal (JString value)) r"
    using assms(2,3) by (auto simp: selection_within_def selects_opt_def)
  then show ?thesis
    using assms(1) by (auto simp: selects_def compare3_def exact_texts_def split: if_splits)
qed

lemma touched_cell:
  assumes "exact_texts cmp" "call_within (IsoDiscriminator column value) call" "call_touches cmp call r"
  shows "cell r column = JString value"
  using assms
  by (cases "(cmp, call, r)" rule: call_touches.cases)
    (auto simp: rows_within_def intro: selected_cell)

text \<open>The target of a confined call belongs to its caller's tenant.\<close>

lemma confined_resolved:
  assumes "call_confined svc c operation name key asked conn call"
  obtains logical resolved where
    "resolve_data_source (pin (svc_runtime svc)) (id_tenant (caller_identity c)) logical = Inr resolved"
    "call_target call = res_target resolved"
    "call_within (tgt_isolation (call_target call)) call"
  using assms unfolding call_confined_def resolved_for_def by blast

lemma confined_tenant:
  assumes "view_wf (pin (svc_runtime svc))"
    and "call_confined svc c operation name key asked conn call"
  shows "tgt_tenant (call_target call) = id_tenant (caller_identity c)"
proof -
  obtain logical resolved where
    "resolve_data_source (pin (svc_runtime svc)) (id_tenant (caller_identity c)) logical = Inr resolved"
    "call_target call = res_target resolved" by (rule confined_resolved[OF assms(2)])
  then show ?thesis by (metis resolved_by_spec[OF assms(1)])
qed

lemma not_structural: "\<not> is_structural isolation \<longleftrightarrow> (\<exists>column value. isolation = IsoDiscriminator column value)"
  by (cases isolation) auto

section \<open>Pages\<close>

text \<open>
  What the connector contract says of paging: limit and offset only cut what the same query without
  them is answered with. Nothing is said of a query that fails, and what matches may depend on
  everything else the query asks and on the backend's state.
\<close>

definition cuts_pages :: "'w data_connector \<Rightarrow> execution_target \<Rightarrow> (query_spec \<Rightarrow> 'w \<Rightarrow> row list) \<Rightarrow> bool" where
  "cuts_pages conn t matching \<longleftrightarrow>
     (\<forall>q w out w'. conn_query conn w t q = (Inr out, w') \<longrightarrow>
        out_rows out =
          (case q_limit q of None \<Rightarrow> (\<lambda>rs. rs) | Some n \<Rightarrow> take (unat n))
            (drop (case q_offset q of None \<Rightarrow> 0 | Some k \<Rightarrow> unat k)
              (matching (q\<lparr>q_limit := None, q_offset := None\<rparr>) w)))"

lemma list_query_spec_paging [simp]:
  "q_limit (list_query_spec config resource query)
     = Some (saturating_add (effective_limit config (lq_limit query)) 1)"
  "q_offset (list_query_spec config resource query)
     = Some (case lq_offset query of None \<Rightarrow> 0 | Some n \<Rightarrow> n)"
  "q_sort (list_query_spec config resource query) = lq_sort query"
  "q_filter (list_query_spec config resource query) = to_filter query"
  by (auto simp: list_query_spec_def Let_def with_paging_def with_sort_def with_fields_def
      with_filter_def QuerySpec_new_def split: option.split)

text \<open>
  C19: A list answers exactly one page, and says truly whether there is more. An accepted query
  is asked of the backend once. If the backend fails, the failure is the answer. Otherwise, on a
  backend whose limit and offset only cut what the same query is answered with, the records are the
  matching rows from the offset on, at most the effective limit of them, and \<open>has_more\<close> holds
  exactly when a matching row lies beyond the page: the extra row asked for is never shown. At the
  largest limit there is, \<open>2 ^ 32 - 1\<close>, no extra row can be asked for and \<open>has_more\<close> is false.
\<close>

theorem list_answers_the_page:
  assumes p: "prepare svc c name OpList None = Inr p"
    and query: "ListQuery_parse raw (prep_resource p) = Inr query"
      "enforce_query query (svc_config svc) = Inr ()"
    and l: "l = effective_limit (svc_config svc) (lq_limit query)"
    and off: "off = (case lq_offset query of None \<Rightarrow> 0 | Some n \<Rightarrow> n)"
    and q: "q = query_for_target (list_query_spec (svc_config svc) (prep_resource p) query) (prep_target p)"
    and backend: "cuts_pages (prep_connector p) (prep_target p) matching"
    and rows: "rows = matching (q\<lparr>q_limit := None, q_offset := None\<rparr>) w"
  shows "case conn_query (prep_connector p) w (prep_target p) q of
      (Inl e, w') \<Rightarrow> data_list svc c name raw w = (Inl (prep_failed p e), w')
    | (Inr out, w') \<Rightarrow> data_list svc c name raw w =
        (Inr \<lparr> lr_data = map (\<lambda>r. project r (visible_fields p)) (take (unat l) (drop (unat off) rows)),
               lr_paging = \<lparr> pi_limit = l, pi_offset = off,
                             pi_returned = min (length rows - unat off) (unat l),
                             pi_has_more = (unat l < 2 ^ 32 - 1 \<and> unat off + unat l < length rows) \<rparr> \<rparr>, w')"
proof -
  have run: "data_list svc c name raw w = apfst (map_ok (\<lambda>outcome. ListResponse_from_outcome outcome (visible_fields p) l off))
      (apfst (map_err (prep_failed p)) (conn_query (prep_connector p) w (prep_target p) q))"
    by (simp add: data_list_def p query execute_query_def Let_def q off l)
  obtain r w' where r: "conn_query (prep_connector p) w (prep_target p) q = (r, w')" by fastforce
  show ?thesis
  proof (cases r)
    case (Inl e)
    then show ?thesis by (simp add: run r)
  next
    case (Inr out)
    have out_rows: "out_rows out = take (unat (saturating_add l 1)) (drop (unat off) rows)"
      using backend[unfolded cuts_pages_def, rule_format, OF r[unfolded Inr]]
      by (simp add: rows q l off)
    have "unat l < 2 ^ LENGTH(32)" by (rule unsigned_less)
  then have l_max: "unat l \<le> 2 ^ 32 - 1" by simp
    have more: "(unat l < length (out_rows out)) = (unat l < 2 ^ 32 - 1 \<and> unat off + unat l < length rows)"
      using l_max unfolding out_rows by (auto simp: unat_saturating_add)
    have shown: "take (unat l) (out_rows out) = take (unat l) (drop (unat off) rows)"
      using l_max unfolding out_rows by (simp add: unat_saturating_add min_def)
    have count: "min (length (out_rows out)) (unat l) = min (length rows - unat off) (unat l)"
      using l_max unfolding out_rows by (simp add: unat_saturating_add min_def)
    show ?thesis
      by (simp add: run r Inr ListResponse_from_outcome_def Let_def more shown count)
  qed
qed

section \<open>What a write reports\<close>

lemma ensure_consistent_Inr [result_simps]:
  "ensure_consistent budget outcome i k = Inr u \<longleftrightarrow>
     affected_rows outcome \<le> ceiling budget
     \<and> (case budget of Batch sent \<Rightarrow> affected_rows outcome = sent | OneRecord \<Rightarrow> True)"
  by (cases budget) (auto simp: ensure_consistent_def Let_def not_less)

lemma dispatch_reports:
  assumes "dispatch p spec budget w = (Inr resp, w')"
  shows "wr_affected resp \<le> ceiling budget"
    and "budget = Batch sent \<Longrightarrow> wr_affected resp = sent"
  using assms
  by (auto simp: dispatch_def Let_def rbind_Inr ensure_consistent_Inr WriteResponse_from_outcome_def
      apfst_def map_prod_def split: prod.splits)

lemma create_success:
  assumes "data_create svc c name rows w = (Inr resp, w')"
  obtains p rs where "prepare svc c name OpCreate None = Inr p" "rows \<noteq> []"
    "length rows \<le> unat (max_mutation_batch_size (svc_config svc))"
    "traverse (\<lambda>r. to_row r (writable_fields p)) rows = Inr rs"
    "dispatch p (Insert (rd_collection (prep_resource p)) rs) (Batch (of_nat (length rs))) w = (Inr resp, w')"
  using assms
  by (auto simp: data_create_def try_in_def enforce_batch_size_def within_Inr split: sum.splits if_splits)

text \<open>An update and a delete that answer success affected at most the record they addressed.\<close>

lemma single_write_success:
  "data_update svc c name key changes w = (Inr resp, w') \<Longrightarrow> wr_affected resp \<le> 1"
  "data_delete svc c name key w = (Inr resp, w') \<Longrightarrow> wr_affected resp \<le> 1"
  by (auto simp: data_update_def data_delete_def try_in_def split: sum.splits if_splits
      dest!: dispatch_reports(1))

text \<open>
  C20: A create that is reported as done was done as asked. When it answers success, the
  backend was called once, for the caller's own target, with one row for every record sent, at
  least one and never more than the bound, and it reported exactly that many records written: a
  batch of which only part was written never answers success, and no count is lost to the width of
  the counter.
\<close>

theorem create_reports_exactly:
  assumes "data_create svc c name rows w = (Inr resp, w')"
  shows "0 < length rows \<and> length rows \<le> unat (max_mutation_batch_size (svc_config svc))
     \<and> unat (wr_affected resp) = length rows
     \<and> (\<exists>p rs outcome. prepare svc c name OpCreate None = Inr p
          \<and> traverse (\<lambda>r. to_row r (writable_fields p)) rows = Inr rs
          \<and> conn_mutate (prep_connector p) w (prep_target p)
              (mutation_for_target (Insert (rd_collection (prep_resource p)) rs) (prep_target p))
              = (Inr outcome, w')
          \<and> unat (affected_rows outcome) = length rs)"
proof -
  obtain p rs where p: "prepare svc c name OpCreate None = Inr p" "rows \<noteq> []"
    "length rows \<le> unat (max_mutation_batch_size (svc_config svc))"
    "traverse (\<lambda>r. to_row r (writable_fields p)) rows = Inr rs"
    and d: "dispatch p (Insert (rd_collection (prep_resource p)) rs) (Batch (of_nat (length rs))) w
      = (Inr resp, w')"
    by (rule create_success[OF assms])
  have "unat (max_mutation_batch_size (svc_config svc)) < 2 ^ 32"
    using unsigned_less[of "max_mutation_batch_size (svc_config svc)", where ?'a = nat] by simp
  then have count: "unat (of_nat (length rs) :: u64) = length rows"
    using p(3) traverse_length[OF p(4)] by (simp add: unat_of_nat)
  obtain outcome where outcome: "conn_mutate (prep_connector p) w (prep_target p)
      (mutation_for_target (Insert (rd_collection (prep_resource p)) rs) (prep_target p)) = (Inr outcome, w')"
    and affected: "affected_rows outcome = of_nat (length rs)" "wr_affected resp = of_nat (length rs)"
    using d
    by (auto simp: dispatch_def Let_def rbind_Inr map_err_Inr ensure_consistent_Inr
        WriteResponse_from_outcome_def apfst_def map_prod_def split: prod.splits)
  have "unat (affected_rows outcome) = length rs" "unat (wr_affected resp) = length rows"
    using affected count traverse_length[OF p(4)] by simp_all
  with p outcome show ?thesis by auto
qed

section \<open>What a write may name\<close>

lemma to_row_onto_ok:
  assumes "to_row_onto r object rules = Inr r'"
  shows "fst ` set r' \<subseteq> fst ` set r \<union> {f. writable_permits rules f \<and> field_str f \<in> fst ` set object}
    \<and> snd ` set r' \<subseteq> snd ` set r \<union> snd ` set object"
  using assms
proof (induction r object rules rule: to_row_onto.induct)
  case (2 r name v rest rules)
  from 2(2) have f: "writable_permits rules (FieldName name)"
    and rest: "to_row_onto (row_with r (FieldName name) v) rest rules = Inr r'"
    by (auto simp: rbind_Inr map_err_Inr FieldName_try_new_Inr split: if_splits)
  have "FieldName_try_new name = Inr (FieldName name)"
    using 2(2) by (auto simp: rbind_Inr map_err_Inr FieldName_try_new_Inr)
  with 2(1)[of "FieldName name"] f rest have ih:
    "fst ` set r' \<subseteq> fst ` set (row_with r (FieldName name) v)
       \<union> {f. writable_permits rules f \<and> field_str f \<in> fst ` set rest}"
    "snd ` set r' \<subseteq> snd ` set (row_with r (FieldName name) v) \<union> snd ` set rest"
    by auto
  have "fst ` set (row_with r (FieldName name) v) = insert (FieldName name) (fst ` set r)"
    by (simp add: row_with_def)
  then have keys: "fst ` set r' \<subseteq> fst ` set r
      \<union> {f. writable_permits rules f \<and> field_str f \<in> fst ` set ((name, v) # rest)}"
    using ih(1) f by auto
  have "snd ` set (row_with r (FieldName name) v) \<subseteq> insert v (snd ` set r)"
    using set_btree_insert_subset[of "FieldName name" v r] by (auto simp: row_with_def)
  with ih(2) have "snd ` set r' \<subseteq> snd ` set r \<union> insert v (snd ` set rest)" by blast
  with keys show ?case by simp
qed simp

lemma to_row_ok:
  assumes "to_row object rules = Inr r" "f \<in> fst ` set r"
  shows "writable_permits rules f \<and> field_str f \<in> fst ` set object"
  using to_row_onto_ok[OF assms(1)[unfolded to_row_def]] assms(2) by (auto simp: row_new_def)

lemma stamp_keys:
  "fst ` set (stamp r t) = fst ` set r \<union> set_option (discriminator_column (tgt_isolation t))"
  by (cases "tgt_isolation t") (auto simp: stamp_def row_with_def)

lemma scoped_update:
  "\<exists>f'. mutation_for_target (Update collection f changes) t = Update collection f' (stamp changes t)"
  by (cases "tgt_isolation t") (auto simp: mutation_for_target_def stamp_def)

lemma scoped_insert:
  "mutation_for_target (Insert collection rows) t = Insert collection (map (\<lambda>r. stamp r t) rows)"
  by (cases "tgt_isolation t") (auto simp: mutation_for_target_def stamp_def intro!: map_idI[symmetric])

lemma writable_not_discriminator:
  "writable_permits (WritableFields_new resource isolation) f \<longleftrightarrow>
     permits_field resource f
     \<and> (case discriminator_column isolation of None \<Rightarrow> True
        | Some column \<Rightarrow> \<not> eq_ignore_ascii_case (field_str column) (field_str f))"
  by (auto simp: writable_permits_def names_discriminator_def WritableFields_new_def split: option.split)

text \<open>
  A column an update sends: the tenant's discriminator with its own value, or a field the caller
  named that the catalogue lets it name and that is, under any casing, neither the key nor the
  discriminator.
\<close>

definition sent_by_update :: "resource_definition \<Rightarrow> isolation_model \<Rightarrow> (string \<times> json) list \<Rightarrow> row \<Rightarrow> field_name \<Rightarrow> bool" where
  "sent_by_update resource isolation changes sent column \<longleftrightarrow>
     (case isolation of
        IsoDiscriminator d v \<Rightarrow> d = column \<and> cell sent column = JString v
      | _ \<Rightarrow> False)
     \<or> (field_str column \<in> fst ` set changes \<and> permits_field resource column
        \<and> \<not> eq_ignore_ascii_case (field_str column) (field_str (rd_key_field resource))
        \<and> (case discriminator_column isolation of None \<Rightarrow> True
           | Some d \<Rightarrow> \<not> eq_ignore_ascii_case (field_str d) (field_str column)))"

text \<open>
  C21: An update can move a record neither to another tenant nor to another key. Either it is
  refused without the backend being asked, or it is one update of the resource's collection,
  confined to the tenant's rows, in which every column sent is the tenant's discriminator with its
  own value or a field the caller named that the catalogue lets it name and that is under no casing
  the discriminator or the resource's key.
\<close>

theorem updates_keep_tenant_and_key:
  "(\<exists>e. \<forall>w. data_update svc c name key changes w = (Inl e, w))
   \<or> (\<exists>p f sent render.
        prepare svc c name OpUpdate (Some key) = Inr p
        \<and> (\<forall>w. data_update svc c name key changes w =
              apfst render (conn_mutate (prep_connector p) w (prep_target p) (Update (rd_collection (prep_resource p)) f sent)))
        \<and> selection_within (tgt_isolation (prep_target p)) f
        \<and> list_all (sent_by_update (prep_resource p) (tgt_isolation (prep_target p)) changes sent) (map fst sent))"
proof (cases "prepare svc c name OpUpdate (Some key)")
  case (Inl e)
  then have "\<forall>w. data_update svc c name key changes w = (Inl e, w)" by (simp add: data_update_def)
  then show ?thesis by blast
next
  case p: (Inr p)
  show ?thesis
  proof (cases "changes = []")
    case True
    then show ?thesis by (simp add: data_update_def p)
  next
    case named: False
    let ?resource = "prep_resource p" and ?t = "prep_target p"
    show ?thesis
    proof (cases "rbind (refuse_key_change ?resource changes) (\<lambda>_. to_row changes (writable_fields p))")
      case (Inl e)
      then have "\<forall>w. data_update svc c name key changes w = (Inl e, w)"
        by (cases "refuse_key_change ?resource changes") (simp_all add: data_update_def p named)
      then show ?thesis by blast
    next
      case (Inr r)
      then have key: "refuse_key_change ?resource changes = Inr ()"
        and r: "to_row changes (WritableFields_new ?resource (tgt_isolation ?t)) = Inr r"
        by (auto simp: rbind_Inr writable_fields_def)
      obtain f where f: "mutation_for_target (Update (rd_collection ?resource) (Some (key_filter ?resource key)) r) ?t
          = Update (rd_collection ?resource) f (stamp r ?t)"
        using scoped_update by blast
      then have within: "selection_within (tgt_isolation ?t) f"
        using mutation_within[of ?t ?t "Update (rd_collection ?resource) (Some (key_filter ?resource key)) r"] by simp
      have sent: "sent_by_update ?resource (tgt_isolation ?t) changes (stamp r ?t) column"
        if "column \<in> fst ` set (stamp r ?t)" for column
      proof (cases "discriminator_column (tgt_isolation ?t) = Some column")
        case True
        then show ?thesis by (cases "tgt_isolation ?t") (auto simp: sent_by_update_def stamp_cell)
      next
        case False
        then have "column \<in> fst ` set r" using that unfolding stamp_keys by auto
        from to_row_ok[OF r this] have named: "field_str column \<in> fst ` set changes"
          "writable_permits (WritableFields_new ?resource (tgt_isolation ?t)) column" by auto
        then have "\<not> eq_ignore_ascii_case (field_str column) (field_str (rd_key_field ?resource))"
          using key by (auto simp: refuse_key_change_def list_ex_iff Let_def split: if_splits)
        with named show ?thesis by (simp add: sent_by_update_def writable_not_discriminator)
      qed
      define render where "render = (\<lambda>a. rbind (map_err (prep_failed p) a) (\<lambda>outcome.
              rbind (ensure_consistent OneRecord outcome (conn_id (prep_connector p)) (prep_operation p))
                (\<lambda>_. Inr (WriteResponse_from_outcome outcome (visible_fields p)))))"
      have "\<forall>w. data_update svc c name key changes w = apfst render (conn_mutate (prep_connector p) w ?t (Update (rd_collection ?resource) f (stamp r ?t)))"
        by (simp add: data_update_def p named key r writable_fields_def dispatch_def Let_def f render_def)
      moreover have "list_all (sent_by_update ?resource (tgt_isolation ?t) changes (stamp r ?t)) (map fst (stamp r ?t))"
        using sent by (simp add: list_all_iff)
      ultimately show ?thesis using p within by blast
    qed
  qed
qed

section \<open>Texts\<close>

fun filter_clean :: "filter_expr \<Rightarrow> bool" where
  "filter_clean (FAnd cs) = (\<forall>c\<in>set cs. filter_clean c)"
| "filter_clean (FOr cs) = (\<forall>c\<in>set cs. filter_clean c)"
| "filter_clean (FNot c) = filter_clean c"
| "filter_clean (FCompare _ _ v) = json_clean v"
| "filter_clean (FIsNull _) = True"
| "filter_clean (FIn _ vs) = (\<forall>v\<in>set vs. json_clean v)"

definition rows_clean :: "row list \<Rightarrow> bool" where
  "rows_clean rs = (\<forall>r\<in>set rs. \<forall>v\<in>snd ` set r. json_clean v)"

definition maybe_clean :: "filter_expr option \<Rightarrow> bool" where
  "maybe_clean f = (case f of None \<Rightarrow> True | Some g \<Rightarrow> filter_clean g)"

fun call_clean :: "backend_call \<Rightarrow> bool" where
  "call_clean (CallQuery _ q) = maybe_clean (q_filter q)"
| "call_clean (CallMutate _ (Insert _ rs)) = rows_clean rs"
| "call_clean (CallMutate _ (Update _ f r)) = (maybe_clean f \<and> rows_clean [r])"
| "call_clean (CallMutate _ (Delete _ f)) = maybe_clean f"

definition isolation_clean :: "isolation_model \<Rightarrow> bool" where
  "isolation_clean isolation = maybe_clean (tenant_predicate isolation)"

lemma filter_clean_and [simp]: "filter_clean (filter_and a b) \<longleftrightarrow> filter_clean a \<and> filter_clean b"
  by (cases "(a, b)" rule: filter_and.cases) auto

lemma scoped_query_clean:
  "maybe_clean (q_filter q) \<Longrightarrow> isolation_clean (tgt_isolation t) \<Longrightarrow>
     maybe_clean (q_filter (query_for_target q t))"
  by (auto simp: query_for_target_def maybe_clean_def isolation_clean_def split: option.splits)

lemma stamp_clean:
  assumes "isolation_clean (tgt_isolation t)" "rows_clean [r]"
  shows "rows_clean [stamp r t]"
proof (cases "tgt_isolation t")
  case (IsoDiscriminator column "value")
  have "snd ` set (row_with r column (JString value)) \<subseteq> insert (JString value) (snd ` set r)"
    using set_btree_insert_subset[of column "JString value" r] by (auto simp: row_with_def)
  moreover have "\<forall>v\<in>insert (JString value) (snd ` set r). json_clean v"
    using assms IsoDiscriminator by (auto simp: rows_clean_def isolation_clean_def maybe_clean_def)
  ultimately have "\<forall>v\<in>snd ` set (row_with r column (JString value)). json_clean v" by blast
  with IsoDiscriminator show ?thesis by (simp add: stamp_def rows_clean_def)
qed (use assms in \<open>simp_all add: stamp_def\<close>)

lemma scoped_mutation_clean:
  assumes "call_clean (CallMutate t' m)" "isolation_clean (tgt_isolation t)"
  shows "call_clean (CallMutate t' (mutation_for_target m t))"
proof (cases "tenant_predicate (tgt_isolation t)")
  case (Some p)
  have "maybe_clean f \<Longrightarrow> maybe_clean (Some (conjoin f p))" for f
    using assms(2) Some by (auto simp: maybe_clean_def conjoin_def isolation_clean_def split: option.splits)
  moreover have "rows_clean rs \<Longrightarrow> rows_clean (map (\<lambda>r. stamp r t) rs)" for rs
    using stamp_clean[OF assms(2)] by (auto simp: rows_clean_def)
  ultimately show ?thesis
    using assms Some stamp_clean[OF assms(2)] by (cases m) (simp_all add: mutation_for_target_def)
qed (use assms in \<open>simp add: mutation_for_target_def\<close>)

lemma object_rows_clean:
  assumes "to_row object rules = Inr r" "\<forall>v\<in>snd ` set object. json_clean v"
  shows "rows_clean [r]"
proof -
  have "snd ` set r \<subseteq> snd ` set object"
    using to_row_onto_ok[OF assms(1)[unfolded to_row_def]] by (simp add: row_new_def)
  with assms(2) have "\<forall>v\<in>snd ` set r. json_clean v" by blast
  then show ?thesis by (simp add: rows_clean_def)
qed

lemma to_rows_clean:
  assumes "to_rows body = Inr objects" "json_clean body" "object \<in> set objects" "v \<in> snd ` set object"
  shows "json_clean v"
proof -
  from assms(1,3) consider "body = JObject object" | items where "body = JArray items" "JObject object \<in> set items"
    by (auto simp: to_rows_def object_of_def split: json.splits dest!: traverse_set)
  then show ?thesis
  proof cases
    case 1
    with assms(2,4) show ?thesis by auto
  next
    case 2
    have "\<forall>v\<in>set items. json_clean v" using assms(2) unfolding 2(1) json_clean.simps(2) .
    with 2(2) have "json_clean (JObject object)" by blast
    with assms(4) show ?thesis by auto
  qed
qed

lemma list_filter_clean:
  "ListQuery_parse raw resource = Inr query \<Longrightarrow> maybe_clean (to_filter query)"
  using parsed_query_ok[of raw resource query]
  by (cases "lq_filters query" rule: remdups_adj.cases)
    (auto simp: to_filter_def maybe_clean_def query_ok_def split: prod.splits)

text \<open>
  No NUL byte reaches a backend. Whatever a request's query string, key or JSON body
  holds, at any depth and under any percent encoding, no value of the filter, of a row or of a
  change set it sends contains a NUL: such a request is refused first. Only the tenant's own
  discriminator value is not the caller's, and is asked to be clean.
\<close>

theorem no_nul_reaches_a_backend:
  assumes asked: "route_asks parse_body config route resource t call"
    and tenant: "isolation_clean (tgt_isolation t)"
  shows "call_clean call"
proof (cases route)
  case (RouteList raw query)
  with asked obtain q raw' where "ListQuery_parse raw' resource = Inr q"
    "call = CallQuery t (query_for_target (list_query_spec config resource q) t)"
    by (auto simp: list_asks_def)
  with scoped_query_clean[OF _ tenant] list_filter_clean show ?thesis by simp
next
  case (RouteCreate raw bytes)
  with asked obtain body objects rows where body: "json_clean body" "to_rows body = Inr objects"
    and rows: "traverse (\<lambda>r. to_row r (WritableFields_new resource (tgt_isolation t))) objects = Inr rows"
    and call: "call = CallMutate t (mutation_for_target (Insert (rd_collection resource) rows) t)"
    by (auto simp: create_asks_def)
  have "rows_clean [r]" if r: "r \<in> set rows" for r
  proof -
    obtain object where object: "object \<in> set objects"
      "to_row object (WritableFields_new resource (tgt_isolation t)) = Inr r"
      using traverse_set[OF rows r] by blast
    then show ?thesis using to_rows_clean[OF body(2,1) object(1)] object_rows_clean by blast
  qed
  then have "call_clean (CallMutate t (Insert (rd_collection resource) rows))"
    by (simp add: rows_clean_def)
  then show ?thesis unfolding call using tenant by (rule scoped_mutation_clean)
next
  case (RouteRead raw key)
  with asked have "call = CallQuery t (query_for_target (read_query_spec resource key) t)"
    "CHR 0x00 \<notin> set key" by (auto simp: read_asks_def)
  with scoped_query_clean[OF _ tenant] show ?thesis
    by (simp add: read_query_spec_def with_paging_def with_filter_def key_filter_def maybe_clean_def)
next
  case (RouteUpdate raw key bytes)
  with asked obtain body changes r where clean: "CHR 0x00 \<notin> set key"
    and body: "json_clean body" "to_changes body = Inr changes"
    and r: "to_row changes (WritableFields_new resource (tgt_isolation t)) = Inr r"
    and call: "call = CallMutate t (mutation_for_target
        (Update (rd_collection resource) (Some (key_filter resource key)) r) t)"
    by (simp only: route_asks.simps update_asks_def) blast
  have "body = JObject changes" using body(2) by (simp add: to_changes_def split: json.splits)
  then have changes: "\<forall>v\<in>snd ` set changes. json_clean v" using body(1) by auto
  have "call_clean (CallMutate t (Update (rd_collection resource) (Some (key_filter resource key)) r))"
    using clean object_rows_clean[OF r changes] by (simp add: maybe_clean_def key_filter_def)
  then show ?thesis unfolding call using tenant by (rule scoped_mutation_clean)
next
  case (RouteDelete raw key)
  with asked have call: "call = CallMutate t (mutation_for_target
        (Delete (rd_collection resource) (Some (key_filter resource key))) t)"
    and key: "CHR 0x00 \<notin> set key" by (auto simp: delete_asks_def)
  have "call_clean (CallMutate t (Delete (rd_collection resource) (Some (key_filter resource key))))"
    using key by (simp add: maybe_clean_def key_filter_def)
  then show ?thesis unfolding call using tenant by (rule scoped_mutation_clean)
qed

section \<open>A service with two tenants in one table\<close>

text \<open>A backend that keeps the rows of one table, compares exactly and pages as it is asked.\<close>

definition example_rows :: "filter_expr option \<Rightarrow> row list \<Rightarrow> row list" where
  "example_rows f table = filter (selects_opt (\<lambda>op v w. v = w) f) table"

definition example_backend :: "row list data_connector" where
  "example_backend =
     \<lparr> conn_id = ConnectorId ''ndc'',
       conn_query = (\<lambda>table t q.
         (Inr (QueryOutcome_from_rows
            ((case q_limit q of None \<Rightarrow> (\<lambda>rs. rs) | Some n \<Rightarrow> take (unat n))
               (drop (case q_offset q of None \<Rightarrow> 0 | Some k \<Rightarrow> unat k)
                  (example_rows (q_filter q) table)))), table)),
       conn_mutate = (\<lambda>table t m. case m of
           Insert _ rs \<Rightarrow> (Inr (MutationOutcome_affected (of_nat (length rs))), table @ rs)
         | Update _ _ _ \<Rightarrow> (Inl (refused UpdatesOnCollection), table)
         | Delete _ _ \<Rightarrow> (Inl (refused DeletesOnCollection), table)) \<rparr>"

definition example_runtime :: "decoded_catalogue runtime_resolver" where
  "example_runtime =
     with_catalogue (RuntimeResolver_new
       (snd (apply_all tenant_kind
          [example_tenant ''acme'' ''pool'' (IsoDiscriminator (FieldName ''tenant'') ''a''),
           example_tenant ''globex'' ''pool'' (IsoDiscriminator (FieldName ''tenant'') ''g'')]
          registry_new))
       (snd (apply_all data_source_kind
          [(example_source ''pool'' Shared SelDefault)
             \<lparr>ds_capabilities := \<lparr> writable = True, accepts_new_tenants = True \<rparr>\<rparr>]
          registry_new)))
       (Decoded [(LogicalResourceName ''orders'', example_resource)])"

definition example_service :: "row list data_api_service" where
  "example_service =
     \<lparr> svc_runtime = example_runtime, svc_connectors = [(ConnectorId ''ndc'', example_backend)],
       svc_authorization = DataAuthorization_default, svc_config = DataApiConfig_default \<rparr>"

definition example_caller :: "string \<Rightarrow> caller" where
  "example_caller t =
     \<lparr> caller_identity = \<lparr> id_tenant = TenantId t, id_subject = ''ada'', id_roles = [],
         id_scopes = [''data:orders:read'', ''data:orders:write''] \<rparr>,
       caller_credential = CallerCredential ''token'' \<rparr>"

lemma example_runtime_wf: "view_wf (pin example_runtime)"
  unfolding example_runtime_def with_catalogue_def RuntimeResolver_new_def pin_def
  by (simp, intro view_of_registries_wf apply_all_step_wf)
    (simp_all add: registry_wf_def registry_new_def)

abbreviation orders :: logical_resource_name where
  "orders \<equiv> LogicalResourceName ''orders''"

lemma example_prepared:
  assumes "(t, v) \<in> {(''acme'', ''a''), (''globex'', ''g'')}" "k \<in> {OpList, OpCreate}"
  obtains p where "prepare example_service (example_caller t) orders k None = Inr p"
    "tgt_isolation (prep_target p) = IsoDiscriminator (FieldName ''tenant'') v"
    "tgt_connector (prep_target p) = ConnectorId ''ndc''" "tgt_connection (prep_target p) = SelDefault"
    "prep_connector p = example_backend" "prep_resource p = example_resource"
proof -
  let ?view = "\<lambda>p. (tgt_isolation (prep_target p), tgt_connector (prep_target p),
      tgt_connection (prep_target p), prep_resource p)"
  have "map_ok ?view (prepare example_service (example_caller ''acme'') orders OpList None)
      = Inr (IsoDiscriminator (FieldName ''tenant'') ''a'', ConnectorId ''ndc'', SelDefault, example_resource)"
    by code_simp
  moreover have "map_ok ?view (prepare example_service (example_caller ''globex'') orders OpList None)
      = Inr (IsoDiscriminator (FieldName ''tenant'') ''g'', ConnectorId ''ndc'', SelDefault, example_resource)"
    by code_simp
  moreover have "map_ok ?view (prepare example_service (example_caller ''acme'') orders OpCreate None)
      = Inr (IsoDiscriminator (FieldName ''tenant'') ''a'', ConnectorId ''ndc'', SelDefault, example_resource)"
    by code_simp
  moreover have "map_ok ?view (prepare example_service (example_caller ''globex'') orders OpCreate None)
      = Inr (IsoDiscriminator (FieldName ''tenant'') ''g'', ConnectorId ''ndc'', SelDefault, example_resource)"
    by code_simp
  ultimately have "map_ok ?view (prepare example_service (example_caller t) orders k None)
      = Inr (IsoDiscriminator (FieldName ''tenant'') v, ConnectorId ''ndc'', SelDefault, example_resource)"
    using assms by auto
  then obtain p where p: "prepare example_service (example_caller t) orders k None = Inr p"
    and parts: "tgt_isolation (prep_target p) = IsoDiscriminator (FieldName ''tenant'') v"
    "tgt_connector (prep_target p) = ConnectorId ''ndc''" "tgt_connection (prep_target p) = SelDefault"
    "prep_resource p = example_resource" unfolding map_ok_Inr by auto
  have "prep_connector p = example_backend"
    using prepared(5)[OF p] parts(2) by (simp add: example_service_def)
  with p parts show ?thesis by (intro that)
qed

lemma example_backend_pages:
  "cuts_pages example_backend t (\<lambda>q table. example_rows (q_filter q) table)"
  by (auto simp: cuts_pages_def example_backend_def QueryOutcome_from_rows_def)

theorem list_answers_the_page_witness:
  "\<exists>page. fst (data_list example_service (example_caller ''acme'') orders [] []) = Inr page
     \<and> \<not> pi_has_more (lr_paging page) \<and> pi_limit (lr_paging page) = 50"
proof -
  obtain p where p: "prepare example_service (example_caller ''acme'') orders OpList None = Inr p"
    "prep_connector p = example_backend"
    by (rule example_prepared[of "''acme''" "''a''" OpList]) simp_all
  have query: "ListQuery_parse [] (prep_resource p) = Inr ListQuery_default"
    by (simp add: ListQuery_parse_def query_pairs_def)
  have bounds: "enforce_query ListQuery_default (svc_config example_service) = Inr ()"
    by (simp add: enforce_query_Inr ListQuery_default_def to_filter_def)
  have l: "50 = effective_limit (svc_config example_service) (lq_limit ListQuery_default)"
    by (simp add: effective_limit_def ListQuery_default_def example_service_def DataApiConfig_default_def)
  have off: "0 = (case lq_offset ListQuery_default of None \<Rightarrow> 0 | Some n \<Rightarrow> n)"
    by (simp add: ListQuery_default_def)
  show ?thesis
    using list_answers_the_page[OF p(1) query bounds l off refl _ refl, of _ "[]"]
      example_backend_pages[of "prep_target p"]
    unfolding p(2) by (simp add: example_backend_def example_rows_def split: prod.splits)
qed

theorem create_reports_exactly_witness:
  "\<exists>resp table. data_create example_service (example_caller ''acme'') orders [[(''id'', JString ''7'')]] []
       = (Inr resp, table) \<and> unat (wr_affected resp) = 1"
proof -
  have "is_ok (fst (data_create example_service (example_caller ''acme'') orders [[(''id'', JString ''7'')]] []))"
    by code_simp
  then obtain resp table where run: "data_create example_service (example_caller ''acme'') orders
      [[(''id'', JString ''7'')]] [] = (Inr resp, table)"
    unfolding is_ok_iff by (metis prod.collapse)
  with create_reports_exactly[OF run] show ?thesis by auto
qed

definition example_shared_target :: execution_target where
  "example_shared_target =
     ExecutionTarget_new (TenantId ''acme'') 1 (DataSourceId ''pool'') 1 (ConnectorId ''ndc'') SelDefault
       (IsoDiscriminator (FieldName ''tenant'') ''a'')"

theorem no_nul_reaches_a_backend_witness:
  "call_clean (CallQuery example_shared_target
     (query_for_target (read_query_spec example_resource ''7'') example_shared_target))"
  by (rule no_nul_reaches_a_backend[of "\<lambda>_. Inr JNull" DataApiConfig_default "RouteRead ''orders'' ''7''" example_resource
        example_shared_target])
    (simp_all add: read_asks_def isolation_clean_def maybe_clean_def example_shared_target_def
      ExecutionTarget_new_def)

end
