(* ===== verification/Generation.thy ===== *)
theory Generation
  imports Resolution "HOL-Library.Option_ord"
begin

text \<open>
  A published generation, verified and parsed
  (\<open>crates/fabric-tenant-runtime/src/publication\<close>: \<open>record.rs\<close>, \<open>digest.rs\<close>, \<open>file_reads.rs\<close>,
  \<open>complete_generation.rs\<close>, \<open>parsed_generation.rs\<close>, \<open>catalogue_decoder.rs\<close>, and
  \<open>errors/source_error.rs\<close>). SHA-256, the JSON reader and writer and the catalogue decoder are
  the parameter \<open>'c codec\<close>, one function each. A message built from values is a structured
  reason. An \<open>Option<u64>\<close> is ordered with \<open>None\<close> lowest, as the library's option order has it.
\<close>

section \<open>What the code outside provides\<close>

definition READER_CONTRACT :: u32 where
  "READER_CONTRACT = 1"

record reader_record =
  minimum_reader_contract :: u32
  generation_of :: u64
  tenants_sha256 :: string
  data_sources_sha256 :: string
  catalog_sha256 :: string

record envelope =
  env_format :: u32
  env_record_sha256 :: string
  env_record :: string
  env_data_sources :: string
  env_tenants :: string
  env_catalog :: string

record 'c codec =
  sha256 :: "string \<Rightarrow> record_digest"
  read_record :: "string \<Rightarrow> string + reader_record"
  read_data_sources :: "string \<Rightarrow> string + data_source list"
  read_tenants :: "string \<Rightarrow> string + tenant_runtime_binding list"
  read_envelope :: "string \<Rightarrow> string + envelope"
  write_envelope :: "envelope \<Rightarrow> string"
  read_stated_generation :: "string \<Rightarrow> string + u64"
  decode_catalogue :: "string \<Rightarrow> string + 'c"

section \<open>Errors\<close>

datatype source_error =
    SrcUnreadable string string
  | SrcMalformed string string
  | IncompleteGeneration string u64 string
  | SrcUnsupportedContract string u32 u32
  | SrcUnusable string u64 string unusable_reason
  | Regressed string u64 string
  | NothingUsable string nat unusable_reason
and unusable_reason =
    ReasonText string
  | ReasonError source_error
  | ReasonTenant "tenant_id resource_fault"
  | ReasonDataSource "data_source_id resource_fault"
  | ReasonDangling tenant_id logical_data_source_name data_source_id

section \<open>Files\<close>

datatype file_read = FileMissing string | FileUnreadable string | FileContents string

fun read_optional :: "file_read \<Rightarrow> string \<Rightarrow> source_error + string option" where
  "read_optional (FileContents bytes) origin = Inr (Some bytes)"
| "read_optional (FileMissing _) origin = Inr None"
| "read_optional (FileUnreadable cause) origin = Inl (SrcUnreadable origin cause)"

fun read_file :: "file_read \<Rightarrow> string \<Rightarrow> source_error + string" where
  "read_file (FileContents bytes) origin = Inr bytes"
| "read_file (FileMissing cause) origin = Inl (SrcUnreadable origin cause)"
| "read_file (FileUnreadable cause) origin = Inl (SrcUnreadable origin cause)"

definition parse_as :: "(string \<Rightarrow> string + 'a) \<Rightarrow> string \<Rightarrow> string \<Rightarrow> source_error + 'a" where
  "parse_as reader bytes origin = map_err (SrcMalformed origin) (reader bytes)"

definition sha256_hex :: "'c codec \<Rightarrow> string \<Rightarrow> string" where
  "sha256_hex x bytes = RecordDigest_to_string (sha256 x bytes)"

section \<open>A complete generation\<close>

record complete_generation =
  cg_record :: string
  cg_generation :: u64
  cg_data_sources :: string
  cg_tenants :: string
  cg_catalog :: string

definition CompleteGeneration_verify ::
  "'c codec \<Rightarrow> string \<Rightarrow> string \<Rightarrow> string \<Rightarrow> string \<Rightarrow> string
     \<Rightarrow> source_error + complete_generation" where
  "CompleteGeneration_verify x rec data_sources tenants catalog origin =
     rbind (parse_as (read_record x) rec origin) (\<lambda>parsed.
     if minimum_reader_contract parsed > READER_CONTRACT
     then Inl (SrcUnsupportedContract origin (minimum_reader_contract parsed) READER_CONTRACT)
     else
       rbind (try_each
                (\<lambda>(document, bytes, digest).
                   if sha256_hex x bytes \<noteq> digest
                   then Inl (IncompleteGeneration origin (generation_of parsed) document) else Inr ())
                [(''catalog'', catalog, catalog_sha256 parsed),
                 (''data-sources'', data_sources, data_sources_sha256 parsed),
                 (''tenants'', tenants, tenants_sha256 parsed)])
         (\<lambda>_. Inr \<lparr> cg_record = rec, cg_generation = generation_of parsed,
                    cg_data_sources = data_sources, cg_tenants = tenants, cg_catalog = catalog \<rparr>))"

definition record_sha256 :: "'c codec \<Rightarrow> complete_generation \<Rightarrow> string" where
  "record_sha256 x g = sha256_hex x (cg_record g)"

definition record_digest_of :: "'c codec \<Rightarrow> complete_generation \<Rightarrow> record_digest" where
  "record_digest_of x g = sha256 x (cg_record g)"

section \<open>A parsed generation\<close>

record 'c parsed_generation =
  pg_complete :: complete_generation
  pg_data_sources :: "data_source list"
  pg_tenants :: "tenant_runtime_binding list"
  pg_catalogue :: 'c

definition parsed_number :: "'c parsed_generation \<Rightarrow> u64" where
  "parsed_number p = cg_generation (pg_complete p)"

definition decode_catalogue_in ::
  "'c codec \<Rightarrow> complete_generation \<Rightarrow> string \<Rightarrow> source_error + 'c" where
  "decode_catalogue_in x g origin =
     map_err (\<lambda>reason. SrcUnusable origin (cg_generation g) ''catalog'' (ReasonText reason))
       (decode_catalogue x (cg_catalog g))"

definition ParsedGeneration_parse ::
  "'c codec \<Rightarrow> complete_generation \<Rightarrow> string \<Rightarrow> source_error + 'c parsed_generation" where
  "ParsedGeneration_parse x g origin =
     rbind (parse_as (read_data_sources x) (cg_data_sources g) origin) (\<lambda>ds.
     rbind (parse_as (read_tenants x) (cg_tenants g) origin) (\<lambda>ts.
     rbind (decode_catalogue_in x g origin) (\<lambda>c.
     Inr \<lparr> pg_complete = g, pg_data_sources = ds, pg_tenants = ts, pg_catalogue = c \<rparr>)))"

fun each_valid_once_from ::
  "('t, 'k, 'f) resource_kind \<Rightarrow> 'k list \<Rightarrow> 't list \<Rightarrow> 'k resource_fault + unit" where
  "each_valid_once_from R seen [] = Inr ()"
| "each_valid_once_from R seen (t # ts) =
     rbind (map_err (FaultInvalid (kind_name R) (key_of R t)) (validate_of R t)) (\<lambda>_.
     if key_of R t \<in> set seen then Inl (FaultAppearsTwice (kind_name R) (key_of R t))
     else each_valid_once_from R (key_of R t # seen) ts)"

definition each_valid_once :: "('t, 'k, 'f) resource_kind \<Rightarrow> 't list \<Rightarrow> 'k resource_fault + unit" where
  "each_valid_once R ts = each_valid_once_from R [] ts"

definition every_binding_resolves ::
  "tenant_runtime_binding list \<Rightarrow> data_source list \<Rightarrow> unusable_reason + unit" where
  "every_binding_resolves tenants data_sources =
     try_each (\<lambda>t. try_each (\<lambda>(logical, b).
         if bd_data_source b \<notin> set (map ds_id data_sources)
         then Inl (ReasonDangling (tb_tenant t) logical (bd_data_source b)) else Inr ())
       (tb_data t)) tenants"

definition ParsedGeneration_validate ::
  "'c codec \<Rightarrow> complete_generation \<Rightarrow> string \<Rightarrow> source_error + 'c parsed_generation" where
  "ParsedGeneration_validate x g origin =
     (let unusable = (\<lambda>document reason. SrcUnusable origin (cg_generation g) document reason) in
      rbind (map_err (\<lambda>e. unusable ''data-sources'' (ReasonError e))
               (parse_as (read_data_sources x) (cg_data_sources g) origin)) (\<lambda>ds.
      rbind (map_err (\<lambda>e. unusable ''tenants'' (ReasonError e))
               (parse_as (read_tenants x) (cg_tenants g) origin)) (\<lambda>ts.
      rbind (map_err (\<lambda>f. unusable ''data-sources'' (ReasonDataSource f))
               (each_valid_once data_source_kind ds)) (\<lambda>_.
      rbind (map_err (\<lambda>f. unusable ''tenants'' (ReasonTenant f))
               (each_valid_once tenant_kind ts)) (\<lambda>_.
      rbind (map_err (unusable ''tenants'') (every_binding_resolves ts ds)) (\<lambda>_.
      rbind (decode_catalogue_in x g origin) (\<lambda>c.
      Inr \<lparr> pg_complete = g, pg_data_sources = ds, pg_tenants = ts, pg_catalogue = c \<rparr>)))))))"

section \<open>What a generation that passed is\<close>

lemma CompleteGeneration_verify_Inr:
  "CompleteGeneration_verify x rec ds ts cat origin = Inr g \<longleftrightarrow>
     (\<exists>p. read_record x rec = Inr p \<and> minimum_reader_contract p \<le> READER_CONTRACT
        \<and> sha256_hex x cat = catalog_sha256 p \<and> sha256_hex x ds = data_sources_sha256 p
        \<and> sha256_hex x ts = tenants_sha256 p
        \<and> g = \<lparr> cg_record = rec, cg_generation = generation_of p, cg_data_sources = ds,
                cg_tenants = ts, cg_catalog = cat \<rparr>)"
  unfolding CompleteGeneration_verify_def parse_as_def rbind_Inr map_err_Inr
  by (cases "read_record x rec") (auto simp: rbind_Inr map_err_Inr split: if_splits)

text \<open>The documents are those its record names.\<close>

definition digests_match :: "'c codec \<Rightarrow> complete_generation \<Rightarrow> bool" where
  "digests_match x g =
     (case read_record x (cg_record g) of
        Inl _ \<Rightarrow> False
      | Inr p \<Rightarrow>
          minimum_reader_contract p \<le> READER_CONTRACT \<and> cg_generation g = generation_of p
          \<and> sha256_hex x (cg_catalog g) = catalog_sha256 p
          \<and> sha256_hex x (cg_data_sources g) = data_sources_sha256 p
          \<and> sha256_hex x (cg_tenants g) = tenants_sha256 p)"

lemma verify_digests_match:
  "CompleteGeneration_verify x (cg_record g) (cg_data_sources g) (cg_tenants g) (cg_catalog g) origin = Inr g
     \<longleftrightarrow> digests_match x g"
  by (cases g) (auto simp: CompleteGeneration_verify_Inr digests_match_def split: sum.split)

lemma verify_gives_digests_match:
  "CompleteGeneration_verify x rec ds ts cat origin = Inr g \<Longrightarrow>
     digests_match x g \<and> cg_record g = rec \<and> cg_data_sources g = ds \<and> cg_tenants g = ts
     \<and> cg_catalog g = cat"
  by (auto simp: CompleteGeneration_verify_Inr digests_match_def)

lemma each_valid_once_from_Inr:
  "each_valid_once_from R seen ts = Inr u \<longleftrightarrow>
     distinct (map (key_of R) ts) \<and> (\<forall>t\<in>set ts. valid_in R t \<and> key_of R t \<notin> set seen)"
proof (induction ts arbitrary: seen)
  case (Cons t ts)
  then show ?case
    by (auto simp: result_simps valid_in_def image_iff)
qed simp

lemma each_valid_once_Inr [result_simps]:
  "each_valid_once R ts = Inr u \<longleftrightarrow> distinct (map (key_of R) ts) \<and> (\<forall>t\<in>set ts. valid_in R t)"
  by (simp add: each_valid_once_def each_valid_once_from_Inr)

lemma every_binding_resolves_Inr [result_simps]:
  "every_binding_resolves ts ds = Inr u \<longleftrightarrow>
     (\<forall>t\<in>set ts. \<forall>i. binds t i \<longrightarrow> i \<in> ds_id ` set ds)"
proof -
  have "every_binding_resolves ts ds = Inr u \<longleftrightarrow>
      (\<forall>t\<in>set ts. \<forall>(l, b)\<in>set (tb_data t). bd_data_source b \<in> ds_id ` set ds)"
    by (auto simp: every_binding_resolves_def result_simps case_prod_beta)
  also have "\<dots> \<longleftrightarrow> (\<forall>t\<in>set ts. \<forall>i. binds t i \<longrightarrow> i \<in> ds_id ` set ds)"
    by (force simp: binds_def)
  finally show ?thesis .
qed

text \<open>What a generation guarantees once every check of \<open>validate\<close> has passed.\<close>

definition generation_valid :: "'c codec \<Rightarrow> 'c parsed_generation \<Rightarrow> bool" where
  "generation_valid x p =
     (read_data_sources x (cg_data_sources (pg_complete p)) = Inr (pg_data_sources p)
      \<and> read_tenants x (cg_tenants (pg_complete p)) = Inr (pg_tenants p)
      \<and> decode_catalogue x (cg_catalog (pg_complete p)) = Inr (pg_catalogue p)
      \<and> is_ok (each_valid_once data_source_kind (pg_data_sources p))
      \<and> is_ok (each_valid_once tenant_kind (pg_tenants p))
      \<and> is_ok (every_binding_resolves (pg_tenants p) (pg_data_sources p)))"

lemma ParsedGeneration_validate_Inr [result_simps]:
  "ParsedGeneration_validate x g origin = Inr p \<longleftrightarrow> pg_complete p = g \<and> generation_valid x p"
proof
  assume "ParsedGeneration_validate x g origin = Inr p"
  then show "pg_complete p = g \<and> generation_valid x p"
    by (auto simp: ParsedGeneration_validate_def generation_valid_def parse_as_def
        decode_catalogue_in_def rbind_Inr map_err_Inr Let_def)
next
  assume a: "pg_complete p = g \<and> generation_valid x p"
  have "is_ok r \<Longrightarrow> \<exists>u::unit. r = Inr u" for r :: "'b + unit"
    by (cases r) auto
  with a show "ParsedGeneration_validate x g origin = Inr p"
    by (cases p)
       (auto simp: ParsedGeneration_validate_def generation_valid_def parse_as_def
        decode_catalogue_in_def rbind_Inr map_err_Inr is_ok_def Let_def split: sum.splits)
qed

lemma parse_of_validate:
  "ParsedGeneration_validate x g origin = Inr p \<Longrightarrow> ParsedGeneration_parse x g origin' = Inr p"
  by (cases p)
     (auto simp: result_simps generation_valid_def ParsedGeneration_parse_def parse_as_def
      decode_catalogue_in_def)

lemma ParsedGeneration_parse_complete:
  "ParsedGeneration_parse x g origin = Inr p \<Longrightarrow> pg_complete p = g"
  by (auto simp: ParsedGeneration_parse_def result_simps)

text \<open>A registry that holds nothing takes a validated set whole.\<close>

lemma unprimed_takes_valid_set:
  "is_ok (each_valid_once R ts) \<Longrightarrow> \<not> is_primed reg \<Longrightarrow> refuses_whole R reg ts = None"
proof -
  have fresh: "refuses_from R None seen ts = None"
    if "distinct (map (key_of R) ts)" "\<forall>t\<in>set ts. valid_in R t \<and> key_of R t \<notin> set seen" for seen
    using that
  proof (induction ts arbitrary: seen)
    case (Cons t ts)
    then have "\<forall>u\<in>set ts. valid_in R u \<and> key_of R u \<notin> set (key_of R t # seen)"
      by (auto simp: image_iff)
    with Cons show ?case by (simp add: refuses_from_Cons held_in_def)
  qed simp
  assume "is_ok (each_valid_once R ts)" "\<not> is_primed reg"
  then show ?thesis
    using fresh[of "[]"] by (auto simp: is_primed_def refuses_whole_def result_simps)
qed

end
