(* ===== verification/Last_Known_Good.thy ===== *)
theory Last_Known_Good
  imports Generation
begin

text \<open>
  The last-known-good copy (\<open>publication/last_known_good\<close>): which generation is served at a
  start and on a refresh, the envelope the copy is stored in, and the holder that remembers the
  floor below which nothing is served again. The file the store owns is a \<open>file_read\<close>; what the
  operating system answers to a write is an argument.
\<close>

section \<open>Choosing what to serve\<close>

datatype held_because = BelowCopy u64 u64 | NoPublicationRecord | HeldFor source_error

datatype 'c choice =
    ChoosePublished "'c parsed_generation"
  | ChooseLastKnownGood "'c parsed_generation" held_because
  | ChooseUnrecorded
  | ChooseRefused source_error

fun choice_at_start ::
  "source_error + 'c parsed_generation option \<Rightarrow> 'c parsed_generation option \<Rightarrow> 'c choice" where
  "choice_at_start (Inr (Some p)) (Some copy) =
     (if parsed_number copy > parsed_number p
      then ChooseLastKnownGood copy (BelowCopy (parsed_number p) (parsed_number copy))
      else ChoosePublished p)"
| "choice_at_start (Inr (Some p)) None = ChoosePublished p"
| "choice_at_start (Inr None) (Some copy) = ChooseLastKnownGood copy NoPublicationRecord"
| "choice_at_start (Inr None) None = ChooseUnrecorded"
| "choice_at_start (Inl e) (Some copy) = ChooseLastKnownGood copy (HeldFor e)"
| "choice_at_start (Inl e) None = ChooseRefused e"

fun choice_on_refresh ::
  "source_error + 'c parsed_generation option \<Rightarrow> u64 option \<Rightarrow> string \<Rightarrow> 'c choice" where
  "choice_on_refresh (Inr (Some p)) (Some held) origin =
     (if parsed_number p < held
      then ChooseRefused (Regressed origin held (''generation '' @ show_nat (unat (parsed_number p))))
      else ChoosePublished p)"
| "choice_on_refresh (Inr (Some p)) None origin = ChoosePublished p"
| "choice_on_refresh (Inr None) (Some held) origin =
     ChooseRefused (Regressed origin held ''no publication record'')"
| "choice_on_refresh (Inr None) None origin = ChooseUnrecorded"
| "choice_on_refresh (Inl e) floor origin = ChooseRefused e"

section \<open>The store\<close>

definition FORMAT :: u32 where
  "FORMAT = 1"

datatype last_known_good_refusal =
    LkgUnreadable string
  | LkgMalformed source_error
  | LkgMalformedEnvelope string
  | LkgUnsupportedFormat u32
  | LkgDigestMismatch string
  | LkgUnusable string unusable_reason
  | LkgUnsupportedContract u32 u32

definition refusal_of_verify :: "source_error \<Rightarrow> last_known_good_refusal" where
  "refusal_of_verify e =
     (case e of
        IncompleteGeneration _ _ document \<Rightarrow> LkgDigestMismatch document
      | SrcUnsupportedContract _ required _ \<Rightarrow> LkgUnsupportedContract required READER_CONTRACT
      | _ \<Rightarrow> LkgMalformed e)"

definition refusal_of_validate :: "source_error \<Rightarrow> last_known_good_refusal" where
  "refusal_of_validate e =
     (case e of
        SrcUnusable _ _ document reason \<Rightarrow> LkgUnusable document reason
      | _ \<Rightarrow> LkgMalformed e)"

definition store_verify ::
  "'c codec \<Rightarrow> string \<Rightarrow> last_known_good_refusal + 'c parsed_generation" where
  "store_verify x bytes =
     rbind (map_err LkgMalformedEnvelope (read_envelope x bytes)) (\<lambda>env.
     if env_format env \<noteq> FORMAT then Inl (LkgUnsupportedFormat (env_format env))
     else if sha256_hex x (env_record env) \<noteq> env_record_sha256 env
     then Inl (LkgDigestMismatch ''record'')
     else
       rbind (map_err refusal_of_verify
                (CompleteGeneration_verify x (env_record env) (env_data_sources env)
                   (env_tenants env) (env_catalog env) ''last-known-good'')) (\<lambda>g.
       map_err refusal_of_validate (ParsedGeneration_validate x g ''last-known-good'')))"

fun store_load ::
  "'c codec \<Rightarrow> file_read \<Rightarrow> last_known_good_refusal + 'c parsed_generation option" where
  "store_load x (FileMissing _) = Inr None"
| "store_load x (FileUnreadable cause) = Inl (LkgUnreadable cause)"
| "store_load x (FileContents bytes) = map_ok Some (store_verify x bytes)"

definition utf8_text :: "string \<Rightarrow> string + string" where
  "utf8_text bytes = (if valid_utf8 bytes then Inr bytes else Inl ''invalid utf-8'')"

definition envelope_of :: "'c codec \<Rightarrow> complete_generation \<Rightarrow> string + envelope" where
  "envelope_of x g =
     rbind (utf8_text (cg_record g)) (\<lambda>rec.
     rbind (utf8_text (cg_data_sources g)) (\<lambda>ds.
     rbind (utf8_text (cg_tenants g)) (\<lambda>ts.
     rbind (utf8_text (cg_catalog g)) (\<lambda>cat.
     Inr \<lparr> env_format = FORMAT, env_record_sha256 = record_sha256 x g, env_record = rec,
           env_data_sources = ds, env_tenants = ts, env_catalog = cat \<rparr>))))"

text \<open>
  What the file system answers to \<open>atomic_replace\<close>: done, failed before the rename (the file
  is as it was), or failed after it (the file is new, its directory entry may not be durable).
\<close>

datatype replace_outcome = ReplaceDone | FailedBeforeRename string | FailedAfterRename string

definition persist ::
  "'c codec \<Rightarrow> complete_generation \<Rightarrow> replace_outcome \<Rightarrow> file_read \<Rightarrow> (string + unit) \<times> file_read" where
  "persist x g outcome file =
     (case envelope_of x g of
        Inl e \<Rightarrow> (Inl e, file)
      | Inr env \<Rightarrow>
          (case outcome of
             ReplaceDone \<Rightarrow> (Inr (), FileContents (write_envelope x env))
           | FailedBeforeRename e \<Rightarrow> (Inl e, file)
           | FailedAfterRename e \<Rightarrow> (Inl e, FileContents (write_envelope x env))))"

section \<open>Keeping apart from the published files\<close>

datatype path_component = RootDir | CurDir | ParentDir | Normal string

type_synonym path = "path_component list"

datatype canonical = CanonicalPath "string list" | CanonicalMissing | CanonicalError string

text \<open>What the file system says of a resolved path, and the working directory.\<close>

record path_world =
  canonicalize :: "string list \<Rightarrow> canonical"
  current_dir :: "string + string list"

fun resolve_from :: "path_world \<Rightarrow> string list \<Rightarrow> path \<Rightarrow> string + string list" where
  "resolve_from w acc [] = Inr acc"
| "resolve_from w acc (CurDir # cs) = resolve_from w acc cs"
| "resolve_from w acc (ParentDir # cs) = resolve_from w (butlast acc) cs"
| "resolve_from w acc (RootDir # cs) = resolve_from w [] cs"
| "resolve_from w acc (Normal n # cs) =
     (case canonicalize w (acc @ [n]) of
        CanonicalPath real \<Rightarrow> resolve_from w real cs
      | CanonicalMissing \<Rightarrow> resolve_from w (acc @ [n]) cs
      | CanonicalError e \<Rightarrow> Inl e)"

definition is_absolute :: "path \<Rightarrow> bool" where
  "is_absolute p = (case p of RootDir # _ \<Rightarrow> True | _ \<Rightarrow> False)"

definition resolve_path :: "path_world \<Rightarrow> path \<Rightarrow> string + string list" where
  "resolve_path w p =
     rbind (if is_absolute p then Inr p
            else map_ok (\<lambda>cwd. RootDir # map Normal cwd @ p) (current_dir w))
       (resolve_from w [])"

definition path_parent :: "path \<Rightarrow> path option" where
  "path_parent p = (if p = [] \<or> last p = RootDir then None else Some (butlast p))"

definition resolved_parent :: "string list \<Rightarrow> string list option" where
  "resolved_parent r = (if r = [] then None else Some (butlast r))"

definition under :: "string list \<Rightarrow> string list \<Rightarrow> bool" where
  "under p q = (take (length q) p = q)"

datatype separation_error =
    EmptyDirectory
  | CouldNotResolve path string
  | NotApart path "string list" path "string list"

definition check_separation ::
  "path_world \<Rightarrow> path \<Rightarrow> path list \<Rightarrow> separation_error + unit" where
  "check_separation w directory published =
     (if directory = [] then Inl EmptyDirectory
      else rbind (map_err (CouldNotResolve directory) (resolve_path w directory)) (\<lambda>copy.
        try_each (\<lambda>f.
          rbind (map_err (CouldNotResolve f) (resolve_path w f)) (\<lambda>resolved.
          rbind (case path_parent f of
                   None \<Rightarrow> Inr None
                 | Some parent \<Rightarrow> map_ok Some (map_err (CouldNotResolve f) (resolve_path w parent)))
            (\<lambda>named.
            try_each (\<lambda>parent.
                if under parent copy \<or> under copy parent then Inl (NotApart directory copy f parent)
                else Inr ())
              (filter_map (\<lambda>m. m) [resolved_parent resolved, named])))) published))"

text \<open>
  A directory that passes holds no published file, and no published file's directory lies
  above it: whatever is created below it is not one of them.
\<close>

lemma separated_is_apart:
  assumes "check_separation w directory published = Inr ()" "f \<in> set published"
    and "resolve_path w directory = Inr copy" "resolve_path w f = Inr resolved" "below \<noteq> []"
  shows "copy @ below \<noteq> resolved"
proof
  assume eq: "copy @ below = resolved"
  then have r: "resolved_parent resolved = Some (copy @ butlast below)"
    using assms(5) by (auto simp: resolved_parent_def butlast_append)
  have "\<not> under (copy @ butlast below) copy"
    using assms r by (auto simp: check_separation_def result_simps split: if_splits option.splits)
  then show False by (simp add: under_def)
qed

section \<open>The holder\<close>

datatype persist_error = PersistIo string | PersistNotSeparate separation_error

datatype last_known_good_state =
    LkgDisabled
  | LkgAbsent
  | LkgStored u64
  | LkgRefused last_known_good_refusal
  | LkgPersistFailed u64 persist_error

record holder =
  lkg_state :: last_known_good_state
  lkg_floor :: "u64 option"
  lkg_stored :: "string option"

definition holder_new :: holder where
  "holder_new = \<lparr> lkg_state = LkgAbsent, lkg_floor = None, lkg_stored = None \<rparr>"

definition validated ::
  "'c codec \<Rightarrow> source_error + complete_generation option \<Rightarrow> string
     \<Rightarrow> source_error + 'c parsed_generation option" where
  "validated x read origin =
     rbind read (\<lambda>m. case m of
        None \<Rightarrow> Inr None
      | Some g \<Rightarrow> map_ok Some (ParsedGeneration_validate x g origin))"

definition holder_at_start ::
  "'c codec \<Rightarrow> file_read \<Rightarrow> source_error + complete_generation option \<Rightarrow> string \<Rightarrow> holder
     \<Rightarrow> 'c choice \<times> holder" where
  "holder_at_start x file published origin h =
     (let (copy, h1) =
        (case store_load x file of
           Inr copy \<Rightarrow> (copy, h)
         | Inl r \<Rightarrow> (None, h\<lparr>lkg_state := LkgRefused r\<rparr>));
        h2 = (case copy of
           None \<Rightarrow> h1
         | Some c \<Rightarrow> h1\<lparr>lkg_state := LkgStored (parsed_number c),
                        lkg_floor := Some (parsed_number c),
                        lkg_stored := Some (record_sha256 x (pg_complete c))\<rparr>)
      in (choice_at_start (validated x published origin) copy, h2))"

definition holder_on_refresh ::
  "'c codec \<Rightarrow> source_error + complete_generation option \<Rightarrow> string \<Rightarrow> holder \<Rightarrow> 'c choice" where
  "holder_on_refresh x published origin h =
     choice_on_refresh (validated x published origin) (lkg_floor h) origin"

definition is_refused :: "last_known_good_state \<Rightarrow> bool" where
  "is_refused s = (case s of LkgRefused _ \<Rightarrow> True | _ \<Rightarrow> False)"

definition file_exists :: "file_read \<Rightarrow> bool" where
  "file_exists f = (case f of FileMissing _ \<Rightarrow> False | _ \<Rightarrow> True)"

definition holder_accept ::
  "'c codec \<Rightarrow> separation_error + unit \<Rightarrow> replace_outcome \<Rightarrow> 'c parsed_generation \<Rightarrow> file_read \<Rightarrow> holder
     \<Rightarrow> holder \<times> file_read" where
  "holder_accept x separated outcome p file h =
     (let sha = record_sha256 x (pg_complete p);
          h1 = h\<lparr>lkg_floor := max (lkg_floor h) (Some (parsed_number p))\<rparr>
      in if lkg_stored h = Some sha then (h1, file)
         else if is_refused (lkg_state h) \<and> file_exists file then (h1, file)
         else
           let h2 = (if is_refused (lkg_state h) then h1\<lparr>lkg_state := LkgAbsent\<rparr> else h1);
               (written, file') =
                 (case separated of
                    Inr _ \<Rightarrow> (let (r, f) = persist x (pg_complete p) outcome file in (map_err PersistIo r, f))
                  | Inl reason \<Rightarrow> (Inl (PersistNotSeparate reason), file))
           in case written of
                Inr _ \<Rightarrow> (h2\<lparr>lkg_state := LkgStored (parsed_number p), lkg_stored := Some sha\<rparr>, file')
              | Inl e \<Rightarrow> (h2\<lparr>lkg_state := LkgPersistFailed (parsed_number p) e\<rparr>, file'))"

section \<open>Inspecting and discarding\<close>

datatype verdict =
    VerdictAbsent
  | VerdictValid u64 string
  | VerdictUnread string
  | VerdictRefused last_known_good_refusal

record inspection =
  insp_file_sha256 :: "string option"
  insp_stated_generation :: "u64 option"
  insp_verdict :: verdict

definition stated_generation :: "'c codec \<Rightarrow> string \<Rightarrow> u64 option" where
  "stated_generation x bytes =
     Option.bind (ok (read_envelope x bytes)) (\<lambda>env. ok (read_stated_generation x (env_record env)))"

fun inspect :: "'c codec \<Rightarrow> file_read \<Rightarrow> inspection" where
  "inspect x (FileMissing _) =
     \<lparr> insp_file_sha256 = None, insp_stated_generation = None, insp_verdict = VerdictAbsent \<rparr>"
| "inspect x (FileUnreadable cause) =
     \<lparr> insp_file_sha256 = None, insp_stated_generation = None, insp_verdict = VerdictUnread cause \<rparr>"
| "inspect x (FileContents bytes) =
     \<lparr> insp_file_sha256 = Some (sha256_hex x bytes),
       insp_stated_generation = stated_generation x bytes,
       insp_verdict = (case store_verify x bytes of
                         Inr p \<Rightarrow> VerdictValid (parsed_number p) (record_sha256 x (pg_complete p))
                       | Inl r \<Rightarrow> VerdictRefused r) \<rparr>"

record discard_request =
  req_operator :: string
  req_reason :: string

datatype audit_line =
    AuditDiscard u64 discard_request inspection string
  | AuditDiscardFailed u64 string string

record discard_state =
  dis_file :: file_read
  dis_audit :: "audit_line list"
  dis_moved :: "(string \<times> file_read) list"

text \<open>What the file system answers: to the two appends, and to the move and its sync.\<close>

datatype move_outcome = MoveDone | MoveFailed string | MoveUnsynced string

record discard_world =
  append_first :: "string option"
  append_second :: "string option"
  move_answer :: move_outcome

definition fingerprint :: "inspection \<Rightarrow> string" where
  "fingerprint i =
     take 12 (case insp_file_sha256 i of None \<Rightarrow> ''unread'' | Some sha \<Rightarrow> sha)"

definition moved_name :: "u64 \<Rightarrow> inspection \<Rightarrow> string" where
  "moved_name at i =
     ''last-known-good.json.discarded-'' @ show_nat (unat at) @ ''-'' @ fingerprint i"

definition discard ::
  "'c codec \<Rightarrow> discard_world \<Rightarrow> discard_request \<Rightarrow> u64 \<Rightarrow> discard_state
     \<Rightarrow> (string + (inspection \<times> string) option) \<times> discard_state" where
  "discard x w req at s =
     (let i = inspect x (dis_file s); name = moved_name at i in
      if insp_verdict i = VerdictAbsent then (Inr None, s)
      else case append_first w of
        Some e \<Rightarrow> (Inl e, s)
      | None \<Rightarrow>
          let s1 = s\<lparr>dis_audit := dis_audit s @ [AuditDiscard at req i name]\<rparr>;
              s2 = s1\<lparr>dis_moved := AList.update name (dis_file s) (dis_moved s),
                      dis_file := FileMissing ''moved''\<rparr>;
              failed = (\<lambda>e t. (Inl e,
                 case append_second w of
                   None \<Rightarrow> t\<lparr>dis_audit := dis_audit t @ [AuditDiscardFailed at (req_operator req) e]\<rparr>
                 | Some _ \<Rightarrow> t))
          in case move_answer w of
               MoveDone \<Rightarrow> (Inr (Some (i, name)), s2)
             | MoveFailed e \<Rightarrow> failed e s1
             | MoveUnsynced e \<Rightarrow> failed e s2)"

lemma inspect_absent: "insp_verdict (inspect x f) = VerdictAbsent \<longleftrightarrow> (\<exists>c. f = FileMissing c)"
  by (cases f) (auto split: sum.split)

text \<open>
  Discarding the copy destroys nothing. Whatever the file system answers, the bytes
  that were in the store are afterwards either still there or under the name the audit line gives,
  nothing is moved without that audit line having been written first, and the result says a copy
  was discarded only when it was moved.
\<close>

theorem discard_moves_and_records:
  assumes "dis_file s = FileContents bytes"
  shows "case discard x w req at s of (result, s') \<Rightarrow>
           (let name = moved_name at (inspect x (dis_file s)) in
            (dis_file s' = FileContents bytes \<and> dis_moved s' = dis_moved s \<and> \<not> is_ok result)
            \<or> (map_of (dis_moved s') name = Some (FileContents bytes)
                \<and> AuditDiscard at req (inspect x (dis_file s)) name \<in> set (dis_audit s')
                \<and> (is_ok result \<longrightarrow> result = Inr (Some (inspect x (dis_file s), name)))))"
proof -
  have "insp_verdict (inspect x (dis_file s)) \<noteq> VerdictAbsent"
    using assms by (simp add: inspect_absent del: inspect.simps)
  then show ?thesis
    using assms
    by (auto simp: discard_def Let_def simp del: inspect.simps split: option.split move_outcome.split)
qed

section \<open>Laws of the store\<close>

lemma store_verify_Inr:
  "store_verify x bytes = Inr p \<longleftrightarrow>
     (\<exists>env. read_envelope x bytes = Inr env \<and> env_format env = FORMAT
        \<and> sha256_hex x (env_record env) = env_record_sha256 env
        \<and> digests_match x (pg_complete p) \<and> generation_valid x p
        \<and> cg_record (pg_complete p) = env_record env
        \<and> cg_data_sources (pg_complete p) = env_data_sources env
        \<and> cg_tenants (pg_complete p) = env_tenants env
        \<and> cg_catalog (pg_complete p) = env_catalog env)" (is "?l \<longleftrightarrow> ?r")
proof
  assume ?l
  then obtain env g where env: "read_envelope x bytes = Inr env" "env_format env = FORMAT"
    "sha256_hex x (env_record env) = env_record_sha256 env"
    and g: "CompleteGeneration_verify x (env_record env) (env_data_sources env)
               (env_tenants env) (env_catalog env) ''last-known-good'' = Inr g"
    and p: "ParsedGeneration_validate x g ''last-known-good'' = Inr p"
    by (auto simp: store_verify_def rbind_Inr map_err_Inr split: if_splits)
  from verify_gives_digests_match[OF g] p env show ?r
    by (auto simp: ParsedGeneration_validate_Inr)
next
  assume ?r
  then obtain env where env: "read_envelope x bytes = Inr env" "env_format env = FORMAT"
    "sha256_hex x (env_record env) = env_record_sha256 env"
    and p: "digests_match x (pg_complete p)" "generation_valid x p"
      "cg_record (pg_complete p) = env_record env" "cg_data_sources (pg_complete p) = env_data_sources env"
      "cg_tenants (pg_complete p) = env_tenants env" "cg_catalog (pg_complete p) = env_catalog env" by blast
  have "CompleteGeneration_verify x (env_record env) (env_data_sources env) (env_tenants env)
      (env_catalog env) ''last-known-good'' = Inr (pg_complete p)"
    using verify_digests_match[of x "pg_complete p" "''last-known-good''"] p by simp
  moreover have "ParsedGeneration_validate x (pg_complete p) ''last-known-good'' = Inr p"
    using p by (simp add: ParsedGeneration_validate_Inr)
  ultimately show ?l using env by (simp add: store_verify_def)
qed

text \<open>What the JSON library is relied on for: an envelope it wrote, it reads back.\<close>

definition envelope_round_trips :: "'c codec \<Rightarrow> bool" where
  "envelope_round_trips x = (\<forall>env. read_envelope x (write_envelope x env) = Inr env)"

definition utf8_documents :: "complete_generation \<Rightarrow> bool" where
  "utf8_documents g =
     (valid_utf8 (cg_record g) \<and> valid_utf8 (cg_data_sources g) \<and> valid_utf8 (cg_tenants g)
      \<and> valid_utf8 (cg_catalog g))"

lemma envelope_of_utf8:
  "utf8_documents g \<Longrightarrow>
   envelope_of x g = Inr \<lparr> env_format = FORMAT, env_record_sha256 = record_sha256 x g,
     env_record = cg_record g, env_data_sources = cg_data_sources g, env_tenants = cg_tenants g,
     env_catalog = cg_catalog g \<rparr>"
  by (simp add: utf8_documents_def envelope_of_def utf8_text_def)

lemma persist_loads:
  assumes "envelope_round_trips x" "digests_match x (pg_complete p)" "generation_valid x p"
    and "utf8_documents (pg_complete p)"
  shows "persist x (pg_complete p) (FailedBeforeRename e) file = (Inl e, file)"
    and "\<exists>file'. persist x (pg_complete p) ReplaceDone file = (Inr (), file')
           \<and> store_load x file' = Inr (Some p)"
    and "\<exists>file'. persist x (pg_complete p) (FailedAfterRename e) file = (Inl e, file')
           \<and> store_load x file' = Inr (Some p)"
proof -
  let ?env = "\<lparr> env_format = FORMAT, env_record_sha256 = record_sha256 x (pg_complete p),
     env_record = cg_record (pg_complete p), env_data_sources = cg_data_sources (pg_complete p),
     env_tenants = cg_tenants (pg_complete p), env_catalog = cg_catalog (pg_complete p) \<rparr>"
  have env: "envelope_of x (pg_complete p) = Inr ?env" using assms(4) by (rule envelope_of_utf8)
  have "store_verify x (write_envelope x ?env) = Inr p"
    unfolding store_verify_Inr
    using assms by (intro exI[of _ ?env]) (simp add: envelope_round_trips_def record_sha256_def)
  then show "persist x (pg_complete p) (FailedBeforeRename e) file = (Inl e, file)"
    and "\<exists>file'. persist x (pg_complete p) ReplaceDone file = (Inr (), file')
           \<and> store_load x file' = Inr (Some p)"
    and "\<exists>file'. persist x (pg_complete p) (FailedAfterRename e) file = (Inl e, file')
           \<and> store_load x file' = Inr (Some p)"
    by (simp_all add: persist_def env)
qed

text \<open>
  C16: What is stored loads back. A verified and validated generation whose documents are
  text, written by \<open>persist\<close>, is loaded at the next start as the very same generation, also when
  only the sync of the directory failed; and when the write failed before the rename, the file
  still loads whatever it loaded before.
\<close>

theorem persisted_generation_loads_back:
  assumes "envelope_round_trips x" "digests_match x (pg_complete p)" "generation_valid x p"
    and "utf8_documents (pg_complete p)"
  shows "case persist x (pg_complete p) outcome file of (written, file') \<Rightarrow>
           (if (\<exists>e. outcome = FailedBeforeRename e)
            then store_load x file' = store_load x file \<and> \<not> is_ok written
            else store_load x file' = Inr (Some p)
                 \<and> (is_ok written \<longleftrightarrow> outcome = ReplaceDone))"
proof -
  show ?thesis
  proof (cases outcome)
    case (FailedBeforeRename e)
    with persist_loads(1)[OF assms] show ?thesis by simp
  next
    case ReplaceDone
    with persist_loads(2)[OF assms, of "file"] show ?thesis by auto
  next
    case (FailedAfterRename e)
    with persist_loads(3)[OF assms, of e "file"] show ?thesis by auto
  qed
qed

text \<open>
  Nothing unchecked is taken from the store. Whatever bytes are on disk, a generation
  loaded from them has documents with exactly the digests its own record names, a contract this
  reader supports, every resource valid and present once, and every binding of every tenant
  naming a data source the generation carries.
\<close>

theorem stored_generation_is_sound:
  assumes "store_load x file = Inr (Some p)"
  shows "digests_match x (pg_complete p)
    \<and> distinct (map ds_id (pg_data_sources p)) \<and> distinct (map tb_tenant (pg_tenants p))
    \<and> (\<forall>t\<in>set (pg_tenants p). tb_data t \<noteq> []
         \<and> (\<forall>d. binds t d \<longrightarrow> d \<in> ds_id ` set (pg_data_sources p)))"
proof -
  from assms obtain bytes where "file = FileContents bytes" "store_verify x bytes = Inr p"
    by (cases "file") (auto simp: result_simps)
  then have "digests_match x (pg_complete p)" "generation_valid x p"
    by (auto simp: store_verify_Inr)
  then show ?thesis
    by (auto simp: generation_valid_def result_simps valid_in_def TenantRuntimeBinding_validate_def
        split: if_splits)
qed

section \<open>A codec and a generation\<close>

text \<open>
  A codec that satisfies the law: fields escaped and terminated, digests taken from the first
  bytes, one record, two data sources and two tenants.
\<close>

definition put_field :: "string \<Rightarrow> string" where
  "put_field s = concat (map (\<lambda>c. [CHR ''+'', c]) s) @ ''.''"

fun take_field :: "string \<Rightarrow> string \<times> string" where
  "take_field (m # c # s) =
     (if m = CHR ''+'' then (let (f, rest) = take_field s in (c # f, rest)) else ([], c # s))"
| "take_field [m] = ([], [])"
| "take_field [] = ([], [])"

definition example_write :: "envelope \<Rightarrow> string" where
  "example_write e =
     put_field (show_nat (unat (env_format e))) @ put_field (env_record_sha256 e)
       @ put_field (env_record e) @ put_field (env_data_sources e) @ put_field (env_tenants e)
       @ put_field (env_catalog e)"

definition example_read :: "string \<Rightarrow> string + envelope" where
  "example_read s =
     (let (f, s1) = take_field s; (h, s2) = take_field s1; (r, s3) = take_field s2;
          (d, s4) = take_field s3; (t, s5) = take_field s4; (c, s6) = take_field s5
      in case parse_u32 f of
           None \<Rightarrow> Inl ''not an envelope''
         | Some n \<Rightarrow> Inr \<lparr> env_format = n, env_record_sha256 = h, env_record = r,
                           env_data_sources = d, env_tenants = t, env_catalog = c \<rparr>)"

definition example_sha256 :: "string \<Rightarrow> record_digest" where
  "example_sha256 bytes = RecordDigest (take 32 (map (\<lambda>c. of_nat (of_char c)) bytes @ replicate 32 0))"

definition example_codec :: "unit codec" where
  "example_codec =
     \<lparr> sha256 = example_sha256,
       read_record = (\<lambda>bytes.
         if bytes = ''record'' then
           Inr \<lparr> minimum_reader_contract = 1, generation_of = 7,
                 tenants_sha256 = RecordDigest_to_string (example_sha256 ''tenants''),
                 data_sources_sha256 = RecordDigest_to_string (example_sha256 ''data-sources''),
                 catalog_sha256 = RecordDigest_to_string (example_sha256 ''catalog'') \<rparr>
         else Inl ''not a record''),
       read_data_sources = (\<lambda>bytes.
         if bytes = ''data-sources'' then
           Inr [example_source ''own'' Dedicated (SelSecret (SecretRef ''tenant/acme/db'')),
                example_source ''pool'' Shared SelDefault]
         else Inl ''not data sources''),
       read_tenants = (\<lambda>bytes.
         if bytes = ''tenants'' then
           Inr [example_tenant ''acme'' ''own'' IsoDatabase,
                example_tenant ''globex'' ''pool'' (IsoDiscriminator (FieldName ''tenant'') ''globex'')]
         else Inl ''not tenants''),
       read_envelope = example_read,
       write_envelope = example_write,
       read_stated_generation = (\<lambda>bytes. if bytes = ''record'' then Inr 7 else Inl ''not a record''),
       decode_catalogue = (\<lambda>bytes. if bytes = ''catalog'' then Inr () else Inl ''not a catalogue'') \<rparr>"

definition example_complete :: complete_generation where
  "example_complete =
     \<lparr> cg_record = ''record'', cg_generation = 7, cg_data_sources = ''data-sources'',
       cg_tenants = ''tenants'', cg_catalog = ''catalog'' \<rparr>"

definition example_parsed :: "unit parsed_generation" where
  "example_parsed =
     \<lparr> pg_complete = example_complete,
       pg_data_sources =
         [example_source ''own'' Dedicated (SelSecret (SecretRef ''tenant/acme/db'')),
          example_source ''pool'' Shared SelDefault],
       pg_tenants =
         [example_tenant ''acme'' ''own'' IsoDatabase,
          example_tenant ''globex'' ''pool'' (IsoDiscriminator (FieldName ''tenant'') ''globex'')],
       pg_catalogue = () \<rparr>"

lemma take_put_field: "take_field (put_field f @ rest) = (f, rest)"
proof (induction f)
  case Nil
  then show ?case by (cases rest) (simp_all add: put_field_def)
next
  case (Cons c f)
  have "put_field (c # f) @ rest = CHR ''+'' # c # (put_field f @ rest)"
    by (simp add: put_field_def)
  with Cons show ?case by simp
qed

lemma take_put_field_last: "take_field (put_field f) = (f, [])"
  using take_put_field[of f "[]"] by simp

lemma example_round_trips: "envelope_round_trips example_codec"
proof -
  have "example_read (example_write env) = Inr env" for env
    using unsigned_less[of "env_format env", where ?'a = nat]
    by (simp add: example_read_def example_write_def take_put_field take_put_field_last parse_u32_show)
  then show ?thesis by (simp add: envelope_round_trips_def example_codec_def)
qed

lemma example_digests: "digests_match example_codec example_complete"
  by (simp add: digests_match_def example_codec_def example_complete_def sha256_hex_def
      READER_CONTRACT_def)

lemma example_valid: "generation_valid example_codec example_parsed"
  by (simp add: generation_valid_def example_codec_def example_parsed_def example_complete_def
      each_valid_once_def valid_in_def every_binding_resolves_def example_source_def
      example_tenant_def DataSource_validate_def TenantRuntimeBinding_validate_def
      with_data_def TenantRuntimeBinding_new_def TenantDataBinding_new_def)

lemma example_utf8: "utf8_documents example_complete"
  by code_simp

lemma example_parsed_complete [simp]: "pg_complete example_parsed = example_complete"
  by (simp add: example_parsed_def)

theorem discard_moves_and_records_witness:
  "map_of (dis_moved (snd (discard example_codec
       \<lparr> append_first = None, append_second = None, move_answer = MoveDone \<rparr>
       \<lparr> req_operator = ''op'', req_reason = ''stale'' \<rparr> 5
       \<lparr> dis_file = FileContents ''{}'', dis_audit = [], dis_moved = [] \<rparr>)))
     (moved_name 5 (inspect example_codec (FileContents ''{}''))) = Some (FileContents ''{}'')"
  using discard_moves_and_records[where
      s = "\<lparr> dis_file = FileContents ''{}'', dis_audit = [], dis_moved = [] \<rparr>" and bytes = "''{}''"
      and x = example_codec and w = "\<lparr> append_first = None, append_second = None, move_answer = MoveDone \<rparr>"
      and req = "\<lparr> req_operator = ''op'', req_reason = ''stale'' \<rparr>" and at = 5]
  by (auto simp: Let_def case_prod_beta discard_def inspect_absent simp del: inspect.simps split: if_splits)

theorem persisted_generation_loads_back_witness:
  "store_load example_codec
     (snd (persist example_codec example_complete (FailedAfterRename ''io'') (FileMissing ''none'')))
   = Inr (Some example_parsed)"
  using persisted_generation_loads_back[of example_codec example_parsed "FailedAfterRename ''io''"
      "FileMissing ''none''"] example_round_trips example_digests example_valid example_utf8
  by (simp add: case_prod_beta)

theorem stored_generation_is_sound_witness:
  "\<exists>p. store_load example_codec
         (snd (persist example_codec example_complete ReplaceDone (FileMissing ''none''))) = Inr (Some p)
     \<and> distinct (map ds_id (pg_data_sources p))"
proof -
  have "store_load example_codec
      (snd (persist example_codec example_complete ReplaceDone (FileMissing ''none''))) = Inr (Some example_parsed)"
    using persist_loads(2)[of example_codec example_parsed "FileMissing ''none''"]
      example_round_trips example_digests example_valid example_utf8 by auto
  with stored_generation_is_sound[OF this] show ?thesis by blast
qed

end
