(* ===== verification/Reader.thy ===== *)
theory Reader
  imports Last_Known_Good
begin

text \<open>
  The reader of published state: the files it reads (\<open>publication/published_files.rs\<close> and
  below), what a load offers (\<open>published_state.rs\<close>), how an offer is installed in the two
  registries and the view (\<open>resource/refresher/install.rs\<close>), the passes that do so
  (\<open>prime_published.rs\<close>, \<open>refresh_published.rs\<close>), what is reported (\<open>reader_status.rs\<close>) and how
  a runtime is built (\<open>registration\<close>, \<open>config.rs\<close>).

  The trait \<open>PublishedStateSource\<close> is the record \<open>published_source\<close> over the environment \<open>'e\<close>
  of one pass and the source's own state \<open>'s\<close>. The locale \<open>monotone_source\<close> says what the
  refresher relies on; \<open>files\<close> interprets it on the published files. A pass the timeout cuts
  off leaves the source as it was: on a refresh nothing is written before the last await.
\<close>

section \<open>What a load offers\<close>

datatype generation_origin = OriginPublished | OriginLastKnownGood held_because

datatype 'c published_state =
    StateGeneration u64 record_digest generation_origin "data_source list"
      "tenant_runtime_binding list" 'c
  | StateUnrecorded "data_source list" "tenant_runtime_binding list" 'c

section \<open>The published files\<close>

text \<open>What one pass meets outside: the four files as read, the answers to a write, the paths.\<close>

record pass_world =
  file_record :: file_read
  file_data_sources :: file_read
  file_tenants :: file_read
  file_catalog :: file_read
  store_write :: replace_outcome
  paths :: path_world

record published_paths =
  path_tenants :: path
  path_data_sources :: path
  path_catalog :: path
  path_record :: path
  path_store_directory :: path
  shown_tenants :: string
  shown_data_sources :: string
  shown_catalog :: string
  shown_record :: string

definition record_beside :: "path \<Rightarrow> path" where
  "record_beside tenants =
     (if tenants \<noteq> [] \<and> (\<exists>n. last tenants = Normal n) then butlast tenants else tenants)
       @ [Normal ''publication.json'']"

definition described_as :: "published_paths \<Rightarrow> string" where
  "described_as p =
     ''published files: tenants='' @ shown_tenants p @ '', data_sources='' @ shown_data_sources p
       @ '', catalog='' @ shown_catalog p @ '', record='' @ shown_record p"

record 'c published_files =
  pf_last_known_good :: "holder option"
  pf_store_file :: file_read
  pf_pending :: "'c parsed_generation option"
  pf_recorded :: "u64 option"

definition PublishedFiles_new :: "file_read \<Rightarrow> 'c published_files" where
  "PublishedFiles_new file =
     \<lparr> pf_last_known_good = None, pf_store_file = file, pf_pending = None, pf_recorded = None \<rparr>"

definition with_last_known_good :: "'c published_files \<Rightarrow> 'c published_files" where
  "with_last_known_good f = f\<lparr>pf_last_known_good := Some holder_new\<rparr>"

definition published :: "published_paths \<Rightarrow> path list" where
  "published p = [path_tenants p, path_data_sources p, path_catalog p, path_record p]"

definition read_generation ::
  "'c codec \<Rightarrow> published_paths \<Rightarrow> pass_world \<Rightarrow> source_error + complete_generation option" where
  "read_generation x p w =
     (let origin = described_as p in
      rbind (read_optional (file_record w) origin) (\<lambda>m. case m of
        None \<Rightarrow> Inr None
      | Some rec \<Rightarrow>
          rbind (read_file (file_data_sources w) origin) (\<lambda>ds.
          rbind (read_file (file_tenants w) origin) (\<lambda>ts.
          rbind (read_file (file_catalog w) origin) (\<lambda>cat.
          map_ok Some (CompleteGeneration_verify x rec ds ts cat origin))))))"

definition unrecorded ::
  "'c codec \<Rightarrow> published_paths \<Rightarrow> pass_world \<Rightarrow> source_error + 'c published_state" where
  "unrecorded x p w =
     rbind (read_file (file_data_sources w) (''file:'' @ shown_data_sources p)) (\<lambda>dsb.
     rbind (parse_as (read_data_sources x) dsb (''file:'' @ shown_data_sources p)) (\<lambda>ds.
     rbind (read_file (file_tenants w) (''file:'' @ shown_tenants p)) (\<lambda>tsb.
     rbind (parse_as (read_tenants x) tsb (''file:'' @ shown_tenants p)) (\<lambda>ts.
     rbind (read_file (file_catalog w) (described_as p)) (\<lambda>bytes.
     rbind (map_err (SrcMalformed (''catalogue: '' @ shown_catalog p)) (decode_catalogue x bytes)) (\<lambda>c.
     Inr (StateUnrecorded ds ts c)))))))"

definition state_of ::
  "'c codec \<Rightarrow> 'c parsed_generation \<Rightarrow> generation_origin \<Rightarrow> 'c published_state" where
  "state_of x g origin =
     StateGeneration (parsed_number g) (record_digest_of x (pg_complete g)) origin
       (pg_data_sources g) (pg_tenants g) (pg_catalogue g)"

definition apply_choice ::
  "'c codec \<Rightarrow> published_paths \<Rightarrow> pass_world \<Rightarrow> 'c choice \<Rightarrow> 'c published_files
     \<Rightarrow> (source_error + 'c published_state) \<times> 'c published_files" where
  "apply_choice x p w c f =
     (case c of
        ChoosePublished g \<Rightarrow> (Inr (state_of x g OriginPublished), f\<lparr>pf_pending := Some g\<rparr>)
      | ChooseLastKnownGood g because \<Rightarrow> (Inr (state_of x g (OriginLastKnownGood because)), f)
      | ChooseRefused e \<Rightarrow> (Inl e, f)
      | ChooseUnrecorded \<Rightarrow> (unrecorded x p w, f))"

definition without_copy ::
  "'c codec \<Rightarrow> source_error + complete_generation option \<Rightarrow> u64 option \<Rightarrow> string \<Rightarrow> 'c choice" where
  "without_copy x read recorded origin =
     choice_on_refresh
       (rbind read (\<lambda>m. case m of
          None \<Rightarrow> Inr None
        | Some g \<Rightarrow> map_ok Some (ParsedGeneration_parse x g origin)))
       recorded origin"

definition files_load ::
  "'c codec \<Rightarrow> published_paths \<Rightarrow> pass_world \<Rightarrow> 'c published_files
     \<Rightarrow> (source_error + 'c published_state) \<times> 'c published_files" where
  "files_load x p w f =
     (let read = read_generation x p w; origin = described_as p;
          c = (case pf_last_known_good f of
                 Some h \<Rightarrow> holder_on_refresh x read origin h
               | None \<Rightarrow> without_copy x read (pf_recorded f) origin)
      in apply_choice x p w c f)"

definition files_load_at_start ::
  "'c codec \<Rightarrow> published_paths \<Rightarrow> pass_world \<Rightarrow> 'c published_files
     \<Rightarrow> (source_error + 'c published_state) \<times> 'c published_files" where
  "files_load_at_start x p w f =
     (let read = read_generation x p w; origin = described_as p in
      case pf_last_known_good f of
        Some h \<Rightarrow>
          let (c, h') = holder_at_start x (pf_store_file f) read origin h
          in apply_choice x p w c (f\<lparr>pf_last_known_good := Some h'\<rparr>)
      | None \<Rightarrow> apply_choice x p w (without_copy x read None origin) f)"

definition files_installed ::
  "'c codec \<Rightarrow> published_paths \<Rightarrow> pass_world \<Rightarrow> u64 \<Rightarrow> record_digest \<Rightarrow> 'c published_files
     \<Rightarrow> 'c published_files" where
  "files_installed x p w g digest f =
     (let pending =
        (case pf_pending f of
           None \<Rightarrow> None
         | Some q \<Rightarrow> if record_digest_of x (pg_complete q) = digest then Some q else None);
        f1 = f\<lparr>pf_recorded := max (pf_recorded f) (Some g), pf_pending := None\<rparr>
      in case (pf_last_known_good f, pending) of
           (Some h, Some q) \<Rightarrow>
             let (h', file') =
               holder_accept x (check_separation (paths w) (path_store_directory p) (published p))
                 (store_write w) q (pf_store_file f) h
             in f1\<lparr>pf_last_known_good := Some h', pf_store_file := file'\<rparr>
         | _ \<Rightarrow> f1)"

definition files_state :: "'c published_files \<Rightarrow> last_known_good_state" where
  "files_state f = (case pf_last_known_good f of None \<Rightarrow> LkgDisabled | Some h \<Rightarrow> lkg_state h)"

section \<open>Installing an offer\<close>

record 'c registries =
  rg_generation :: "'c published_generation"
  rg_data_sources :: data_source_registry
  rg_tenants :: tenant_registry

datatype serving =
  ServingNothing | ServingUnrecorded | ServingGeneration u64 generation_origin

record installed_generation =
  in_serving :: serving
  in_recorded :: "(u64 \<times> record_digest) option"

fun served_origin_of :: "generation_origin \<Rightarrow> served_origin" where
  "served_origin_of OriginPublished = ServedPublished"
| "served_origin_of (OriginLastKnownGood _) = ServedLastKnownGood"

definition apply_data_sources ::
  "string \<Rightarrow> data_source list \<Rightarrow> 'c registries \<Rightarrow> (source_error + apply_report) \<times> 'c registries" where
  "apply_data_sources origin ds r =
     (let (result, reg) = apply_all data_source_kind ds (rg_data_sources r)
      in (map_err (\<lambda>u. NothingUsable origin (unusable_published u)
                         (ReasonDataSource (unusable_reason u))) result,
          r\<lparr>rg_data_sources := reg\<rparr>))"

definition apply_tenants ::
  "string \<Rightarrow> tenant_runtime_binding list \<Rightarrow> 'c registries
     \<Rightarrow> (source_error + apply_report) \<times> 'c registries" where
  "apply_tenants origin ts r =
     (let (result, reg) = apply_all tenant_kind ts (rg_tenants r)
      in (map_err (\<lambda>u. NothingUsable origin (unusable_published u)
                         (ReasonTenant (unusable_reason u))) result,
          r\<lparr>rg_tenants := reg\<rparr>))"

definition publish_view ::
  "'c \<Rightarrow> reader_generation_report option \<Rightarrow> 'c registries \<Rightarrow> 'c registries" where
  "publish_view catalogue served r =
     r\<lparr>rg_generation :=
        publish_generation catalogue (rg_tenants r) (rg_data_sources r) served (rg_generation r)\<rparr>"

definition apply_both ::
  "string \<Rightarrow> data_source list \<Rightarrow> tenant_runtime_binding list \<Rightarrow> 'c \<Rightarrow> reader_generation_report option
     \<Rightarrow> installed_generation \<Rightarrow> 'c registries
     \<Rightarrow> (source_error + installed_generation) \<times> 'c registries" where
  "apply_both origin ds ts catalogue served installed r =
     (case apply_data_sources origin ds r of
        (Inl e, r1) \<Rightarrow> (Inl e, r1)
      | (Inr _, r1) \<Rightarrow>
          (case apply_tenants origin ts r1 of
             (Inl e, r2) \<Rightarrow> (Inl e, r2)
           | (Inr _, r2) \<Rightarrow> (Inr installed, publish_view catalogue served r2)))"

definition install ::
  "string \<Rightarrow> 'c published_state \<Rightarrow> 'c registries
     \<Rightarrow> (source_error + installed_generation) \<times> 'c registries" where
  "install origin state r =
     (case state of
        StateGeneration number digest read_from ds ts catalogue \<Rightarrow>
          (case refuses_whole data_source_kind (rg_data_sources r) ds of
             Some reason \<Rightarrow> (Inl (SrcUnusable origin number ''data-sources'' (ReasonDataSource reason)), r)
           | None \<Rightarrow>
               (case refuses_whole tenant_kind (rg_tenants r) ts of
                  Some reason \<Rightarrow> (Inl (SrcUnusable origin number ''tenants'' (ReasonTenant reason)), r)
                | None \<Rightarrow>
                    apply_both origin ds ts catalogue
                      (Some (ReaderGenerationReport_new number digest (served_origin_of read_from)))
                      \<lparr> in_serving = ServingGeneration number read_from,
                        in_recorded = Some (number, digest) \<rparr> r))
      | StateUnrecorded ds ts catalogue \<Rightarrow>
          apply_both origin ds ts catalogue None
            \<lparr> in_serving = ServingUnrecorded, in_recorded = None \<rparr> r)"

section \<open>The passes\<close>

record reader_status =
  st_serving :: serving
  st_held_passes :: u64
  st_last_hold :: "source_error option"

definition ReaderStatus_new :: reader_status where
  "ReaderStatus_new = \<lparr> st_serving = ServingNothing, st_held_passes = 0, st_last_hold = None \<rparr>"

definition status_applied :: "serving \<Rightarrow> reader_status \<Rightarrow> reader_status" where
  "status_applied s st = st\<lparr>st_serving := s\<rparr>"

definition status_held :: "source_error \<Rightarrow> reader_status \<Rightarrow> reader_status" where
  "status_held e st =
     st\<lparr>st_held_passes := saturating_add (st_held_passes st) 1, st_last_hold := Some e\<rparr>"

record ('c, 'e, 's) published_source =
  src_load :: "'e \<Rightarrow> 's \<Rightarrow> (source_error + 'c published_state) \<times> 's"
  src_load_at_start :: "'e \<Rightarrow> 's \<Rightarrow> (source_error + 'c published_state) \<times> 's"
  src_installed :: "'e \<Rightarrow> u64 \<Rightarrow> record_digest \<Rightarrow> 's \<Rightarrow> 's"
  src_describe :: string

record ('c, 's) reader =
  rd_registries :: "'c registries"
  rd_source :: 's
  rd_status :: reader_status
  rd_applied :: u64

definition settle ::
  "('c, 'e, 's) published_source \<Rightarrow> 'e \<Rightarrow> installed_generation \<Rightarrow> ('c, 's) reader \<Rightarrow> ('c, 's) reader" where
  "settle src e i r =
     r\<lparr>rd_source := (case in_recorded i of
                       None \<Rightarrow> rd_source r
                     | Some (g, digest) \<Rightarrow> src_installed src e g digest (rd_source r)),
       rd_status := status_applied (in_serving i) (rd_status r)\<rparr>"

definition load_and_install ::
  "('c, 'e, 's) published_source \<Rightarrow> (source_error + 'c published_state) \<times> 's \<Rightarrow> ('c, 's) reader
     \<Rightarrow> (source_error + installed_generation) \<times> ('c, 's) reader" where
  "load_and_install src loaded r =
     (let r1 = r\<lparr>rd_source := snd loaded\<rparr> in
      case fst loaded of
        Inl e \<Rightarrow> (Inl e, r1)
      | Inr state \<Rightarrow>
          (let (result, regs) = install (src_describe src) state (rd_registries r1)
           in (result, r1\<lparr>rd_registries := regs\<rparr>)))"

definition prime_published ::
  "('c, 'e, 's) published_source \<Rightarrow> 'e \<Rightarrow> ('c, 's) reader \<Rightarrow> (source_error + unit) \<times> ('c, 's) reader" where
  "prime_published src e r =
     (case load_and_install src (src_load_at_start src e (rd_source r)) r of
        (Inr i, r1) \<Rightarrow> (Inr (), settle src e i r1)
      | (Inl err, r1) \<Rightarrow> (Inl err, r1\<lparr>rd_status := status_held err (rd_status r1)\<rparr>))"

text \<open>One refresh pass: \<open>None\<close> is a load the timeout cut off after so many seconds.\<close>

definition refresh_published ::
  "('c, 'e, 's) published_source \<Rightarrow> u64 \<Rightarrow> 'e option \<Rightarrow> ('c, 's) reader \<Rightarrow> ('c, 's) reader" where
  "refresh_published src timeout pass r =
     (case pass of
        None \<Rightarrow>
          r\<lparr>rd_status := status_held
              (SrcUnreadable (src_describe src)
                (''the read outlasted '' @ show_nat (unat timeout) @ ''s'')) (rd_status r)\<rparr>
      | Some e \<Rightarrow>
          (case load_and_install src (src_load src e (rd_source r)) r of
             (Inl err, r1) \<Rightarrow> r1\<lparr>rd_status := status_held err (rd_status r1)\<rparr>
           | (Inr i, r1) \<Rightarrow>
               (case in_recorded i of
                  None \<Rightarrow> settle src e i r1
                | Some (g, digest) \<Rightarrow>
                    let again = (rd_applied r1 = g); r2 = r1\<lparr>rd_applied := g\<rparr> in
                    if again then
                      r2\<lparr>rd_source := src_installed src e g digest (rd_source r2),
                         rd_status := status_applied (in_serving i) (rd_status r2)\<rparr>
                    else settle src e i r2)))"

definition files_source ::
  "'c codec \<Rightarrow> published_paths \<Rightarrow> ('c, pass_world, 'c published_files) published_source" where
  "files_source x p =
     \<lparr> src_load = files_load x p, src_load_at_start = files_load_at_start x p,
       src_installed = files_installed x p, src_describe = described_as p \<rparr>"

section \<open>Building a runtime\<close>

record runtime_config =
  refresh_interval_seconds :: u64
  fail_fast_on_prime :: bool
  last_known_good_dir :: "path option"

definition RuntimeConfig_default :: runtime_config where
  "RuntimeConfig_default =
     \<lparr> refresh_interval_seconds = 30, fail_fast_on_prime = True, last_known_good_dir = None \<rparr>"

definition RuntimeConfig_validate :: "runtime_config \<Rightarrow> string + unit" where
  "RuntimeConfig_validate c =
     (if refresh_interval_seconds c = 0
      then Inl ''tenant_runtime.refresh_interval_seconds must be greater than zero'' else Inr ())"

datatype build_error = BuildConfig string | BuildPublished string source_error | BuildKind string string source_error

definition registries_new :: "'c registries" where
  "registries_new =
     \<lparr> rg_generation = PublishedGeneration_default, rg_data_sources = registry_new,
       rg_tenants = registry_new \<rparr>"

definition reader_new :: "'s \<Rightarrow> ('c, 's) reader" where
  "reader_new s =
     \<lparr> rd_registries = registries_new, rd_source = s, rd_status = ReaderStatus_new, rd_applied = 0 \<rparr>"

definition build_published_runtime ::
  "runtime_config \<Rightarrow> ('c, 'e, 's) published_source \<Rightarrow> 'e \<Rightarrow> 's \<Rightarrow> build_error + ('c, 's) reader" where
  "build_published_runtime config src e s =
     rbind (map_err BuildConfig (RuntimeConfig_validate config)) (\<lambda>_.
     case prime_published src e (reader_new s) of
       (Inr _, r) \<Rightarrow> Inr r
     | (Inl err, r) \<Rightarrow>
         if fail_fast_on_prime config then Inl (BuildPublished (src_describe src) err) else Inr r)"

definition reader_resolver :: "('c, 's) reader \<Rightarrow> 'c runtime_resolver" where
  "reader_resolver r =
     over_published (rg_tenants (rd_registries r)) (rg_data_sources (rd_registries r))
       (rg_generation (rd_registries r))"

text \<open>The registries refreshed on their own, one source each.\<close>

definition prime ::
  "('t, 'k, 'f) resource_kind \<Rightarrow> ('k resource_fault \<Rightarrow> unusable_reason) \<Rightarrow> string
     \<Rightarrow> source_error + 't list \<Rightarrow> ('t, 'k, 'f) registry \<Rightarrow> (source_error + nat) \<times> ('t, 'k, 'f) registry" where
  "prime R reason origin loaded reg =
     (case loaded of
        Inl e \<Rightarrow> (Inl e, reg)
      | Inr ts \<Rightarrow>
          (case apply_all R ts reg of
             (Inl u, reg') \<Rightarrow>
               (Inl (NothingUsable origin (unusable_published u) (reason (unusable_reason u))), reg')
           | (Inr _, reg') \<Rightarrow> (Inr (registry_len reg'), reg')))"

definition apply_loaded ::
  "('t, 'k, 'f) resource_kind \<Rightarrow> source_error + 't list \<Rightarrow> ('t, 'k, 'f) registry
     \<Rightarrow> apply_report option \<times> ('t, 'k, 'f) registry" where
  "apply_loaded R loaded reg =
     (case loaded of
        Inr ts \<Rightarrow> (case apply_all R ts reg of
                     (Inr report, reg') \<Rightarrow> (Some report, reg')
                   | (Inl _, reg') \<Rightarrow> (None, reg'))
      | Inl _ \<Rightarrow> (None, reg))"

definition refresh_once ::
  "('t, 'k, 'f) resource_kind \<Rightarrow> (source_error + 't list) option \<Rightarrow> ('t, 'k, 'f) registry
     \<Rightarrow> ('t, 'k, 'f) registry" where
  "refresh_once R pass reg =
     (case pass of None \<Rightarrow> reg | Some loaded \<Rightarrow> snd (apply_loaded R loaded reg))"

definition build_runtime ::
  "runtime_config \<Rightarrow> string \<Rightarrow> source_error + tenant_runtime_binding list \<Rightarrow> string
     \<Rightarrow> source_error + data_source list \<Rightarrow> build_error + 'c runtime_resolver" where
  "build_runtime config tenant_origin tenants data_source_origin data_sources =
     rbind (map_err BuildConfig (RuntimeConfig_validate config)) (\<lambda>_.
     case prime data_source_kind ReasonDataSource data_source_origin data_sources registry_new of
       (r1, ds) \<Rightarrow>
         rbind (case r1 of
                  Inl e \<Rightarrow> if fail_fast_on_prime config
                            then Inl (BuildKind (kind_name data_source_kind) data_source_origin e) else Inr ()
                | Inr _ \<Rightarrow> Inr ()) (\<lambda>_.
         case prime tenant_kind ReasonTenant tenant_origin tenants registry_new of
           (r2, ts) \<Rightarrow>
             rbind (case r2 of
                      Inl e \<Rightarrow> if fail_fast_on_prime config
                                then Inl (BuildKind (kind_name tenant_kind) tenant_origin e) else Inr ()
                    | Inr _ \<Rightarrow> Inr ()) (\<lambda>_. Inr (RuntimeResolver_new ts ds))))"

section \<open>What installing keeps\<close>

definition registries_wf :: "'c registries \<Rightarrow> bool" where
  "registries_wf r =
     (registry_wf data_source_kind (rg_data_sources r) \<and> registry_wf tenant_kind (rg_tenants r)
      \<and> view_wf (generation_view (rg_generation r)))"

lemma registries_new_wf: "registries_wf registries_new"
  by (simp add: registries_wf_def registries_new_def registry_wf_def registry_new_def
      generation_view_def PublishedGeneration_default_def ResolutionView_default_def view_wf_def)

lemma generation_view_publish [simp]:
  "generation_view (publish_generation c ts ds served pg) = ResolutionView_of (Some c) ts ds served"
  by (simp add: generation_view_def publish_generation_def)

lemma apply_both_cases:
  obtains (Failed) e r' where "apply_both origin ds ts c served i r = (Inl e, r')"
      "rg_generation r' = rg_generation r"
      "rg_data_sources r' = snd (apply_all data_source_kind ds (rg_data_sources r))"
      "rg_tenants r' \<in> {rg_tenants r, snd (apply_all tenant_kind ts (rg_tenants r))}"
      "\<not> (is_ok (fst (apply_all data_source_kind ds (rg_data_sources r)))
          \<and> is_ok (fst (apply_all tenant_kind ts (rg_tenants r))))"
    | (Published) dreport dreg treport treg where
      "apply_all data_source_kind ds (rg_data_sources r) = (Inr dreport, dreg)"
      "apply_all tenant_kind ts (rg_tenants r) = (Inr treport, treg)"
      "apply_both origin ds ts c served i r =
         (Inr i, r\<lparr>rg_data_sources := dreg, rg_tenants := treg,
                   rg_generation := publish_generation c treg dreg served (rg_generation r)\<rparr>)"
proof (cases data_source_kind ds "rg_data_sources r" rule: apply_all_cases)
  case (Refused u)
  then have "apply_both origin ds ts c served i r =
      (Inl (NothingUsable origin (unusable_published u) (ReasonDataSource (unusable_reason u))),
       r\<lparr>rg_data_sources := rg_data_sources r\<rparr>)"
    by (simp add: apply_both_def apply_data_sources_def)
  then show ?thesis by (rule Failed) (use Refused in simp_all)
next
  case d: (Taken dreport dreg)
  show ?thesis
  proof (cases tenant_kind ts "rg_tenants r" rule: apply_all_cases)
    case (Refused u)
    with d have "apply_both origin ds ts c served i r =
        (Inl (NothingUsable origin (unusable_published u) (ReasonTenant (unusable_reason u))),
         r\<lparr>rg_data_sources := dreg, rg_tenants := rg_tenants r\<rparr>)"
      by (simp add: apply_both_def apply_data_sources_def apply_tenants_def)
    then show ?thesis by (rule Failed) (use Refused d in simp_all)
  next
    case (Taken treport treg)
    with d show ?thesis
      by (intro Published) (simp_all add: apply_both_def apply_data_sources_def apply_tenants_def
          publish_view_def)
  qed
qed

lemma apply_both_wf:
  assumes "registries_wf r"
  shows "registries_wf (snd (apply_both origin ds ts c served i r))"
proof -
  have d: "registry_wf data_source_kind (snd (apply_all data_source_kind ds (rg_data_sources r)))"
    and t: "registry_wf tenant_kind (snd (apply_all tenant_kind ts (rg_tenants r)))"
    using assms by (simp_all add: registries_wf_def apply_all_step_wf)
  show ?thesis
  proof (cases rule: apply_both_cases[where origin = origin and ds = ds and ts = ts and c = c and served = served and i = i and r = r])
    case (Failed e r')
    with d t assms show ?thesis by (auto simp: registries_wf_def)
  next
    case (Published dreport dreg treport treg)
    with d t show ?thesis by (simp add: registries_wf_def view_of_registries_wf)
  qed
qed

lemma install_wf: "registries_wf r \<Longrightarrow> registries_wf (snd (install origin state r))"
  by (auto simp: install_def apply_both_wf split: published_state.split option.split)

lemma install_error_keeps_view_aux:
  "install origin state r = (Inl e, r') \<Longrightarrow> rg_generation r' = rg_generation r"
proof -
  have "apply_both origin ds ts c served i r = (Inl e, r') \<Longrightarrow> rg_generation r' = rg_generation r"
    for ds ts c served i
    by (cases rule: apply_both_cases[where origin = origin and ds = ds and ts = ts and c = c and served = served and i = i and r = r]) auto
  then show "install origin state r = (Inl e, r') \<Longrightarrow> rg_generation r' = rg_generation r"
    by (auto simp: install_def split: published_state.splits option.splits)
qed

lemma install_generation:
  assumes "refuses_whole data_source_kind (rg_data_sources r) ds = None"
    and "refuses_whole tenant_kind (rg_tenants r) ts = None"
  obtains r' where
    "install origin (StateGeneration n digest read_from ds ts c) r =
       (Inr \<lparr> in_serving = ServingGeneration n read_from, in_recorded = Some (n, digest) \<rparr>, r')"
    "generation_view (rg_generation r') =
       ResolutionView_of (Some c) (rg_tenants r') (rg_data_sources r')
         (Some (ReaderGenerationReport_new n digest (served_origin_of read_from)))"
    "\<And>i. reg_get (rg_data_sources r') i = List.find (\<lambda>d. ds_id d = i) ds"
    "\<And>i. reg_get (rg_tenants r') i = List.find (\<lambda>t. tb_tenant t = i) ts"
    "is_primed (rg_data_sources r')" "is_primed (rg_tenants r')"
proof -
  have taken: "is_ok (fst (apply_all R xs reg))" if "refuses_whole R reg xs = None"
    for R :: "('t, 'k, 'f) resource_kind" and xs reg
  proof -
    have "refusal R (merge R (reg_snapshot reg) xs) = None"
      using that by (intro took_whole_not_refused) (simp add: refuses_whole_merge)
    then show ?thesis by (cases R xs reg rule: apply_all_cases) (auto simp: apply_all_Inl)
  qed
  let ?served = "Some (ReaderGenerationReport_new n digest (served_origin_of read_from))"
  let ?i = "\<lparr> in_serving = ServingGeneration n read_from, in_recorded = Some (n, digest) \<rparr>"
  have install: "install origin (StateGeneration n digest read_from ds ts c) r =
      apply_both origin ds ts c ?served ?i r"
    by (simp add: install_def assms)
  show ?thesis
  proof (cases rule: apply_both_cases[where origin = origin and ds = ds and ts = ts and c = c and served = ?served and i = ?i and r = r])
    case (Failed e r')
    with taken[OF assms(1)] taken[OF assms(2)] show ?thesis by simp
  next
    case (Published dreport dreg treport treg)
    show ?thesis
    proof (rule that)
      show "install origin (StateGeneration n digest read_from ds ts c) r =
          (Inr ?i, r\<lparr>rg_data_sources := dreg, rg_tenants := treg,
                   rg_generation := publish_generation c treg dreg ?served (rg_generation r)\<rparr>)"
        using Published install by simp
      show "is_primed (rg_data_sources (r\<lparr>rg_data_sources := dreg, rg_tenants := treg,
                   rg_generation := publish_generation c treg dreg ?served (rg_generation r)\<rparr>))"
        "is_primed (rg_tenants (r\<lparr>rg_data_sources := dreg, rg_tenants := treg,
                   rg_generation := publish_generation c treg dreg ?served (rg_generation r)\<rparr>))"
        using Published by (auto simp: apply_all_Inr is_primed_def)
    qed (use taken_whole_get[OF assms(1) Published(1)] taken_whole_get[OF assms(2) Published(2)] in
        simp_all)
  qed
qed

text \<open>
  C12: A recorded generation is installed whole or not at all. If anything in it would not
  be taken as it stands the registries and the view are exactly as before; otherwise each
  registry then holds precisely the resources offered, and the view pairs those two registries
  with the generation's own catalogue and number.
\<close>

theorem install_is_all_or_nothing:
  "case install origin (StateGeneration n digest read_from ds ts c) r of
     (Inl e, r') \<Rightarrow> r' = r
   | (Inr i, r') \<Rightarrow>
       in_recorded i = Some (n, digest)
       \<and> (\<lambda>j. reg_get (rg_data_sources r') j) = (\<lambda>j. List.find (\<lambda>d. ds_id d = j) ds)
       \<and> (\<lambda>j. reg_get (rg_tenants r') j) = (\<lambda>j. List.find (\<lambda>t. tb_tenant t = j) ts)
       \<and> generation_view (rg_generation r') =
           ResolutionView_of (Some c) (rg_tenants r') (rg_data_sources r')
             (Some (ReaderGenerationReport_new n digest (served_origin_of read_from)))"
proof (cases "refuses_whole data_source_kind (rg_data_sources r) ds = None
    \<and> refuses_whole tenant_kind (rg_tenants r) ts = None")
  case True
  then have d: "refuses_whole data_source_kind (rg_data_sources r) ds = None"
    and t: "refuses_whole tenant_kind (rg_tenants r) ts = None" by simp_all
  obtain r' where
    "install origin (StateGeneration n digest read_from ds ts c) r =
       (Inr \<lparr> in_serving = ServingGeneration n read_from, in_recorded = Some (n, digest) \<rparr>, r')"
    "generation_view (rg_generation r') =
       ResolutionView_of (Some c) (rg_tenants r') (rg_data_sources r')
         (Some (ReaderGenerationReport_new n digest (served_origin_of read_from)))"
    "\<And>i. reg_get (rg_data_sources r') i = List.find (\<lambda>d. ds_id d = i) ds"
    "\<And>i. reg_get (rg_tenants r') i = List.find (\<lambda>t. tb_tenant t = i) ts"
    "is_primed (rg_data_sources r')" "is_primed (rg_tenants r')"
    by (rule install_generation[where origin = origin and n = n and digest = digest
          and read_from = read_from and c = c, OF d t]) (rule that)
  then show ?thesis by (simp add: fun_eq_iff)
next
  case False
  then show ?thesis by (auto simp: install_def split: option.split)
qed

text \<open>
  A generation that was validated can always be served at a start. Whatever loads from
  the last-known-good store installs into empty registries without being refused, so a copy that
  verified never leaves the runtime unprimed.
\<close>

theorem stored_generation_installs_at_start:
  assumes load: "store_load x file = Inr (Some g)"
    and empty: "\<not> is_primed (rg_data_sources r)" "\<not> is_primed (rg_tenants r)"
  shows "case install origin (state_of x g (OriginLastKnownGood because)) r of
           (Inl _, _) \<Rightarrow> False
         | (Inr _, r') \<Rightarrow> view_is_primed (generation_view (rg_generation r'))"
proof -
  from load obtain bytes where "store_verify x bytes = Inr g"
    by (cases "file") (auto simp: result_simps)
  then have "generation_valid x g" by (auto simp: store_verify_Inr)
  then have d: "refuses_whole data_source_kind (rg_data_sources r) (pg_data_sources g) = None"
    and t: "refuses_whole tenant_kind (rg_tenants r) (pg_tenants g) = None"
    using empty by (simp_all add: generation_valid_def unprimed_takes_valid_set)
  from install_generation[OF d t, of origin "parsed_number g" "record_digest_of x (pg_complete g)"
      "OriginLastKnownGood because" "pg_catalogue g"]
  show ?thesis
    by (fastforce simp: state_of_def view_is_primed_def ResolutionView_of_def is_primed_def)
qed

section \<open>The interface of a source that never goes back\<close>

fun offered :: "'c published_state \<Rightarrow> u64 option" where
  "offered (StateGeneration g _ _ _ _ _) = Some g"
| "offered (StateUnrecorded _ _ _) = None"

text \<open>The generation the pinned view of a reader reports.\<close>

definition served :: "('c, 's) reader \<Rightarrow> u64 option" where
  "served r = map_option report_generation (view_served (generation_view (rg_generation (rd_registries r))))"

lemma install_served:
  "install origin state r = (Inr i, r') \<Longrightarrow>
     map_option report_generation (view_served (generation_view (rg_generation r'))) = offered state
     \<and> map_option fst (in_recorded i) = offered state
     \<and> (\<forall>g d. in_recorded i = Some (g, d) \<longrightarrow> (\<exists>org ds ts c. state = StateGeneration g d org ds ts c))"
proof -
  have both: "apply_both origin ds ts c sv j r = (Inr i, r') \<Longrightarrow>
      i = j \<and> view_served (generation_view (rg_generation r')) = sv" for ds ts c sv j
    by (cases rule: apply_both_cases[where origin = origin and ds = ds and ts = ts and c = c
          and served = sv and i = j and r = r])
       (auto simp: ResolutionView_of_def)
  assume "install origin state r = (Inr i, r')"
  then show ?thesis
    by (cases state)
       (auto simp: install_def ReaderGenerationReport_new_def dest!: both split: option.splits)
qed

locale monotone_source =
  fixes src :: "('c, 'e, 's) published_source"
    and floor :: "'s \<Rightarrow> u64 option"
  assumes load_offers: "src_load src e s = (Inr state, s') \<Longrightarrow> floor s \<le> offered state"
    and load_keeps: "floor s \<le> floor (snd (src_load src e s))"
    and installed_keeps: "floor s \<le> floor (src_installed src e g digest s)"
    and load_installed:
      "src_load src e s = (Inr (StateGeneration g digest org ds ts c), s') \<Longrightarrow>
       Some g \<le> floor (src_installed src e g digest s')"
    and start_installed:
      "src_load_at_start src e s = (Inr (StateGeneration g digest org ds ts c), s') \<Longrightarrow>
       Some g \<le> floor (src_installed src e g digest s')"
begin

lemma prime_floor:
  assumes "served r = None"
  shows "served (snd (prime_published src e r)) \<le> floor (rd_source (snd (prime_published src e r)))"
proof (cases "src_load_at_start src e (rd_source r)")
  case (Pair loaded s')
  show ?thesis
  proof (cases loaded)
    case (Inl err)
    with Pair assms show ?thesis by (simp add: prime_published_def load_and_install_def served_def)
  next
    case (Inr state)
    obtain result regs where i: "install (src_describe src) state (rd_registries r) = (result, regs)"
      by (cases "install (src_describe src) state (rd_registries r)")
    show ?thesis
    proof (cases result)
      case (Inl err)
      with i have "rg_generation regs = rg_generation (rd_registries r)"
        by (simp add: install_error_keeps_view_aux)
      with Pair \<open>loaded = Inr state\<close> i Inl assms show ?thesis
        by (simp add: prime_published_def load_and_install_def served_def)
    next
      case fin: (Inr inst)
      with i have sv: "map_option report_generation (view_served (generation_view (rg_generation regs))) = offered state"
        and rec: "map_option fst (in_recorded inst) = offered state"
        and gen: "\<And>g d. in_recorded inst = Some (g, d) \<Longrightarrow> \<exists>org ds ts c. state = StateGeneration g d org ds ts c"
        using install_served by blast+
      show ?thesis
      proof (cases "in_recorded inst")
        case None
        with rec sv Pair Inr i fin show ?thesis
          by (simp add: prime_published_def load_and_install_def served_def settle_def)
      next
        case (Some gd)
        obtain g d where gd: "gd = (g, d)" by (cases gd)
        from gen[of g d] Some gd obtain org ds ts c where
          "state = StateGeneration g d org ds ts c" by blast
        with start_installed[of e "rd_source r" g d org ds ts c s'] Some gd sv Pair Inr i fin
        show ?thesis
          by (auto simp: prime_published_def load_and_install_def served_def settle_def)
      qed
    qed
  qed
qed

lemma refresh_floor:
  assumes inv: "served r \<le> floor (rd_source r)"
  shows "served (refresh_published src timeout pass r) \<le> floor (rd_source (refresh_published src timeout pass r))
    \<and> served r \<le> served (refresh_published src timeout pass r)"
proof (cases pass)
  case None
  with inv show ?thesis by (simp add: refresh_published_def served_def)
next
  case (Some e)
  obtain loaded s' where l: "src_load src e (rd_source r) = (loaded, s')"
    by (cases "src_load src e (rd_source r)")
  have keeps: "floor (rd_source r) \<le> floor s'" using load_keeps[of "rd_source r" e] l by simp
  show ?thesis
  proof (cases loaded)
    case (Inl err)
    with Some l inv keeps show ?thesis
      by (auto simp: refresh_published_def load_and_install_def served_def)
  next
    case (Inr state)
    obtain result regs where i: "install (src_describe src) state (rd_registries r) = (result, regs)"
      by (cases "install (src_describe src) state (rd_registries r)")
    show ?thesis
    proof (cases result)
      case (Inl err)
      with i have "rg_generation regs = rg_generation (rd_registries r)"
        by (simp add: install_error_keeps_view_aux)
      with Some l Inr i Inl inv keeps show ?thesis
        by (auto simp: refresh_published_def load_and_install_def served_def)
    next
      case fin: (Inr inst)
      with i have sv: "map_option report_generation (view_served (generation_view (rg_generation regs))) = offered state"
        and gen: "\<And>g d. in_recorded inst = Some (g, d) \<Longrightarrow> \<exists>org ds ts c. state = StateGeneration g d org ds ts c"
        and rec: "map_option fst (in_recorded inst) = offered state"
        using install_served by blast+
      have offer: "served r \<le> offered state"
        using inv load_offers[of e "rd_source r" state s'] l Inr by auto
      have now: "served (refresh_published src timeout pass r) = offered state"
        using Some l Inr i fin sv
        by (simp add: refresh_published_def load_and_install_def served_def settle_def Let_def
            split: option.split)
      show ?thesis
      proof (cases "in_recorded inst")
        case None
        with rec have "offered state = None" by simp
        with now offer show ?thesis by simp
      next
        case (Some gd)
        obtain g d where gd: "gd = (g, d)" by (cases gd)
        from gen[of g d] Some gd obtain org ds ts c where st: "state = StateGeneration g d org ds ts c"
          by blast
        have "rd_source (refresh_published src timeout pass r) = src_installed src e g d s'"
          using \<open>pass = Some e\<close> l Inr i fin Some gd
          by (simp add: refresh_published_def load_and_install_def settle_def Let_def)
        with load_installed[of e "rd_source r" g d org ds ts c s'] l Inr st now offer
        show ?thesis by simp
      qed
    qed
  qed
qed

lemma run_floor:
  "served r \<le> floor (rd_source r) \<Longrightarrow>
   served r \<le> served (fold (refresh_published src timeout) passes r)
   \<and> served (fold (refresh_published src timeout) passes r)
       \<le> floor (rd_source (fold (refresh_published src timeout) passes r))"
proof (induction passes arbitrary: r)
  case (Cons pass passes)
  from refresh_floor[OF Cons.prems, of timeout pass] Cons.IH[of "refresh_published src timeout pass r"]
  show ?case by (auto intro: order_trans)
qed simp

end

section \<open>The published files never go back\<close>

definition files_floor :: "'c published_files \<Rightarrow> u64 option" where
  "files_floor f = (case pf_last_known_good f of Some h \<Rightarrow> lkg_floor h | None \<Rightarrow> pf_recorded f)"

lemma choice_on_refresh_floor:
  assumes "choice_on_refresh read floor origin = c"
  shows "(\<forall>g. c = ChoosePublished g \<longrightarrow> floor \<le> Some (parsed_number g))
    \<and> (c = ChooseUnrecorded \<longrightarrow> floor = None) \<and> (\<forall>g b. c \<noteq> ChooseLastKnownGood g b)"
  using assms by (cases "(read, floor, origin)" rule: choice_on_refresh.cases) (auto split: if_splits)

lemma unrecorded_offers: "unrecorded x p w = Inr state \<Longrightarrow> offered state = None"
  by (auto simp: unrecorded_def result_simps)

lemma holder_accept_floor:
  "lkg_floor (fst (holder_accept x sep out q file h)) = max (lkg_floor h) (Some (parsed_number q))"
  by (auto simp: holder_accept_def Let_def split: sum.split prod.split)

lemma apply_choice_floor: "files_floor (snd (apply_choice x p w c f)) = files_floor f"
  by (auto simp: apply_choice_def files_floor_def split: choice.split option.split)

lemma installed_floor: "files_floor f \<le> files_floor (files_installed x p w g digest f)"
  by (auto simp: files_installed_def files_floor_def Let_def split_beta holder_accept_floor
      split: option.split)

lemma installed_pending_floor:
  assumes "pf_pending f = Some q" "record_digest_of x (pg_complete q) = digest" "parsed_number q = g"
  shows "Some g \<le> files_floor (files_installed x p w g digest f)"
  using assms
  by (auto simp: files_installed_def files_floor_def Let_def split_beta holder_accept_floor
      split: option.split)

lemma apply_choice_generation:
  assumes "apply_choice x p w c f = (Inr (StateGeneration g digest org ds ts cat), f')"
  obtains (Published) q where "c = ChoosePublished q" "f' = f\<lparr>pf_pending := Some q\<rparr>"
      "parsed_number q = g" "record_digest_of x (pg_complete q) = digest"
    | (Held) q b where "c = ChooseLastKnownGood q b" "f' = f" "parsed_number q = g"
  using assms
  by (cases c) (auto simp: apply_choice_def state_of_def dest: unrecorded_offers)

lemma files_load_choice:
  obtains read where "files_load x p w f =
    apply_choice x p w (choice_on_refresh read (files_floor f) (described_as p)) f"
  by (cases "pf_last_known_good f")
     (auto simp: files_load_def holder_on_refresh_def without_copy_def files_floor_def Let_def)

lemma choice_at_start_copy:
  "choice_at_start read copy = ChooseLastKnownGood q b \<Longrightarrow> copy = Some q"
  by (cases "(read, copy)" rule: choice_at_start.cases) (auto split: if_splits)

lemma holder_at_start_copy:
  "holder_at_start x file read org h = (ChooseLastKnownGood q b, h') \<Longrightarrow>
     lkg_floor h' = Some (parsed_number q)"
  by (auto simp: holder_at_start_def Let_def dest: choice_at_start_copy
      split: sum.splits prod.splits option.splits)

interpretation files: monotone_source "files_source x p" files_floor
  for x :: "'c codec" and p
proof unfold_locales
  fix e s state s'
  assume "src_load (files_source x p) e s = (Inr state, s')"
  then obtain read where a: "apply_choice x p e (choice_on_refresh read (files_floor s) (described_as p)) s
      = (Inr state, s')"
    by (auto simp: files_source_def intro: files_load_choice[of x p e s])
  let ?c = "choice_on_refresh read (files_floor s) (described_as p)"
  note c = choice_on_refresh_floor[of read "files_floor s" "described_as p" ?c, OF refl]
  show "files_floor s \<le> offered state"
    using a c by (cases ?c) (auto simp: apply_choice_def state_of_def dest: unrecorded_offers)
next
  fix s e
  obtain read where "files_load x p e s =
      apply_choice x p e (choice_on_refresh read (files_floor s) (described_as p)) s"
    by (rule files_load_choice)
  then show "files_floor s \<le> files_floor (snd (src_load (files_source x p) e s))"
    by (simp add: files_source_def apply_choice_floor)
next
  fix s e g digest
  show "files_floor s \<le> files_floor (src_installed (files_source x p) e g digest s)"
    by (simp add: files_source_def installed_floor)
next
  fix e s g digest org ds ts c s'
  assume "src_load (files_source x p) e s = (Inr (StateGeneration g digest org ds ts c), s')"
  then obtain read where a: "apply_choice x p e (choice_on_refresh read (files_floor s) (described_as p)) s
      = (Inr (StateGeneration g digest org ds ts c), s')"
    by (auto simp: files_source_def intro: files_load_choice[of x p e s])
  show "Some g \<le> files_floor (src_installed (files_source x p) e g digest s')"
    using a
  proof (cases rule: apply_choice_generation)
    case (Published q)
    then show ?thesis by (simp add: files_source_def installed_pending_floor)
  next
    case (Held q b)
    with choice_on_refresh_floor[OF this(1)] show ?thesis by simp
  qed
next
  fix e s g digest org ds ts c s'
  assume "src_load_at_start (files_source x p) e s = (Inr (StateGeneration g digest org ds ts c), s')"
  then have l: "files_load_at_start x p e s = (Inr (StateGeneration g digest org ds ts c), s')"
    by (simp add: files_source_def)
  show "Some g \<le> files_floor (src_installed (files_source x p) e g digest s')"
  proof (cases "pf_last_known_good s")
    case None
    with l have a: "apply_choice x p e (without_copy x (read_generation x p e) None (described_as p)) s
        = (Inr (StateGeneration g digest org ds ts c), s')"
      by (simp add: files_load_at_start_def Let_def)
    then show ?thesis
    proof (cases rule: apply_choice_generation)
      case (Published q)
      then show ?thesis by (simp add: files_source_def installed_pending_floor)
    next
      case (Held q b)
      then show ?thesis
        using choice_on_refresh_floor[OF Held(1)[unfolded without_copy_def]] by simp
    qed
  next
    case (Some h)
    obtain ch h' where h': "holder_at_start x (pf_store_file s) (read_generation x p e) (described_as p) h
        = (ch, h')"
      by (cases "holder_at_start x (pf_store_file s) (read_generation x p e) (described_as p) h")
    with l Some have a: "apply_choice x p e ch (s\<lparr>pf_last_known_good := Some h'\<rparr>)
        = (Inr (StateGeneration g digest org ds ts c), s')"
      by (simp add: files_load_at_start_def Let_def)
    then show ?thesis
    proof (cases rule: apply_choice_generation)
      case (Published q)
      then show ?thesis by (simp add: files_source_def installed_pending_floor)
    next
      case (Held q b)
      with h' have "lkg_floor h' = Some g" by (auto dest: holder_at_start_copy)
      with Held have "files_floor s' = Some g" by (simp add: files_floor_def)
      then show ?thesis
        using installed_floor[of s' x p e g digest] by (simp add: files_source_def)
    qed
  qed
qed

section \<open>Runs of the reader\<close>

definition run_passes ::
  "('c, 'e, 's) published_source \<Rightarrow> u64 \<Rightarrow> 'e \<Rightarrow> 'e option list \<Rightarrow> 's \<Rightarrow> ('c, 's) reader" where
  "run_passes src timeout start passes s =
     fold (refresh_published src timeout) passes (snd (prime_published src start (reader_new s)))"

lemma served_new: "served (reader_new s) = None"
  by (simp add: served_def reader_new_def registries_new_def generation_view_def
      PublishedGeneration_default_def ResolutionView_default_def)

text \<open>
  C7: The generation served never goes back. Over the published files, with or without a
  last-known-good copy, whatever is read at the start and in every refresh pass, with passes
  failing, timing out or being refused in between: the generation the runtime reports after more
  passes is never below one it reported before, and once one is recorded it never serves
  unrecorded state again.
\<close>

theorem served_generation_never_goes_back:
  "served (run_passes (files_source x p) timeout start passes f)
     \<le> served (run_passes (files_source x p) timeout start (passes @ later) f)"
proof -
  let ?r0 = "snd (prime_published (files_source x p) start (reader_new f))"
  have "served ?r0 \<le> files_floor (rd_source ?r0)"
    by (rule files.prime_floor[OF served_new])
  then have "served (run_passes (files_source x p) timeout start passes f)
      \<le> files_floor (rd_source (run_passes (files_source x p) timeout start passes f))"
    unfolding run_passes_def using files.run_floor by blast
  then show ?thesis
    unfolding run_passes_def fold_append o_apply using files.run_floor by blast
qed

lemma load_and_install_wf:
  "registries_wf (rd_registries r) \<Longrightarrow>
   registries_wf (rd_registries (snd (load_and_install src loaded r)))"
  using install_wf[of "rd_registries r" "src_describe src"]
  by (auto simp: load_and_install_def Let_def split: sum.split prod.split) (metis snd_conv)

lemma settle_registries [simp]: "rd_registries (settle src e i r) = rd_registries r"
  by (simp add: settle_def)

lemma refresh_registries_wf:
  assumes "registries_wf (rd_registries r)"
  shows "registries_wf (rd_registries (refresh_published src timeout pass r))"
proof (cases pass)
  case (Some e)
  obtain result r1 where l: "load_and_install src (src_load src e (rd_source r)) r = (result, r1)"
    by (cases "load_and_install src (src_load src e (rd_source r)) r")
  then have "registries_wf (rd_registries r1)"
    using load_and_install_wf[OF assms, of src "src_load src e (rd_source r)"] by simp
  with Some l show ?thesis
    by (auto simp: refresh_published_def Let_def split: sum.split option.split)
qed (simp add: refresh_published_def assms)

lemma prime_registries_wf:
  assumes "registries_wf (rd_registries r)"
  shows "registries_wf (rd_registries (snd (prime_published src e r)))"
proof -
  obtain result r1 where l: "load_and_install src (src_load_at_start src e (rd_source r)) r = (result, r1)"
    by (cases "load_and_install src (src_load_at_start src e (rd_source r)) r")
  then have "registries_wf (rd_registries r1)"
    using load_and_install_wf[OF assms, of src "src_load_at_start src e (rd_source r)"] by simp
  with l show ?thesis by (auto simp: prime_published_def split: sum.split)
qed

lemma run_registries_wf: "registries_wf (rd_registries (run_passes src timeout start passes s))"
proof -
  have "registries_wf (rd_registries r) \<Longrightarrow>
      registries_wf (rd_registries (fold (refresh_published src timeout) passes r))" for r
    by (induction passes arbitrary: r) (simp_all add: refresh_registries_wf)
  moreover have "registries_wf (rd_registries (snd (prime_published src start (reader_new s))))"
    by (rule prime_registries_wf) (simp add: reader_new_def registries_new_wf)
  ultimately show ?thesis unfolding run_passes_def by simp
qed

text \<open>
  Whatever a source offers, the reader stays sound. After any start and any sequence
  of passes over any source, the registries and the view a request pins are well formed: keys
  distinct, every resource valid and under its own key, and the co-tenancy and reuse facts the
  isolation check reads derived from exactly the resources the view holds.
\<close>

theorem reader_stays_wf:
  "registries_wf (rd_registries (run_passes src timeout start passes s))
   \<and> view_wf (pin (reader_resolver (run_passes src timeout start passes s)))"
  using run_registries_wf[of src timeout start passes s]
  by (simp add: registries_wf_def pin_def reader_resolver_def over_published_def)

text \<open>
  A pass that fails holds what is served. One refresh pass either leaves the pinned
  view exactly as it was and adds one, saturating, to the passes held with the error that held
  it, or it serves what was offered and leaves that count alone.
\<close>

theorem failed_pass_holds:
  "let r' = refresh_published src timeout pass r;
       held = st_held_passes (rd_status r);
       view = (\<lambda>r. generation_view (rg_generation (rd_registries r)))
   in (view r' = view r \<and> st_held_passes (rd_status r') = saturating_add held 1
         \<and> st_last_hold (rd_status r') \<noteq> None \<and> st_serving (rd_status r') = st_serving (rd_status r))
      \<or> (\<exists>e state. pass = Some e \<and> fst (src_load src e (rd_source r)) = Inr state
           \<and> served r' = offered state \<and> st_held_passes (rd_status r') = held
           \<and> st_last_hold (rd_status r') = st_last_hold (rd_status r))"
proof (cases pass)
  case None
  then show ?thesis by (simp add: refresh_published_def status_held_def)
next
  case (Some e)
  obtain loaded s' where l: "src_load src e (rd_source r) = (loaded, s')"
    by (cases "src_load src e (rd_source r)")
  show ?thesis
  proof (cases loaded)
    case (Inl err)
    with Some l show ?thesis
      by (simp add: refresh_published_def load_and_install_def status_held_def)
  next
    case (Inr state)
    obtain result regs where i: "install (src_describe src) state (rd_registries r) = (result, regs)"
      by (cases "install (src_describe src) state (rd_registries r)")
    show ?thesis
    proof (cases result)
      case (Inl err)
      with i have "rg_generation regs = rg_generation (rd_registries r)"
        by (simp add: install_error_keeps_view_aux)
      with Some l Inr i Inl show ?thesis
        by (simp add: refresh_published_def load_and_install_def status_held_def)
    next
      case fin: (Inr inst)
      with i have "map_option report_generation
          (view_served (generation_view (rg_generation regs))) = offered state"
        using install_served by blast
      with Some l Inr i fin show ?thesis
        by (simp add: refresh_published_def load_and_install_def served_def settle_def
            status_applied_def Let_def split: option.split)
    qed
  qed
qed

theorem stored_generation_installs_at_start_witness:
  "\<exists>file g. store_load example_codec file = Inr (Some g)
     \<and> (case install ''files'' (state_of example_codec g (OriginLastKnownGood NoPublicationRecord))
               registries_new of
          (Inl _, _) \<Rightarrow> False
        | (Inr _, r') \<Rightarrow> view_is_primed (generation_view (rg_generation r')))"
proof -
  obtain file' where "store_load example_codec file' = Inr (Some example_parsed)"
    using persist_loads(2)[of example_codec example_parsed "FileMissing ''none''"]
      example_round_trips example_digests example_valid example_utf8 by auto
  moreover have "\<not> is_primed (rg_data_sources (registries_new :: unit registries))"
    "\<not> is_primed (rg_tenants (registries_new :: unit registries))"
    by (simp_all add: registries_new_def is_primed_def registry_new_def)
  ultimately have "case install ''files'' (state_of example_codec example_parsed
      (OriginLastKnownGood NoPublicationRecord)) registries_new of
        (Inl _, _) \<Rightarrow> False | (Inr _, r') \<Rightarrow> view_is_primed (generation_view (rg_generation r'))"
    by (rule stored_generation_installs_at_start)
  with \<open>store_load example_codec file' = Inr (Some example_parsed)\<close> show ?thesis
    by (intro exI conjI)
qed

end
