(* ===== verification/Publication_Plan.thy ===== *)
theory Publication_Plan
  imports Generation
begin

text \<open>
  What the publisher decides before it writes (\<open>crates/fabric-runtime-publication/src\<close>): the
  documents and the record of a publication (\<open>document/\<close>, \<open>record.rs\<close>, \<open>manifest.rs\<close>,
  \<open>resource_history.rs\<close>), the checks of a snapshot (\<open>validate.rs\<close>, \<open>catalogue_bindings.rs\<close>,
  \<open>resource_revisions.rs\<close>), the verdict on each document, the issuer registry and the record
  (\<open>plan/\<close>, \<open>verdict.rs\<close>, \<open>registry/\<close>). A document type whose fields are those of the runtime's
  resource is that record. \<open>serde_json\<close> and SHA-256 are the argument \<open>publisher_codec\<close>; a boxed
  cause is its text.
\<close>

section \<open>Documents\<close>

type_synonym isolation_document = isolation_model
type_synonym placement_class_document = placement_class
type_synonym connection_document = connection_selector
type_synonym data_source_document = data_source
type_synonym tenant_data_document = tenant_data_binding
type_synonym tenant_document = tenant_runtime_binding

record resource_definition_document =
  rdd_data_source :: logical_data_source_name
  rdd_collection :: collection_name
  rdd_key_field :: field_name
  rdd_operations :: "operation_kind list"
  rdd_queryable_fields :: "field_name list"

type_synonym catalog_document = "(logical_resource_name \<times> resource_definition_document) list"
type_synonym document_revision = u64

datatype document_kind = KindTenants | KindDataSources | KindCatalog

definition CONTRACT_VERSION :: u32 where
  "CONTRACT_VERSION = 3"

definition MINIMUM_READER_CONTRACT :: u32 where
  "MINIMUM_READER_CONTRACT = 1"

record document_manifest =
  dm_contract_version :: u32
  dm_document :: document_kind
  dm_revision :: document_revision

definition DocumentManifest_new :: "document_kind \<Rightarrow> document_revision \<Rightarrow> document_manifest" where
  "DocumentManifest_new document revision =
     \<lparr> dm_contract_version = CONTRACT_VERSION, dm_document = document, dm_revision = revision \<rparr>"

record recorded_document =
  rcd_revision :: document_revision
  rcd_sha256 :: string

record recorded_documents =
  rds_tenants :: recorded_document
  rds_data_sources :: recorded_document
  rds_catalog :: recorded_document

record resource_history =
  rh_tenants :: "(tenant_id \<times> binding_revision) list"
  rh_data_sources :: "(data_source_id \<times> binding_revision) list"

definition ResourceHistory_default :: resource_history where
  "ResourceHistory_default = \<lparr> rh_tenants = [], rh_data_sources = [] \<rparr>"

definition raise ::
  "'k::linorder \<Rightarrow> binding_revision \<Rightarrow> ('k \<times> binding_revision) list \<Rightarrow> ('k \<times> binding_revision) list" where
  "raise k revision history =
     (case map_of history k of
        None \<Rightarrow> btree_insert k revision history
      | Some highest \<Rightarrow> if revision > highest then btree_insert k revision history else history)"

definition history_including ::
  "resource_history \<Rightarrow> tenant_document list \<Rightarrow> data_source_document list \<Rightarrow> resource_history" where
  "history_including h tenants data_sources =
     \<lparr> rh_tenants = fold (\<lambda>t. raise (tb_tenant t) (tb_revision t)) tenants (rh_tenants h),
       rh_data_sources = fold (\<lambda>d. raise (ds_id d) (ds_revision d)) data_sources (rh_data_sources h) \<rparr>"

record issuer_registration =
  ir_issuer :: string
  ir_tenant :: tenant_id

type_synonym registry_generation = u64

definition registry_FIRST :: registry_generation where
  "registry_FIRST = 1"

definition registry_next :: "registry_generation \<Rightarrow> registry_generation option" where
  "registry_next g = (if g = -1 then None else Some (g + 1))"

record issuer_registry_document =
  ird_schema_version :: u32
  ird_generation :: registry_generation
  ird_issuers :: "issuer_registration list"

record recorded_registry =
  rr_generation :: registry_generation
  rr_sha256 :: string

record publication_record =
  pr_contract_version :: u32
  pr_minimum_reader_contract :: u32
  pr_minimum_publisher_contract :: u32
  pr_generation :: u64
  pr_documents :: recorded_documents
  pr_resources :: resource_history
  pr_registry :: "recorded_registry option"

definition PublicationRecord_new :: "u64 \<Rightarrow> recorded_documents \<Rightarrow> resource_history \<Rightarrow> publication_record" where
  "PublicationRecord_new generation documents resources =
     \<lparr> pr_contract_version = CONTRACT_VERSION, pr_minimum_reader_contract = MINIMUM_READER_CONTRACT,
       pr_minimum_publisher_contract = CONTRACT_VERSION, pr_generation = generation,
       pr_documents = documents, pr_resources = resources, pr_registry = None \<rparr>"

definition with_registry :: "publication_record \<Rightarrow> recorded_registry option \<Rightarrow> publication_record" where
  "with_registry r registry = r\<lparr>pr_registry := registry\<rparr>"

section \<open>What the code outside provides\<close>

record publisher_codec =
  pc_sha256 :: "string \<Rightarrow> record_digest"
  pretty_tenants :: "tenant_document list \<Rightarrow> string + string"
  pretty_data_sources :: "data_source_document list \<Rightarrow> string + string"
  pretty_catalog :: "catalog_document \<Rightarrow> string + string"
  pretty_registry :: "issuer_registry_document \<Rightarrow> string + string"
  pretty_record :: "publication_record \<Rightarrow> string + string"
  pretty_manifest :: "document_manifest \<Rightarrow> string + string"
  from_tenants :: "string \<Rightarrow> string + tenant_document list"
  from_data_sources :: "string \<Rightarrow> string + data_source_document list"
  from_catalog :: "string \<Rightarrow> string + catalog_document"
  from_registry :: "string \<Rightarrow> string + issuer_registry_document"
  from_record :: "string \<Rightarrow> string + publication_record"
  from_floor :: "string \<Rightarrow> string + u32"
  from_manifest :: "string \<Rightarrow> string + document_manifest"
  tenant_value :: "tenant_document \<Rightarrow> string + json"
  data_source_value :: "data_source_document \<Rightarrow> string + json"

definition to_canonical_bytes :: "('a \<Rightarrow> string + string) \<Rightarrow> 'a \<Rightarrow> string + string" where
  "to_canonical_bytes pretty v = map_ok (\<lambda>bytes. bytes @ [CHR 0x0A]) (pretty v)"

definition tenants_canonical_json :: "publisher_codec \<Rightarrow> tenant_document list \<Rightarrow> string + string" where
  "tenants_canonical_json x bindings = to_canonical_bytes (pretty_tenants x) (sort_key tb_tenant bindings)"

definition data_sources_canonical_json :: "publisher_codec \<Rightarrow> data_source_document list \<Rightarrow> string + string" where
  "data_sources_canonical_json x sources = to_canonical_bytes (pretty_data_sources x) (sort_key ds_id sources)"

definition digest_hex :: "publisher_codec \<Rightarrow> string \<Rightarrow> string" where
  "digest_hex x bytes = RecordDigest_to_string (pc_sha256 x bytes)"

definition RecordedDocument_of :: "publisher_codec \<Rightarrow> document_revision \<Rightarrow> string \<Rightarrow> recorded_document" where
  "RecordedDocument_of x revision bytes = \<lparr> rcd_revision = revision, rcd_sha256 = digest_hex x bytes \<rparr>"

section \<open>Errors\<close>

datatype registry_refusal =
    DuplicateIssuer string
  | TenantUnbound string tenant_id
  | GenerationExhausted registry_generation
  | RegistryWithdrawn registry_generation

datatype publication_error =
    StaleRevision document_kind document_revision document_revision
  | DivergentPayload document_kind document_revision
  | DanglingDataSource tenant_id logical_data_source_name data_source_id
  | RetiredDataSourceStillBound data_source_id tenant_id
  | EmptyingNotIntended document_kind
  | EmptyCatalogue
  | EmptyTenantData tenant_id
  | HeldPayloadLost document_kind
  | ResourceRevisionNotAdvanced document_kind string binding_revision binding_revision
  | TenantRemoved tenant_id binding_revision
  | CatalogueEntryUnbound logical_resource_name logical_data_source_name
  | BelowRollbackFloor u32 u32
  | PubRegistry registry_refusal
  | PubUnreadable document_kind string
  | PubUnwritable document_kind string

section \<open>The snapshot offered and the documents held\<close>

datatype emptying = NotIntended | Intended

record 'p document_input =
  di_revision :: document_revision
  di_payload :: 'p
  di_emptying :: emptying

record runtime_snapshot =
  snap_tenants :: "tenant_document list document_input"
  snap_data_sources :: "data_source_document list document_input"
  snap_catalog :: "catalog_document document_input"
  snap_registry :: "issuer_registration list option"

record held_document =
  hd_manifest :: "document_manifest option"
  hd_payload :: "string option"

definition HeldDocument_absent :: held_document where
  "HeldDocument_absent = \<lparr> hd_manifest = None, hd_payload = None \<rparr>"

record held_documents =
  held_tenants :: held_document
  held_data_sources :: held_document
  held_catalog :: held_document
  held_record :: "string option"
  held_registry :: "string option"

record published_resources =
  pub_tenants :: "tenant_document list"
  pub_data_sources :: "data_source_document list"
  pub_catalog :: "catalog_document option"
  pub_history :: resource_history

definition check_publisher_floor :: "publisher_codec \<Rightarrow> string \<Rightarrow> u32 \<Rightarrow> publication_error + unit" where
  "check_publisher_floor x bytes publisher =
     rbind (map_err (PubUnreadable KindTenants) (from_floor x bytes)) (\<lambda>floor.
       if floor > publisher then Inl (BelowRollbackFloor floor publisher) else Inr ())"

definition parse_held :: "publisher_codec \<Rightarrow> string \<Rightarrow> publication_error + publication_record" where
  "parse_held x bytes =
     rbind (check_publisher_floor x bytes CONTRACT_VERSION)
       (\<lambda>_. map_err (PubUnreadable KindTenants) (from_record x bytes))"

definition parse_documents ::
  "(string \<Rightarrow> string + 'd list) \<Rightarrow> string option \<Rightarrow> document_kind \<Rightarrow> publication_error + 'd list" where
  "parse_documents reader payload document =
     (case payload of None \<Rightarrow> Inr [] | Some bytes \<Rightarrow> map_err (PubUnreadable document) (reader bytes))"

definition parse_held_documents ::
  "(string \<Rightarrow> string + 'd list) \<Rightarrow> document_manifest option \<Rightarrow> string option \<Rightarrow> document_kind
     \<Rightarrow> publication_error + 'd list" where
  "parse_held_documents reader manifest payload document =
     (case (manifest, payload) of
        (Some _, None) \<Rightarrow> Inl (HeldPayloadLost document)
      | (_, payload) \<Rightarrow> parse_documents reader payload document)"

definition transpose_opt :: "('a \<Rightarrow> 'e + 'b) \<Rightarrow> 'a option \<Rightarrow> 'e + 'b option" where
  "transpose_opt f m = (case m of None \<Rightarrow> Inr None | Some a \<Rightarrow> map_ok Some (f a))"

definition held_resources :: "publisher_codec \<Rightarrow> held_documents \<Rightarrow> publication_error + published_resources" where
  "held_resources x h =
     rbind (transpose_opt (parse_held x) (held_record h)) (\<lambda>rec.
     rbind (parse_held_documents (from_tenants x) (hd_manifest (held_tenants h))
              (hd_payload (held_tenants h)) KindTenants) (\<lambda>tenants.
     rbind (parse_held_documents (from_data_sources x) (hd_manifest (held_data_sources h))
              (hd_payload (held_data_sources h)) KindDataSources) (\<lambda>data_sources.
       Inr \<lparr> pub_tenants = tenants, pub_data_sources = data_sources,
             pub_catalog = Option.bind (hd_payload (held_catalog h)) (\<lambda>bytes. ok (from_catalog x bytes)),
             pub_history = history_including
               (case rec of None \<Rightarrow> ResourceHistory_default | Some r \<Rightarrow> pr_resources r)
               tenants data_sources \<rparr>)))"

section \<open>The checks of a snapshot\<close>

definition refuse_empty_catalogue :: "catalog_document \<Rightarrow> publication_error + unit" where
  "refuse_empty_catalogue catalog = (if catalog = [] then Inl EmptyCatalogue else Inr ())"

definition refuse_empty_tenant_data :: "tenant_document list \<Rightarrow> publication_error + unit" where
  "refuse_empty_tenant_data tenants =
     try_each (\<lambda>t. if tb_data t = [] then Inl (EmptyTenantData (tb_tenant t)) else Inr ()) tenants"

definition unbound_catalogue_entries ::
  "catalog_document \<Rightarrow> tenant_document list \<Rightarrow> (logical_resource_name \<times> logical_data_source_name) list" where
  "unbound_catalogue_entries catalog tenants =
     (if tenants = [] then []
      else map (\<lambda>(resource, definition). (resource, rdd_data_source definition))
        (filter (\<lambda>(_, definition).
             \<not> list_ex (\<lambda>t. list_ex (\<lambda>(logical, _). logical = rdd_data_source definition) (tb_data t)) tenants)
          catalog))"

definition refuse_unbound_catalogue_entries ::
  "catalog_document \<Rightarrow> tenant_document list \<Rightarrow> publication_error + unit" where
  "refuse_unbound_catalogue_entries catalog tenants =
     (case unbound_catalogue_entries catalog tenants of
        (resource, data_source) # _ \<Rightarrow> Inl (CatalogueEntryUnbound resource data_source)
      | [] \<Rightarrow> Inr ())"

definition declared_source :: "data_source_document list \<Rightarrow> data_source_id \<Rightarrow> bool" where
  "declared_source data_sources i = list_ex (\<lambda>d. ds_id d = i) data_sources"

definition refuse_dangling_data_sources ::
  "tenant_document list \<Rightarrow> data_source_document list \<Rightarrow> publication_error + unit" where
  "refuse_dangling_data_sources tenants data_sources =
     try_each (\<lambda>t. try_each (\<lambda>(logical, binding).
         if \<not> declared_source data_sources (bd_data_source binding)
         then Inl (DanglingDataSource (tb_tenant t) logical (bd_data_source binding)) else Inr ())
       (tb_data t)) tenants"

definition refuse_retired_data_source_still_bound ::
  "tenant_document list \<Rightarrow> data_source_document list \<Rightarrow> publication_error + unit" where
  "refuse_retired_data_source_still_bound tenants data_sources =
     try_each (\<lambda>t. try_each (\<lambda>(_, binding).
         if \<not> declared_source data_sources (bd_data_source binding)
         then Inl (RetiredDataSourceStillBound (bd_data_source binding) (tb_tenant t)) else Inr ())
       (tb_data t)) tenants"

definition refuse_unintended_emptying ::
  "document_kind \<Rightarrow> nat \<Rightarrow> nat \<Rightarrow> emptying \<Rightarrow> publication_error + unit" where
  "refuse_unintended_emptying document held_len incoming_len emptying =
     (if (held_len > 0 \<and> incoming_len = 0) \<and> emptying = NotIntended
      then Inl (EmptyingNotIntended document) else Inr ())"

definition validate_snapshot ::
  "runtime_snapshot \<Rightarrow> tenant_document list \<Rightarrow> data_source_document list \<Rightarrow> publication_error + unit" where
  "validate_snapshot s tenants_held data_sources_held =
     (let tenants = di_payload (snap_tenants s); data_sources = di_payload (snap_data_sources s);
          catalog = di_payload (snap_catalog s) in
      rbind (refuse_empty_catalogue catalog) (\<lambda>_.
      rbind (refuse_empty_tenant_data tenants) (\<lambda>_.
      rbind (refuse_unbound_catalogue_entries catalog tenants) (\<lambda>_.
      rbind (refuse_dangling_data_sources tenants data_sources) (\<lambda>_.
      rbind (refuse_retired_data_source_still_bound tenants_held data_sources) (\<lambda>_.
      rbind (refuse_unintended_emptying KindTenants (length tenants_held) (length tenants)
               (di_emptying (snap_tenants s))) (\<lambda>_.
        refuse_unintended_emptying KindDataSources (length data_sources_held) (length data_sources)
          (di_emptying (snap_data_sources s)))))))))"

section \<open>The verdict on one document\<close>

datatype document_outcome = Written | Unchanged

record held_payload =
  hp_revision :: document_revision
  hp_payload :: "string option"

definition publication_verdict ::
  "held_payload option \<Rightarrow> document_kind \<Rightarrow> document_revision \<Rightarrow> string
     \<Rightarrow> publication_error + document_outcome" where
  "publication_verdict held document revision payload =
     (case held of
        None \<Rightarrow> Inr Written
      | Some h \<Rightarrow>
          if revision < hp_revision h then Inl (StaleRevision document (hp_revision h) revision)
          else case hp_payload h of
              None \<Rightarrow> Inr Written
            | Some held_bytes \<Rightarrow>
                if revision > hp_revision h then Inr Written
                else if held_bytes = payload then Inr Unchanged
                else Inl (DivergentPayload document revision))"

definition held_at :: "held_document \<Rightarrow> document_revision option \<Rightarrow> held_payload option" where
  "held_at h recorded =
     map_option (\<lambda>revision. \<lparr> hp_revision = revision, hp_payload = hd_payload h \<rparr>)
       (case hd_manifest h of Some m \<Rightarrow> Some (dm_revision m) | None \<Rightarrow> recorded)"

record document_plan =
  dp_outcome :: document_outcome
  dp_bytes :: string
  dp_revision :: document_revision

definition decide_document ::
  "document_kind \<Rightarrow> held_payload option \<Rightarrow> document_revision \<Rightarrow> string + string
     \<Rightarrow> publication_error + document_plan" where
  "decide_document document held revision bytes =
     rbind (map_err (PubUnwritable document) bytes) (\<lambda>bytes.
     rbind (publication_verdict held document revision bytes) (\<lambda>outcome.
       Inr \<lparr> dp_outcome = outcome, dp_bytes = bytes, dp_revision = revision \<rparr>))"

section \<open>Resource revisions\<close>

definition same_content :: "('d \<Rightarrow> string + json) \<Rightarrow> 'd \<Rightarrow> 'd \<Rightarrow> bool" where
  "same_content to_value offered held =
     (case (to_value offered, to_value held) of
        (Inr a, Inr b) \<Rightarrow> json_eq a b
      | _ \<Rightarrow> False)"

definition advanced ::
  "('d \<Rightarrow> string + json) \<Rightarrow> 'd \<Rightarrow> binding_revision \<Rightarrow> (binding_revision \<times> 'd) option \<Rightarrow> binding_revision \<Rightarrow> bool" where
  "advanced to_value resource offered_revision held_copy floor =
     (offered_revision > floor
      \<or> (case held_copy of
           None \<Rightarrow> False
         | Some (held_revision, held_resource) \<Rightarrow>
             offered_revision = held_revision \<and> held_revision = floor
             \<and> same_content to_value resource held_resource))"

definition refuse_unadvanced ::
  "document_kind \<Rightarrow> ('d \<Rightarrow> string + json) \<Rightarrow> 'd list \<Rightarrow> 'd list
     \<Rightarrow> ('d \<Rightarrow> string \<times> binding_revision \<times> binding_revision option) \<Rightarrow> publication_error + unit" where
  "refuse_unadvanced document to_value held offered identity =
     (let held_map = map_of (rev (map (\<lambda>r. let (i, revision, _) = identity r in (i, (revision, r))) held)) in
      try_each (\<lambda>resource.
        let (i, offered_revision, published) = identity resource;
            held_copy = held_map i in
        case max (map_option fst held_copy) published of
          None \<Rightarrow> Inr ()
        | Some floor \<Rightarrow>
            if \<not> advanced to_value resource offered_revision held_copy floor
            then Inl (ResourceRevisionNotAdvanced document i floor offered_revision)
            else Inr ()) offered)"

definition refuse_removed_tenants :: "runtime_snapshot \<Rightarrow> tenant_document list \<Rightarrow> publication_error + unit" where
  "refuse_removed_tenants s tenants_held =
     (let offered = snap_tenants s in
      if di_payload offered = [] \<and> di_emptying offered = Intended then Inr ()
      else try_each (\<lambda>h. if \<not> list_ex (\<lambda>t. tb_tenant t = tb_tenant h) (di_payload offered)
                         then Inl (TenantRemoved (tb_tenant h) (tb_revision h)) else Inr ())
             tenants_held)"

definition data_source_revision_of ::
  "resource_history \<Rightarrow> data_source_document \<Rightarrow> string \<times> binding_revision \<times> binding_revision option" where
  "data_source_revision_of h d = (data_source_str (ds_id d), ds_revision d, map_of (rh_data_sources h) (ds_id d))"

definition tenant_revision_of ::
  "resource_history \<Rightarrow> tenant_document \<Rightarrow> string \<times> binding_revision \<times> binding_revision option" where
  "tenant_revision_of h t = (tenant_str (tb_tenant t), tb_revision t, map_of (rh_tenants h) (tb_tenant t))"

definition refuse_resource_changes ::
  "publisher_codec \<Rightarrow> runtime_snapshot \<Rightarrow> published_resources \<Rightarrow> publication_error + unit" where
  "refuse_resource_changes x s held =
     rbind (refuse_unadvanced KindDataSources (data_source_value x) (pub_data_sources held)
              (di_payload (snap_data_sources s)) (data_source_revision_of (pub_history held))) (\<lambda>_.
     rbind (refuse_unadvanced KindTenants (tenant_value x) (pub_tenants held)
              (di_payload (snap_tenants s)) (tenant_revision_of (pub_history held))) (\<lambda>_.
       refuse_removed_tenants s (pub_tenants held)))"

section \<open>The issuer registry\<close>

definition REGISTRY_SCHEMA_VERSION :: u32 where
  "REGISTRY_SCHEMA_VERSION = 1"

fun first_duplicate :: "string list \<Rightarrow> issuer_registration list \<Rightarrow> issuer_registration option" where
  "first_duplicate seen [] = None"
| "first_duplicate seen (r # rs) =
     (if ir_issuer r \<in> set seen then Some r else first_duplicate (ir_issuer r # seen) rs)"

text \<open>The derived order compares the issuer, then the tenant; sorting is stable.\<close>

definition sorted_registrations :: "issuer_registration list \<Rightarrow> issuer_registration list" where
  "sorted_registrations issuers = sort_key ir_issuer (sort_key ir_tenant issuers)"

definition IssuerRegistryDocument_new ::
  "registry_generation \<Rightarrow> issuer_registration list \<Rightarrow> registry_refusal + issuer_registry_document" where
  "IssuerRegistryDocument_new generation issuers =
     (let issuers = sorted_registrations issuers in
      case first_duplicate [] issuers of
        Some duplicate \<Rightarrow> Inl (DuplicateIssuer (ir_issuer duplicate))
      | None \<Rightarrow> Inr \<lparr> ird_schema_version = REGISTRY_SCHEMA_VERSION, ird_generation = generation,
                       ird_issuers = issuers \<rparr>)"

definition render_registry ::
  "publisher_codec \<Rightarrow> registry_generation \<Rightarrow> issuer_registration list
     \<Rightarrow> publication_error + issuer_registry_document \<times> string" where
  "render_registry x generation offered =
     rbind (map_err PubRegistry (IssuerRegistryDocument_new generation offered)) (\<lambda>document.
     rbind (map_err (PubUnwritable KindTenants) (to_canonical_bytes (pretty_registry x) document)) (\<lambda>bytes.
       Inr (document, bytes)))"

definition registry_held_generation :: "publisher_codec \<Rightarrow> string \<Rightarrow> publication_error + registry_generation" where
  "registry_held_generation x held =
     map_err (PubUnreadable KindTenants) (map_ok ird_generation (from_registry x held))"

definition registry_ahead ::
  "registry_generation option \<Rightarrow> registry_generation option \<Rightarrow> registry_generation option" where
  "registry_ahead generation_held committed =
     (case (generation_held, committed) of
        (Some h, Some c) \<Rightarrow> if h > c then Some h else None
      | (h, None) \<Rightarrow> h
      | (None, Some _) \<Rightarrow> None)"

definition fresh_generation :: "registry_generation option \<Rightarrow> publication_error + registry_generation" where
  "fresh_generation highest =
     (case highest of
        None \<Rightarrow> Inr registry_FIRST
      | Some h \<Rightarrow> ok_or (PubRegistry (GenerationExhausted h)) (registry_next h))"

definition generation_for ::
  "publisher_codec \<Rightarrow> recorded_registry option \<Rightarrow> string option \<Rightarrow> issuer_registration list
     \<Rightarrow> publication_error + registry_generation" where
  "generation_for x recorded held offered =
     rbind (transpose_opt (registry_held_generation x) held) (\<lambda>generation_held.
       let committed = map_option rr_generation recorded;
           ahead = registry_ahead generation_held committed;
           fresh = fresh_generation (max generation_held committed);
           from_ahead = (case (ahead, held) of
               (Some generation, Some bytes_held) \<Rightarrow>
                 rbind (render_registry x generation offered) (\<lambda>(_, bytes).
                   if bytes = bytes_held then Inr generation else fresh)
             | _ \<Rightarrow> fresh)
       in case (recorded, ahead) of
            (Some r, None) \<Rightarrow>
              rbind (render_registry x (rr_generation r) offered) (\<lambda>(_, bytes).
                if digest_hex x bytes = rr_sha256 r then Inr (rr_generation r) else from_ahead)
          | _ \<Rightarrow> from_ahead)"

record registry_plan =
  rp_outcome :: document_outcome
  rp_document :: issuer_registry_document
  rp_bytes :: string

definition registry_recorded :: "publisher_codec \<Rightarrow> registry_plan \<Rightarrow> recorded_registry" where
  "registry_recorded x p =
     \<lparr> rr_generation = ird_generation (rp_document p), rr_sha256 = digest_hex x (rp_bytes p) \<rparr>"

definition decide_registry ::
  "publisher_codec \<Rightarrow> recorded_registry option \<Rightarrow> string option \<Rightarrow> runtime_snapshot
     \<Rightarrow> publication_error + registry_plan option" where
  "decide_registry x recorded held s =
     (case snap_registry s of
        None \<Rightarrow>
          (case recorded of
             Some r \<Rightarrow> Inl (PubRegistry (RegistryWithdrawn (rr_generation r)))
           | None \<Rightarrow> Inr None)
      | Some offered \<Rightarrow>
          (let bound = map tb_tenant (di_payload (snap_tenants s)) in
           case List.find (\<lambda>r. ir_tenant r \<notin> set bound) offered of
             Some unbound \<Rightarrow> Inl (PubRegistry (TenantUnbound (ir_issuer unbound) (ir_tenant unbound)))
           | None \<Rightarrow>
               rbind (generation_for x recorded held offered) (\<lambda>generation.
               rbind (render_registry x generation offered) (\<lambda>(document, bytes).
                 Inr (Some \<lparr> rp_outcome = (if held = Some bytes then Unchanged else Written),
                             rp_document = document, rp_bytes = bytes \<rparr>)))))"

section \<open>The record, and the whole plan\<close>

record record_stamp =
  stamp_generation :: u64
  stamp_sha256 :: record_digest

record record_plan =
  rcp_outcome :: document_outcome
  rcp_record :: publication_record
  rcp_bytes :: string
  rcp_stamp :: record_stamp

definition recorded_of_plans ::
  "publisher_codec \<Rightarrow> document_plan \<Rightarrow> document_plan \<Rightarrow> document_plan \<Rightarrow> recorded_documents" where
  "recorded_of_plans x data_sources catalog tenants =
     \<lparr> rds_tenants = RecordedDocument_of x (dp_revision tenants) (dp_bytes tenants),
       rds_data_sources = RecordedDocument_of x (dp_revision data_sources) (dp_bytes data_sources),
       rds_catalog = RecordedDocument_of x (dp_revision catalog) (dp_bytes catalog) \<rparr>"

definition decide_record ::
  "publisher_codec \<Rightarrow> (publication_record \<times> string) option \<Rightarrow> document_plan \<Rightarrow> document_plan \<Rightarrow> document_plan
     \<Rightarrow> resource_history \<Rightarrow> registry_plan option \<Rightarrow> publication_error + record_plan" where
  "decide_record x held data_sources catalog tenants resources registry =
     (let registry = map_option (registry_recorded x) registry;
          documents = recorded_of_plans x data_sources catalog tenants;
          at = (\<lambda>generation. with_registry (PublicationRecord_new generation documents resources) registry);
          (outcome, rec, bytes_held) =
            (case held of
               Some (h, bytes_held) \<Rightarrow>
                 if at (pr_generation h) = h then (Unchanged, h, Some bytes_held)
                 else (Written, at (saturating_add (pr_generation h) 1), None)
             | None \<Rightarrow> (Written, at 1, None))
      in rbind (map_err (PubUnwritable KindTenants) (to_canonical_bytes (pretty_record x) rec)) (\<lambda>bytes.
           Inr \<lparr> rcp_outcome = outcome, rcp_record = rec, rcp_bytes = bytes,
                 rcp_stamp = \<lparr> stamp_generation = pr_generation rec,
                   stamp_sha256 = pc_sha256 x (case bytes_held of None \<Rightarrow> bytes | Some b \<Rightarrow> b) \<rparr> \<rparr>))"

record publication_plan =
  plan_data_sources :: document_plan
  plan_catalog :: document_plan
  plan_tenants :: document_plan
  plan_registry :: "registry_plan option"
  plan_record :: record_plan

definition plan_publication ::
  "publisher_codec \<Rightarrow> runtime_snapshot \<Rightarrow> held_documents \<Rightarrow> publication_error + publication_plan" where
  "plan_publication x s h =
     rbind (transpose_opt (parse_held x) (held_record h)) (\<lambda>record_held.
     rbind (held_resources x h) (\<lambda>published.
     rbind (validate_snapshot s (pub_tenants published) (pub_data_sources published)) (\<lambda>_.
       let recorded = map_option pr_documents record_held in
     rbind (decide_document KindDataSources
              (held_at (held_data_sources h) (map_option (rcd_revision \<circ> rds_data_sources) recorded))
              (di_revision (snap_data_sources s))
              (data_sources_canonical_json x (di_payload (snap_data_sources s)))) (\<lambda>data_sources.
     rbind (decide_document KindCatalog
              (held_at (held_catalog h) (map_option (rcd_revision \<circ> rds_catalog) recorded))
              (di_revision (snap_catalog s))
              (to_canonical_bytes (pretty_catalog x) (di_payload (snap_catalog s)))) (\<lambda>catalog.
     rbind (decide_document KindTenants
              (held_at (held_tenants h) (map_option (rcd_revision \<circ> rds_tenants) recorded))
              (di_revision (snap_tenants s))
              (tenants_canonical_json x (di_payload (snap_tenants s)))) (\<lambda>tenants.
     rbind (refuse_resource_changes x s published) (\<lambda>_.
       let history = history_including (pub_history published) (di_payload (snap_tenants s))
                       (di_payload (snap_data_sources s)) in
     rbind (decide_registry x (Option.bind record_held pr_registry) (held_registry h) s) (\<lambda>registry.
     rbind (decide_record x
              (case (record_held, held_record h) of (Some r, Some b) \<Rightarrow> Some (r, b) | _ \<Rightarrow> None)
              data_sources catalog tenants history registry) (\<lambda>rec.
       Inr \<lparr> plan_data_sources = data_sources, plan_catalog = catalog, plan_tenants = tenants,
             plan_registry = registry, plan_record = rec \<rparr>)))))))))"

end
