(* ===== verification/Publication.thy ===== *)
theory Publication
  imports Publication_Plan "HOL-Library.Sublist"
begin

text \<open>
  The filesystem target of a publication (\<open>crates/fabric-runtime-publication/src/filesystem\<close>,
  \<open>completeness/\<close>): what is held is read, the plan of \<open>Publication_Plan\<close> is made, and its files are
  replaced one after the other, payload before manifest, data sources, catalogue, tenants, registry,
  and the record last. A replacement (\<open>atomic_write\<close>, the protocol of the theory
  \<open>Atomic_Replace\<close>) takes effect whole or not at all; \<open>faults\<close> says of each file whether it fails, and
  whether before or after the new bytes are in place. Staging files and the lock file are outside the
  state. The theorems are about every such run, so about a publisher stopped at any point.
\<close>

section \<open>The files of a target\<close>

datatype target_file =
    DataSourcesPayload | DataSourcesManifest
  | CatalogPayload | CatalogManifest
  | TenantsPayload | TenantsManifest
  | RegistryFile | RecordFile

type_synonym target = "target_file \<Rightarrow> file_read"

datatype write_fault = WriteOk | FailsBefore string | FailsAfter string

fun payload_file :: "document_kind \<Rightarrow> target_file" where
  "payload_file KindTenants = TenantsPayload"
| "payload_file KindDataSources = DataSourcesPayload"
| "payload_file KindCatalog = CatalogPayload"

fun manifest_file :: "document_kind \<Rightarrow> target_file" where
  "manifest_file KindTenants = TenantsManifest"
| "manifest_file KindDataSources = DataSourcesManifest"
| "manifest_file KindCatalog = CatalogManifest"

fun kind_debug :: "document_kind \<Rightarrow> string" where
  "kind_debug KindTenants = ''Tenants''"
| "kind_debug KindDataSources = ''DataSources''"
| "kind_debug KindCatalog = ''Catalog''"

section \<open>Reading what is held\<close>

fun read_target :: "file_read \<Rightarrow> document_kind \<Rightarrow> publication_error + string option" where
  "read_target (FileContents bytes) document = Inr (Some bytes)"
| "read_target (FileMissing _) document = Inr None"
| "read_target (FileUnreadable cause) document = Inl (PubUnreadable document cause)"

definition read_held_manifest ::
  "publisher_codec \<Rightarrow> file_read \<Rightarrow> document_kind \<Rightarrow> publication_error + document_manifest option" where
  "read_held_manifest x f document =
     rbind (read_target f document) (\<lambda>bytes.
       case bytes of
         None \<Rightarrow> Inr None
       | Some bytes \<Rightarrow>
           rbind (map_err (PubUnreadable document) (from_manifest x bytes)) (\<lambda>manifest.
             if dm_document manifest = document then Inr (Some manifest)
             else Inl (PubUnreadable document (''manifest claims to describe '' @ kind_debug (dm_document manifest)
                    @ '', but was read as '' @ kind_debug document))))"

definition read_held_document ::
  "publisher_codec \<Rightarrow> target \<Rightarrow> document_kind \<Rightarrow> publication_error + held_document" where
  "read_held_document x files document =
     rbind (read_held_manifest x (files (manifest_file document)) document) (\<lambda>manifest.
     rbind (read_target (files (payload_file document)) document) (\<lambda>payload.
       Inr \<lparr> hd_manifest = manifest, hd_payload = payload \<rparr>))"

definition read_held :: "publisher_codec \<Rightarrow> target \<Rightarrow> publication_error + held_documents" where
  "read_held x files =
     rbind (read_held_document x files KindTenants) (\<lambda>tenants.
     rbind (read_held_document x files KindDataSources) (\<lambda>data_sources.
     rbind (read_held_document x files KindCatalog) (\<lambda>catalog.
     rbind (read_target (files RecordFile) KindTenants) (\<lambda>rec.
     rbind (read_target (files RegistryFile) KindTenants) (\<lambda>registry.
       Inr \<lparr> held_tenants = tenants, held_data_sources = data_sources, held_catalog = catalog,
             held_record = rec, held_registry = registry \<rparr>)))))"

section \<open>Writing\<close>

definition atomic_write ::
  "(target_file \<Rightarrow> write_fault) \<Rightarrow> target_file \<Rightarrow> document_kind \<Rightarrow> string \<Rightarrow> target
     \<Rightarrow> (publication_error + unit) \<times> target" where
  "atomic_write faults f document bytes files =
     (case faults f of
        WriteOk \<Rightarrow> (Inr (), files(f := FileContents bytes))
      | FailsBefore cause \<Rightarrow> (Inl (PubUnwritable document cause), files)
      | FailsAfter cause \<Rightarrow> (Inl (PubUnwritable document cause), files(f := FileContents bytes)))"

definition and_then ::
  "('e + 'a) \<times> target \<Rightarrow> ('a \<Rightarrow> target \<Rightarrow> ('e + 'b) \<times> target) \<Rightarrow> ('e + 'b) \<times> target" where
  "and_then r k = (case r of (Inl e, files) \<Rightarrow> (Inl e, files) | (Inr a, files) \<Rightarrow> k a files)"

definition write_if_needed ::
  "publisher_codec \<Rightarrow> (target_file \<Rightarrow> write_fault) \<Rightarrow> document_kind \<Rightarrow> document_plan \<Rightarrow> target
     \<Rightarrow> (publication_error + unit) \<times> target" where
  "write_if_needed x faults document p files =
     (if dp_outcome p = Unchanged then (Inr (), files)
      else and_then (atomic_write faults (payload_file document) document (dp_bytes p) files) (\<lambda>_ files.
        case to_canonical_bytes (pretty_manifest x) (DocumentManifest_new document (dp_revision p)) of
          Inl cause \<Rightarrow> (Inl (PubUnwritable document cause), files)
        | Inr manifest \<Rightarrow> atomic_write faults (manifest_file document) document manifest files))"

definition write_registry_if_needed ::
  "(target_file \<Rightarrow> write_fault) \<Rightarrow> registry_plan \<Rightarrow> target \<Rightarrow> (publication_error + unit) \<times> target" where
  "write_registry_if_needed faults p files =
     (if rp_outcome p = Unchanged then (Inr (), files)
      else atomic_write faults RegistryFile KindTenants (rp_bytes p) files)"

definition write_record_if_needed ::
  "(target_file \<Rightarrow> write_fault) \<Rightarrow> record_plan \<Rightarrow> target \<Rightarrow> (publication_error + unit) \<times> target" where
  "write_record_if_needed faults p files =
     (if rcp_outcome p = Unchanged then (Inr (), files)
      else atomic_write faults RecordFile KindTenants (rcp_bytes p) files)"

definition write_plan ::
  "publisher_codec \<Rightarrow> (target_file \<Rightarrow> write_fault) \<Rightarrow> publication_plan \<Rightarrow> target
     \<Rightarrow> (publication_error + unit) \<times> target" where
  "write_plan x faults p files =
     and_then (write_if_needed x faults KindDataSources (plan_data_sources p) files) (\<lambda>_ files.
     and_then (write_if_needed x faults KindCatalog (plan_catalog p) files) (\<lambda>_ files.
     and_then (write_if_needed x faults KindTenants (plan_tenants p) files) (\<lambda>_ files.
     and_then (case plan_registry p of
                 None \<Rightarrow> (Inr (), files) | Some r \<Rightarrow> write_registry_if_needed faults r files) (\<lambda>_ files.
       write_record_if_needed faults (plan_record p) files))))"

record registry_outcome =
  ro_outcome :: document_outcome
  ro_generation :: registry_generation

record publication_report =
  rep_tenants :: document_outcome
  rep_data_sources :: document_outcome
  rep_catalog :: document_outcome
  rep_registry :: "registry_outcome option"
  rep_record :: record_stamp

definition report_of :: "publication_plan \<Rightarrow> publication_report" where
  "report_of p =
     \<lparr> rep_tenants = dp_outcome (plan_tenants p), rep_data_sources = dp_outcome (plan_data_sources p),
       rep_catalog = dp_outcome (plan_catalog p),
       rep_registry = map_option (\<lambda>r. \<lparr> ro_outcome = rp_outcome r,
         ro_generation = ird_generation (rp_document r) \<rparr>) (plan_registry p),
       rep_record = rcp_stamp (plan_record p) \<rparr>"

text \<open>\<open>lock\<close> is what taking the lock came to: a cause when it could not be taken.\<close>

definition publish ::
  "publisher_codec \<Rightarrow> string option \<Rightarrow> (target_file \<Rightarrow> write_fault) \<Rightarrow> runtime_snapshot \<Rightarrow> target
     \<Rightarrow> (publication_error + publication_report) \<times> target" where
  "publish x lock faults s files =
     (case lock of
        Some cause \<Rightarrow> (Inl (PubUnwritable KindTenants cause), files)
      | None \<Rightarrow>
          (case rbind (read_held x files) (plan_publication x s) of
             Inl e \<Rightarrow> (Inl e, files)
           | Inr p \<Rightarrow> and_then (write_plan x faults p files) (\<lambda>_ files. (Inr (report_of p), files))))"

section \<open>Completeness\<close>

datatype recorded_part = PartTenants | PartDataSources | PartCatalog | PartIssuerRegistry

datatype gap_kind = PayloadMissing | DigestMismatch | ManifestMissing | ManifestUnreadable | RevisionMismatch

datatype unobserved_reason = Unavailable | Unstable | RecordUnreadable

datatype publication_completeness =
    Complete record_stamp
  | Incomplete record_stamp "(recorded_part \<times> gap_kind) list"
  | Unpublished
  | Unobserved unobserved_reason

record observed_document =
  od_manifest :: "string option"
  od_payload :: "string option"

record target_observation =
  ob_record :: "string option"
  ob_tenants :: observed_document
  ob_data_sources :: observed_document
  ob_catalog :: observed_document
  ob_registry :: "string option"

definition payload_gap ::
  "publisher_codec \<Rightarrow> recorded_part \<Rightarrow> string option \<Rightarrow> string \<Rightarrow> (recorded_part \<times> gap_kind) list" where
  "payload_gap x part payload digest =
     (case payload of
        None \<Rightarrow> [(part, PayloadMissing)]
      | Some bytes \<Rightarrow> if digest_hex x bytes \<noteq> digest then [(part, DigestMismatch)] else [])"

definition document_gaps ::
  "publisher_codec \<Rightarrow> recorded_part \<Rightarrow> document_kind \<Rightarrow> observed_document \<Rightarrow> recorded_document
     \<Rightarrow> (recorded_part \<times> gap_kind) list" where
  "document_gaps x part kind observed recorded =
     (case od_manifest observed of
        None \<Rightarrow> [(part, ManifestMissing)]
      | Some bytes \<Rightarrow>
          (case Option.bind (ok (from_manifest x bytes))
                  (\<lambda>m. if dm_document m = kind then Some m else None) of
             None \<Rightarrow> [(part, ManifestUnreadable)]
           | Some m \<Rightarrow> if dm_revision m \<noteq> rcd_revision recorded then [(part, RevisionMismatch)] else []))
     @ payload_gap x part (od_payload observed) (rcd_sha256 recorded)"

definition assess :: "publisher_codec \<Rightarrow> target_observation \<Rightarrow> string option \<Rightarrow> publication_completeness" where
  "assess x observed record_after =
     (if ob_record observed \<noteq> record_after then Unobserved Unstable
      else case ob_record observed of
          None \<Rightarrow> Unpublished
        | Some bytes \<Rightarrow>
            (case from_record x bytes of
               Inl _ \<Rightarrow> Unobserved RecordUnreadable
             | Inr rec \<Rightarrow>
                 (let documents = pr_documents rec;
                      gaps = document_gaps x PartTenants KindTenants (ob_tenants observed) (rds_tenants documents)
                        @ document_gaps x PartDataSources KindDataSources (ob_data_sources observed)
                            (rds_data_sources documents)
                        @ document_gaps x PartCatalog KindCatalog (ob_catalog observed) (rds_catalog documents)
                        @ (case pr_registry rec of
                             None \<Rightarrow> []
                           | Some r \<Rightarrow> payload_gap x PartIssuerRegistry (ob_registry observed) (rr_sha256 r));
                      stamp = \<lparr> stamp_generation = pr_generation rec, stamp_sha256 = pc_sha256 x bytes \<rparr>
                  in if gaps = [] then Complete stamp else Incomplete stamp gaps)))"

definition observe_document :: "target \<Rightarrow> document_kind \<Rightarrow> string + observed_document" where
  "observe_document files kind =
     (let read = (\<lambda>f. map_err (\<lambda>_. ''unavailable'') (read_target (files f) kind)) in
      rbind (read (manifest_file kind)) (\<lambda>manifest.
      rbind (read (payload_file kind)) (\<lambda>payload.
        Inr \<lparr> od_manifest = manifest, od_payload = payload \<rparr>)))"

definition observe_target :: "target \<Rightarrow> string + target_observation" where
  "observe_target files =
     (let read = (\<lambda>f. map_err (\<lambda>_. ''unavailable'') (read_target (files f) KindTenants)) in
      rbind (read RecordFile) (\<lambda>rec.
      rbind (observe_document files KindTenants) (\<lambda>tenants.
      rbind (observe_document files KindDataSources) (\<lambda>data_sources.
      rbind (observe_document files KindCatalog) (\<lambda>catalog.
      rbind (read RegistryFile) (\<lambda>registry.
        Inr \<lparr> ob_record = rec, ob_tenants = tenants, ob_data_sources = data_sources, ob_catalog = catalog,
              ob_registry = registry \<rparr>))))))"

text \<open>\<open>after\<close> is the record file as it is when it is read again.\<close>

definition inspect_target :: "publisher_codec \<Rightarrow> target \<Rightarrow> file_read \<Rightarrow> publication_completeness" where
  "inspect_target x files after =
     (case rbind (observe_target files)
             (\<lambda>ob. map_ok (\<lambda>rec. (ob, rec)) (map_err (\<lambda>_. ''unavailable'') (read_target after KindTenants))) of
        Inl _ \<Rightarrow> Unobserved Unavailable
      | Inr (observed, rec) \<Rightarrow> assess x observed rec)"

section \<open>Every run leaves old bytes or planned bytes\<close>

type_synonym change = "target_file \<times> string"

definition document_changes :: "publisher_codec \<Rightarrow> document_kind \<Rightarrow> document_plan \<Rightarrow> change list" where
  "document_changes x document p =
     (if dp_outcome p = Unchanged then []
      else (payload_file document, dp_bytes p)
        # (case to_canonical_bytes (pretty_manifest x) (DocumentManifest_new document (dp_revision p)) of
             Inl _ \<Rightarrow> [] | Inr manifest \<Rightarrow> [(manifest_file document, manifest)]))"

definition document_part :: "publisher_codec \<Rightarrow> publication_plan \<Rightarrow> change list" where
  "document_part x p =
     document_changes x KindDataSources (plan_data_sources p)
       @ document_changes x KindCatalog (plan_catalog p) @ document_changes x KindTenants (plan_tenants p)
       @ (case plan_registry p of
            None \<Rightarrow> [] | Some r \<Rightarrow> if rp_outcome r = Unchanged then [] else [(RegistryFile, rp_bytes r)])"

definition record_part :: "publication_plan \<Rightarrow> change list" where
  "record_part p =
     (if rcp_outcome (plan_record p) = Unchanged then [] else [(RecordFile, rcp_bytes (plan_record p))])"

definition put :: "change list \<Rightarrow> target \<Rightarrow> target" where
  "put changes files = fold (\<lambda>(f, bytes) t. t(f := FileContents bytes)) changes files"

text \<open>What a write may do to the files: some of \<open>changes\<close>, all of them when it succeeds.\<close>

definition writes_within :: "change list \<Rightarrow> ('e + 'a) \<times> target \<Rightarrow> target \<Rightarrow> bool" where
  "writes_within changes out files =
     (\<exists>n \<le> length changes. snd out = put (take n changes) files
        \<and> (is_ok (fst out) \<longrightarrow> n = length changes))"

lemma put_simps [simp]:
  "put [] files = files" "put ((f, bytes) # changes) files = put changes (files(f := FileContents bytes))"
  by (simp_all add: put_def)

lemma writes_within_none: "writes_within [] (r, files) files"
  by (simp add: writes_within_def)

lemma writes_within_write: "writes_within [(f, bytes)] (atomic_write faults f document bytes files) files"
proof (cases "faults f")
  case (FailsBefore c)
  then show ?thesis by (auto simp: writes_within_def atomic_write_def put_def intro: exI[of _ 0])
qed (auto simp: writes_within_def atomic_write_def put_def intro!: exI[of _ 1])

lemma writes_within_then:
  assumes "writes_within changes out files"
    and "\<And>a files'. writes_within rest (k a files') files'"
  shows "writes_within (changes @ rest) (and_then out k) files"
proof -
  obtain r files' where out: "out = (r, files')" by (cases out)
  from assms(1) out obtain n where n: "n \<le> length changes" "files' = put (take n changes) files"
    "is_ok r \<longrightarrow> n = length changes" by (auto simp: writes_within_def)
  show ?thesis
  proof (cases r)
    case (Inl e)
    with out n show ?thesis by (auto simp: writes_within_def and_then_def intro!: exI[of _ n])
  next
    case (Inr a)
    from assms(2)[of a files'] obtain m where m: "m \<le> length rest"
      "snd (k a files') = put (take m rest) files'" "is_ok (fst (k a files')) \<longrightarrow> m = length rest"
      by (auto simp: writes_within_def)
    with out n Inr show ?thesis
      by (auto simp: writes_within_def and_then_def put_def intro!: exI[of _ "length changes + m"])
  qed
qed

lemma write_if_needed_within:
  "writes_within (document_changes x document p) (write_if_needed x faults document p files) files"
proof (cases "dp_outcome p = Unchanged")
  case False
  let ?manifest = "to_canonical_bytes (pretty_manifest x) (DocumentManifest_new document (dp_revision p))"
  have "writes_within (case ?manifest of Inl _ \<Rightarrow> [] | Inr m \<Rightarrow> [(manifest_file document, m)])
      (case ?manifest of Inl cause \<Rightarrow> (Inl (PubUnwritable document cause), t)
         | Inr m \<Rightarrow> atomic_write faults (manifest_file document) document m t) t" for t
    by (cases ?manifest) (simp_all add: writes_within_write writes_within_none)
  from writes_within_then[OF writes_within_write this] False show ?thesis
    by (simp add: write_if_needed_def document_changes_def)
qed (simp add: write_if_needed_def document_changes_def writes_within_none)

lemma write_plan_within: "writes_within (document_part x p @ record_part p) (write_plan x faults p files) files"
proof -
  have registry: "writes_within (case plan_registry p of
        None \<Rightarrow> [] | Some r \<Rightarrow> if rp_outcome r = Unchanged then [] else [(RegistryFile, rp_bytes r)])
      (case plan_registry p of None \<Rightarrow> (Inr (), t) | Some r \<Rightarrow> write_registry_if_needed faults r t) t" for t
    by (simp add: write_registry_if_needed_def writes_within_none writes_within_write split: option.split)
  have rec: "writes_within (record_part p) (write_record_if_needed faults (plan_record p) t) t" for t
    by (simp add: record_part_def write_record_if_needed_def writes_within_none writes_within_write)
  show ?thesis
    unfolding write_plan_def document_part_def append_assoc
    by (intro writes_within_then write_if_needed_within registry rec)
qed

lemma put_eq:
  "distinct (map fst changes) \<Longrightarrow>
     put changes files f = (case map_of changes f of None \<Rightarrow> files f | Some bytes \<Rightarrow> FileContents bytes)"
proof (induction changes arbitrary: files)
  case (Cons c changes)
  obtain g bytes where c: "c = (g, bytes)" by (cases c)
  have "map_of changes g = None" using Cons.prems c by (auto simp: map_of_eq_None_iff)
  moreover have "distinct (map fst changes)" using Cons.prems by simp
  ultimately show ?case unfolding c put_simps by (simp add: Cons.IH split: option.split)
qed simp

text \<open>The order the files are written in.\<close>

definition write_order :: "target_file list" where
  "write_order =
     [DataSourcesPayload, DataSourcesManifest, CatalogPayload, CatalogManifest,
      TenantsPayload, TenantsManifest, RegistryFile]"

lemma document_changes_order:
  "subseq (map fst (document_changes x d p)) [payload_file d, manifest_file d]"
  by (simp add: document_changes_def split: sum.split)

lemma document_part_order: "subseq (map fst (document_part x p)) write_order"
proof -
  have registry: "subseq (map fst (case plan_registry p of
        None \<Rightarrow> [] | Some r \<Rightarrow> if rp_outcome r = Unchanged then [] else [(RegistryFile, rp_bytes r)]))
      [RegistryFile]"
    by (simp split: option.split)
  have order: "write_order = [payload_file KindDataSources, manifest_file KindDataSources]
      @ [payload_file KindCatalog, manifest_file KindCatalog]
      @ [payload_file KindTenants, manifest_file KindTenants] @ [RegistryFile]"
    by (simp add: write_order_def)
  show ?thesis
    unfolding document_part_def map_append order
    by (intro list_emb_append_mono document_changes_order registry)
qed

lemma plan_changes_order: "subseq (map fst (document_part x p @ record_part p)) (write_order @ [RecordFile])"
  unfolding map_append
  by (rule list_emb_append_mono[OF document_part_order]) (simp add: record_part_def)

lemma plan_changes_distinct: "distinct (map fst (document_part x p @ record_part p))"
proof -
  obtain N where "map fst (document_part x p @ record_part p) = nths (write_order @ [RecordFile]) N"
    using plan_changes_order subseq_conv_nths by metis
  moreover have "distinct (write_order @ [RecordFile])" by (simp add: write_order_def)
  ultimately show ?thesis by (metis distinct_nthsI)
qed

lemma record_not_in_documents: "RecordFile \<notin> set (map fst (document_part x p))"
proof
  assume "RecordFile \<in> set (map fst (document_part x p))"
  then have "subseq [RecordFile] write_order"
    using document_part_order subseq_order.trans by (metis subseq_singleton_left)
  then show False by (simp add: write_order_def)
qed

text \<open>
  The three facts about any run: a file holds its old bytes or the planned ones; a record that
  changed was written after everything else; and success means all of it was written.
\<close>

lemma publish_run:
  assumes "publish x lock faults s files = (r, files')"
  shows "files' = files \<and> \<not> is_ok r
    \<or> (\<exists>p h. read_held x files = Inr h \<and> plan_publication x s h = Inr p
        \<and> (\<forall>f. files' f = files f \<or> files' f = put (document_part x p @ record_part p) files f)
        \<and> (files' RecordFile \<noteq> files RecordFile \<or> is_ok r \<longrightarrow>
             files' = put (document_part x p @ record_part p) files)
        \<and> (is_ok r \<longrightarrow> r = Inr (report_of p)))"
proof (cases "lock = None \<and> is_ok (rbind (read_held x files) (plan_publication x s))")
  case False
  with assms show ?thesis
    by (auto simp: publish_def result_simps split: option.splits sum.splits)
next
  case True
  then obtain h p where p: "lock = None" "read_held x files = Inr h" "plan_publication x s h = Inr p"
    by (auto simp: result_simps)
  let ?changes = "document_part x p @ record_part p"
  from write_plan_within[of x p faults files] obtain n where n: "n \<le> length ?changes"
    "snd (write_plan x faults p files) = put (take n ?changes) files"
    "is_ok (fst (write_plan x faults p files)) \<longrightarrow> n = length ?changes"
    by (auto simp: writes_within_def)
  have run: "files' = put (take n ?changes) files" "is_ok r \<longrightarrow> n = length ?changes \<and> r = Inr (report_of p)"
    using assms n(2,3) p by (auto simp: publish_def and_then_def result_simps split: prod.splits sum.splits)
  have taken: "distinct (map fst (take n ?changes))"
    using plan_changes_distinct[of x p] by (metis distinct_take take_map)
  have each: "files' f = files f \<or> files' f = put ?changes files f" for f
  proof (cases "map_of (take n ?changes) f")
    case (Some bytes)
    then have "map_of ?changes f = Some bytes"
      by (meson in_set_takeD map_of_SomeD map_of_eq_Some_iff plan_changes_distinct)
    with Some show ?thesis
      unfolding run(1) put_eq[OF taken] put_eq[OF plan_changes_distinct] by simp
  qed (simp only: run(1) put_eq[OF taken] option.case simp_thms)
  have "n = length ?changes" if "files' RecordFile \<noteq> files RecordFile"
  proof (rule ccontr)
    assume "n \<noteq> length ?changes"
    with n(1) have "n \<le> length (document_part x p)"
      by (auto simp: record_part_def split: if_splits)
    then have "take n ?changes = take n (document_part x p)" by simp
    then have "RecordFile \<notin> fst ` set (take n ?changes)"
      using record_not_in_documents[of x p] set_take_subset[of n "document_part x p"] by auto
    then have "map_of (take n ?changes) RecordFile = None" by (rule iffD2[OF map_of_eq_None_iff])
    then have "files' RecordFile = files RecordFile"
      by (simp only: run(1) put_eq[OF taken] option.case)
    with that show False ..
  qed
  then have all: "files' = put ?changes files" if "files' RecordFile \<noteq> files RecordFile \<or> is_ok r"
    using that run by (metis order_refl take_all)
  have "\<forall>f. files' f = files f \<or> files' f = put ?changes files f" using each by blast
  moreover have "is_ok r \<longrightarrow> r = Inr (report_of p)" using run(2) by blast
  ultimately show ?thesis using p(2,3) all by blast
qed

section \<open>What a plan decides\<close>

fun plan_for :: "publication_plan \<Rightarrow> document_kind \<Rightarrow> document_plan" where
  "plan_for p KindTenants = plan_tenants p"
| "plan_for p KindDataSources = plan_data_sources p"
| "plan_for p KindCatalog = plan_catalog p"

fun held_for :: "held_documents \<Rightarrow> document_kind \<Rightarrow> held_document" where
  "held_for h KindTenants = held_tenants h"
| "held_for h KindDataSources = held_data_sources h"
| "held_for h KindCatalog = held_catalog h"

lemma publication_verdict_Unchanged:
  "publication_verdict held document revision payload = Inr Unchanged \<longleftrightarrow>
     held = Some \<lparr> hp_revision = revision, hp_payload = Some payload \<rparr>"
  by (cases held; cases "the held") (auto simp: publication_verdict_def split: option.splits)

lemma decide_document_Unchanged:
  assumes "decide_document document (held_at h recorded) revision bytes = Inr d" "dp_outcome d = Unchanged"
  shows "hd_payload h = Some (dp_bytes d)"
    and "\<And>m. hd_manifest h = Some m \<Longrightarrow> dm_revision m = dp_revision d"
  using assms by (auto simp: decide_document_def publication_verdict_Unchanged held_at_def result_simps split: option.splits)

lemma plan_publication_steps:
  assumes "plan_publication x s h = Inr p"
  obtains record_held published where
    "transpose_opt (parse_held x) (held_record h) = Inr record_held"
    "held_resources x h = Inr published"
    "validate_snapshot s (pub_tenants published) (pub_data_sources published) = Inr ()"
    "decide_document KindDataSources (held_at (held_data_sources h)
       (map_option (rcd_revision \<circ> rds_data_sources) (map_option pr_documents record_held)))
       (di_revision (snap_data_sources s)) (data_sources_canonical_json x (di_payload (snap_data_sources s)))
       = Inr (plan_data_sources p)"
    "decide_document KindCatalog (held_at (held_catalog h)
       (map_option (rcd_revision \<circ> rds_catalog) (map_option pr_documents record_held)))
       (di_revision (snap_catalog s)) (to_canonical_bytes (pretty_catalog x) (di_payload (snap_catalog s)))
       = Inr (plan_catalog p)"
    "decide_document KindTenants (held_at (held_tenants h)
       (map_option (rcd_revision \<circ> rds_tenants) (map_option pr_documents record_held)))
       (di_revision (snap_tenants s)) (tenants_canonical_json x (di_payload (snap_tenants s)))
       = Inr (plan_tenants p)"
    "refuse_resource_changes x s published = Inr ()"
    "decide_registry x (Option.bind record_held pr_registry) (held_registry h) s = Inr (plan_registry p)"
    "decide_record x (case (record_held, held_record h) of (Some r, Some b) \<Rightarrow> Some (r, b) | _ \<Rightarrow> None)
       (plan_data_sources p) (plan_catalog p) (plan_tenants p)
       (history_including (pub_history published) (di_payload (snap_tenants s)) (di_payload (snap_data_sources s)))
       (plan_registry p) = Inr (plan_record p)"
proof -
  from assms show thesis
    unfolding plan_publication_def rbind_Inr Let_def
    by (elim exE conjE) (drule sum.inject(2)[THEN iffD1], rule that; force)
qed

lemma plan_publication_documents:
  assumes "plan_publication x s h = Inr p"
  shows "\<exists>recorded revision bytes. decide_document d (held_at (held_for h d) recorded) revision bytes = Inr (plan_for p d)"
  by (rule plan_publication_steps[OF assms], cases d) (simp; blast)+

lemma plan_publication_record:
  assumes "plan_publication x s h = Inr p"
  obtains record_held resources where
    "decide_record x record_held (plan_data_sources p) (plan_catalog p) (plan_tenants p) resources (plan_registry p)
       = Inr (plan_record p)"
    "\<And>r b. record_held = Some (r, b) \<Longrightarrow> held_record h = Some b \<and> from_record x b = Inr r"
proof (rule plan_publication_steps[OF assms])
  fix record_held published
  assume parsed: "transpose_opt (parse_held x) (held_record h) = Inr record_held"
    and decided: "decide_record x (case (record_held, held_record h) of (Some r, Some b) \<Rightarrow> Some (r, b) | _ \<Rightarrow> None)
       (plan_data_sources p) (plan_catalog p) (plan_tenants p)
       (history_including (pub_history published) (di_payload (snap_tenants s)) (di_payload (snap_data_sources s)))
       (plan_registry p) = Inr (plan_record p)"
  show thesis
    by (rule that[OF decided])
      (use parsed in \<open>auto simp: transpose_opt_def parse_held_def result_simps split: option.splits\<close>)
qed

lemma plan_publication_registry:
  assumes "plan_publication x s h = Inr p" "plan_registry p = Some r" "rp_outcome r = Unchanged"
  shows "held_registry h = Some (rp_bytes r)"
proof (rule plan_publication_steps[OF assms(1)])
  fix record_held published
  assume "decide_registry x (Option.bind record_held pr_registry) (held_registry h) s = Inr (plan_registry p)"
  with assms(2,3) show ?thesis
    by (auto simp: decide_registry_def result_simps Let_def split: option.splits if_splits prod.splits)
qed

text \<open>The record names the planned bytes, by revision and by digest; an unchanged one is the held one.\<close>

lemma decide_record_shape:
  assumes "decide_record x held ds cat ts resources registry = Inr rp"
  shows "rcp_record rp = with_registry (PublicationRecord_new (pr_generation (rcp_record rp))
           (recorded_of_plans x ds cat ts) resources) (map_option (registry_recorded x) registry)"
  using assms
  by (auto simp: decide_record_def result_simps with_registry_def PublicationRecord_new_def Let_def
      split: option.splits prod.splits if_splits)

lemma decide_record_Inr:
  assumes "decide_record x held ds cat ts resources registry = Inr rp"
  shows "stamp_generation (rcp_stamp rp) = pr_generation (rcp_record rp)"
    and "rcp_outcome rp = Unchanged \<Longrightarrow> \<exists>b. held = Some (rcp_record rp, b) \<and> stamp_sha256 (rcp_stamp rp) = pc_sha256 x b"
    and "rcp_outcome rp = Written \<Longrightarrow> to_canonical_bytes (pretty_record x) (rcp_record rp) = Inr (rcp_bytes rp)
           \<and> stamp_sha256 (rcp_stamp rp) = pc_sha256 x (rcp_bytes rp)
           \<and> pr_generation (rcp_record rp)
               = (case held of None \<Rightarrow> 1 | Some (r, _) \<Rightarrow> saturating_add (pr_generation r) 1)"
  using assms
  by (auto simp: decide_record_def result_simps with_registry_def PublicationRecord_new_def Let_def
      split: option.splits prod.splits if_splits)

lemma planned_record:
  assumes "plan_publication x s h = Inr p"
  shows "pr_documents (rcp_record (plan_record p)) =
           recorded_of_plans x (plan_data_sources p) (plan_catalog p) (plan_tenants p)"
    and "pr_registry (rcp_record (plan_record p)) = map_option (registry_recorded x) (plan_registry p)"
    and "pr_minimum_reader_contract (rcp_record (plan_record p)) = MINIMUM_READER_CONTRACT"
    and "stamp_generation (rcp_stamp (plan_record p)) = pr_generation (rcp_record (plan_record p))"
proof -
  obtain record_held resources where decided: "decide_record x record_held (plan_data_sources p)
      (plan_catalog p) (plan_tenants p) resources (plan_registry p) = Inr (plan_record p)"
    by (rule plan_publication_record[OF assms])
  note shape = decide_record_shape[OF decided]
  show "pr_documents (rcp_record (plan_record p)) =
      recorded_of_plans x (plan_data_sources p) (plan_catalog p) (plan_tenants p)"
    "pr_registry (rcp_record (plan_record p)) = map_option (registry_recorded x) (plan_registry p)"
    "pr_minimum_reader_contract (rcp_record (plan_record p)) = MINIMUM_READER_CONTRACT"
    by (subst shape, simp add: with_registry_def PublicationRecord_new_def)+
  show "stamp_generation (rcp_stamp (plan_record p)) = pr_generation (rcp_record (plan_record p))"
    by (rule decide_record_Inr(1)[OF decided])
qed

end
