(* ===== verification/Publication_Issuers.thy ===== *)
theory Publication_Issuers
  imports Publication
begin

text \<open>
  The names an issuer registry is written with (\<open>registry/issuer.rs\<close>, \<open>registry/origin.rs\<close>) and the
  revisions a caller publishes after (\<open>published_revisions.rs\<close>, \<open>plan/held.rs\<close>).
\<close>

section \<open>Issuers\<close>

datatype registry_issuer = RegistryIssuer (issuer_str: string)

datatype issuer_origin = IssuerOrigin (origin_str: string)

record issuer_error =
  ie_value :: string
  ie_reason :: string

text \<open>\<open>str::split_once\<close> with a pattern of several characters: at the first place it occurs.\<close>

fun split_once_str :: "string \<Rightarrow> string \<Rightarrow> (string \<times> string) option" where
  "split_once_str p [] = (if p = [] then Some ([], []) else None)"
| "split_once_str p (c # s) =
     (if take (length p) (c # s) = p then Some ([], drop (length p) (c # s))
      else map_option (\<lambda>(a, b). (c # a, b)) (split_once_str p s))"

definition check_realm :: "string \<Rightarrow> string + unit" where
  "check_realm segment =
     (if segment = [] then Inl ''the realm is empty''
      else if list_all (\<lambda>c. is_ascii_alphanumeric (byte c) \<or> c = CHR ''_'' \<or> c = CHR ''-'') segment then Inr ()
      else Inl (''the realm may hold only letters, digits, '_' and '-'' @ [CHR 0x27]))"

definition host_char :: "char \<Rightarrow> bool" where
  "host_char c \<longleftrightarrow> is_ascii_lowercase (byte c) \<or> is_ascii_digit (byte c) \<or> c = CHR ''.'' \<or> c = CHR ''-''"

definition check_origin :: "string \<Rightarrow> string + unit" where
  "check_origin origin =
     (case strip_prefix ''https://'' origin of
        None \<Rightarrow> Inl ''the scheme is not https''
      | Some authority \<Rightarrow>
          (let (host, port) = (case split_once CHR '':'' authority of
                 Some (host, port) \<Rightarrow> (host, Some port) | None \<Rightarrow> (authority, None)) in
           if host = [] then Inl ''the host is empty''
           else if \<not> list_all host_char host
           then Inl ''the host may hold only lowercase letters, digits, '.' and '-', and no path''
           else case port of
               Some port \<Rightarrow>
                 if port = [] \<or> length port > 5 \<or> \<not> list_all (is_ascii_digit \<circ> byte) port
                 then Inl ''the port is not one to five digits'' else Inr ()
             | None \<Rightarrow> Inr ()))"

definition RegistryIssuer_parse :: "string \<Rightarrow> issuer_error + registry_issuer" where
  "RegistryIssuer_parse value =
     (case split_once_str ''/realms/'' value of
        None \<Rightarrow> Inl \<lparr> ie_value = value, ie_reason = ''no /realms/ segment'' \<rparr>
      | Some (origin, segment) \<Rightarrow>
          rbind (map_err (\<lambda>reason. \<lparr> ie_value = value, ie_reason = reason \<rparr>) (check_origin origin)) (\<lambda>_.
          rbind (map_err (\<lambda>reason. \<lparr> ie_value = value, ie_reason = reason \<rparr>) (check_realm segment)) (\<lambda>_.
            Inr (RegistryIssuer value))))"

definition IssuerOrigin_parse :: "string \<Rightarrow> issuer_error + issuer_origin" where
  "IssuerOrigin_parse value =
     rbind (map_err (\<lambda>reason. \<lparr> ie_value = value, ie_reason = reason \<rparr>) (check_origin value))
       (\<lambda>_. Inr (IssuerOrigin value))"

definition IssuerOrigin_issuer :: "issuer_origin \<Rightarrow> string \<Rightarrow> issuer_error + registry_issuer" where
  "IssuerOrigin_issuer origin segment = RegistryIssuer_parse (origin_str origin @ ''/realms/'' @ segment)"

section \<open>Revisions held\<close>

record published_revisions =
  prv_tenants :: "document_revision option"
  prv_data_sources :: "document_revision option"
  prv_catalog :: "document_revision option"
  prv_registry :: "registry_generation option"

definition held_revisions :: "publisher_codec \<Rightarrow> held_documents \<Rightarrow> published_revisions" where
  "held_revisions x h =
     (let rec = Option.bind (held_record h) (\<lambda>bytes. ok (parse_held x bytes));
          held = (\<lambda>document recorded. case hd_manifest document of
              Some m \<Rightarrow> Some (dm_revision m) | None \<Rightarrow> recorded)
      in \<lparr> prv_tenants = held (held_tenants h) (map_option (rcd_revision \<circ> rds_tenants \<circ> pr_documents) rec),
           prv_data_sources =
             held (held_data_sources h) (map_option (rcd_revision \<circ> rds_data_sources \<circ> pr_documents) rec),
           prv_catalog = held (held_catalog h) (map_option (rcd_revision \<circ> rds_catalog \<circ> pr_documents) rec),
           prv_registry = Option.bind rec (\<lambda>r. map_option rr_generation (pr_registry r)) \<rparr>)"

definition current :: "publisher_codec \<Rightarrow> target \<Rightarrow> publication_error + published_revisions" where
  "current x files = map_ok (held_revisions x) (read_held x files)"

definition published_resources_of :: "publisher_codec \<Rightarrow> target \<Rightarrow> publication_error + published_resources" where
  "published_resources_of x files = rbind (read_held x files) (held_resources x)"

section \<open>An issuer is one origin and one realm\<close>

lemma split_once_str_Some:
  "split_once_str p s = Some (a, b) \<Longrightarrow> s = a @ p @ b"
proof (induction s arbitrary: a)
  case (Cons c s)
  show ?case
  proof (cases "take (length p) (c # s) = p")
    case True
    with Cons.prems have "a = []" "b = drop (length p) (c # s)" by simp_all
    then show ?thesis using append_take_drop_id[of "length p" "c # s"] True by simp
  next
    case False
    with Cons.prems obtain a' where "a = c # a'" "split_once_str p s = Some (a', b)"
      by (auto split: prod.splits)
    with Cons.IH show ?thesis by simp
  qed
qed (simp split: if_splits)

lemma split_once_str_first:
  "split_once_str p s = Some (a, b) \<Longrightarrow> s = a' @ p @ b' \<Longrightarrow> length a \<le> length a'"
proof (induction s arbitrary: a a')
  case (Cons c s)
  show ?case
  proof (cases "take (length p) (c # s) = p")
    case False
    then have "a' \<noteq> []" using Cons.prems(2) by (metis append_Nil append_eq_conv_conj)
    then obtain d a'' where a'': "a' = d # a''" by (cases a') auto
    from False Cons.prems(1) obtain e where "a = c # e" "split_once_str p s = Some (e, b)"
      by (auto split: prod.splits)
    with Cons.IH[of e a''] Cons.prems(2) a'' show ?thesis by simp
  qed (use Cons.prems(1) in simp)
qed (simp split: if_splits)

lemma realm_no_slash: "check_realm segment = Inr () \<Longrightarrow> CHR ''/'' \<notin> set segment"
  by (auto simp: check_realm_def list_all_iff is_ascii_alphanumeric_def is_ascii_lowercase_def
      is_ascii_uppercase_def is_ascii_digit_def is_ascii_alphabetic_def byte_def split: if_splits)

text \<open>The text after the last \<open>/realms/\<close> has no slash, so it is the realm.\<close>

lemma last_segment_length:
  assumes "a @ ''/realms/'' @ b = c @ ''/realms/'' @ d" "CHR ''/'' \<notin> set b"
  shows "length c \<le> length a"
proof (rule ccontr)
  assume "\<not> length c \<le> length a"
  then have less: "length a < length c" by simp
  let ?n = "length c - length a - 1"
  have "(c @ ''/realms/'' @ d) ! (length c + 7) = CHR ''/''" by (simp add: nth_append)
  moreover have "(a @ ''/realms/'' @ b) ! (length c + 7) = b ! ?n"
    using less by (simp add: nth_append Suc_diff_le)
  moreover have "?n < length b"
    using arg_cong[OF assms(1), of length] less by simp
  ultimately have "CHR ''/'' \<in> set b" using assms(1) by (metis nth_mem)
  with assms(2) show False ..
qed

lemma last_segment_unique:
  assumes "a @ ''/realms/'' @ b = c @ ''/realms/'' @ d" "CHR ''/'' \<notin> set b"
    and "CHR ''/'' \<notin> set d \<or> length a \<le> length c"
  shows "a = c \<and> b = d"
proof -
  have "length a = length c"
    using last_segment_length[OF assms(1,2)] last_segment_length[OF assms(1)[symmetric]] assms(3) by auto
  with assms(1) show ?thesis by simp
qed

lemma RegistryIssuer_parse_Inr:
  assumes "RegistryIssuer_parse (origin @ ''/realms/'' @ segment) = Inr i"
  shows "issuer_str i = origin @ ''/realms/'' @ segment \<and> check_origin origin = Inr () \<and> check_realm segment = Inr ()"
proof -
  let ?joined = "origin @ ''/realms/'' @ segment"
  from assms obtain a b where split: "split_once_str ''/realms/'' ?joined = Some (a, b)"
    and ab: "check_origin a = Inr ()" "check_realm b = Inr ()" and i: "i = RegistryIssuer ?joined"
    by (auto simp: RegistryIssuer_parse_def result_simps split: option.splits)
  from last_segment_unique[OF split_once_str_Some[OF split, symmetric] realm_no_slash[OF ab(2)]]
    split_once_str_first[OF split refl]
  have "a = origin" "b = segment" by blast+
  with ab i show ?thesis by simp
qed

text \<open>
  An issuer names exactly one origin and one realm. Of an origin and a realm that make an issuer,
  the text is their join, the origin passes the origin check and the realm the realm check, and any
  origin and realm that make the same issuer are these: no two realms of an identity provider, and no
  two identity providers, are registered under one issuer.
\<close>

theorem an_issuer_is_one_origin_and_realm:
  assumes "IssuerOrigin_issuer origin segment = Inr i"
  shows "issuer_str i = origin_str origin @ ''/realms/'' @ segment
    \<and> check_origin (origin_str origin) = Inr () \<and> check_realm segment = Inr ()
    \<and> (\<forall>origin' segment'. IssuerOrigin_issuer origin' segment' = Inr i \<longrightarrow> origin' = origin \<and> segment' = segment)"
proof -
  note parsed = RegistryIssuer_parse_Inr[OF assms[unfolded IssuerOrigin_issuer_def]]
  have "origin' = origin \<and> segment' = segment" if "IssuerOrigin_issuer origin' segment' = Inr i" for origin' segment'
  proof -
    note parsed' = RegistryIssuer_parse_Inr[OF that[unfolded IssuerOrigin_issuer_def]]
    have same: "origin_str origin' @ ''/realms/'' @ segment' = origin_str origin @ ''/realms/'' @ segment"
      using parsed parsed' by simp
    with last_segment_unique[OF same] realm_no_slash parsed parsed'
    have "origin_str origin' = origin_str origin" "segment' = segment" by blast+
    then show ?thesis by (simp add: issuer_origin.expand)
  qed
  with parsed show ?thesis by blast
qed

theorem an_issuer_is_one_origin_and_realm_witness:
  "check_origin ''https://id.example:8443'' = Inr () \<and> check_realm ''acme'' = Inr ()"
proof -
  have "IssuerOrigin_issuer (IssuerOrigin ''https://id.example:8443'') ''acme''
      = Inr (RegistryIssuer ''https://id.example:8443/realms/acme'')"
    by code_simp
  from an_issuer_is_one_origin_and_realm[OF this] show ?thesis by simp
qed

end
