(* ===== verification/Declarations.thy ===== *)
theory Declarations
  imports Publication_Issuers "HOL-Library.Multiset"
begin

text \<open>
  What an environment declares it can place a tenant's data on (\<open>data_sources/declaration.rs\<close>,
  \<open>validate.rs\<close>, \<open>rule.rs\<close>, \<open>held.rs\<close>, \<open>plan.rs\<close> of \<open>fabric-platform-management\<close>): the rules a
  declaration satisfies, the coherence of a held document, and the revision a declaration is
  written at.
\<close>

section \<open>Declarations\<close>

text \<open>
  A declaration is the published document with one field more, as in the source; its conversion
  into the document is the record without that field.
\<close>

datatype discriminator = Discriminator (disc_column: field_name)

record data_source_declaration = data_source +
  decl_discriminator :: "discriminator option"

definition into_document :: "data_source_declaration \<Rightarrow> data_source_document" where
  "into_document d = data_source.truncate d"

lemma into_document_simps [simp]:
  "ds_id (into_document d) = ds_id d" "ds_revision (into_document d) = ds_revision d"
  "ds_placement (into_document d) = ds_placement d"
  by (cases d, simp add: into_document_def data_source.truncate_def)+

datatype pool_field = MaxConnections | IdleTimeoutSeconds | AcquireTimeoutSeconds

fun operator_words :: "pool_field \<Rightarrow> string" where
  "operator_words MaxConnections = ''the pool'' @ [CHR 0x27] @ ''s maximum connections''"
| "operator_words IdleTimeoutSeconds = ''the pool'' @ [CHR 0x27] @ ''s idle timeout''"
| "operator_words AcquireTimeoutSeconds = ''the pool'' @ [CHR 0x27] @ ''s acquire timeout''"

datatype data_source_rule =
    SharedNeedsDiscriminator
  | DiscriminatorOnlyWhenShared placement_class_document
  | ZeroPool pool_field
  | EmptyLabel
  | MalformedSecretReference
  | ConnectionKindNotDeclarable

fun placement_word :: "placement_class_document \<Rightarrow> string" where
  "placement_word Shared = ''shared''"
| "placement_word Dedicated = ''dedicated''"
| "placement_word HighAvailability = ''high availability''"
| "placement_word Regulated = ''regulated''"
| "placement_word Development = ''development''"
| "placement_word Ephemeral = ''ephemeral''"

fun rule_message :: "data_source_rule \<Rightarrow> string" where
  "rule_message SharedNeedsDiscriminator = ''a shared data source needs a discriminator column''"
| "rule_message (DiscriminatorOnlyWhenShared p) =
     ''a discriminator column only applies to a shared data source, not a '' @ placement_word p @ '' one''"
| "rule_message (ZeroPool f) = operator_words f @ '' must be greater than zero''"
| "rule_message EmptyLabel = ''a label cannot have an empty key or value''"
| "rule_message MalformedSecretReference =
     ''a secret reference must be a non-empty path of at most 512 bytes, with no '' @
     ''whitespace or control characters''"
| "rule_message ConnectionKindNotDeclarable =
     ''a connection must be a name the connector holds or a reference to a secret''"

section \<open>Validation\<close>

definition MAX_SECRET_REFERENCE_BYTES :: nat where
  "MAX_SECRET_REFERENCE_BYTES = 512"

text \<open>\<open>char::is_control\<close>: the code points of the Unicode category Cc.\<close>

definition is_control :: "scalar \<Rightarrow> bool" where
  "is_control c \<longleftrightarrow> c < 0x20 \<or> (0x7F \<le> c \<and> c < 0xA0)"

definition malformed_reference :: "string \<Rightarrow> bool" where
  "malformed_reference r \<longleftrightarrow>
     r = [] \<or> length r > MAX_SECRET_REFERENCE_BYTES \<or> list_ex (\<lambda>c. is_whitespace c \<or> is_control c) (chars r)"

definition check_discriminator :: "data_source_declaration \<Rightarrow> data_source_rule + unit" where
  "check_discriminator d =
     (if ds_placement d = Shared
      then if decl_discriminator d = None then Inl SharedNeedsDiscriminator else Inr ()
      else if decl_discriminator d \<noteq> None then Inl (DiscriminatorOnlyWhenShared (ds_placement d)) else Inr ())"

definition check_connection :: "data_source_declaration \<Rightarrow> data_source_rule + unit" where
  "check_connection d =
     (case ds_connection d of
        SelDefault \<Rightarrow> Inl ConnectionKindNotDeclarable
      | SelSecret r \<Rightarrow> if malformed_reference (secret_str r) then Inl MalformedSecretReference else Inr ()
      | SelNamed _ \<Rightarrow> Inr ())"

definition check_pool :: "data_source_declaration \<Rightarrow> data_source_rule + unit" where
  "check_pool d =
     (if max_connections (ds_pool d) = 0 then Inl (ZeroPool MaxConnections)
      else if idle_timeout_seconds (ds_pool d) = 0 then Inl (ZeroPool IdleTimeoutSeconds)
      else if acquire_timeout_seconds (ds_pool d) = 0 then Inl (ZeroPool AcquireTimeoutSeconds)
      else Inr ())"

definition validate_declaration :: "data_source_declaration \<Rightarrow> data_source_rule + unit" where
  "validate_declaration d =
     rbind (check_discriminator d) (\<lambda>_.
     rbind (check_connection d) (\<lambda>_.
     rbind (check_pool d) (\<lambda>_.
       try_each (\<lambda>(key, v). if key = [] \<or> v = [] then Inl EmptyLabel else Inr ()) (ds_labels d))))"

lemma shared_has_discriminator:
  assumes "validate_declaration d = Inr ()"
  shows "ds_placement d = Shared \<longleftrightarrow> decl_discriminator d \<noteq> None"
proof -
  from assms have "check_discriminator d = Inr ()"
    by (auto simp: validate_declaration_def result_simps)
  then show ?thesis by (auto simp: check_discriminator_def split: if_splits)
qed

text \<open>The revision is no part of what is validated.\<close>

lemma validate_revision [simp]:
  "validate_declaration (d\<lparr>ds_revision := r\<rparr>) = validate_declaration d"
  by (simp add: validate_declaration_def check_discriminator_def check_connection_def check_pool_def)

section \<open>Held declarations\<close>

datatype held_sources_refusal = HeldSourcesRefusal (held_sources_detail: string)

fun check_held_from :: "data_source_id list \<Rightarrow> data_source_declaration list \<Rightarrow> held_sources_refusal + unit" where
  "check_held_from seen [] = Inr ()"
| "check_held_from seen (d # ds) =
     (if ds_id d \<in> set seen
      then Inl (HeldSourcesRefusal (data_source_str (ds_id d) @ '' is declared more than once''))
      else case validate_declaration d of
          Inl rule \<Rightarrow>
            Inl (HeldSourcesRefusal (data_source_str (ds_id d) @ '' is invalid: '' @ rule_message rule))
        | Inr _ \<Rightarrow> check_held_from (ds_id d # seen) ds)"

definition check_held :: "data_source_declaration list \<Rightarrow> held_sources_refusal + unit" where
  "check_held ds = check_held_from [] ds"

lemma check_held_from_iff:
  "check_held_from seen ds = Inr () \<longleftrightarrow>
     distinct (map ds_id ds) \<and> set seen \<inter> ds_id ` set ds = {} \<and> (\<forall>d\<in>set ds. validate_declaration d = Inr ())"
proof (induction ds arbitrary: seen)
  case Nil
  then show ?case by simp
next
  case (Cons d ds)
  show ?case
    by (cases "validate_declaration d") (auto simp: Cons.IH)
qed

lemma check_held_iff [result_simps]:
  "check_held ds = Inr () \<longleftrightarrow>
     distinct (map ds_id ds) \<and> (\<forall>d\<in>set ds. validate_declaration d = Inr ())"
  by (simp add: check_held_def check_held_from_iff)

definition declared_as :: "data_source_declaration list \<Rightarrow> data_source_id \<Rightarrow> data_source_declaration option" where
  "declared_as ds i = List.find (\<lambda>d. ds_id d = i) ds"

lemma declared_asD: "declared_as ds i = Some d \<Longrightarrow> d \<in> set ds \<and> ds_id d = i"
  unfolding declared_as_def using find_SomeD by fastforce

lemma declared_as_distinct:
  assumes "distinct (map ds_id ds)"
  shows "declared_as ds i = Some d \<longleftrightarrow> d \<in> set ds \<and> ds_id d = i"
  using assms unfolding declared_as_def
  by (induction ds) (auto dest: find_SomeD)

lemma declared_as_None: "declared_as ds i = None \<longleftrightarrow> i \<notin> ds_id ` set ds"
  by (auto simp: declared_as_def find_None_conv)

section \<open>Planning a declaration\<close>

datatype declaration_plan = PlanUnchanged | PlanWrite "data_source_declaration list"

record published_revision =
  pr_revision :: binding_revision
  pr_current :: bool

definition plan_floor :: "published_revision option \<Rightarrow> binding_revision" where
  "plan_floor published = (case published of None \<Rightarrow> revision_ZERO | Some p \<Rightarrow> pr_revision p)"

definition plan_keeps :: "published_revision option \<Rightarrow> binding_revision" where
  "plan_keeps published =
     (case published of
        Some p \<Rightarrow> if pr_current p then plan_floor published else revision_next (pr_revision p)
      | None \<Rightarrow> plan_floor published)"

definition plan_declaration ::
  "data_source_declaration list \<Rightarrow> data_source_declaration \<Rightarrow> published_revision option \<Rightarrow> declaration_plan" where
  "plan_declaration held incoming published =
     (let floor = plan_floor published in
      case declared_as held (ds_id incoming) of
        None \<Rightarrow> PlanWrite (sort_key ds_id (held @ [incoming\<lparr>ds_revision := revision_next floor\<rparr>]))
      | Some existing \<Rightarrow>
          let merged = incoming\<lparr>ds_revision := ds_revision existing\<rparr> in
          if merged = existing \<and> ds_revision existing \<ge> plan_keeps published then PlanUnchanged
          else PlanWrite (sort_key ds_id
            (filter (\<lambda>d. ds_id d \<noteq> ds_id incoming) held
             @ [merged\<lparr>ds_revision := revision_next (max (ds_revision existing) floor)\<rparr>])))"

lemma unat_revision_next: "unat (revision_next r) = min (unat r + 1) (2 ^ 64 - 1)"
  by (simp add: revision_next_def unat_saturating_add)
text \<open>What is written replaces the one declaration, and leaves the others as they are.\<close>

lemma declared_as_sorted:
  assumes "distinct (map ds_id ds)"
  shows "declared_as (sort_key ds_id ds) i = declared_as ds i"
proof -
  have "distinct (map ds_id (sort_key ds_id ds))"
    using assms mset_eq_imp_distinct_iff[of "map ds_id (sort_key ds_id ds)" "map ds_id ds"] by simp
  then have "declared_as (sort_key ds_id ds) i = Some d \<longleftrightarrow> declared_as ds i = Some d" for d
    using declared_as_distinct assms by (metis set_sort)
  then show ?thesis by (metis not_Some_eq)
qed

lemma declared_as_app:
  "declared_as (ds @ [d]) i = (case declared_as ds i of Some e \<Rightarrow> Some e | None \<Rightarrow> if ds_id d = i then Some d else None)"
  by (induction ds) (auto simp: declared_as_def)

lemma declared_as_filter:
  "declared_as (filter (\<lambda>d. ds_id d \<noteq> i) ds) j = (if j = i then None else declared_as ds j)"
  by (induction ds) (auto simp: declared_as_def)

lemma plan_written:
  assumes held: "check_held held = Inr ()" and valid: "validate_declaration incoming = Inr ()"
    and others: "check_held rest = Inr ()" "\<forall>j. declared_as rest j = (if j = ds_id incoming then None else declared_as held j)"
    and ds: "ds = sort_key ds_id (rest @ [incoming\<lparr>ds_revision := r\<rparr>])"
  shows "check_held ds = Inr () \<and> declared_as ds (ds_id incoming) = Some (incoming\<lparr>ds_revision := r\<rparr>)
    \<and> (\<forall>j. j \<noteq> ds_id incoming \<longrightarrow> declared_as ds j = declared_as held j)"
proof -
  let ?d = "incoming\<lparr>ds_revision := r\<rparr>"
  have "ds_id incoming \<notin> ds_id ` set rest" using others(2) by (simp flip: declared_as_None)
  then have d: "distinct (map ds_id (rest @ [?d]))"
    using others(1) by (auto simp: check_held_iff)
  have "check_held ds = Inr ()"
    using d valid others(1) mset_eq_imp_distinct_iff[of "map ds_id ds" "map ds_id (rest @ [?d])"]
    by (simp add: check_held_iff ds)
  moreover have "declared_as ds j = declared_as (rest @ [?d]) j" for j
    unfolding ds by (rule declared_as_sorted[OF d])
  ultimately show ?thesis using others(2) by (simp add: declared_as_app split: option.split)
qed

definition held_revision :: "data_source_declaration list \<Rightarrow> data_source_id \<Rightarrow> binding_revision" where
  "held_revision held i = (case declared_as held i of Some d \<Rightarrow> ds_revision d | None \<Rightarrow> revision_ZERO)"

text \<open>
  C35: A declaration that is written keeps the document coherent, leaves every other data source as it
  was, and comes at one revision above both the revision held for its id and the highest revision the
  id was ever published at, whatever revision the caller sent (up to the top of the 64-bit counter).
\<close>

theorem a_declaration_rises:
  assumes "check_held held = Inr ()" "validate_declaration incoming = Inr ()"
    and "plan_declaration held incoming published_at = PlanWrite ds"
  shows "check_held ds = Inr ()
    \<and> (\<exists>r. declared_as ds (ds_id incoming) = Some (incoming\<lparr>ds_revision := r\<rparr>)
        \<and> unat r = min (max (unat (held_revision held (ds_id incoming))) (unat (plan_floor published_at)) + 1) (2 ^ 64 - 1))
    \<and> (\<forall>j. j \<noteq> ds_id incoming \<longrightarrow> declared_as ds j = declared_as held j)"
proof (cases "declared_as held (ds_id incoming)")
  case None
  with assms(3) have ds: "ds = sort_key ds_id (held @ [incoming\<lparr>ds_revision := revision_next (plan_floor published_at)\<rparr>])"
    by (simp add: plan_declaration_def Let_def)
  have "check_held ds = Inr () \<and> declared_as ds (ds_id incoming) = Some (incoming\<lparr>ds_revision := revision_next (plan_floor published_at)\<rparr>)
    \<and> (\<forall>j. j \<noteq> ds_id incoming \<longrightarrow> declared_as ds j = declared_as held j)"
    using None by (intro plan_written[OF assms(1,2) assms(1) _ ds]) simp
  then show ?thesis using None
    by (intro conjI exI[of _ "revision_next (plan_floor published_at)"])
      (simp_all add: unat_revision_next held_revision_def revision_ZERO_def)
next
  case (Some e)
  let ?r = "revision_next (max (ds_revision e) (plan_floor published_at))"
  from Some assms(3) have ds: "ds = sort_key ds_id (filter (\<lambda>d. ds_id d \<noteq> ds_id incoming) held @ [incoming\<lparr>ds_revision := ?r\<rparr>])"
    by (auto simp: plan_declaration_def Let_def split: if_splits)
  have "check_held (filter (\<lambda>d. ds_id d \<noteq> ds_id incoming) held) = Inr ()"
    using assms(1) by (auto simp: check_held_iff distinct_map_filter)
  then have "check_held ds = Inr () \<and> declared_as ds (ds_id incoming) = Some (incoming\<lparr>ds_revision := ?r\<rparr>)
    \<and> (\<forall>j. j \<noteq> ds_id incoming \<longrightarrow> declared_as ds j = declared_as held j)"
    by (intro plan_written[OF assms(1,2) _ _ ds]) (simp_all add: declared_as_filter)
  moreover have "unat ?r = min (max (unat (held_revision held (ds_id incoming))) (unat (plan_floor published_at)) + 1) (2 ^ 64 - 1)"
    using Some by (simp add: unat_revision_next held_revision_def max_def word_le_nat_alt)
  ultimately show ?thesis by blast
qed

text \<open>What is not written is what is held, at a revision the publisher can have taken.\<close>

lemma an_unchanged_declaration_is_held:
  assumes "plan_declaration held incoming published_at = PlanUnchanged"
  shows "\<exists>r. declared_as held (ds_id incoming) = Some (incoming\<lparr>ds_revision := r\<rparr>) \<and> plan_keeps published_at \<le> r"
proof -
  from assms obtain d where "declared_as held (ds_id incoming) = Some d"
    "incoming\<lparr>ds_revision := ds_revision d\<rparr> = d" "plan_keeps published_at \<le> ds_revision d"
    by (auto simp: plan_declaration_def Let_def split: option.splits if_splits)
  then show ?thesis by metis
qed

definition example_pool :: data_source_declaration where
  "example_pool =
     \<lparr> ds_id = DataSourceId ''pool-a'', ds_revision = 1, ds_connector = ConnectorId ''ndc'',
       ds_connection = SelNamed (ConnectionName ''pool-a''), ds_placement = Shared,
       ds_residency = \<lparr> region = ''nz'', jurisdiction = None \<rparr>,
       ds_pool = \<lparr> max_connections = 10, idle_timeout_seconds = 60, acquire_timeout_seconds = 5 \<rparr>,
       ds_capabilities = \<lparr> writable = True, accepts_new_tenants = True \<rparr>, ds_labels = [],
       decl_discriminator = Some (Discriminator (FieldName ''tenant'')) \<rparr>"

theorem a_declaration_rises_witness:
  "\<exists>ds r. plan_declaration [example_pool] (example_pool\<lparr>ds_revision := 9\<rparr>) (Some \<lparr> pr_revision = 6, pr_current = True \<rparr>) = PlanWrite ds
     \<and> declared_as ds (DataSourceId ''pool-a'') = Some (example_pool\<lparr>ds_revision := r\<rparr>) \<and> unat r = 7"
proof -
  have held: "check_held [example_pool] = Inr ()"
    by (simp add: check_held_def example_pool_def validate_declaration_def check_discriminator_def
        check_connection_def check_pool_def)
  have valid: "validate_declaration (example_pool\<lparr>ds_revision := 9\<rparr>) = Inr ()"
    using held by (simp add: check_held_iff)
  let ?plan = "plan_declaration [example_pool] (example_pool\<lparr>ds_revision := 9\<rparr>) (Some \<lparr> pr_revision = 6, pr_current = True \<rparr>)"
  have id: "ds_id example_pool = DataSourceId ''pool-a''" "ds_revision example_pool = 1"
    by (simp_all add: example_pool_def)
  have "?plan \<noteq> PlanUnchanged"
    by (simp add: plan_declaration_def declared_as_def plan_keeps_def plan_floor_def id Let_def word_le_nat_alt)
  then obtain ds where ds: "?plan = PlanWrite ds" by (cases ?plan) auto
  from a_declaration_rises[OF held valid ds] ds show ?thesis
    by (auto simp: held_revision_def declared_as_def plan_floor_def id)
qed

end
