(* ===== verification/Placements.thy ===== *)
theory Placements
  imports Declarations "HOL-Library.Multiset"
begin

text \<open>
  Where a tenant's logical data source lands (\<open>placements/record.rs\<close>, \<open>intent.rs\<close>,
  \<open>refusal.rs\<close>, \<open>held.rs\<close>, \<open>held/rules.rs\<close>, \<open>select.rs\<close>, \<open>select/pick.rs\<close>,
  \<open>tenant_id.rs\<close>): the records, the coherence of a held document, and the pure choice of a data
  source for one intent.
\<close>

section \<open>Records and intents\<close>

definition FIRST_REVISION :: binding_revision where
  "FIRST_REVISION = 1"

record placement_record =
  pl_tenant :: tenant_id
  pl_logical :: logical_data_source_name
  pl_revision :: binding_revision
  pl_data_source :: data_source_id
  pl_isolation :: isolation_document
  pl_placed_at :: string

record data_intent =
  intent_class :: placement_class_document
  intent_provider :: "string option"
  intent_region :: "string option"

datatype placement_refusal =
    AlreadyPlaced tenant_id logical_data_source_name
  | NoDataSourceAdmits placement_class_document "string option" "string option"
  | AllMatchingSourcesOccupied placement_class_document
  | TenantIdInvalid string
  | DiscriminatorValueTaken data_source_id string

fun class_word :: "placement_class_document \<Rightarrow> string" where
  "class_word Shared = ''shared''"
| "class_word Dedicated = ''dedicated''"
| "class_word HighAvailability = ''high availability''"
| "class_word Regulated = ''regulated''"
| "class_word Development = ''development''"
| "class_word Ephemeral = ''ephemeral''"

definition no_data_source_admits_message ::
  "placement_class_document \<Rightarrow> string option \<Rightarrow> string option \<Rightarrow> string" where
  "no_data_source_admits_message cls reg provider =
     ''declare a '' @ class_word cls @ '' data source''
     @ (case reg of None \<Rightarrow> [] | Some r \<Rightarrow> '' in region '' @ r)
     @ '' that accepts new tenants''
     @ (case provider of None \<Rightarrow> []
        | Some p \<Rightarrow> '' ('' @ [CHR 0x27] @ p @ [CHR 0x27] @
            '' was stated as a provider, but nothing declares one yet, so it was not matched)'')"

fun refusal_message :: "placement_refusal \<Rightarrow> string" where
  "refusal_message (AlreadyPlaced t l) =
     tenant_str t @ '' is already placed for '' @ logical_source_str l"
| "refusal_message (NoDataSourceAdmits cls reg provider) = no_data_source_admits_message cls reg provider"
| "refusal_message (AllMatchingSourcesOccupied cls) =
     ''every '' @ class_word cls @ '' data source that matches is already somebody'' @ [CHR 0x27] @ ''s tenant''"
| "refusal_message (TenantIdInvalid client) = client @ '' is not a valid tenant id''"
| "refusal_message (DiscriminatorValueTaken d v) =
     data_source_str d @ '' already has a tenant recorded with discriminator value '' @ [CHR 0x27] @ v @ [CHR 0x27]"

definition client_tenant_id :: "string \<Rightarrow> placement_refusal + tenant_id" where
  "client_tenant_id client = map_err (\<lambda>_. TenantIdInvalid client) (TenantId_try_new client)"

definition sort_placements :: "placement_record list \<Rightarrow> placement_record list" where
  "sort_placements ps = sort_key pl_tenant (sort_key pl_logical ps)"

lemma mset_sort_placements [simp]: "mset (sort_placements ps) = mset ps"
  by (simp add: sort_placements_def)

section \<open>Held placements\<close>

fun isolation_matches_class :: "placement_class_document \<Rightarrow> isolation_document \<Rightarrow> bool" where
  "isolation_matches_class Shared (IsoDiscriminator _ _) = True"
| "isolation_matches_class Shared _ = False"
| "isolation_matches_class _ IsoDatabase = True"
| "isolation_matches_class _ _ = False"

datatype held_placements_refusal = HeldPlacementsRefusal (held_placements_detail: string)

text \<open>
  The timestamps are read by the \<open>time\<close> crate: \<open>rfc_parses\<close> is its parser's verdict on a text,
  \<open>rfc_stamp\<close> the text it formats a Unix time as, where the time is one it represents.
\<close>

record rfc3339 =
  rfc_parses :: "string \<Rightarrow> bool"
  rfc_stamp :: "int \<Rightarrow> string option"

text \<open>What the loop of \<open>check_held_placements\<close> carries.\<close>

record held_scan =
  seen_pairs :: "(tenant_id \<times> logical_data_source_name) list"
  discriminator_owners :: "((data_source_id \<times> string) \<times> tenant_id) list"
  exclusive_holders :: "data_source_id list"

definition held_refusal :: "string \<Rightarrow> held_placements_refusal + 'a" where
  "held_refusal detail = Inl (HeldPlacementsRefusal detail)"

definition check_isolation ::
  "data_source_declaration \<Rightarrow> held_scan \<Rightarrow> placement_record \<Rightarrow> held_placements_refusal + held_scan" where
  "check_isolation source scan p =
     (case pl_isolation p of
        IsoDiscriminator col v \<Rightarrow>
          if map_option (field_str \<circ> disc_column) (decl_discriminator source) \<noteq> Some (field_str col)
          then held_refusal (tenant_str (pl_tenant p) @ '' is isolated by column '' @ [CHR 0x27] @ field_str col
                 @ [CHR 0x27] @ '', which '' @ data_source_str (pl_data_source p) @ '' does not declare'')
          else let key = (pl_data_source p, v) in
            (case map_of (discriminator_owners scan) key of
               Some owner \<Rightarrow>
                 if owner \<noteq> pl_tenant p
                 then held_refusal (data_source_str (pl_data_source p)
                        @ '' has two tenants recorded with discriminator value '' @ [CHR 0x27] @ v @ [CHR 0x27])
                 else Inr (scan\<lparr>discriminator_owners := (key, pl_tenant p) # discriminator_owners scan\<rparr>)
             | None \<Rightarrow> Inr (scan\<lparr>discriminator_owners := (key, pl_tenant p) # discriminator_owners scan\<rparr>))
      | IsoDatabase \<Rightarrow>
          if pl_data_source p \<in> set (exclusive_holders scan)
          then held_refusal (data_source_str (pl_data_source p) @ '' already has a tenant placed on it'')
          else Inr (scan\<lparr>exclusive_holders := pl_data_source p # exclusive_holders scan\<rparr>)
      | IsoSchema _ \<Rightarrow> Inr scan)"

definition check_placement ::
  "rfc3339 \<Rightarrow> data_source_declaration list \<Rightarrow> held_scan \<Rightarrow> placement_record
     \<Rightarrow> held_placements_refusal + held_scan" where
  "check_placement t declared scan p =
     (if (pl_tenant p, pl_logical p) \<in> set (seen_pairs scan)
      then held_refusal (tenant_str (pl_tenant p) @ '' is placed more than once for ''
             @ logical_source_str (pl_logical p))
      else if \<not> rfc_parses t (pl_placed_at p)
      then held_refusal (tenant_str (pl_tenant p) @ '' was placed at a timestamp that is not RFC 3339'')
      else case declared_as declared (pl_data_source p) of
          None \<Rightarrow> held_refusal (tenant_str (pl_tenant p) @ '' names a data source nothing declares'')
        | Some source \<Rightarrow>
            if \<not> isolation_matches_class (ds_placement source) (pl_isolation p)
            then held_refusal (tenant_str (pl_tenant p) @ '' is isolated in a way ''
                   @ data_source_str (pl_data_source p) @ '' does not serve'')
            else check_isolation source
                   (scan\<lparr>seen_pairs := (pl_tenant p, pl_logical p) # seen_pairs scan\<rparr>) p)"

fun check_placements_from ::
  "rfc3339 \<Rightarrow> data_source_declaration list \<Rightarrow> held_scan \<Rightarrow> placement_record list
     \<Rightarrow> held_placements_refusal + unit" where
  "check_placements_from t declared scan [] = Inr ()"
| "check_placements_from t declared scan (p # ps) =
     rbind (check_placement t declared scan p) (\<lambda>scan'. check_placements_from t declared scan' ps)"

definition check_held_placements ::
  "rfc3339 \<Rightarrow> placement_record list \<Rightarrow> data_source_declaration list \<Rightarrow> held_placements_refusal + unit" where
  "check_held_placements t placements declared =
     check_placements_from t declared
       \<lparr> seen_pairs = [], discriminator_owners = [], exclusive_holders = [] \<rparr> placements"

section \<open>Selecting a data source\<close>

definition no_data_source_admits :: "data_intent \<Rightarrow> placement_refusal" where
  "no_data_source_admits i = NoDataSourceAdmits (intent_class i) (intent_region i) (intent_provider i)"

definition load_of :: "placement_record list \<Rightarrow> data_source_declaration \<Rightarrow> nat" where
  "load_of held d = length (filter (\<lambda>p. pl_data_source p = ds_id d) held)"

definition ranked ::
  "placement_record list \<Rightarrow> data_source_declaration list
     \<Rightarrow> (data_source_declaration \<times> discriminator \<times> nat) list" where
  "ranked held candidates =
     sort_key (\<lambda>(_, _, n). n) (sort_key (\<lambda>(d, _, _). ds_id d)
       (filter_map (\<lambda>d. map_option (\<lambda>c. (d, c, load_of held d)) (decl_discriminator d)) candidates))"

definition value_taken :: "placement_record list \<Rightarrow> data_source_declaration \<Rightarrow> tenant_id \<Rightarrow> string \<Rightarrow> bool" where
  "value_taken held chosen tenant v =
     list_ex (\<lambda>p. pl_data_source p = ds_id chosen \<and> pl_tenant p \<noteq> tenant
        \<and> (case pl_isolation p of IsoDiscriminator _ existing \<Rightarrow> existing = v | _ \<Rightarrow> False)) held"

definition pick_shared ::
  "data_intent \<Rightarrow> tenant_id \<Rightarrow> logical_data_source_name \<Rightarrow> data_source_declaration list
     \<Rightarrow> placement_record list \<Rightarrow> string \<Rightarrow> placement_refusal + placement_record" where
  "pick_shared intent tenant logical candidates held now =
     (case ranked held candidates of
        [] \<Rightarrow> Inl (no_data_source_admits intent)
      | (chosen, disc, _) # _ \<Rightarrow>
          if value_taken held chosen tenant (tenant_str tenant)
          then Inl (DiscriminatorValueTaken (ds_id chosen) (tenant_str tenant))
          else Inr \<lparr> pl_tenant = tenant, pl_logical = logical, pl_revision = FIRST_REVISION,
                     pl_data_source = ds_id chosen,
                     pl_isolation = IsoDiscriminator (disc_column disc) (tenant_str tenant),
                     pl_placed_at = now \<rparr>)"

definition pick_exclusive ::
  "data_intent \<Rightarrow> tenant_id \<Rightarrow> logical_data_source_name \<Rightarrow> data_source_declaration list
     \<Rightarrow> placement_record list \<Rightarrow> string \<Rightarrow> placement_refusal + placement_record" where
  "pick_exclusive intent tenant logical candidates held now =
     (case sort_key ds_id (filter (\<lambda>d. \<not> list_ex (\<lambda>p. pl_data_source p = ds_id d) held) candidates) of
        [] \<Rightarrow> Inl (if candidates \<noteq> [] then AllMatchingSourcesOccupied (intent_class intent)
                   else no_data_source_admits intent)
      | chosen # _ \<Rightarrow>
          Inr \<lparr> pl_tenant = tenant, pl_logical = logical, pl_revision = FIRST_REVISION,
                pl_data_source = ds_id chosen, pl_isolation = IsoDatabase, pl_placed_at = now \<rparr>)"

definition admits :: "data_intent \<Rightarrow> data_source_declaration \<Rightarrow> bool" where
  "admits intent d \<longleftrightarrow>
     ds_placement d = intent_class intent
     \<and> (accepts_new_tenants (ds_capabilities d) \<and> writable (ds_capabilities d))
     \<and> (case intent_region intent of None \<Rightarrow> True | Some r \<Rightarrow> region (ds_residency d) = r)"

definition select ::
  "data_intent \<Rightarrow> tenant_id \<Rightarrow> logical_data_source_name \<Rightarrow> data_source_declaration list
     \<Rightarrow> placement_record list \<Rightarrow> string \<Rightarrow> placement_refusal + placement_record" where
  "select intent tenant logical declared held now =
     (if list_ex (\<lambda>p. pl_tenant p = tenant \<and> pl_logical p = logical) held
      then Inl (AlreadyPlaced tenant logical)
      else let candidates = filter (admits intent) declared in
        if intent_class intent = Shared
        then pick_shared intent tenant logical candidates held now
        else pick_exclusive intent tenant logical candidates held now)"
text \<open>What the checks of a held document come to, whatever its order.\<close>

definition placed_well :: "rfc3339 \<Rightarrow> data_source_declaration list \<Rightarrow> placement_record \<Rightarrow> bool" where
  "placed_well t declared p \<longleftrightarrow>
     rfc_parses t (pl_placed_at p)
     \<and> (case declared_as declared (pl_data_source p) of
          None \<Rightarrow> False
        | Some d \<Rightarrow> isolation_matches_class (ds_placement d) (pl_isolation p)
            \<and> (case pl_isolation p of
                 IsoDiscriminator col _ \<Rightarrow> map_option disc_column (decl_discriminator d) = Some col
               | _ \<Rightarrow> True))"

definition discriminated :: "placement_record \<Rightarrow> (data_source_id \<times> string) option" where
  "discriminated p = (case pl_isolation p of IsoDiscriminator _ v \<Rightarrow> Some (pl_data_source p, v) | _ \<Rightarrow> None)"

definition whole_databases :: "placement_record list \<Rightarrow> data_source_id list" where
  "whole_databases ps = map pl_data_source (filter (\<lambda>p. pl_isolation p = IsoDatabase) ps)"

definition one_owner :: "placement_record set \<Rightarrow> bool" where
  "one_owner P \<longleftrightarrow> (\<forall>p\<in>P. \<forall>q\<in>P. discriminated p \<noteq> None \<and> discriminated q = discriminated p
      \<longrightarrow> pl_tenant q = pl_tenant p)"

definition coherent :: "rfc3339 \<Rightarrow> data_source_declaration list \<Rightarrow> placement_record list \<Rightarrow> bool" where
  "coherent t declared ps \<longleftrightarrow>
     distinct (map (\<lambda>p. (pl_tenant p, pl_logical p)) ps)
     \<and> (\<forall>p\<in>set ps. placed_well t declared p)
     \<and> one_owner (set ps) \<and> distinct (whole_databases ps)"

definition scan_after :: "held_scan \<Rightarrow> placement_record \<Rightarrow> held_scan" where
  "scan_after scan p =
     \<lparr> seen_pairs = (pl_tenant p, pl_logical p) # seen_pairs scan,
       discriminator_owners = (case discriminated p of None \<Rightarrow> discriminator_owners scan
         | Some key \<Rightarrow> (key, pl_tenant p) # discriminator_owners scan),
       exclusive_holders = (if pl_isolation p = IsoDatabase then pl_data_source p # exclusive_holders scan
         else exclusive_holders scan) \<rparr>"

definition owned_by :: "held_scan \<Rightarrow> placement_record \<Rightarrow> bool" where
  "owned_by scan p \<longleftrightarrow>
     (case discriminated p of None \<Rightarrow> True
      | Some key \<Rightarrow> map_of (discriminator_owners scan) key \<in> {None, Some (pl_tenant p)})"

lemma field_str_eq [simp]: "field_str a = field_str b \<longleftrightarrow> a = b"
  by (auto intro: field_name.expand)

lemma declared_column:
  "map_option (field_str \<circ> disc_column) m = Some (field_str c) \<longleftrightarrow> map_option disc_column m = Some c"
  by (cases m) auto

lemma check_placement_iff:
  "check_placement t declared scan p = Inr scan' \<longleftrightarrow>
     (pl_tenant p, pl_logical p) \<notin> set (seen_pairs scan) \<and> placed_well t declared p \<and> owned_by scan p
     \<and> (pl_isolation p = IsoDatabase \<longrightarrow> pl_data_source p \<notin> set (exclusive_holders scan))
     \<and> scan' = scan_after scan p"
  by (cases scan)
    (auto simp: check_placement_def check_isolation_def held_refusal_def scan_after_def owned_by_def
      discriminated_def placed_well_def declared_column Let_def
      split: option.splits isolation_model.splits if_splits)

definition same_key :: "placement_record \<Rightarrow> placement_record \<Rightarrow> bool" where
  "same_key p q \<longleftrightarrow> discriminated p \<noteq> None \<and> discriminated q = discriminated p"

lemma one_owner_insert:
  "one_owner (insert p P) \<longleftrightarrow> one_owner P \<and> (\<forall>q\<in>P. same_key p q \<longrightarrow> pl_tenant q = pl_tenant p)"
  unfolding one_owner_def same_key_def by (auto 4 4)

lemma owned_after:
  "owned_by (scan_after scan p) q \<longleftrightarrow>
     (if same_key p q then pl_tenant q = pl_tenant p else owned_by scan q)"
  by (auto simp: owned_by_def scan_after_def same_key_def split: option.splits)

lemma owned_after_owned:
  assumes "owned_by scan p"
  shows "owned_by (scan_after scan p) q \<longleftrightarrow> (same_key p q \<longrightarrow> pl_tenant q = pl_tenant p) \<and> owned_by scan q"
  using assms unfolding owned_after by (auto simp: owned_by_def same_key_def split: option.splits)

lemma check_placements_from_iff:
  "check_placements_from t declared scan ps = Inr () \<longleftrightarrow>
     coherent t declared ps
     \<and> set (seen_pairs scan) \<inter> (\<lambda>p. (pl_tenant p, pl_logical p)) ` set ps = {}
     \<and> (\<forall>p\<in>set ps. owned_by scan p)
     \<and> set (exclusive_holders scan) \<inter> set (whole_databases ps) = {}"
proof (induction ps arbitrary: scan)
  case Nil
  then show ?case by (simp add: coherent_def one_owner_def whole_databases_def)
next
  case (Cons p ps)
  have pairs: "(pl_tenant p, pl_logical p) \<notin> set (seen_pairs scan)
      \<and> set (seen_pairs (scan_after scan p)) \<inter> (\<lambda>p. (pl_tenant p, pl_logical p)) ` set ps = {}
      \<and> distinct (map (\<lambda>p. (pl_tenant p, pl_logical p)) ps)
    \<longleftrightarrow> distinct (map (\<lambda>p. (pl_tenant p, pl_logical p)) (p # ps))
      \<and> set (seen_pairs scan) \<inter> (\<lambda>p. (pl_tenant p, pl_logical p)) ` set (p # ps) = {}"
    by (auto simp: scan_after_def)
  have owners: "owned_by scan p \<and> (\<forall>q\<in>set ps. owned_by (scan_after scan p) q) \<and> one_owner (set ps)
    \<longleftrightarrow> one_owner (set (p # ps)) \<and> (\<forall>q\<in>set (p # ps). owned_by scan q)"
    by (cases "owned_by scan p") (simp_all only: owned_after_owned list.set(2) one_owner_insert ball_simps, blast+)
  have holders: "(pl_isolation p = IsoDatabase \<longrightarrow> pl_data_source p \<notin> set (exclusive_holders scan))
      \<and> set (exclusive_holders (scan_after scan p)) \<inter> set (whole_databases ps) = {} \<and> distinct (whole_databases ps)
    \<longleftrightarrow> distinct (whole_databases (p # ps)) \<and> set (exclusive_holders scan) \<inter> set (whole_databases (p # ps)) = {}"
    by (auto simp: scan_after_def whole_databases_def)
  have "check_placements_from t declared scan (p # ps) = Inr () \<longleftrightarrow>
      check_placement t declared scan p = Inr (scan_after scan p)
      \<and> check_placements_from t declared (scan_after scan p) ps = Inr ()"
    unfolding check_placements_from.simps rbind_Inr check_placement_iff by blast
  then show ?case
    unfolding check_placement_iff Cons.IH coherent_def list.set(2) ball_simps
    using pairs owners holders by (simp only: list.set(2) ball_simps) blast
qed

lemma check_held_placements_iff [result_simps]:
  "check_held_placements t ps declared = Inr () \<longleftrightarrow> coherent t declared ps"
  by (simp add: check_held_placements_def check_placements_from_iff owned_by_def split: option.splits)

lemma coherent_mset:
  assumes "mset ps = mset qs"
  shows "coherent t declared ps \<longleftrightarrow> coherent t declared qs"
proof -
  have "set ps = set qs" using assms by (rule mset_eq_setD)
  moreover have "distinct (map (\<lambda>p. (pl_tenant p, pl_logical p)) ps)
      \<longleftrightarrow> distinct (map (\<lambda>p. (pl_tenant p, pl_logical p)) qs)"
    using assms by (intro mset_eq_imp_distinct_iff) simp
  moreover have "distinct (whole_databases ps) \<longleftrightarrow> distinct (whole_databases qs)"
    using assms by (intro mset_eq_imp_distinct_iff) (simp add: whole_databases_def mset_filter)
  ultimately show ?thesis by (simp only: coherent_def)
qed

lemma coherent_Cons:
  "coherent t declared (p # ps) \<longleftrightarrow>
     (\<forall>q\<in>set ps. pl_tenant q = pl_tenant p \<longrightarrow> pl_logical q \<noteq> pl_logical p) \<and> placed_well t declared p
     \<and> (\<forall>q\<in>set ps. same_key p q \<longrightarrow> pl_tenant q = pl_tenant p)
     \<and> (pl_isolation p = IsoDatabase \<longrightarrow> pl_data_source p \<notin> set (whole_databases ps))
     \<and> coherent t declared ps"
proof -
  have pairs: "(pl_tenant p, pl_logical p) \<notin> set (map (\<lambda>p. (pl_tenant p, pl_logical p)) ps)
      \<longleftrightarrow> (\<forall>q\<in>set ps. pl_tenant q = pl_tenant p \<longrightarrow> pl_logical q \<noteq> pl_logical p)" by (force simp: image_iff)
  have databases: "distinct (whole_databases (p # ps)) \<longleftrightarrow> distinct (whole_databases ps)
      \<and> (pl_isolation p = IsoDatabase \<longrightarrow> pl_data_source p \<notin> set (whole_databases ps))"
    by (simp add: whole_databases_def conj_commute)
  show ?thesis
    by (simp only: coherent_def list.map distinct.simps list.set ball_simps one_owner_insert pairs databases) blast
qed

section \<open>What a selection guarantees\<close>

lemma ranked_mem:
  assumes "ranked held candidates = (d, c, n) # rest"
  shows "d \<in> set candidates" "decl_discriminator d = Some c" "n = load_of held d"
    and "\<forall>(e, _, m)\<in>set rest. n \<le> m"
proof -
  let ?xs = "filter_map (\<lambda>d. map_option (\<lambda>c. (d, c, load_of held d)) (decl_discriminator d)) candidates"
  have "set (ranked held candidates) = set ?xs" by (simp add: ranked_def)
  with assms have "(d, c, n) \<in> set ?xs" by (metis list.set_intros(1))
  then show "d \<in> set candidates" "decl_discriminator d = Some c" "n = load_of held d"
    by (auto simp: set_filter_map)
  have "sorted (map (\<lambda>(_, _, n). n) (ranked held candidates))" by (simp add: ranked_def)
  with assms show "\<forall>(e, _, m)\<in>set rest. n \<le> m" by auto
qed

lemma select_shape:
  assumes "select intent tenant logical declared held now = Inr p"
  obtains d where "d \<in> set declared" "admits intent d" "pl_tenant p = tenant" "pl_logical p = logical"
    "pl_data_source p = ds_id d" "pl_placed_at p = now" "pl_revision p = FIRST_REVISION"
    "\<forall>q\<in>set held. \<not> (pl_tenant q = tenant \<and> pl_logical q = logical)"
    "(\<exists>c. intent_class intent = Shared \<and> decl_discriminator d = Some c
        \<and> pl_isolation p = IsoDiscriminator (disc_column c) (tenant_str tenant)
        \<and> \<not> value_taken held d tenant (tenant_str tenant))
     \<or> intent_class intent \<noteq> Shared \<and> pl_isolation p = IsoDatabase
        \<and> (\<forall>q\<in>set held. pl_data_source q \<noteq> ds_id d)"
proof -
  have new: "\<forall>q\<in>set held. \<not> (pl_tenant q = tenant \<and> pl_logical q = logical)"
    using assms by (auto simp: select_def list_ex_iff split: if_splits)
  show ?thesis
  proof (cases "intent_class intent = Shared")
    case True
    with assms have "pick_shared intent tenant logical (filter (admits intent) declared) held now = Inr p"
      by (auto simp: select_def split: if_splits)
    then obtain d c n rest where r: "ranked held (filter (admits intent) declared) = (d, c, n) # rest"
      and "\<not> value_taken held d tenant (tenant_str tenant)"
      and "p = \<lparr> pl_tenant = tenant, pl_logical = logical, pl_revision = FIRST_REVISION,
                 pl_data_source = ds_id d, pl_isolation = IsoDiscriminator (disc_column c) (tenant_str tenant),
                 pl_placed_at = now \<rparr>"
      by (auto simp: pick_shared_def split: list.splits prod.splits if_splits)
    with ranked_mem[OF r] True new show ?thesis by (intro that[of d]) auto
  next
    case False
    let ?free = "filter (\<lambda>d. \<not> list_ex (\<lambda>p. pl_data_source p = ds_id d) held) (filter (admits intent) declared)"
    from False assms have "pick_exclusive intent tenant logical (filter (admits intent) declared) held now = Inr p"
      by (auto simp: select_def split: if_splits)
    then obtain d rest where r: "sort_key ds_id ?free = d # rest"
      and p: "p = \<lparr> pl_tenant = tenant, pl_logical = logical, pl_revision = FIRST_REVISION,
                 pl_data_source = ds_id d, pl_isolation = IsoDatabase, pl_placed_at = now \<rparr>"
      by (auto simp: pick_exclusive_def split: list.splits)
    from r have "d \<in> set ?free" by (metis list.set_intros(1) set_sort)
    with p False new show ?thesis by (intro that[of d]) (auto simp: list_ex_iff)
  qed
qed
text \<open>A chosen record can be added to a coherent document, whatever the document holds.\<close>

lemma admits_class: "admits intent d \<Longrightarrow> ds_placement d = intent_class intent"
  by (simp add: admits_def)

lemma select_keeps_coherent:
  assumes held: "check_held declared = Inr ()" "coherent t declared held"
    and sel: "select intent tenant logical declared held now = Inr p"
    and now: "rfc_parses t now"
  shows "coherent t declared (p # held)"
proof -
  from sel obtain d where d: "d \<in> set declared" "admits intent d" "pl_data_source p = ds_id d"
    "pl_placed_at p = now" and tenant: "pl_tenant p = tenant" "pl_logical p = logical"
    and new: "\<forall>q\<in>set held. \<not> (pl_tenant q = tenant \<and> pl_logical q = logical)"
    and kind: "(\<exists>c. intent_class intent = Shared \<and> decl_discriminator d = Some c
        \<and> pl_isolation p = IsoDiscriminator (disc_column c) (tenant_str tenant)
        \<and> \<not> value_taken held d tenant (tenant_str tenant))
     \<or> intent_class intent \<noteq> Shared \<and> pl_isolation p = IsoDatabase
        \<and> (\<forall>q\<in>set held. pl_data_source q \<noteq> ds_id d)"
    by (rule select_shape)
  have "declared_as declared (pl_data_source p) = Some d"
    using held(1) d by (simp add: check_held_iff declared_as_distinct)
  then have well: "placed_well t declared p"
    using kind d now admits_class[OF d(2)] by (cases "ds_placement d") (auto simp: placed_well_def)
  have owner: "\<forall>q\<in>set held. same_key p q \<longrightarrow> pl_tenant q = pl_tenant p"
    using kind d(3) tenant
    by (auto simp: same_key_def discriminated_def value_taken_def list_ex_iff split: isolation_model.splits)
  have free: "pl_isolation p = IsoDatabase \<longrightarrow> pl_data_source p \<notin> set (whole_databases held)"
    using kind d(3) by (auto simp: whole_databases_def)
  from new tenant have "\<forall>q\<in>set held. pl_tenant q = pl_tenant p \<longrightarrow> pl_logical q \<noteq> pl_logical p" by blast
  with well owner free held(2) show ?thesis unfolding coherent_Cons by blast
qed

lemma select_placed:
  assumes "select intent tenant logical declared held now = Inr p"
  shows "p \<notin> set held"
  using assms by (elim select_shape) blast

text \<open>When a selection refuses, and with what.\<close>

lemma sort_key_Nil: "sort_key f xs = [] \<longleftrightarrow> xs = []"
  by (metis set_empty set_sort)

lemma select_exclusive_succeeds:
  assumes "intent_class intent \<noteq> Shared" "\<forall>q\<in>set held. \<not> (pl_tenant q = tenant \<and> pl_logical q = logical)"
  shows "is_ok (select intent tenant logical declared held now) \<longleftrightarrow>
    (\<exists>d\<in>set declared. admits intent d \<and> (\<forall>q\<in>set held. pl_data_source q \<noteq> ds_id d))"
proof -
  let ?free = "filter (\<lambda>d. \<not> list_ex (\<lambda>p. pl_data_source p = ds_id d) held) (filter (admits intent) declared)"
  have new: "\<not> list_ex (\<lambda>p. pl_tenant p = tenant \<and> pl_logical p = logical) held"
    using assms(2) by (simp add: list_ex_iff)
  have "is_ok (select intent tenant logical declared held now) \<longleftrightarrow> sort_key ds_id ?free \<noteq> []"
  proof (cases "sort_key ds_id ?free")
    case Nil
    then show ?thesis
      by (simp only: select_def pick_exclusive_def new assms(1) if_False Let_def list.case is_ok_simps) simp
  next
    case (Cons d rest)
    then show ?thesis
      by (simp only: select_def pick_exclusive_def new assms(1) if_False Let_def list.case is_ok_simps) simp
  qed
  also have "\<dots> \<longleftrightarrow> ?free \<noteq> []" by (simp only: sort_key_Nil)
  also have "\<dots> \<longleftrightarrow> (\<exists>d\<in>set declared. admits intent d \<and> (\<forall>q\<in>set held. pl_data_source q \<noteq> ds_id d))"
    by (auto simp: filter_empty_conv list_ex_iff)
  finally show ?thesis .
qed

section \<open>An environment with one tenant\<close>

definition example_placement :: placement_record where
  "example_placement =
     \<lparr> pl_tenant = TenantId ''acme'', pl_logical = LogicalDataSourceName ''primary'', pl_revision = 1,
       pl_data_source = DataSourceId ''pool-a'', pl_isolation = IsoDiscriminator (FieldName ''tenant'') ''acme'',
       pl_placed_at = ''2026-01-01T00:00:00Z'' \<rparr>"

definition example_rfc :: rfc3339 where
  "example_rfc = \<lparr> rfc_parses = (\<lambda>s. s \<noteq> []), rfc_stamp = (\<lambda>_. Some ''2026-01-01T00:00:00Z'') \<rparr>"

definition example_other_placement :: placement_record where
  "example_other_placement =
     example_placement\<lparr>pl_tenant := TenantId ''globex'', pl_isolation := IsoDiscriminator (FieldName ''tenant'') ''globex''\<rparr>"

lemma example_pool_held: "check_held [example_pool] = Inr ()"
  by (simp add: check_held_def example_pool_def validate_declaration_def check_discriminator_def
      check_connection_def check_pool_def)

lemma example_placements_coherent: "coherent example_rfc [example_pool] [example_placement, example_other_placement]"
  by (simp add: coherent_def one_owner_def whole_databases_def example_other_placement_def example_placement_def
      example_rfc_def example_pool_def placed_well_def discriminated_def declared_as_def)

end
