(* ===== verification/Snapshot_Composition.thy ===== *)
theory Snapshot_Composition
  imports Placements Generation
begin

text \<open>
  How one publication pass builds its snapshot (\<open>publication/snapshot.rs\<close>,
  \<open>placement_history.rs\<close>, \<open>compose_error.rs\<close>, \<open>catalogue_hold.rs\<close>, \<open>published.rs\<close>): the data
  sources as declared, and one binding for each tenant, gathered from its recorded placements.
\<close>

section \<open>Placements held against what was published\<close>

datatype compose_error =
    DuplicatePlacement tenant_id logical_data_source_name
  | EmptyTenantBinding tenant_id
  | PlacementRemoved tenant_id logical_data_source_name
  | PlacementLowered tenant_id binding_revision binding_revision

fun compose_error_message :: "compose_error \<Rightarrow> string" where
  "compose_error_message (DuplicatePlacement t l) =
     tenant_str t @ '' has two placements for '' @ logical_source_str l"
| "compose_error_message (EmptyTenantBinding t) = tenant_str t @ '' has no logical data source bindings''"
| "compose_error_message (PlacementRemoved t l) =
     tenant_str t @ '' was published with '' @ logical_source_str l @ '', and no placement records it any more''"
| "compose_error_message (PlacementLowered t published_at recorded) =
     tenant_str t @ '' was published at revision '' @ show_nat (unat published_at)
     @ ''; its placements now record '' @ show_nat (unat recorded)
     @ '' for the same data, which does not advance it''"

definition placement_of ::
  "placement_record list \<Rightarrow> tenant_id \<Rightarrow> logical_data_source_name \<Rightarrow> placement_record option" where
  "placement_of ps t l = List.find (\<lambda>p. pl_tenant p = t \<and> pl_logical p = l) ps"

fun kept_of ::
  "placement_record list \<Rightarrow> tenant_id \<Rightarrow> u64 \<Rightarrow> bool \<Rightarrow> (logical_data_source_name \<times> tenant_data_document) list
     \<Rightarrow> compose_error + u64 \<times> bool" where
  "kept_of ps t kept changed [] = Inr (kept, changed)"
| "kept_of ps t kept changed ((l, b) # data) =
     (case placement_of ps t l of
        None \<Rightarrow> Inl (PlacementRemoved t l)
      | Some p \<Rightarrow>
          kept_of ps t (saturating_add kept (pl_revision p))
            (changed \<or> pl_data_source p \<noteq> bd_data_source b \<or> pl_isolation p \<noteq> bd_isolation b) data)"

definition refuse_removed_or_lowered ::
  "placement_record list \<Rightarrow> tenant_document list \<Rightarrow> compose_error + unit" where
  "refuse_removed_or_lowered ps published_tenants =
     try_each (\<lambda>t. rbind (kept_of ps (tb_tenant t) 0 False (tb_data t)) (\<lambda>(kept, changed).
         if kept < tb_revision t \<or> (changed \<and> kept = tb_revision t)
         then Inl (PlacementLowered (tb_tenant t) (tb_revision t) kept) else Inr ()))
       published_tenants"

definition placements_retained :: "placement_record list \<Rightarrow> tenant_document list \<Rightarrow> compose_error + unit" where
  "placements_retained ps held = refuse_removed_or_lowered ps held"

section \<open>Composing\<close>

record accumulator =
  acc_data :: "(logical_data_source_name \<times> tenant_data_document) list"
  acc_revision :: u64

definition accumulator_default :: accumulator where
  "accumulator_default = \<lparr> acc_data = [], acc_revision = 0 \<rparr>"

definition binding_for :: "placement_record \<Rightarrow> tenant_data_document" where
  "binding_for p = \<lparr> bd_data_source = pl_data_source p, bd_isolation = pl_isolation p \<rparr>"

definition accumulate_one ::
  "(tenant_id \<times> accumulator) list \<Rightarrow> placement_record \<Rightarrow> compose_error + (tenant_id \<times> accumulator) list" where
  "accumulate_one m p =
     (let a = (case map_of m (pl_tenant p) of Some a \<Rightarrow> a | None \<Rightarrow> accumulator_default) in
      if map_of (acc_data a) (pl_logical p) \<noteq> None
      then Inl (DuplicatePlacement (pl_tenant p) (pl_logical p))
      else Inr (btree_insert (pl_tenant p)
        \<lparr> acc_data = btree_insert (pl_logical p) (binding_for p) (acc_data a),
          acc_revision = saturating_add (acc_revision a) (pl_revision p) \<rparr> m))"

fun accumulate ::
  "(tenant_id \<times> accumulator) list \<Rightarrow> placement_record list \<Rightarrow> compose_error + (tenant_id \<times> accumulator) list" where
  "accumulate m [] = Inr m"
| "accumulate m (p # ps) = rbind (accumulate_one m p) (\<lambda>m'. accumulate m' ps)"

definition tenant_binding_document :: "tenant_id \<times> accumulator \<Rightarrow> compose_error + tenant_document" where
  "tenant_binding_document ta =
     (case ta of (t, a) \<Rightarrow>
        if acc_data a = [] then Inl (EmptyTenantBinding t)
        else Inr \<lparr> tb_tenant = t, tb_revision = acc_revision a, tb_data = acc_data a,
                   tb_configuration = None, tb_secrets = None, tb_features = [], tb_storage = [] \<rparr>)"

definition compose_tenants :: "placement_record list \<Rightarrow> compose_error + tenant_document list" where
  "compose_tenants ps = rbind (accumulate [] ps) (traverse tenant_binding_document)"

definition revision_or_first :: "document_revision option \<Rightarrow> document_revision" where
  "revision_or_first held = (case held of Some r \<Rightarrow> r | None \<Rightarrow> 1)"

definition offered_document :: "document_revision option \<Rightarrow> 'p \<Rightarrow> 'p document_input" where
  "offered_document held payload =
     \<lparr> di_revision = revision_or_first held, di_payload = payload, di_emptying = NotIntended \<rparr>"

definition compose ::
  "data_source_declaration list \<Rightarrow> placement_record list \<Rightarrow> catalog_document \<Rightarrow> published_revisions
     \<Rightarrow> published_resources \<Rightarrow> compose_error + runtime_snapshot" where
  "compose declarations placements catalog held res =
     rbind (refuse_removed_or_lowered placements (pub_tenants res)) (\<lambda>_.
     rbind (compose_tenants placements) (\<lambda>tenants.
       Inr \<lparr> snap_tenants = offered_document (prv_tenants held) tenants,
             snap_data_sources = offered_document (prv_data_sources held)
               (sort_key ds_id (map into_document declarations)),
             snap_catalog = offered_document (prv_catalog held) catalog,
             snap_registry = None \<rparr>))"

text \<open>The published catalogue is kept where the new one names a data source no tenant binds.\<close>

definition hold_unbound_catalogue ::
  "published_resources \<Rightarrow> published_revisions \<Rightarrow> runtime_snapshot \<Rightarrow> runtime_snapshot" where
  "hold_unbound_catalogue res held s =
     (case (unbound_catalogue_entries (di_payload (snap_catalog s)) (di_payload (snap_tenants s)),
            pub_catalog res, prv_catalog held) of
        (_ # _, Some catalog, Some revision) \<Rightarrow>
          s\<lparr>snap_catalog := \<lparr> di_revision = revision, di_payload = catalog, di_emptying = NotIntended \<rparr>\<rparr>
      | _ \<Rightarrow> s)"

definition published_tenants :: "tenant_document list \<Rightarrow> (tenant_id \<times> binding_revision) list" where
  "published_tenants ts = btree_of (map (\<lambda>t. (tb_tenant t, tb_revision t)) ts)"

section \<open>What a composition holds\<close>

definition accumulated ::
  "(tenant_id \<times> accumulator) list \<Rightarrow> tenant_id \<Rightarrow> logical_data_source_name \<Rightarrow> tenant_data_document option" where
  "accumulated m t l = Option.bind (map_of m t) (\<lambda>a. map_of (acc_data a) l)"

definition revision_in :: "(tenant_id \<times> accumulator) list \<Rightarrow> tenant_id \<Rightarrow> u64" where
  "revision_in m t = (case map_of m t of Some a \<Rightarrow> acc_revision a | None \<Rightarrow> 0)"

lemma accumulate_one_iff:
  "accumulate_one m p = Inr m' \<longleftrightarrow>
     accumulated m (pl_tenant p) (pl_logical p) = None
     \<and> m' = btree_insert (pl_tenant p)
         \<lparr> acc_data = btree_insert (pl_logical p) (binding_for p)
             (case map_of m (pl_tenant p) of Some a \<Rightarrow> acc_data a | None \<Rightarrow> []),
           acc_revision = saturating_add (revision_in m (pl_tenant p)) (pl_revision p) \<rparr> m"
  by (cases "map_of m (pl_tenant p)")
    (auto simp: accumulate_one_def accumulated_def revision_in_def accumulator_default_def Let_def)

lemma accumulate_one_effect:
  assumes "accumulate_one m p = Inr m'"
  shows "accumulated m' t l = (if t = pl_tenant p \<and> l = pl_logical p then Some (binding_for p) else accumulated m t l)"
    and "revision_in m' t = (if t = pl_tenant p then saturating_add (revision_in m t) (pl_revision p) else revision_in m t)"
    and "fst ` set m' = insert (pl_tenant p) (fst ` set m)"
  using assms unfolding accumulate_one_iff
  by (auto simp: accumulated_def revision_in_def split: option.splits)

definition well_accumulated :: "(tenant_id \<times> accumulator) list \<Rightarrow> bool" where
  "well_accumulated m \<longleftrightarrow> btree m \<and> (\<forall>(t, a)\<in>set m. btree (acc_data a) \<and> acc_data a \<noteq> [])"

lemma accumulate_one_well:
  assumes "well_accumulated m" "accumulate_one m p = Inr m'"
  shows "well_accumulated m'"
proof -
  let ?a = "\<lparr> acc_data = btree_insert (pl_logical p) (binding_for p)
             (case map_of m (pl_tenant p) of Some a \<Rightarrow> acc_data a | None \<Rightarrow> []),
           acc_revision = saturating_add (revision_in m (pl_tenant p)) (pl_revision p) \<rparr>"
  have m': "m' = btree_insert (pl_tenant p) ?a m" using assms(2) by (simp only: accumulate_one_iff)
  have "btree (case map_of m (pl_tenant p) of Some a \<Rightarrow> acc_data a | None \<Rightarrow> [])"
    using assms(1) by (auto simp: well_accumulated_def split: option.splits dest!: map_of_SomeD)
  then have "btree (acc_data ?a)" by simp
  then have "\<forall>(t, a)\<in>insert (pl_tenant p, ?a) (set m). btree (acc_data a) \<and> acc_data a \<noteq> []"
    using assms(1) by (auto simp: well_accumulated_def)
  with assms(1) set_btree_insert_subset[of "pl_tenant p" ?a m] show ?thesis
    unfolding m' well_accumulated_def by auto
qed

lemma accumulate_bindings:
  assumes "accumulate m ps = Inr m'"
  shows "accumulated m' t l = (case accumulated m t l of Some b \<Rightarrow> Some b | None \<Rightarrow> map_option binding_for (placement_of ps t l))"
  using assms
proof (induction ps arbitrary: m)
  case Nil
  then show ?case by (simp add: placement_of_def split: option.splits)
next
  case (Cons p ps)
  from Cons.prems obtain n where n: "accumulate_one m p = Inr n" "accumulate n ps = Inr m'"
    by (auto simp: rbind_Inr)
  have "accumulated m (pl_tenant p) (pl_logical p) = None" using n(1) by (simp only: accumulate_one_iff)
  with Cons.IH[OF n(2)] show ?case
    by (auto simp: accumulate_one_effect(1)[OF n(1)] placement_of_def split: option.splits)
qed

lemma accumulate_revisions:
  assumes "accumulate m ps = Inr m'"
  shows "unat (revision_in m' t) = min (unat (revision_in m t)
           + sum_list (map (unat \<circ> pl_revision) (filter (\<lambda>p. pl_tenant p = t) ps))) (2 ^ 64 - 1)"
  using assms
proof (induction ps arbitrary: m)
  case Nil
  have "unat (revision_in m t) \<le> 2 ^ 64 - 1" using unsigned_less[of "revision_in m t", where ?'a = nat] by simp
  with Nil show ?case by simp
next
  case (Cons p ps)
  from Cons.prems obtain n where n: "accumulate_one m p = Inr n" "accumulate n ps = Inr m'"
    by (auto simp: rbind_Inr)
  with Cons.IH[OF n(2)] show ?case
    by (auto simp: accumulate_one_effect(2)[OF n(1)] unat_saturating_add)
qed

lemma accumulate_tenants:
  assumes "accumulate m ps = Inr m'"
  shows "fst ` set m' = pl_tenant ` set ps \<union> fst ` set m"
  using assms
proof (induction ps arbitrary: m)
  case (Cons p ps)
  from Cons.prems obtain n where n: "accumulate_one m p = Inr n" "accumulate n ps = Inr m'"
    by (auto simp: rbind_Inr)
  with Cons.IH[OF n(2)] show ?case by (auto simp: accumulate_one_effect(3)[OF n(1)])
qed simp

lemma accumulate_well:
  assumes "accumulate m ps = Inr m'" "well_accumulated m"
  shows "well_accumulated m'"
  using assms
  by (induction ps arbitrary: m) (auto simp: rbind_Inr intro: accumulate_one_well)

lemma accumulate_once:
  assumes "accumulate m ps = Inr m'"
  shows "distinct (map (\<lambda>p. (pl_tenant p, pl_logical p)) ps)
    \<and> (\<forall>p\<in>set ps. accumulated m (pl_tenant p) (pl_logical p) = None)"
  using assms
proof (induction ps arbitrary: m)
  case (Cons p ps)
  then obtain n where n: "accumulate_one m p = Inr n" "accumulate n ps = Inr m'" by (auto simp: rbind_Inr)
  have later: "(pl_tenant q, pl_logical q) \<noteq> (pl_tenant p, pl_logical p) \<and> accumulated m (pl_tenant q) (pl_logical q) = None"
    if "q \<in> set ps" for q
    using Cons.IH[OF n(2)] that by (auto simp: accumulate_one_effect(1)[OF n(1)] split: if_splits)
  then have "(pl_tenant p, pl_logical p) \<notin> (\<lambda>q. (pl_tenant q, pl_logical q)) ` set ps" by force
  moreover have "accumulated m (pl_tenant p) (pl_logical p) = None" using n(1) by (simp only: accumulate_one_iff)
  ultimately show ?case using Cons.IH[OF n(2)] later by simp
qed simp

definition tenant_total :: "placement_record list \<Rightarrow> tenant_id \<Rightarrow> nat" where
  "tenant_total ps t = sum_list (map (unat \<circ> pl_revision) (filter (\<lambda>p. pl_tenant p = t) ps))"

text \<open>What a tenant's document says is what its placements say, and nothing else.\<close>

definition composed_from :: "placement_record list \<Rightarrow> tenant_document \<Rightarrow> bool" where
  "composed_from ps t \<longleftrightarrow>
     (\<forall>l. map_of (tb_data t) l = map_option binding_for (placement_of ps (tb_tenant t) l))
     \<and> unat (tb_revision t) = min (tenant_total ps (tb_tenant t)) (2 ^ 64 - 1)
     \<and> btree (tb_data t) \<and> tb_data t \<noteq> []"

lemma tenant_binding_document_Inr:
  "tenant_binding_document (t, a) = Inr d \<longleftrightarrow> acc_data a \<noteq> []
     \<and> d = \<lparr> tb_tenant = t, tb_revision = acc_revision a, tb_data = acc_data a,
             tb_configuration = None, tb_secrets = None, tb_features = [], tb_storage = [] \<rparr>"
  by (auto simp: tenant_binding_document_def)

lemma traverse_documents:
  assumes "traverse tenant_binding_document m = Inr ts"
  shows "map tb_tenant ts = map fst m"
  using assms by (induction m arbitrary: ts) (auto simp: result_simps tenant_binding_document_Inr)

lemma compose_tenants_spec:
  assumes "compose_tenants ps = Inr ts"
  shows "sorted_wrt (<) (map tb_tenant ts)" "tb_tenant ` set ts = pl_tenant ` set ps"
    and "t \<in> set ts \<Longrightarrow> composed_from ps t"
proof -
  from assms obtain m where m: "accumulate [] ps = Inr m" "traverse tenant_binding_document m = Inr ts"
    by (auto simp: compose_tenants_def rbind_Inr)
  have "well_accumulated []" by (simp add: well_accumulated_def)
  then have well: "well_accumulated m" using accumulate_well[OF m(1)] by blast
  note keys = traverse_documents[OF m(2)]
  show "sorted_wrt (<) (map tb_tenant ts)"
    using well by (simp add: keys well_accumulated_def btree_def)
  have "tb_tenant ` set ts = fst ` set m" using keys by (metis set_map)
  then show "tb_tenant ` set ts = pl_tenant ` set ps" using accumulate_tenants[OF m(1)] by simp
  assume "t \<in> set ts"
  then obtain k a where a: "(k, a) \<in> set m" "tenant_binding_document (k, a) = Inr t"
    using traverse_set[OF m(2)] by fastforce
  from a(2) have t: "tb_tenant t = k" "tb_data t = acc_data a" "tb_revision t = acc_revision a"
    by (auto simp: tenant_binding_document_Inr)
  have "map_of m k = Some a"
    using a(1) well map_of_in_set[OF btree_distinct[of m], of k a] by (simp add: well_accumulated_def)
  then show "composed_from ps t"
    using accumulate_bindings[OF m(1), of k] accumulate_revisions[OF m(1), of k] well a(1)
    by (fastforce simp: composed_from_def t accumulated_def revision_in_def tenant_total_def well_accumulated_def)
qed

section \<open>A revision of a tenant names one set of bindings\<close>

lemma placement_ofD: "placement_of ps t l = Some p \<Longrightarrow> p \<in> set ps \<and> pl_tenant p = t \<and> pl_logical p = l"
  unfolding placement_of_def using find_SomeD by fastforce

lemma placement_of_iff:
  assumes "distinct (map (\<lambda>p. (pl_tenant p, pl_logical p)) ps)"
  shows "placement_of ps t l = Some p \<longleftrightarrow> p \<in> set ps \<and> pl_tenant p = t \<and> pl_logical p = l"
  using assms unfolding placement_of_def
  by (induction ps) (auto dest: find_SomeD)

definition recorded :: "placement_record list \<Rightarrow> tenant_id \<Rightarrow> logical_data_source_name \<Rightarrow> placement_record" where
  "recorded ps t l = the (placement_of ps t l)"

lemma kept_of_Inr:
  assumes "kept_of ps t kept changed data = Inr (k, c)"
  shows "(\<forall>l\<in>fst ` set data. placement_of ps t l = Some (recorded ps t l))
    \<and> unat k = min (unat kept + sum_list (map (\<lambda>(l, _). unat (pl_revision (recorded ps t l))) data)) (2 ^ 64 - 1)
    \<and> c = (changed \<or> (\<exists>(l, b)\<in>set data. binding_for (recorded ps t l) \<noteq> b))"
  using assms
proof (induction data arbitrary: kept changed)
  case Nil
  have "unat kept \<le> 2 ^ 64 - 1" using unsigned_less[of kept, where ?'a = nat] by simp
  with Nil show ?case by simp
next
  case (Cons lb data)
  obtain l b where lb: "lb = (l, b)" by (cases lb)
  from Cons.prems lb obtain p where p: "placement_of ps t l = Some p"
    and rest: "kept_of ps t (saturating_add kept (pl_revision p))
       (changed \<or> pl_data_source p \<noteq> bd_data_source b \<or> pl_isolation p \<noteq> bd_isolation b) data = Inr (k, c)"
    by (auto split: option.splits)
  have "binding_for p \<noteq> b \<longleftrightarrow> pl_data_source p \<noteq> bd_data_source b \<or> pl_isolation p \<noteq> bd_isolation b"
    by (cases b) (auto simp: binding_for_def)
  with Cons.IH[OF rest] p show ?case
    by (auto simp: lb recorded_def unat_saturating_add)
qed

lemma recorded_total:
  assumes once: "distinct (map (\<lambda>p. (pl_tenant p, pl_logical p)) ps)"
    and data: "distinct (map fst data)" "\<forall>l\<in>fst ` set data. placement_of ps t l = Some (recorded ps t l)"
  defines "kept \<equiv> sum_list (map (\<lambda>(l, _). unat (pl_revision (recorded ps t l))) data)"
  shows "kept \<le> tenant_total ps t"
    and "kept = tenant_total ps t \<Longrightarrow> p \<in> set ps \<Longrightarrow> pl_tenant p = t \<Longrightarrow> pl_logical p \<notin> fst ` set data
      \<Longrightarrow> pl_revision p = 0"
proof -
  let ?F = "filter (\<lambda>p. pl_tenant p = t) ps" and ?f = "\<lambda>p. unat (pl_revision p)"
  define G where "G = recorded ps t ` fst ` set data"
  have "distinct ps" using once by (simp add: distinct_map)
  then have F: "tenant_total ps t = sum ?f (set ?F)"
    by (simp add: tenant_total_def sum_list_distinct_conv_sum_set o_def)
  have rec: "recorded ps t l \<in> set ?F \<and> pl_logical (recorded ps t l) = l" if "l \<in> fst ` set data" for l
    using placement_ofD[of ps t l] data(2) that by auto
  then have inj: "inj_on (recorded ps t) (fst ` set data)"
    by (intro inj_on_inverseI[where g = pl_logical]) simp
  have "kept = sum_list (map (?f \<circ> recorded ps t) (map fst data))"
    by (simp add: kept_def o_def case_prod_unfold)
  also have "\<dots> = sum (?f \<circ> recorded ps t) (fst ` set data)"
    using data(1) by (subst sum_list_distinct_conv_sum_set) simp_all
  also have "\<dots> = sum ?f G" using sum.reindex[OF inj, of ?f] by (simp add: G_def)
  finally have G: "kept = sum ?f G" .
  have sub: "G \<subseteq> set ?F" using rec by (auto simp: G_def)
  show "kept \<le> tenant_total ps t" unfolding G F by (rule sum_mono2) (use sub in auto)
  assume eq: "kept = tenant_total ps t" and p: "p \<in> set ps" "pl_tenant p = t" "pl_logical p \<notin> fst ` set data"
  have "sum ?f (set ?F - G) = 0" using sum_diff_nat[of G "set ?F" ?f] sub G F eq finite_subset[OF sub] by simp
  then have none: "\<forall>q\<in>set ?F - G. ?f q = 0" by simp
  have "p \<notin> G"
  proof
    assume "p \<in> G"
    then obtain j where "j \<in> fst ` set data" "p = recorded ps t j" unfolding G_def by (elim imageE) blast
    with rec[of j] p(3) show False by simp
  qed
  with none p(1,2) have "?f p = 0" by simp
  then show "pl_revision p = 0" by (simp add: unat_eq_0)
qed

lemma compose_Inr:
  assumes "compose declarations ps catalog held res = Inr s"
  shows "refuse_removed_or_lowered ps (pub_tenants res) = Inr ()"
    and "compose_tenants ps = Inr (di_payload (snap_tenants s))"
    and "di_payload (snap_data_sources s) = sort_key ds_id (map into_document declarations)"
    and "di_payload (snap_catalog s) = catalog"
    and "distinct (map (\<lambda>p. (pl_tenant p, pl_logical p)) ps)"
  using assms accumulate_once[of "[]" ps]
  by (auto simp: compose_def offered_document_def compose_tenants_def rbind_Inr)

lemma retained_tenant:
  assumes "refuse_removed_or_lowered ps ts = Inr ()" "t \<in> set ts"
  obtains k where "\<forall>l\<in>fst ` set (tb_data t). placement_of ps (tb_tenant t) l = Some (recorded ps (tb_tenant t) l)"
    "unat k = min (sum_list (map (\<lambda>(l, _). unat (pl_revision (recorded ps (tb_tenant t) l))) (tb_data t))) (2 ^ 64 - 1)"
    "tb_revision t \<le> k"
    "\<And>l b. k = tb_revision t \<Longrightarrow> (l, b) \<in> set (tb_data t) \<Longrightarrow> binding_for (recorded ps (tb_tenant t) l) = b"
proof -
  obtain k c where k: "kept_of ps (tb_tenant t) 0 False (tb_data t) = Inr (k, c)"
    and guard: "\<not> (k < tb_revision t \<or> (c \<and> k = tb_revision t))"
    using assms by (auto simp: refuse_removed_or_lowered_def try_each_Inr rbind_Inr split: if_splits)
  from kept_of_Inr[OF k] guard show thesis by (intro that[of k]) (auto simp: not_less)
qed

lemma composed_tenant:
  assumes "compose_tenants ps = Inr ts" "p \<in> set ps"
  obtains t where "t \<in> set ts" "tb_tenant t = pl_tenant p" "composed_from ps t"
proof -
  have "pl_tenant p \<in> tb_tenant ` set ts" using compose_tenants_spec(2)[OF assms(1)] assms(2) by simp
  then obtain t where "t \<in> set ts" "tb_tenant t = pl_tenant p" by auto
  then show thesis using that compose_tenants_spec(3)[OF assms(1)] by blast
qed

text \<open>
  C36: What a published revision of a tenant stands for when it is composed again. A tenant that
  was published with data is still there, at its published revision or a later one. Where the
  revision has not moved, everything it was published with is bound as it was; and short of the
  largest revision, all that can have been added are records of revision 0. So an unmoved revision
  binds the very same data where every record has a positive revision, as those the placement
  operations write have; the composition itself does not refuse a record of revision 0.
\<close>

theorem an_unmoved_revision_binds_the_same_data:
  assumes "compose declarations ps catalog held res = Inr s"
    and t: "t \<in> set (pub_tenants res)" "btree (tb_data t)" "tb_data t \<noteq> []"
  shows "\<exists>t'\<in>set (di_payload (snap_tenants s)). tb_tenant t' = tb_tenant t \<and> tb_revision t \<le> tb_revision t'
    \<and> (tb_revision t' = tb_revision t \<longrightarrow>
        (\<forall>(l, b)\<in>set (tb_data t). map_of (tb_data t') l = Some b)
        \<and> (tb_revision t' < 2 ^ 64 - 1 \<longrightarrow>
            (\<forall>p\<in>set ps. pl_tenant p = tb_tenant t \<and> pl_logical p \<notin> fst ` set (tb_data t) \<longrightarrow> pl_revision p = 0)
            \<and> ((\<forall>p\<in>set ps. pl_revision p \<noteq> 0) \<longrightarrow> map_of (tb_data t') = map_of (tb_data t))))"
proof -
  note c = compose_Inr[OF assms(1)]
  let ?rec = "recorded ps (tb_tenant t)"
  obtain k where found: "\<forall>l\<in>fst ` set (tb_data t). placement_of ps (tb_tenant t) l = Some (?rec l)"
    and uk: "unat k = min (sum_list (map (\<lambda>(l, _). unat (pl_revision (?rec l))) (tb_data t))) (2 ^ 64 - 1)"
    and le: "tb_revision t \<le> k"
    and unchanged: "\<And>l b. k = tb_revision t \<Longrightarrow> (l, b) \<in> set (tb_data t) \<Longrightarrow> binding_for (?rec l) = b"
    by (rule retained_tenant[OF c(1) t(1)]) blast
  note sums = recorded_total[OF c(5) btree_distinct[OF t(2)] found]
  obtain l b where "(l, b) \<in> set (tb_data t)" using t(3) by (metis last_in_set prod.collapse)
  then have "placement_of ps (tb_tenant t) l = Some (?rec l)" using found by force
  then obtain p where "p \<in> set ps" "pl_tenant p = tb_tenant t" using placement_ofD by blast
  then obtain t' where t': "t' \<in> set (di_payload (snap_tenants s))" "tb_tenant t' = tb_tenant t" "composed_from ps t'"
    using composed_tenant[OF c(2)] by metis
  then have bound: "map_of (tb_data t') l = map_option binding_for (placement_of ps (tb_tenant t) l)"
    and ut: "unat (tb_revision t') = min (tenant_total ps (tb_tenant t)) (2 ^ 64 - 1)" for l
    by (simp_all add: composed_from_def)
  have up: "k \<le> tb_revision t'" using sums(1) uk ut by (simp add: word_le_nat_alt)
  have same: "map_of (tb_data t') l = Some b" if "tb_revision t' = tb_revision t" "(l, b) \<in> set (tb_data t)" for l b
  proof -
    have "placement_of ps (tb_tenant t) l = Some (?rec l)" using found that(2) by force
    with unchanged[OF _ that(2)] le up that(1) bound show ?thesis by simp
  qed
  have zero: "pl_revision p = 0" if "tb_revision t' = tb_revision t" "tb_revision t' < 2 ^ 64 - 1"
    "p \<in> set ps" "pl_tenant p = tb_tenant t" "pl_logical p \<notin> fst ` set (tb_data t)" for p
  proof -
    have "unat k = unat (tb_revision t')" "unat (tb_revision t') < 2 ^ 64 - 1"
      using that(1,2) le up by (simp_all add: word_less_nat_alt)
    with uk ut show ?thesis using sums(2)[OF _ that(3-5)] by simp
  qed
  have "map_of (tb_data t') l = map_of (tb_data t) l" if "tb_revision t' = tb_revision t" "tb_revision t' < 2 ^ 64 - 1"
    "\<forall>p\<in>set ps. pl_revision p \<noteq> 0" for l
  proof (cases "map_of (tb_data t) l")
    case None
    then have "placement_of ps (tb_tenant t) l = None"
      using zero[OF that(1,2)] that(3) placement_ofD[of ps "tb_tenant t" l]
      by (cases "placement_of ps (tb_tenant t) l") (auto simp: map_of_eq_None_keys)
    with None bound show ?thesis by simp
  next
    case (Some b)
    with same[OF that(1)] show ?thesis by (simp add: map_of_SomeD)
  qed
  with t' le up same zero show ?thesis by (intro bexI[of _ t']) (auto intro: order.trans)
qed

section \<open>A coherent environment composes into an acceptable generation\<close>

lemma composed_binding:
  assumes "composed_from ps t" "distinct (map (\<lambda>p. (pl_tenant p, pl_logical p)) ps)" "(l, b) \<in> set (tb_data t)"
  obtains p where "p \<in> set ps" "pl_tenant p = tb_tenant t" "pl_logical p = l" "b = binding_for p"
proof -
  have "map_of (tb_data t) l = Some b"
    using assms(1,3) map_of_in_set[OF btree_distinct, of "tb_data t" l b] by (simp add: composed_from_def)
  with assms(1) obtain p where "placement_of ps (tb_tenant t) l = Some p" "b = binding_for p"
    by (auto simp: composed_from_def)
  then show ?thesis using that placement_ofD by blast
qed

lemma binding_for_simps [simp]:
  "bd_data_source (binding_for p) = pl_data_source p" "bd_isolation (binding_for p) = pl_isolation p"
  by (simp_all add: binding_for_def)







fun column_of :: "isolation_document \<Rightarrow> field_name option" where
  "column_of (IsoDiscriminator col _) = Some col"
| "column_of _ = None"

lemma placed_well_columns:
  "placed_well t declared p \<longleftrightarrow> rfc_parses t (pl_placed_at p)
     \<and> (\<exists>d. declared_as declared (pl_data_source p) = Some d
          \<and> isolation_matches_class (ds_placement d) (pl_isolation p)
          \<and> (column_of (pl_isolation p) = None
               \<or> map_option disc_column (decl_discriminator d) = column_of (pl_isolation p)))"
  by (cases "pl_isolation p") (auto simp: placed_well_def split: option.splits)

text \<open>Two tenants composed on one data source are isolated by its column, with different values.\<close>

lemma composed_tenants_apart:
  assumes "compose declarations ps catalog revisions res = Inr s" "coherent t declarations ps"
    and one: "d \<in> set (di_payload (snap_tenants s))" "(l, b) \<in> set (tb_data d)"
    and two: "e \<in> set (di_payload (snap_tenants s))" "(m, c) \<in> set (tb_data e)"
    and same: "bd_data_source c = bd_data_source b" "tb_tenant e \<noteq> tb_tenant d"
  shows "\<exists>column v w. bd_isolation b = IsoDiscriminator column v \<and> bd_isolation c = IsoDiscriminator column w \<and> v \<noteq> w"
proof -
  note spec = compose_tenants_spec(3)[OF compose_Inr(2)[OF assms(1)]]
  have once: "distinct (map (\<lambda>p. (pl_tenant p, pl_logical p)) ps)" using assms(2) by (simp add: coherent_def)
  obtain p where p: "p \<in> set ps" "pl_tenant p = tb_tenant d" "b = binding_for p"
    by (rule composed_binding[OF spec[OF one(1)] once one(2)])
  obtain q where q: "q \<in> set ps" "pl_tenant q = tb_tenant e" "c = binding_for q"
    by (rule composed_binding[OF spec[OF two(1)] once two(2)])
  have src: "pl_data_source q = pl_data_source p" using same(1) p(3) q(3) by simp
  have "placed_well t declarations p" "placed_well t declarations q" using assms(2) p(1) q(1) by (simp_all add: coherent_def)
  then obtain x y where x: "declared_as declarations (pl_data_source p) = Some x"
      "isolation_matches_class (ds_placement x) (pl_isolation p)"
      "column_of (pl_isolation p) = None \<or> map_option disc_column (decl_discriminator x) = column_of (pl_isolation p)"
    and y: "declared_as declarations (pl_data_source q) = Some y"
      "isolation_matches_class (ds_placement y) (pl_isolation q)"
      "column_of (pl_isolation q) = None \<or> map_option disc_column (decl_discriminator y) = column_of (pl_isolation q)"
    unfolding placed_well_columns by blast
  have yx: "y = x" using x(1) y(1) src by simp
  have "pl_isolation p \<noteq> IsoDatabase"
  proof
    assume db: "pl_isolation p = IsoDatabase"
    with x(2) y(2) yx have "pl_isolation q = IsoDatabase" by (cases "ds_placement x"; cases "pl_isolation q") simp_all
    with db p(1) q(1) src have "q = p"
      using assms(2) by (auto simp: coherent_def whole_databases_def distinct_map inj_on_def)
    then show False using p(2) q(2) same(2) by simp
  qed
  with x(2) y(2) yx obtain col v col' w where i: "pl_isolation p = IsoDiscriminator col v" "pl_isolation q = IsoDiscriminator col' w"
    by (cases "ds_placement x"; cases "pl_isolation p"; cases "pl_isolation q") simp_all
  moreover have "col' = col" using x(3) y(3) yx i by auto
  moreover have "v \<noteq> w"
  proof
    assume "v = w"
    then have "discriminated q = discriminated p" "discriminated p \<noteq> None" using i src by (simp_all add: discriminated_def)
    then have "pl_tenant q = pl_tenant p" using assms(2) p(1) q(1) unfolding coherent_def one_owner_def by blast
    then show False using p(2) q(2) same(2) by simp
  qed
  ultimately show ?thesis using p(3) q(3) by simp
qed
section \<open>Two tenants on one shared data source\<close>

definition example_published :: published_resources where
  "example_published =
     \<lparr> pub_tenants = [\<lparr> tb_tenant = TenantId ''acme'', tb_revision = 1,
         tb_data = [(LogicalDataSourceName ''primary'',
            \<lparr> bd_data_source = DataSourceId ''pool-a'', bd_isolation = IsoDiscriminator (FieldName ''tenant'') ''acme'' \<rparr>)],
         tb_configuration = None, tb_secrets = None, tb_features = [], tb_storage = [] \<rparr>],
       pub_data_sources = [], pub_catalog = None, pub_history = ResourceHistory_default \<rparr>"

definition example_revisions :: published_revisions where
  "example_revisions = \<lparr> prv_tenants = Some 4, prv_data_sources = Some 2, prv_catalog = None, prv_registry = None \<rparr>"

abbreviation example_placements :: "placement_record list" where
  "example_placements \<equiv> [example_placement, example_other_placement]"

lemma example_retained: "refuse_removed_or_lowered example_placements (pub_tenants example_published) = Inr ()"
  by (simp add: refuse_removed_or_lowered_def example_published_def placement_of_def example_placement_def
      saturating_add_def)



definition example_composed :: "tenant_id \<Rightarrow> string \<Rightarrow> tenant_document" where
  "example_composed t v =
     \<lparr> tb_tenant = t, tb_revision = 1,
       tb_data = [(LogicalDataSourceName ''primary'',
         \<lparr> bd_data_source = DataSourceId ''pool-a'', bd_isolation = IsoDiscriminator (FieldName ''tenant'') v \<rparr>)],
       tb_configuration = None, tb_secrets = None, tb_features = [], tb_storage = [] \<rparr>"

lemma example_compose:
  obtains s where "compose [example_pool] example_placements [] example_revisions example_published = Inr s"
    "di_payload (snap_tenants s) = [example_composed (TenantId ''acme'') ''acme'', example_composed (TenantId ''globex'') ''globex'']"
proof -
  have "compose_tenants example_placements
      = Inr [example_composed (TenantId ''acme'') ''acme'', example_composed (TenantId ''globex'') ''globex'']"
    by (simp add: compose_tenants_def accumulate_one_def accumulator_default_def Let_def example_placement_def
        example_other_placement_def binding_for_def tenant_binding_document_def example_composed_def
        saturating_add_def less_tenant_id_def)
  then show ?thesis using that example_retained by (auto simp: compose_def offered_document_def)
qed

theorem an_unmoved_revision_binds_the_same_data_witness:
  "\<exists>s. compose [example_pool] example_placements [] example_revisions example_published = Inr s
     \<and> (\<exists>t'\<in>set (di_payload (snap_tenants s)). tb_tenant t' = TenantId ''acme''
          \<and> map_of (tb_data t') = map_of (tb_data (example_composed (TenantId ''acme'') ''acme'')))"
proof -
  obtain s where s: "compose [example_pool] example_placements [] example_revisions example_published = Inr s"
    "di_payload (snap_tenants s) = [example_composed (TenantId ''acme'') ''acme'', example_composed (TenantId ''globex'') ''globex'']"
    by (rule example_compose)
  have published: "example_composed (TenantId ''acme'') ''acme'' \<in> set (pub_tenants example_published)"
    by (simp add: example_published_def example_composed_def)
  have "btree (tb_data (example_composed (TenantId ''acme'') ''acme''))"
    "tb_data (example_composed (TenantId ''acme'') ''acme'') \<noteq> []"
    by (simp_all add: example_composed_def btree_def)
  from an_unmoved_revision_binds_the_same_data[OF s(1) published this]
  have "\<exists>t'\<in>set (di_payload (snap_tenants s)). tb_tenant t' = TenantId ''acme'' \<and> tb_revision t' = 1
      \<and> map_of (tb_data t') = map_of (tb_data (example_composed (TenantId ''acme'') ''acme''))"
    by (auto simp: s(2) example_composed_def example_placement_def example_other_placement_def)
  with s(1) show ?thesis by blast
qed

text \<open>A record of revision 0 does change what a tenant binds at an unmoved revision.\<close>

definition example_zero_placement :: placement_record where
  "example_zero_placement =
     example_placement\<lparr>pl_logical := LogicalDataSourceName ''reports'', pl_revision := 0\<rparr>"

lemma a_record_of_revision_zero_adds_unmoved:
  "\<exists>s t. compose [example_pool] [example_placement, example_zero_placement] [] example_revisions example_published = Inr s
     \<and> di_payload (snap_tenants s) = [t] \<and> tb_tenant t = TenantId ''acme'' \<and> tb_revision t = 1
     \<and> map fst (tb_data t) = [LogicalDataSourceName ''primary'', LogicalDataSourceName ''reports'']
     \<and> (\<exists>u. pub_tenants example_published = [u] \<and> tb_revision u = 1
          \<and> map fst (tb_data u) = [LogicalDataSourceName ''primary''])"
  by (simp add: compose_def refuse_removed_or_lowered_def example_published_def placement_of_def offered_document_def
      compose_tenants_def accumulate_one_def accumulator_default_def Let_def example_placement_def
      example_zero_placement_def binding_for_def tenant_binding_document_def saturating_add_def
      less_logical_data_source_name_def)

end
