(* ===== verification/Published_Isolation.thy ===== *)
theory Published_Isolation
  imports Data_Promises Reader Snapshot_Composition
begin

text \<open>
  From the placements an operator keeps to the rows a request touches: a snapshot composed from
  placements that were checked, installed as the generation a runtime serves, and two requests to
  that runtime for callers of different tenants. It joins the composition
  (\<open>Snapshot_Composition\<close>), the installation (\<open>Reader\<close>), the resolution (\<open>Resolution\<close>) and the
  routes of the Data API (\<open>Data_Requests\<close>, \<open>Data_Promises\<close>).
\<close>

section \<open>What the runtime serves\<close>

lemma installed_view:
  assumes "registries_wf r"
    and "install origin (StateGeneration n digest read_from ds ts c) r = (Inr i, r')"
  shows "view_wf (generation_view (rg_generation r'))"
    and "tenants_of (generation_view (rg_generation r')) k = Some b \<Longrightarrow> b \<in> set ts"
proof -
  show "view_wf (generation_view (rg_generation r'))"
    using install_wf[OF assms(1), of origin "StateGeneration n digest read_from ds ts c"] assms(2)
    by (simp add: registries_wf_def)
  have whole: "refuses_whole data_source_kind (rg_data_sources r) ds = None"
    "refuses_whole tenant_kind (rg_tenants r) ts = None"
    using assms(2) by (auto simp: install_def split: option.splits)
  obtain r'' where r'': "install origin (StateGeneration n digest read_from ds ts c) r =
       (Inr \<lparr> in_serving = ServingGeneration n read_from, in_recorded = Some (n, digest) \<rparr>, r'')"
    "generation_view (rg_generation r'') =
       ResolutionView_of (Some c) (rg_tenants r'') (rg_data_sources r'')
         (Some (ReaderGenerationReport_new n digest (served_origin_of read_from)))"
    "\<And>i. reg_get (rg_tenants r'') i = List.find (\<lambda>t. tb_tenant t = i) ts"
    by (rule install_generation[where origin = origin and n = n and digest = digest
          and read_from = read_from and c = c, OF whole]) (rule that; assumption)
  have "reg_get (rg_tenants r') k = List.find (\<lambda>t. tb_tenant t = k) ts"
    "tenants_of (generation_view (rg_generation r')) k = reg_get (rg_tenants r') k"
    using r'' assms(2) by (simp_all add: tenants_of_def ResolutionView_of_def reg_get_def)
  then show "b \<in> set ts" if "tenants_of (generation_view (rg_generation r')) k = Some b"
    using that find_SomeD[of "\<lambda>t. tb_tenant t = k" ts b] by simp
qed

section \<open>Two calls\<close>

definition touched :: "comparison \<Rightarrow> backend_call \<Rightarrow> row set" where
  "touched cmp call = {r. call_touches cmp call r}"

definition same_place :: "execution_target \<Rightarrow> execution_target \<Rightarrow> bool" where
  "same_place x y \<longleftrightarrow> tgt_connector x = tgt_connector y \<and> destination (tgt_connection x) = destination (tgt_connection y)"

text \<open>
  Calls of two tenants on one data source touch no row in common; on one physical destination,
  whatever it is declared as, both tenants are told apart by a discriminator.
\<close>

definition kept_apart :: "comparison \<Rightarrow> backend_call \<Rightarrow> backend_call \<Rightarrow> bool" where
  "kept_apart cmp x y \<longleftrightarrow>
     (tgt_data_source (call_target x) = tgt_data_source (call_target y) \<longrightarrow> touched cmp x \<inter> touched cmp y = {})
     \<and> (same_place (call_target x) (call_target y) \<longrightarrow>
          \<not> is_structural (tgt_isolation (call_target x)) \<and> \<not> is_structural (tgt_isolation (call_target y)))"

lemma resolved_binding:
  assumes "view_wf v" "resolve_data_source v t logical = Inr r"
  obtains b db where "tenants_of v t = Some b" "tb_tenant b = t" "(logical, db) \<in> set (tb_data b)"
    "tgt_data_source (res_target r) = bd_data_source db" "tgt_isolation (res_target r) = bd_isolation db"
  using assms(2) tenants_of_key[OF assms(1)] unfolding resolve_data_source_meets_spec_aux[OF assms(1)] resolve_spec_Inr
  by (elim conjE exE) (rule that, assumption, blast, erule map_of_SomeD, simp_all)

lemma confined_calls_kept_apart:
  assumes composed: "compose declarations ps catalog revisions res = Inr s" "coherent t declarations ps"
    and view: "view_wf (pin (svc_runtime svc))"
      "\<And>k b. tenants_of (pin (svc_runtime svc)) k = Some b \<Longrightarrow> b \<in> set (di_payload (snap_tenants s))"
    and one: "call_confined svc a operation name key asked conn x"
    and two: "call_confined svc b operation' name' key' asked' conn' y"
    and tenants: "id_tenant (caller_identity a) \<noteq> id_tenant (caller_identity b)"
    and backend: "exact_texts cmp"
  shows "kept_apart cmp x y"
proof -
  obtain l r where r: "resolve_data_source (pin (svc_runtime svc)) (id_tenant (caller_identity a)) l = Inr r"
    "call_target x = res_target r" "call_within (tgt_isolation (call_target x)) x"
    by (rule confined_resolved[OF one])
  obtain m q where q: "resolve_data_source (pin (svc_runtime svc)) (id_tenant (caller_identity b)) m = Inr q"
    "call_target y = res_target q" "call_within (tgt_isolation (call_target y)) y"
    by (rule confined_resolved[OF two])
  obtain d db where d: "d \<in> set (di_payload (snap_tenants s))" "tb_tenant d = id_tenant (caller_identity a)"
    "(l, db) \<in> set (tb_data d)" "tgt_data_source (call_target x) = bd_data_source db"
    "tgt_isolation (call_target x) = bd_isolation db"
    using resolved_binding[OF view(1) r(1)] view(2) r(2) by metis
  obtain e eb where e: "e \<in> set (di_payload (snap_tenants s))" "tb_tenant e = id_tenant (caller_identity b)"
    "(m, eb) \<in> set (tb_data e)" "tgt_data_source (call_target y) = bd_data_source eb"
    "tgt_isolation (call_target y) = bd_isolation eb"
    using resolved_binding[OF view(1) q(1)] view(2) q(2) by metis
  have "touched cmp x \<inter> touched cmp y = {}" if "tgt_data_source (call_target x) = tgt_data_source (call_target y)"
  proof -
    have "bd_data_source eb = bd_data_source db" "tb_tenant e \<noteq> tb_tenant d" using that d e tenants by simp_all
    from composed_tenants_apart[OF composed d(1,3) e(1,3) this] obtain column v w where
      i: "tgt_isolation (call_target x) = IsoDiscriminator column v"
        "tgt_isolation (call_target y) = IsoDiscriminator column w" "v \<noteq> w" using d(5) e(5) by auto
    then show ?thesis
      using touched_cell[OF backend r(3)[unfolded i(1)]] touched_cell[OF backend q(3)[unfolded i(2)]]
      unfolding touched_def by auto (metis json.inject(3))
  qed
  moreover have "\<not> is_structural (tgt_isolation (call_target x)) \<and> \<not> is_structural (tgt_isolation (call_target y))"
    if "same_place (call_target x) (call_target y)"
    using shared_place_discriminated[OF view(1) r(1) q(1) tenants]
      shared_place_discriminated[OF view(1) q(1) r(1) tenants[symmetric]] that r(2) q(2)
    by (simp add: same_place_def)
  ultimately show ?thesis by (simp add: kept_apart_def)
qed

text \<open>
  C2: Two tenants' requests never touch a row in common on a data source they share. Take
  placements that pass the check of held placements, the snapshot composed from them, and a runtime
  that serves the generation installed from that snapshot over well-formed registries, and let the
  backend compare texts exactly. Then of two requests to the Data API whose headers identify callers
  of different tenants, one is answered without the backend, or each makes one call, for its own
  caller's tenant, and the two calls are kept apart: if they go to one declared data source, no row whatever
  is both read or written by the one and by the other, whatever the filters, keys and bodies were; and
  if they reach one physical destination of one connector, under whatever declarations, both tenants
  are separated there by a discriminator. (That the columns and values of two different declarations of
  one destination tell tenants apart is not checked by the code, and not claimed.)
\<close>

theorem two_tenants_share_no_row:
  assumes composed: "compose declarations ps catalog revisions res = Inr s"
    and held: "check_held_placements t ps declarations = Inr ()"
    and installed: "registries_wf r"
      "install origin (StateGeneration n digest read_from (di_payload (snap_data_sources s))
         (di_payload (snap_tenants s)) c) r = (Inr i, r')"
      "pin (svc_runtime svc) = generation_view (rg_generation r')"
    and callers: "Caller_from_request config read headers = Inr a" "Caller_from_request config read headers' = Inr b"
      "id_tenant (caller_identity a) \<noteq> id_tenant (caller_identity b)"
    and backend: "exact_texts cmp"
  shows "(\<exists>out. \<forall>w. handle config read parse_body svc headers route w = (out, w))
    \<or> (\<exists>out. \<forall>w. handle config read parse_body svc headers' route' w = (out, w))
    \<or> (\<exists>x y conn conn' render render'.
         (\<forall>w. handle config read parse_body svc headers route w = apfst render (perform conn x w))
         \<and> (\<forall>w. handle config read parse_body svc headers' route' w = apfst render' (perform conn' y w))
         \<and> tgt_tenant (call_target x) = id_tenant (caller_identity a)
         \<and> tgt_tenant (call_target y) = id_tenant (caller_identity b)
         \<and> kept_apart cmp x y)"
proof (cases rule: handled[of config read parse_body svc headers route])
  case one: (called a' name conn x render)
  have a': "a' = a" using one(1) callers(1) by simp
  show ?thesis
  proof (cases rule: handled[of config read parse_body svc headers' route'])
    case two: (called b' name' conn' y render')
    have b': "b' = b" using two(1) callers(2) by simp
    have wf: "view_wf (pin (svc_runtime svc))"
      unfolding installed(3) by (rule installed_view(1)[OF installed(1,2)])
    have served: "k \<in> set (di_payload (snap_tenants s))" if "tenants_of (pin (svc_runtime svc)) j = Some k" for j k
      using that unfolding installed(3) by (rule installed_view(2)[OF installed(1,2)])
    have "coherent t declarations ps" using held by (simp add: check_held_placements_iff)
    from confined_calls_kept_apart[OF composed this wf served one(3) two(3) _ backend]
    have "kept_apart cmp x y" using callers(3) a' b' by simp
    moreover have "tgt_tenant (call_target x) = id_tenant (caller_identity a)"
      "tgt_tenant (call_target y) = id_tenant (caller_identity b)"
      using confined_tenant[OF wf one(3)] confined_tenant[OF wf two(3)] a' b' by simp_all
    ultimately show ?thesis using one(4) two(4) by blast
  qed blast
qed blast

section \<open>Two tenants of one pool\<close>

definition example_installed :: "(source_error + installed_generation) \<times> decoded_catalogue registries" where
  "example_installed =
     install ''published'' (StateGeneration 1 (RecordDigest [1]) OriginPublished [into_document example_pool]
       [example_composed (TenantId ''acme'') ''acme'', example_composed (TenantId ''globex'') ''globex'']
       (Decoded [(orders, example_resource)])) registries_new"

definition example_serving :: "row list data_api_service" where
  "example_serving =
     (let r = snd example_installed in
      \<lparr> svc_runtime = over_published (rg_tenants r) (rg_data_sources r) (rg_generation r),
        svc_connectors = [(ConnectorId ''ndc'', example_backend)],
        svc_authorization = DataAuthorization_default, svc_config = DataApiConfig_default \<rparr>)"

definition example_two_issuers :: identity_config where
  "example_two_issuers =
     IdentityConfig_default\<lparr>trusted_issuers :=
       [\<lparr> ti_issuer = ''https://id/acme'', ti_tenant = TenantId ''acme'' \<rparr>,
        \<lparr> ti_issuer = ''https://id/globex'', ti_tenant = TenantId ''globex'' \<rparr>]\<rparr>"

text \<open>A token that is the name of its tenant.\<close>

definition example_token_read :: token_read where
  "example_token_read token =
     Inr [(''exp'', JNumber (PosInt 1000)), (''iss'', JString (''https://id/'' @ token)),
          (''scope'', JArray [JString ''data:orders:read'']), (''sub'', JString ''ada''), (''tenant_id'', JString token)]"

definition example_bearer_of :: "string \<Rightarrow> header_map" where
  "example_bearer_of token = [(''authorization'', ''Bearer '' @ token)]"

definition example_asked :: "string \<Rightarrow> row list \<Rightarrow> http_outcome \<times> row list" where
  "example_asked token =
     handle example_two_issuers example_token_read (\<lambda>_. Inr JNull) example_serving (example_bearer_of token)
       (RouteRead ''orders'' ''7'')"

definition example_table :: "row list" where
  "example_table =
     [[(FieldName ''id'', JString ''7''), (FieldName ''tenant'', JString ''acme'')],
      [(FieldName ''id'', JString ''7''), (FieldName ''tenant'', JString ''globex'')]]"

lemma example_installs: "is_ok (fst example_installed)"
  by code_simp

definition example_reader :: "string \<Rightarrow> caller" where
  "example_reader token =
     \<lparr> caller_identity = \<lparr> id_tenant = TenantId token, id_subject = ''ada'', id_roles = [],
         id_scopes = [''data:orders:read''] \<rparr>,
       caller_credential = CallerCredential token \<rparr>"

lemma example_bearer_read:
  "extract_bearer (example_bearer_of ''acme'') = Inr ''acme''"
  "extract_bearer (example_bearer_of ''globex'') = Inr ''globex''"
  by code_simp+

lemma example_headers_plain: "map_of (example_bearer_of t) ''x-tenant-id'' = None"
  by (simp add: example_bearer_of_def)

lemma example_globex: "TenantId_try_new ''globex'' = Inr (TenantId ''globex'')"
proof -
  have "is_dns_label ''globex''" by code_simp
  then show ?thesis by (simp add: TenantId_try_new_def map_ok_Inr parse_dns_label_Inr)
qed

lemma example_caller_of:
  "t \<in> {''acme'', ''globex''} \<Longrightarrow>
     Caller_from_request example_two_issuers example_token_read (example_bearer_of t) = Inr (example_reader t)"
  by (auto simp: example_headers_plain example_bearer_read example_tenant example_globex Caller_from_request_def resolve_identity_def reject_tenant_header_def BANNED_TENANT_HEADER_def
      bind_tenant_def registration_for_def claimed_tenant_def claim_string_def find_issuer_def
      example_two_issuers_def IdentityConfig_default_def example_token_read_def example_reader_def claim_string_list_def)

lemma example_found:
  "is_ok (fst (serve_route (\<lambda>_. Inr JNull) example_serving (example_reader ''acme'') (RouteRead ''orders'' ''7'') example_table))"
  "is_ok (fst (serve_route (\<lambda>_. Inr JNull) example_serving (example_reader ''globex'') (RouteRead ''orders'' ''7'') example_table))"
  by code_simp+

lemma example_not_found:
  "\<not> is_ok (fst (serve_route (\<lambda>_. Inr JNull) example_serving (example_reader ''acme'') (RouteRead ''orders'' ''7'') []))"
  "\<not> is_ok (fst (serve_route (\<lambda>_. Inr JNull) example_serving (example_reader ''globex'') (RouteRead ''orders'' ''7'') []))"
  by code_simp+

lemma example_asks_backend:
  assumes "t \<in> {''acme'', ''globex''}"
  shows "\<not> (\<exists>out. \<forall>w. example_asked t w = (out, w))"
proof
  let ?serve = "\<lambda>w. fst (serve_route (\<lambda>_. Inr JNull) example_serving (example_reader t) (RouteRead ''orders'' ''7'') w)"
  assume "\<exists>out. \<forall>w. example_asked t w = (out, w)"
  then have "fst (example_asked t example_table) = fst (example_asked t [])" by auto
  moreover have "is_ok (?serve example_table)" "\<not> is_ok (?serve [])"
    using assms example_found example_not_found by auto
  ultimately show False
    by (cases "?serve example_table"; cases "?serve []")
      (simp_all add: example_asked_def handle_def example_caller_of[OF assms])
qed

theorem two_tenants_share_no_row_witness:
  "\<exists>x y conn conn' render render'.
     (\<forall>w. example_asked ''acme'' w = apfst render (perform conn x w))
     \<and> (\<forall>w. example_asked ''globex'' w = apfst render' (perform conn' y w))
     \<and> tgt_tenant (call_target x) = TenantId ''acme'' \<and> tgt_tenant (call_target y) = TenantId ''globex''
     \<and> kept_apart (\<lambda>_ v w. v = w) x y"
proof -
  obtain s where s: "compose [example_pool] example_placements [] example_revisions example_published = Inr s"
    "di_payload (snap_tenants s) = [example_composed (TenantId ''acme'') ''acme'', example_composed (TenantId ''globex'') ''globex'']"
    by (rule example_compose)
  have sources: "di_payload (snap_data_sources s) = [into_document example_pool]"
    by (simp add: compose_Inr(3)[OF s(1)])
  have held: "check_held_placements example_rfc example_placements [example_pool] = Inr ()"
    by (simp add: check_held_placements_iff example_placements_coherent)
  obtain i where "install ''published'' (StateGeneration 1 (RecordDigest [1]) OriginPublished
      (di_payload (snap_data_sources s)) (di_payload (snap_tenants s)) (Decoded [(orders, example_resource)])) registries_new
      = (Inr i, snd example_installed)"
    using example_installs unfolding s(2) sources by (metis example_installed_def is_ok_iff prod.collapse)
  note apart = two_tenants_share_no_row[OF s(1) held registries_new_wf this, of example_serving example_two_issuers
      example_token_read "example_bearer_of ''acme''" "example_reader ''acme''" "example_bearer_of ''globex''"
      "example_reader ''globex''" "\<lambda>_ v w. v = w" "\<lambda>_. Inr JNull" "RouteRead ''orders'' ''7''" "RouteRead ''orders'' ''7''"]
  have "pin (svc_runtime example_serving) = generation_view (rg_generation (snd example_installed))"
    by (simp add: example_serving_def Let_def pin_def over_published_def)
  moreover have "id_tenant (caller_identity (example_reader t)) = TenantId t" for t by (simp add: example_reader_def)
  moreover have "exact_texts (\<lambda>_ v w. v = w)" by (simp add: exact_texts_def)
  ultimately show ?thesis
    using apart example_asks_backend[of "''acme''"] example_asks_backend[of "''globex''"]
    unfolding example_asked_def by (simp add: example_caller_of)
qed

end
