(* ===== verification/Atomic_Replace.thy ===== *)
theory Atomic_Replace
  imports Prelude
begin

text \<open>
  The replacement of a file by writing beside it and renaming
  (\<open>publication/last_known_good/atomic_replace.rs\<close>) as a step relation over what the file
  system holds, one step for each call the function awaits, with a failing call and a crash
  possible at every point. \<open>survivors\<close> are the contents the target may have after a crash:
  a rename that was not synced may be lost, and a file renamed before it was synced may come
  back cut short. A staging file whose removal fails is left behind (\<open>LeftBehind\<close>), as the code
  ignores that error, and a rename whose directory cannot be synced stays renamed, not yet durable
  (\<open>Unsynced\<close>). The directory sync is the one of Unix; elsewhere the code has none.
\<close>

datatype phase = Idle | Writing | Written | Synced | Renamed | Done | Failed | LeftBehind | Unsynced

record replace_state =
  phase_of :: phase
  target :: "string option"
  staged :: "string option"
  staged_synced :: bool
  survivors :: "string option set"

definition replace_start :: "string option \<Rightarrow> replace_state" where
  "replace_start old =
     \<lparr> phase_of = Idle, target = old, staged = None, staged_synced = False, survivors = {old} \<rparr>"

definition clean_up :: "replace_state \<Rightarrow> replace_state" where
  "clean_up s = s\<lparr>phase_of := Failed, staged := None, staged_synced := False\<rparr>"

inductive replace_step :: "string \<Rightarrow> replace_state \<Rightarrow> replace_state \<Rightarrow> bool"
  for bytes :: string where
  open_staging:
    "phase_of s = Idle \<Longrightarrow> replace_step bytes s (s\<lparr>phase_of := Writing, staged := Some []\<rparr>)"
| open_fails:
    "phase_of s = Idle \<Longrightarrow> replace_step bytes s (s\<lparr>phase_of := Failed\<rparr>)"
| write_some:
    "phase_of s = Writing \<Longrightarrow> staged s = Some (take n bytes) \<Longrightarrow> n \<le> m \<Longrightarrow>
     replace_step bytes s (s\<lparr>staged := Some (take m bytes)\<rparr>)"
| write_all:
    "phase_of s = Writing \<Longrightarrow> staged s = Some bytes \<Longrightarrow> replace_step bytes s (s\<lparr>phase_of := Written\<rparr>)"
| sync_all:
    "phase_of s = Written \<Longrightarrow> replace_step bytes s (s\<lparr>phase_of := Synced, staged_synced := True\<rparr>)"
| rename:
    "phase_of s = Synced \<Longrightarrow>
     replace_step bytes s
       (s\<lparr>phase_of := Renamed, target := staged s, staged := None,
          survivors := survivors s \<union>
            (case staged s of
               None \<Rightarrow> {}
             | Some written \<Rightarrow>
                 if staged_synced s then {Some written} else {Some (take n written) | n. True})\<rparr>)"
| staging_fails:
    "phase_of s \<in> {Writing, Written, Synced} \<Longrightarrow> replace_step bytes s (clean_up s)"
| removal_fails:
    "phase_of s \<in> {Writing, Written, Synced} \<Longrightarrow> replace_step bytes s (s\<lparr>phase_of := LeftBehind\<rparr>)"
| sync_directory:
    "phase_of s = Renamed \<Longrightarrow> replace_step bytes s (s\<lparr>phase_of := Done, survivors := {target s}\<rparr>)"
| sync_directory_fails:
    "phase_of s = Renamed \<Longrightarrow> replace_step bytes s (s\<lparr>phase_of := Unsynced\<rparr>)"

inductive_cases replace_stepE: "replace_step bytes s s'"

inductive replace_reaches :: "string \<Rightarrow> string option \<Rightarrow> replace_state \<Rightarrow> bool"
  for bytes :: string and old :: "string option" where
  reach_start: "replace_reaches bytes old (replace_start old)"
| reach_step: "replace_reaches bytes old s \<Longrightarrow> replace_step bytes s s' \<Longrightarrow> replace_reaches bytes old s'"

definition replace_inv :: "string \<Rightarrow> string option \<Rightarrow> replace_state \<Rightarrow> bool" where
  "replace_inv bytes old s =
     (case phase_of s of
        Idle \<Rightarrow> target s = old \<and> survivors s = {old} \<and> staged s = None
      | Writing \<Rightarrow> target s = old \<and> survivors s = {old}
      | Written \<Rightarrow> target s = old \<and> survivors s = {old} \<and> staged s = Some bytes
      | Synced \<Rightarrow> target s = old \<and> survivors s = {old} \<and> staged s = Some bytes \<and> staged_synced s
      | Renamed \<Rightarrow> target s = Some bytes \<and> survivors s = {old, Some bytes} \<and> staged s = None
      | Done \<Rightarrow> target s = Some bytes \<and> survivors s = {Some bytes} \<and> staged s = None
      | Failed \<Rightarrow> target s = old \<and> survivors s = {old} \<and> staged s = None
      | LeftBehind \<Rightarrow> target s = old \<and> survivors s = {old}
      | Unsynced \<Rightarrow> target s = Some bytes \<and> survivors s = {old, Some bytes} \<and> staged s = None)"

lemma replace_step_inv: "replace_step bytes s s' \<Longrightarrow> replace_inv bytes old s \<Longrightarrow> replace_inv bytes old s'"
  by (erule replace_stepE) (auto simp: replace_inv_def clean_up_def)

lemma replace_reaches_inv: "replace_reaches bytes old s \<Longrightarrow> replace_inv bytes old s"
proof (induction rule: replace_reaches.induct)
  case reach_start
  then show ?case by (simp add: replace_inv_def replace_start_def)
next
  case (reach_step s s')
  then show ?case using replace_step_inv by blast
qed

text \<open>
  C17: A file is replaced whole or not at all. At every point a reader sees the old content
  or all of the new, and a crash at any point leaves one of the two; a replacement that failed
  before the rename left the old content and no staging file, unless removing that file failed as
  well, and one that finished is durable; if only the directory could not be synced, the new
  content is there, and a crash may still bring the old one back.
\<close>

theorem replace_is_atomic:
  assumes "replace_reaches bytes old s"
  shows "target s \<in> {old, Some bytes} \<and> survivors s \<subseteq> {old, Some bytes}
    \<and> (phase_of s = Failed \<longrightarrow> target s = old \<and> survivors s = {old} \<and> staged s = None)
    \<and> (phase_of s = Done \<longrightarrow> survivors s = {Some bytes})
    \<and> (phase_of s = LeftBehind \<longrightarrow> target s = old \<and> survivors s = {old})
    \<and> (phase_of s = Unsynced \<longrightarrow> target s = Some bytes \<and> staged s = None)"
  using replace_reaches_inv[OF assms] by (auto simp: replace_inv_def split: phase.splits)

lemma replace_can_finish: "\<exists>s. replace_reaches bytes old s \<and> phase_of s = Done"
proof -
  let ?s0 = "replace_start old"
  let ?s1 = "?s0\<lparr>phase_of := Writing, staged := Some []\<rparr>"
  let ?s2 = "?s1\<lparr>staged := Some (take (length bytes) bytes)\<rparr>"
  let ?s3 = "?s2\<lparr>phase_of := Written\<rparr>"
  let ?s4 = "?s3\<lparr>phase_of := Synced, staged_synced := True\<rparr>"
  have 0: "replace_reaches bytes old ?s0" by (rule reach_start)
  have "replace_step bytes ?s0 ?s1" by (rule open_staging) (simp add: replace_start_def)
  then have 1: "replace_reaches bytes old ?s1" by (rule reach_step[OF 0])
  have "replace_step bytes ?s1 ?s2" by (rule write_some[where n = 0]) simp_all
  then have 2: "replace_reaches bytes old ?s2" by (rule reach_step[OF 1])
  have "replace_step bytes ?s2 ?s3" by (rule write_all) simp_all
  then have 3: "replace_reaches bytes old ?s3" by (rule reach_step[OF 2])
  have "replace_step bytes ?s3 ?s4" by (rule sync_all) simp
  then have 4: "replace_reaches bytes old ?s4" by (rule reach_step[OF 3])
  have "replace_step bytes ?s4 (?s4\<lparr>phase_of := Renamed, target := staged ?s4, staged := None,
          survivors := survivors ?s4 \<union>
            (case staged ?s4 of
               None \<Rightarrow> {}
             | Some written \<Rightarrow>
                 if staged_synced ?s4 then {Some written} else {Some (take n written) | n. True})\<rparr>)"
    (is "replace_step bytes _ ?s5")
    by (rule rename) simp
  then have 5: "replace_reaches bytes old ?s5" by (rule reach_step[OF 4])
  have "replace_step bytes ?s5 (?s5\<lparr>phase_of := Done, survivors := {target ?s5}\<rparr>)"
    by (rule sync_directory) simp
  then have "replace_reaches bytes old (?s5\<lparr>phase_of := Done, survivors := {target ?s5}\<rparr>)"
    by (rule reach_step[OF 5])
  moreover have "phase_of (?s5\<lparr>phase_of := Done, survivors := {target ?s5}\<rparr>) = Done" by simp
  ultimately show ?thesis by blast
qed

theorem replace_is_atomic_witness:
  "\<exists>s. replace_reaches ''new'' (Some ''old'') s \<and> phase_of s = Done \<and> target s \<in> {Some ''old'', Some ''new''}
     \<and> survivors s = {Some ''new''}"
proof -
  obtain s where "replace_reaches ''new'' (Some ''old'') s" "phase_of s = Done"
    using replace_can_finish by blast
  with replace_is_atomic[OF this(1)] show ?thesis by auto
qed

end
