(* ===== verification/Ndc_Schema.thy ===== *)
theory Ndc_Schema
  imports Connector
begin

text \<open>
  The schema an NDC connector reports and the index made of it
  (\<open>crates/fabric-connector-ndc/src\<close>: \<open>wire/ndc_type.rs\<close>, \<open>wire/schema.rs\<close>, \<open>wire/procedure.rs\<close>,
  \<open>wire/request_arguments.rs\<close>, \<open>wire/capabilities.rs\<close>, \<open>schema_index/\<close>): which collections and
  columns there are, what each scalar type calls the operators this platform knows, and what
  each procedure takes. A \<open>BTreeMap\<close> that only has its values rewritten keeps its order, so such
  a collect is a \<open>map\<close>.
\<close>

section \<open>The wire schema\<close>

datatype ndc_type =
    TNamed string
  | TNullable ndc_type
  | TArray ndc_type
  | TPredicate string

fun type_named :: "ndc_type \<Rightarrow> string option" where
  "type_named (TNamed name) = Some name"
| "type_named (TNullable underlying) = type_named underlying"
| "type_named (TArray _) = None"
| "type_named (TPredicate _) = None"

datatype ndc_comparison =
    DefEqual | DefIn | DefLessThan | DefLessThanOrEqual | DefGreaterThan | DefGreaterThanOrEqual
  | DefContains | DefContainsInsensitive | DefStartsWith | DefStartsWithInsensitive
  | DefEndsWith | DefEndsWithInsensitive | DefCustom

type_synonym ndc_scalar = "(string \<times> ndc_comparison) list"
type_synonym ndc_object = "(string \<times> ndc_type) list"

record ndc_collection =
  ci_name :: string
  ci_type :: string

record ndc_procedure =
  pi_name :: string
  pi_arguments :: "(string \<times> ndc_type) list"

record request_level_arguments =
  ra_query :: "(string \<times> json) list"
  ra_mutation :: "(string \<times> json) list"

definition declares_for_query :: "request_level_arguments \<Rightarrow> string \<Rightarrow> bool" where
  "declares_for_query r argument = (map_of (ra_query r) argument \<noteq> None)"

definition declares_for_mutation :: "request_level_arguments \<Rightarrow> string \<Rightarrow> bool" where
  "declares_for_mutation r argument = (map_of (ra_mutation r) argument \<noteq> None)"

record ndc_schema =
  sc_scalars :: "(string \<times> ndc_scalar) list"
  sc_objects :: "(string \<times> ndc_object) list"
  sc_collections :: "ndc_collection list"
  sc_procedures :: "ndc_procedure list"
  sc_request_arguments :: "request_level_arguments option"

record ndc_capabilities =
  ncap_version :: string
  ncap_capabilities :: json

definition supports_transactional_mutations :: "ndc_capabilities \<Rightarrow> bool" where
  "supports_transactional_mutations c =
     (case Option.bind (as_object (ncap_capabilities c)) (\<lambda>m. map_of m ''mutation'') of
        None \<Rightarrow> False
      | Some m \<Rightarrow> (case Option.bind (as_object m) (\<lambda>m. map_of m ''transactional'') of
          None \<Rightarrow> False
        | Some capability \<Rightarrow> capability \<noteq> JNull))"

section \<open>Semantic operators\<close>

datatype semantic_operator =
  SemEqual | SemIn | SemLessThan | SemLessThanOrEqual | SemGreaterThan | SemGreaterThanOrEqual | SemContains

datatype operator_fit = Exact | Widened

fun semantic_index :: "semantic_operator \<Rightarrow> nat" where
  "semantic_index SemEqual = 0"
| "semantic_index SemIn = 1"
| "semantic_index SemLessThan = 2"
| "semantic_index SemLessThanOrEqual = 3"
| "semantic_index SemGreaterThan = 4"
| "semantic_index SemGreaterThanOrEqual = 5"
| "semantic_index SemContains = 6"

lemma semantic_index_inj: "semantic_index a = semantic_index b \<Longrightarrow> a = b"
  by (cases a; cases b) simp_all

instantiation semantic_operator :: linorder
begin
definition less_eq_semantic_operator :: "semantic_operator \<Rightarrow> semantic_operator \<Rightarrow> bool" where
  "less_eq_semantic_operator a b = (semantic_index a \<le> semantic_index b)"
definition less_semantic_operator :: "semantic_operator \<Rightarrow> semantic_operator \<Rightarrow> bool" where
  "less_semantic_operator a b = (semantic_index a < semantic_index b)"
instance
  by standard (auto simp: less_eq_semantic_operator_def less_semantic_operator_def
      intro: semantic_index_inj)
end

fun refused_feature :: "semantic_operator \<Rightarrow> unsupported_feature" where
  "refused_feature SemEqual = Comparison Equal"
| "refused_feature SemIn = Membership"
| "refused_feature SemLessThan = Comparison LessThan"
| "refused_feature SemLessThanOrEqual = Comparison LessThanOrEqual"
| "refused_feature SemGreaterThan = Comparison GreaterThan"
| "refused_feature SemGreaterThanOrEqual = Comparison GreaterThanOrEqual"
| "refused_feature SemContains = Comparison Contains"

fun semantic_str :: "semantic_operator \<Rightarrow> string" where
  "semantic_str SemEqual = ''equal''"
| "semantic_str SemIn = ''in''"
| "semantic_str SemLessThan = ''less_than''"
| "semantic_str SemLessThanOrEqual = ''less_than_or_equal''"
| "semantic_str SemGreaterThan = ''greater_than''"
| "semantic_str SemGreaterThanOrEqual = ''greater_than_or_equal''"
| "semantic_str SemContains = ''contains''"

fun for_neutral :: "comparison_operator \<Rightarrow> semantic_operator" where
  "for_neutral Equal = SemEqual"
| "for_neutral NotEqual = SemEqual"
| "for_neutral LessThan = SemLessThan"
| "for_neutral LessThanOrEqual = SemLessThanOrEqual"
| "for_neutral GreaterThan = SemGreaterThan"
| "for_neutral GreaterThanOrEqual = SemGreaterThanOrEqual"
| "for_neutral Contains = SemContains"

fun from_definition :: "ndc_comparison \<Rightarrow> (semantic_operator \<times> operator_fit) option" where
  "from_definition DefEqual = Some (SemEqual, Exact)"
| "from_definition DefIn = Some (SemIn, Exact)"
| "from_definition DefLessThan = Some (SemLessThan, Exact)"
| "from_definition DefLessThanOrEqual = Some (SemLessThanOrEqual, Exact)"
| "from_definition DefGreaterThan = Some (SemGreaterThan, Exact)"
| "from_definition DefGreaterThanOrEqual = Some (SemGreaterThanOrEqual, Exact)"
| "from_definition DefContains = Some (SemContains, Exact)"
| "from_definition DefContainsInsensitive = Some (SemContains, Widened)"
| "from_definition _ = None"

definition neutral_candidates :: "comparison_operator list" where
  "neutral_candidates =
     [Equal, NotEqual, LessThan, LessThanOrEqual, GreaterThan, GreaterThanOrEqual, Contains]"

section \<open>The indexes\<close>

type_synonym operator_index = "(string \<times> (semantic_operator \<times> string) list) list"
type_synonym collection_index = "(string \<times> (string \<times> string option) list) list"

definition better_name ::
  "string \<times> ndc_comparison \<Rightarrow> (semantic_operator \<times> operator_fit \<times> string) list
     \<Rightarrow> (semantic_operator \<times> operator_fit \<times> string) list" where
  "better_name nd best =
     (case from_definition (snd nd) of
        None \<Rightarrow> best
      | Some (semantic, fit) \<Rightarrow>
          let improves = (case map_of best semantic of
                            None \<Rightarrow> True
                          | Some (kept, _) \<Rightarrow> kept = Widened \<and> fit = Exact)
          in if improves then btree_insert semantic (fit, fst nd) best else best)"

definition best_names :: "ndc_scalar \<Rightarrow> (semantic_operator \<times> string) list" where
  "best_names scalar = map (\<lambda>(semantic, _, name). (semantic, name)) (fold better_name scalar [])"

definition operator_index_build :: "ndc_schema \<Rightarrow> operator_index" where
  "operator_index_build s = map (\<lambda>(name, scalar). (name, best_names scalar)) (sc_scalars s)"

definition supported_neutral_operators :: "operator_index \<Rightarrow> comparison_operator list" where
  "supported_neutral_operators index =
     filter (\<lambda>candidate. list_ex (\<lambda>(_, by_semantic). map_of by_semantic (for_neutral candidate) \<noteq> None) index)
       neutral_candidates"

definition collection_index_build :: "ndc_schema \<Rightarrow> collection_index" where
  "collection_index_build s =
     btree_of (filter_map (\<lambda>c.
       map_option (\<lambda>object. (ci_name c, map (\<lambda>(f, t). (f, type_named t)) object))
         (map_of (sc_objects s) (ci_type c))) (sc_collections s))"

definition to_neutral_schema :: "collection_index \<Rightarrow> connector_schema" where
  "to_neutral_schema index =
     btree_of (filter_map (\<lambda>(name, fs).
       map_option (\<lambda>n. (n, filter_map (\<lambda>(f, _). ok (FieldName_try_new f)) fs)) (ok (CollectionName_try_new name)))
       index)"

datatype argument_kind = ArgPredicate | ArgValue

fun describe_kind :: "argument_kind \<Rightarrow> string" where
  "describe_kind ArgPredicate = ''a predicate''"
| "describe_kind ArgValue = ''not a predicate''"

record argument_info =
  ai_kind :: argument_kind
  ai_required :: bool

fun kind_of :: "ndc_type \<Rightarrow> argument_kind" where
  "kind_of (TPredicate _) = ArgPredicate"
| "kind_of (TNullable underlying) = kind_of underlying"
| "kind_of (TNamed _) = ArgValue"
| "kind_of (TArray _) = ArgValue"

fun is_nullable :: "ndc_type \<Rightarrow> bool" where
  "is_nullable (TNullable _) = True"
| "is_nullable _ = False"

type_synonym procedure_index = "(string \<times> (string \<times> argument_info) list) list"

definition procedure_index_build :: "ndc_schema \<Rightarrow> procedure_index" where
  "procedure_index_build s =
     btree_of (map (\<lambda>p. (pi_name p,
       map (\<lambda>(a, t). (a, \<lparr> ai_kind = kind_of t, ai_required = (\<not> is_nullable t) \<rparr>)) (pi_arguments p)))
       (sc_procedures s))"

record schema_index =
  ix_collections :: collection_index
  ix_operators :: operator_index
  ix_procedures :: procedure_index
  ix_neutral :: connector_schema
  ix_supported :: "comparison_operator list"

definition SchemaIndex_build :: "ndc_schema \<Rightarrow> schema_index" where
  "SchemaIndex_build s =
     (let operators = operator_index_build s; collections = collection_index_build s in
      \<lparr> ix_collections = collections, ix_operators = operators,
        ix_procedures = procedure_index_build s, ix_neutral = to_neutral_schema collections,
        ix_supported = supported_neutral_operators operators \<rparr>)"

definition has_procedure :: "schema_index \<Rightarrow> string \<Rightarrow> bool" where
  "has_procedure ix name = (map_of (ix_procedures ix) name \<noteq> None)"

definition procedure_argument :: "schema_index \<Rightarrow> string \<Rightarrow> string \<Rightarrow> argument_kind option" where
  "procedure_argument ix procedure argument =
     Option.bind (map_of (ix_procedures ix) procedure) (\<lambda>as. map_option ai_kind (map_of as argument))"

definition declared_arguments :: "schema_index \<Rightarrow> string \<Rightarrow> string list" where
  "declared_arguments ix procedure =
     (case map_of (ix_procedures ix) procedure of None \<Rightarrow> [] | Some as \<Rightarrow> map fst as)"

definition required_arguments :: "schema_index \<Rightarrow> string \<Rightarrow> string list" where
  "required_arguments ix procedure =
     (case map_of (ix_procedures ix) procedure of
        None \<Rightarrow> [] | Some as \<Rightarrow> map fst (filter (\<lambda>(_, info). ai_required info) as))"

definition has_field :: "schema_index \<Rightarrow> collection_name \<Rightarrow> field_name \<Rightarrow> bool" where
  "has_field ix collection f =
     (case map_of (ix_collections ix) (collection_str collection) of
        None \<Rightarrow> False | Some fs \<Rightarrow> map_of fs (field_str f) \<noteq> None)"

definition operator_name_of ::
  "schema_index \<Rightarrow> collection_name \<Rightarrow> field_name \<Rightarrow> semantic_operator \<Rightarrow> string option" where
  "operator_name_of ix collection f semantic =
     Option.bind (map_of (ix_collections ix) (collection_str collection)) (\<lambda>fs.
     Option.bind (map_of fs (field_str f)) (\<lambda>named.
     Option.bind named (\<lambda>scalar.
     Option.bind (map_of (ix_operators ix) scalar) (\<lambda>by_semantic. map_of by_semantic semantic))))"

section \<open>What the index keeps\<close>

text \<open>
  The name kept for an operator is one the scalar declares for it, and an exact one where the
  scalar declares any: the widened \<open>contains\<close> is only a stand-in.
\<close>

definition kept_best :: "ndc_scalar \<Rightarrow> (semantic_operator \<times> operator_fit \<times> string) list \<Rightarrow> bool" where
  "kept_best done best =
     ((\<forall>semantic fit name. map_of best semantic = Some (fit, name) \<longrightarrow>
         (\<exists>d. (name, d) \<in> set done \<and> from_definition d = Some (semantic, fit)))
      \<and> (\<forall>name d semantic fit. (name, d) \<in> set done \<and> from_definition d = Some (semantic, fit) \<longrightarrow>
           (\<exists>kept n. map_of best semantic = Some (kept, n) \<and> (fit = Exact \<longrightarrow> kept = Exact))))"

lemma kept_best_Nil: "kept_best [] []"
  by (simp add: kept_best_def)

lemma kept_best_better_name:
  assumes "kept_best done best"
  shows "kept_best (done @ [(name, d)]) (better_name (name, d) best)"
proof (cases "from_definition d")
  case None
  with assms show ?thesis by (fastforce simp: kept_best_def better_name_def)
next
  case (Some sf)
  then obtain semantic fit where d: "from_definition d = Some (semantic, fit)" by (cases sf) auto
  show ?thesis
  proof (cases "map_of best semantic")
    case None
    with assms d show ?thesis by (fastforce simp: kept_best_def better_name_def)
  next
    case (Some kn)
    then obtain kept n where k: "map_of best semantic = Some (kept, n)" by (cases kn) auto
    with assms d show ?thesis
      by (cases fit; cases kept) (fastforce simp: kept_best_def better_name_def)+
  qed
qed

lemma kept_best_fold: "kept_best done best \<Longrightarrow> kept_best (done @ scalar) (fold better_name scalar best)"
proof (induction scalar arbitrary: "done" best)
  case (Cons nd scalar)
  obtain name d where nd: "nd = (name, d)" by (cases nd)
  from Cons.IH[OF kept_best_better_name[OF Cons.prems, of name d]] nd show ?case by simp
qed simp

lemma map_of_best_names:
  "map_of (best_names scalar) semantic = map_option snd (map_of (fold better_name scalar []) semantic)"
  unfolding best_names_def by (induction "fold better_name scalar []" rule: list.induct)
    (auto simp: split_def map_of_map[unfolded split_def] comp_def)

lemma best_names_declared:
  assumes "map_of (best_names scalar) semantic = Some name"
  obtains d fit where "(name, d) \<in> set scalar" "from_definition d = Some (semantic, fit)"
    "fit = Widened \<Longrightarrow> (\<forall>(_, d')\<in>set scalar. from_definition d' \<noteq> Some (semantic, Exact))"
proof -
  have best: "kept_best scalar (fold better_name scalar [])"
    using kept_best_fold[OF kept_best_Nil, of scalar] by simp
  from assms obtain fit where m: "map_of (fold better_name scalar []) semantic = Some (fit, name)"
    by (auto simp: map_of_best_names)
  with best obtain d where d: "(name, d) \<in> set scalar" "from_definition d = Some (semantic, fit)"
    unfolding kept_best_def by blast
  have "\<forall>(_, d')\<in>set scalar. from_definition d' \<noteq> Some (semantic, Exact)" if "fit = Widened"
    using best m that unfolding kept_best_def by fastforce
  with d that show thesis by blast
qed

lemma best_names_complete:
  assumes "(n, d) \<in> set scalar" and "from_definition d = Some (semantic, fit)"
  shows "map_of (best_names scalar) semantic \<noteq> None"
  using kept_best_fold[OF kept_best_Nil, of scalar] assms
  by (fastforce simp: kept_best_def map_of_best_names)

lemma map_of_operator_index:
  "map_of (operator_index_build s) scalar = map_option best_names (map_of (sc_scalars s) scalar)"
  unfolding operator_index_build_def by (simp add: map_of_map)

end
