(* ===== verification/Ndc_Config.thy ===== *)
theory Ndc_Config
  imports Ndc_Schema
begin

text \<open>
  The mapping of writes onto an NDC connector's procedures and every check it passes before a
  connector is registered: \<open>config/\<close> on its own, \<open>registration/\<close> against the schema the
  connector reports (\<open>crates/fabric-connector-ndc/src\<close>). The closing sections prove what a
  mapping that passed them can rely on: no argument is written twice, and each argument named
  is one its procedure declares, of the kind it is used as.
\<close>

section \<open>The configuration\<close>

datatype payload_shape = ShapeValues | SetOperations

record procedure_binding =
  pb_procedure :: string
  payload_argument :: "string option"
  filter_argument :: "string option"
  key_arguments :: "(string \<times> string) list"
  pb_payload_shape :: payload_shape

definition argument_names :: "procedure_binding \<Rightarrow> (string \<times> string) option" where
  "argument_names b =
     (case (payload_argument b, filter_argument b) of (Some p, Some f) \<Rightarrow> Some (p, f) | _ \<Rightarrow> None)"

record collection_procedures =
  on_insert :: "procedure_binding option"
  on_update :: "procedure_binding option"
  on_delete :: "procedure_binding option"

definition procedures_writable :: "collection_procedures \<Rightarrow> bool" where
  "procedures_writable p = (on_insert p \<noteq> None \<or> on_update p \<noteq> None \<or> on_delete p \<noteq> None)"

definition predicate_bearing :: "collection_procedures \<Rightarrow> (string \<times> procedure_binding option) list" where
  "predicate_bearing p = [(''update'', on_update p), (''delete'', on_delete p)]"

definition payload_bearing :: "collection_procedures \<Rightarrow> (string \<times> procedure_binding option) list" where
  "payload_bearing p = [(''insert'', on_insert p), (''update'', on_update p)]"

definition all_procedures :: "collection_procedures \<Rightarrow> (string \<times> procedure_binding option) list" where
  "all_procedures p = [(''insert'', on_insert p), (''update'', on_update p), (''delete'', on_delete p)]"

definition non_update :: "collection_procedures \<Rightarrow> (string \<times> procedure_binding option) list" where
  "non_update p = filter (\<lambda>(verb, _). verb \<noteq> ''update'') (all_procedures p)"

record ndc_config =
  nc_id :: connector_id
  nc_endpoint :: string
  http_timeout_seconds :: u64
  http_connect_timeout_seconds :: u64
  connection_name_argument :: "string option"
  connection_string_argument :: "string option"
  nc_procedures :: "(string \<times> collection_procedures) list"

definition has_writes :: "ndc_config \<Rightarrow> bool" where
  "has_writes c = list_ex (\<lambda>(_, p). procedures_writable p) (nc_procedures c)"

text \<open>
  \<open>for (collection, procedures) in &self.procedures\<close>, then for each of the chosen verbs that has
  a binding: the loop the checks share.
\<close>

definition each_binding ::
  "ndc_config \<Rightarrow> (collection_procedures \<Rightarrow> (string \<times> procedure_binding option) list)
     \<Rightarrow> (string \<Rightarrow> string \<Rightarrow> procedure_binding \<Rightarrow> string + unit) \<Rightarrow> string + unit" where
  "each_binding c verbs check =
     try_each (\<lambda>(collection, procedures).
       try_each (\<lambda>(verb, binding). case binding of None \<Rightarrow> Inr () | Some b \<Rightarrow> check collection verb b)
         (verbs procedures)) (nc_procedures c)"

definition place :: "ndc_config \<Rightarrow> string \<Rightarrow> string \<Rightarrow> string" where
  "place c collection verb = ''connector '' @ connector_str (nc_id c) @ '': '' @ collection @ ''.'' @ verb"

section \<open>Checks on the configuration alone\<close>

definition validate_transport :: "ndc_config \<Rightarrow> string + unit" where
  "validate_transport c =
     (let who = ''connector '' @ connector_str (nc_id c) in
      if trim (nc_endpoint c) = [] then Inl (who @ '': endpoint must not be empty'')
      else if http_timeout_seconds c = 0
      then Inl (who @ '': http_timeout_seconds must be greater than zero'')
      else if http_connect_timeout_seconds c = 0
      then Inl (who @ '': http_connect_timeout_seconds must be greater than zero'')
      else if http_connect_timeout_seconds c > http_timeout_seconds c
      then Inl (who @ '': http_connect_timeout_seconds must not exceed http_timeout_seconds'')
      else Inr ())"

definition validate_predicate_arguments :: "ndc_config \<Rightarrow> string + unit" where
  "validate_predicate_arguments c =
     each_binding c predicate_bearing (\<lambda>collection verb b.
       if filter_argument b = None
       then Inl (place c collection verb @ '' needs a filter_argument, otherwise the tenant predicate would be dropped and the write would reach every tenant's rows'')
       else Inr ())"

definition validate_payload_arguments :: "ndc_config \<Rightarrow> string + unit" where
  "validate_payload_arguments c =
     each_binding c payload_bearing (\<lambda>collection verb b.
       if payload_argument b = None
       then Inl (place c collection verb @ '' needs a payload_argument, otherwise every '' @ verb
              @ '' is refused at execution time with nowhere to put the row values'')
       else Inr ())"

definition validate_delete_has_no_payload_argument :: "ndc_config \<Rightarrow> string + unit" where
  "validate_delete_has_no_payload_argument c =
     each_binding c (\<lambda>p. [(''delete'', on_delete p)]) (\<lambda>collection verb b.
       if payload_argument b \<noteq> None
       then Inl (place c collection verb @ '' declares payload_argument, but a delete carries no payload; remove payload_argument from this mapping'')
       else Inr ())"

definition validate_distinct_arguments :: "ndc_config \<Rightarrow> string + unit" where
  "validate_distinct_arguments c =
     each_binding c all_procedures (\<lambda>collection verb b.
       case argument_names b of
         None \<Rightarrow> Inr ()
       | Some (payload, flt) \<Rightarrow>
           if payload = flt
           then Inl (place c collection verb @ '' names '' @ payload @ '' as both its payload_argument and its filter_argument, so the predicate would overwrite the payload and the write would silently change nothing'')
           else Inr ())"

definition validate_key_arguments_on_insert :: "ndc_config \<Rightarrow> string + unit" where
  "validate_key_arguments_on_insert c =
     each_binding c (\<lambda>p. [(''insert'', on_insert p)]) (\<lambda>collection verb b.
       if key_arguments b \<noteq> []
       then Inl (place c collection verb @ '' declares key_arguments, but an insert has no key to scope by; remove key_arguments from this mapping'')
       else Inr ())"

fun distinct_from :: "string \<Rightarrow> string list \<Rightarrow> (string \<times> string) list \<Rightarrow> string + unit" where
  "distinct_from who seen [] = Inr ()"
| "distinct_from who seen ((_, argument) # rest) =
     (if argument \<in> set seen
      then Inl (who @ '' names `'' @ argument @ ''` as a key argument, but it also names `'' @ argument
             @ ''` as its payload_argument or filter_argument (or as another key argument); one argument map, so the second write would overwrite the first'')
      else distinct_from who (seen @ [argument]) rest)"

fun option_list :: "'a option \<Rightarrow> 'a list" where
  "option_list None = []"
| "option_list (Some x) = [x]"

definition check_binding_distinctness ::
  "ndc_config \<Rightarrow> string \<Rightarrow> string \<Rightarrow> procedure_binding \<Rightarrow> string + unit" where
  "check_binding_distinctness c collection verb b =
     distinct_from (place c collection verb)
       (option_list (payload_argument b) @ option_list (filter_argument b)) (key_arguments b)"

definition validate_key_argument_distinctness :: "ndc_config \<Rightarrow> string + unit" where
  "validate_key_argument_distinctness c = each_binding c all_procedures (check_binding_distinctness c)"

definition validate_payload_shape :: "ndc_config \<Rightarrow> string + unit" where
  "validate_payload_shape c =
     each_binding c non_update (\<lambda>collection verb b.
       if pb_payload_shape b \<noteq> ShapeValues
       then Inl (place c collection verb @ '' declares payload_shape = set_operations, but only an update mapping may shape its payload that way; '' @ verb
              @ '' has no per-column argument to wrap it in'')
       else Inr ())"

definition ndc_validate :: "ndc_config \<Rightarrow> string + unit" where
  "ndc_validate c =
     rbind (validate_transport c) (\<lambda>_.
     rbind (validate_predicate_arguments c) (\<lambda>_.
     rbind (validate_payload_arguments c) (\<lambda>_.
     rbind (validate_delete_has_no_payload_argument c) (\<lambda>_.
     rbind (validate_distinct_arguments c) (\<lambda>_.
     rbind (validate_key_arguments_on_insert c) (\<lambda>_.
     rbind (validate_key_argument_distinctness c) (\<lambda>_. validate_payload_shape c)))))))"

section \<open>Checks against the connector's schema\<close>

text \<open>\<open>registration/routing_arguments.rs\<close>.\<close>

definition missing_request_kinds :: "request_level_arguments \<Rightarrow> string \<Rightarrow> string list" where
  "missing_request_kinds r argument =
     filter_map (\<lambda>(kind, declared). if \<not> declared then Some kind else None)
       [(''queries'', declares_for_query r argument), (''mutations'', declares_for_mutation r argument)]"

definition routing_check_one ::
  "ndc_config \<Rightarrow> request_level_arguments option \<Rightarrow> string \<Rightarrow> string \<Rightarrow> string + unit" where
  "routing_check_one c declared setting argument =
     (let who = ''connector '' @ connector_str (nc_id c) @ '': '' @ setting @ '' names `'' @ argument in
      case declared of
        None \<Rightarrow> Inl (who @ ''`, but the connector's schema declares no request-level arguments at all, so it would ignore the routing on every request and serve every tenant from whichever connection it was started with'')
      | Some r \<Rightarrow>
          if missing_request_kinds r argument = [] then Inr ()
          else Inl (who @ ''`, but the connector's schema does not declare it as a request-level argument for ''
                 @ join_with '' or '' (missing_request_kinds r argument)
                 @ ''; an argument a connector never declared is not promised to have any effect, so tenants would be routed to the wrong connection''))"

definition configured_arguments :: "ndc_config \<Rightarrow> (string \<times> string option) list" where
  "configured_arguments c =
     [(''connection_name_argument'', connection_name_argument c),
      (''connection_string_argument'', connection_string_argument c)]"

definition check_routing_arguments :: "ndc_config \<Rightarrow> ndc_schema \<Rightarrow> string + unit" where
  "check_routing_arguments c s =
     try_each (\<lambda>(setting, argument). case argument of
         None \<Rightarrow> Inr ()
       | Some a \<Rightarrow> routing_check_one c (sc_request_arguments s) setting a)
       (configured_arguments c)"

text \<open>\<open>registration/procedure_arguments.rs\<close>.\<close>

definition declares :: "schema_index \<Rightarrow> string \<Rightarrow> string" where
  "declares ix procedure =
     (if declared_arguments ix procedure = [] then ''declares no arguments at all''
      else ''declares only: '' @ join_with '', '' (declared_arguments ix procedure))"

definition requirements :: "procedure_binding \<Rightarrow> (string \<times> string option \<times> argument_kind) list" where
  "requirements b =
     [(''payload_argument'', payload_argument b, ArgValue),
      (''filter_argument'', filter_argument b, ArgPredicate)]"

definition check_requirement ::
  "schema_index \<Rightarrow> string \<Rightarrow> string \<Rightarrow> string \<times> string option \<times> argument_kind \<Rightarrow> string + unit" where
  "check_requirement ix who procedure = (\<lambda>(setting, argument, required).
     case argument of
       None \<Rightarrow> Inr ()
     | Some a \<Rightarrow>
         (case procedure_argument ix procedure a of
            None \<Rightarrow> Inl (who @ '' names `'' @ a @ ''` as its '' @ setting @ '', but procedure `'' @ procedure
                     @ ''` '' @ declares ix procedure
                     @ ''; an argument a procedure never declared may be silently ignored, which for a filter_argument means the write runs unscoped'')
          | Some kind \<Rightarrow>
              if kind \<noteq> required
              then Inl (who @ '' names `'' @ a @ ''` as its '' @ setting @ '', but procedure `'' @ procedure
                     @ ''` declares that argument as '' @ describe_kind kind @ ''; a '' @ setting
                     @ '' must be '' @ describe_kind required)
              else Inr ()))"

definition procedure_check_binding ::
  "ndc_config \<Rightarrow> schema_index \<Rightarrow> string \<Rightarrow> string \<Rightarrow> procedure_binding \<Rightarrow> string + unit" where
  "procedure_check_binding c ix collection verb b =
     (let procedure = pb_procedure b; who = place c collection verb in
      if \<not> has_procedure ix procedure
      then Inl (who @ '' maps to procedure `'' @ procedure
             @ ''`, which the connector's schema does not declare'')
      else try_each (check_requirement ix who procedure) (requirements b))"

definition check_procedure_arguments :: "ndc_config \<Rightarrow> schema_index \<Rightarrow> string + unit" where
  "check_procedure_arguments c ix = each_binding c all_procedures (procedure_check_binding c ix)"

text \<open>\<open>registration/key_arguments.rs\<close>.\<close>

definition check_field_known :: "schema_index \<Rightarrow> string \<Rightarrow> string \<Rightarrow> string \<Rightarrow> string + unit" where
  "check_field_known ix collection f who =
     (case CollectionName_try_new collection of
        Inl _ \<Rightarrow> Inr ()
      | Inr name \<Rightarrow>
          if map_of (ix_neutral ix) name = None then Inr ()
          else if (case FieldName_try_new f of Inl _ \<Rightarrow> False | Inr field_name \<Rightarrow> has_field ix name field_name)
          then Inr ()
          else Inl (who @ '' names field `'' @ f
                 @ ''` as a key, but the collection's schema has no such field''))"

definition key_check_binding ::
  "ndc_config \<Rightarrow> schema_index \<Rightarrow> string \<Rightarrow> string \<Rightarrow> procedure_binding \<Rightarrow> string + unit" where
  "key_check_binding c ix collection verb b =
     (let procedure = pb_procedure b; who = place c collection verb in
      try_each (\<lambda>(f, argument).
        let key = who @ '' names `'' @ argument @ ''` as the key argument for field `'' @ f in
        rbind (case procedure_argument ix procedure argument of
            None \<Rightarrow> Inl (key @ ''`, but procedure `'' @ procedure @ ''` does not declare it'')
          | Some ArgPredicate \<Rightarrow> Inl (key @ ''`, but procedure `'' @ procedure
               @ ''` declares that argument as a predicate; a key is never a predicate'')
          | Some ArgValue \<Rightarrow> Inr ())
          (\<lambda>_. check_field_known ix collection f who)) (key_arguments b))"

definition check_key_arguments :: "ndc_config \<Rightarrow> schema_index \<Rightarrow> string + unit" where
  "check_key_arguments c ix = each_binding c all_procedures (key_check_binding c ix)"

text \<open>\<open>registration/required_arguments.rs\<close>.\<close>

definition supplied_arguments :: "procedure_binding \<Rightarrow> string \<Rightarrow> string list" where
  "supplied_arguments b verb =
     (let payload = option_list (payload_argument b);
          flt = option_list (filter_argument b);
          keys = map snd (key_arguments b)
      in if verb = ''insert'' then payload
         else if verb = ''update'' then payload @ flt @ keys
         else if verb = ''delete'' then flt @ keys
         else [])"

definition required_check_binding ::
  "ndc_config \<Rightarrow> schema_index \<Rightarrow> string \<Rightarrow> string \<Rightarrow> procedure_binding \<Rightarrow> string + unit" where
  "required_check_binding c ix collection verb b =
     (let procedure = pb_procedure b; supplied = supplied_arguments b verb in
      try_each (\<lambda>required.
        if list_ex (\<lambda>argument. argument = required) supplied then Inr ()
        else Inl (place c collection verb @ '' maps to procedure `'' @ procedure @ ''`, which requires `''
               @ required @ ''`, and the mapping supplies nothing for it; a required argument this platform never sends means the connector refuses every ''
               @ verb))
        (required_arguments ix procedure))"

definition check_required_arguments :: "ndc_config \<Rightarrow> schema_index \<Rightarrow> string + unit" where
  "check_required_arguments c ix = each_binding c all_procedures (required_check_binding c ix)"

text \<open>\<open>registration/version.rs\<close>.\<close>

definition NDC_MINIMUM_VERSION :: string where
  "NDC_MINIMUM_VERSION = ''0.2.4''"

datatype version_outcome = VersionMatched | AheadOfFloor string

definition parse_version :: "string \<Rightarrow> (u32 \<times> u32 \<times> u32) option" where
  "parse_version version =
     (case split_on (CHR ''.'') version of
        a # b # c # rest \<Rightarrow>
          Option.bind (parse_u32 a) (\<lambda>major.
          Option.bind (parse_u32 b) (\<lambda>minor.
          Option.bind (parse_u32 c) (\<lambda>patch.
            if rest = [] then Some (major, minor, patch) else None)))
      | _ \<Rightarrow> None)"

definition check_version :: "string \<Rightarrow> string \<Rightarrow> string + version_outcome" where
  "check_version connector version =
     (case parse_version version of
        None \<Rightarrow> Inl (''connector '' @ connector @ '' reports NDC version '' @ version
           @ '', which is not a major.minor.patch version; this client requires 0.2.x at ''
           @ NDC_MINIMUM_VERSION @ '' or later'')
      | Some (major, minor, patch) \<Rightarrow>
          if (major, minor) \<noteq> (0, 2) \<or> patch < 4
          then Inl (''connector '' @ connector @ '' implements NDC '' @ version
             @ '', but this client requires 0.2.x at '' @ NDC_MINIMUM_VERSION
             @ '' or later; request-level arguments, which carry every tenant's connection routing, were only added in ''
             @ NDC_MINIMUM_VERSION)
          else if version = NDC_MINIMUM_VERSION then Inr VersionMatched
          else Inr (AheadOfFloor version))"

section \<open>What an accepted mapping guarantees\<close>

lemma each_binding_ok [result_simps]:
  "each_binding c verbs check = Inr u \<longleftrightarrow>
     (\<forall>collection p verb b. (collection, p) \<in> set (nc_procedures c) \<longrightarrow> (verb, Some b) \<in> set (verbs p)
        \<longrightarrow> check collection verb b = Inr ())"
proof -
  have "each_binding c verbs check = Inr u \<longleftrightarrow>
      (\<forall>(collection, p)\<in>set (nc_procedures c). \<forall>(verb, m)\<in>set (verbs p). \<forall>b. m = Some b
         \<longrightarrow> check collection verb b = Inr ())"
    unfolding each_binding_def try_each_Inr by (simp add: split_def try_each_Inr split: option.split)
  then show ?thesis by (simp add: Ball_def split_paired_All) blast
qed

lemma distinct_from_ok:
  "distinct seen \<Longrightarrow> distinct_from who seen keys = Inr u \<longleftrightarrow> distinct (seen @ map snd keys)"
  by (induction who seen keys rule: distinct_from.induct) auto

text \<open>
  The binding a verb has, as the checks meet it and as a write looks it up.
\<close>

definition binding_of :: "ndc_config \<Rightarrow> string \<Rightarrow> string \<Rightarrow> procedure_binding option" where
  "binding_of c collection verb =
     Option.bind (map_of (nc_procedures c) collection)
       (\<lambda>p. Option.bind (map_of (all_procedures p) verb) id)"

lemma binding_ofE:
  assumes "binding_of c collection verb = Some b"
  obtains p where "map_of (nc_procedures c) collection = Some p"
    "(collection, p) \<in> set (nc_procedures c)" "(verb, Some b) \<in> set (all_procedures p)"
  using assms by (auto simp: binding_of_def bind_eq_Some_conv dest: map_of_SomeD)

definition registered_with :: "ndc_config \<Rightarrow> schema_index \<Rightarrow> bool" where
  "registered_with c ix =
     (ndc_validate c = Inr () \<and> check_procedure_arguments c ix = Inr ()
      \<and> check_key_arguments c ix = Inr () \<and> check_required_arguments c ix = Inr ())"

lemma rbind_unit: "rbind r (\<lambda>_. k) = Inr u \<longleftrightarrow> r = Inr () \<and> k = Inr ()"
  by (cases r) auto

lemma ndc_validate_ok [result_simps]:
  "ndc_validate c = Inr u \<longleftrightarrow>
     validate_transport c = Inr () \<and> validate_predicate_arguments c = Inr ()
     \<and> validate_payload_arguments c = Inr () \<and> validate_delete_has_no_payload_argument c = Inr ()
     \<and> validate_distinct_arguments c = Inr () \<and> validate_key_arguments_on_insert c = Inr ()
     \<and> validate_key_argument_distinctness c = Inr () \<and> validate_payload_shape c = Inr ()"
  unfolding ndc_validate_def rbind_unit by (rule refl)

lemma verbs_of_all:
  "(verb, Some b) \<in> set (all_procedures p) \<longleftrightarrow>
     verb = ''insert'' \<and> on_insert p = Some b \<or> verb = ''update'' \<and> on_update p = Some b
     \<or> verb = ''delete'' \<and> on_delete p = Some b"
  unfolding all_procedures_def by (simp add: eq_commute[of "Some b"])

lemma checked:
  assumes "each_binding c verbs check = Inr u" and "binding_of c collection verb = Some b"
    and "\<And>p. (verb, Some b) \<in> set (all_procedures p) \<Longrightarrow> (verb, Some b) \<in> set (verbs p)"
  shows "check collection verb b = Inr ()"
proof -
  from assms(2) obtain p where "(collection, p) \<in> set (nc_procedures c)"
    "(verb, Some b) \<in> set (all_procedures p)" by (rule binding_ofE)
  with assms(1,3) show ?thesis unfolding each_binding_ok by blast
qed

lemma accepted:
  assumes "registered_with c ix" and "binding_of c collection verb = Some b"
  shows "verb \<noteq> ''insert'' \<Longrightarrow> filter_argument b \<noteq> None"
    and "verb \<noteq> ''delete'' \<Longrightarrow> payload_argument b \<noteq> None"
    and "verb = ''insert'' \<Longrightarrow> key_arguments b = []"
    and "verb \<noteq> ''update'' \<Longrightarrow> pb_payload_shape b = ShapeValues"
    and "\<And>payload flt. argument_names b = Some (payload, flt) \<Longrightarrow> payload \<noteq> flt"
    and "check_binding_distinctness c collection verb b = Inr ()"
    and "procedure_check_binding c ix collection verb b = Inr ()"
    and "key_check_binding c ix collection verb b = Inr ()"
    and "required_check_binding c ix collection verb b = Inr ()"
proof -
  from assms(1) have v: "validate_predicate_arguments c = Inr ()" "validate_payload_arguments c = Inr ()"
      "validate_key_arguments_on_insert c = Inr ()" "validate_payload_shape c = Inr ()"
      "validate_distinct_arguments c = Inr ()" "validate_key_argument_distinctness c = Inr ()"
    and r: "check_procedure_arguments c ix = Inr ()" "check_key_arguments c ix = Inr ()"
      "check_required_arguments c ix = Inr ()"
    by (simp_all add: registered_with_def ndc_validate_ok)
  note at = assms(2)
  have err: "(if P then Inl e else Inr ()) = Inr () \<Longrightarrow> \<not> P" for P and e :: string
    by (auto split: if_splits)
  show "filter_argument b \<noteq> None" if "verb \<noteq> ''insert''"
    by (rule err, rule checked[OF v(1)[unfolded validate_predicate_arguments_def] at])
      (use that in \<open>simp add: verbs_of_all predicate_bearing_def eq_commute\<close>)
  show "payload_argument b \<noteq> None" if "verb \<noteq> ''delete''"
    by (rule err, rule checked[OF v(2)[unfolded validate_payload_arguments_def] at])
      (use that in \<open>simp add: verbs_of_all payload_bearing_def eq_commute\<close>)
  have "\<not> key_arguments b \<noteq> []" if "verb = ''insert''"
    by (rule err, rule checked[OF v(3)[unfolded validate_key_arguments_on_insert_def] at])
      (use that in \<open>simp add: verbs_of_all\<close>)
  then show "verb = ''insert'' \<Longrightarrow> key_arguments b = []" by simp
  have "\<not> pb_payload_shape b \<noteq> ShapeValues" if "verb \<noteq> ''update''"
    by (rule err, rule checked[OF v(4)[unfolded validate_payload_shape_def] at])
      (use that in \<open>simp add: non_update_def\<close>)
  then show "verb \<noteq> ''update'' \<Longrightarrow> pb_payload_shape b = ShapeValues" by simp
  show "payload \<noteq> flt" if "argument_names b = Some (payload, flt)" for payload flt
  proof (rule err)
    have "(case argument_names b of None \<Rightarrow> Inr () | Some (payload, flt) \<Rightarrow>
        if payload = flt then Inl (place c collection verb @ '' names '' @ payload @ '' as both its payload_argument and its filter_argument, so the predicate would overwrite the payload and the write would silently change nothing'')
        else Inr ()) = Inr ()"
      by (rule checked[OF v(5)[unfolded validate_distinct_arguments_def] at])
    with that show "(if payload = flt then Inl (place c collection verb @ '' names '' @ payload @ '' as both its payload_argument and its filter_argument, so the predicate would overwrite the payload and the write would silently change nothing'')
        else Inr ()) = Inr ()" by (simp only: option.case prod.case)
  qed
  show "check_binding_distinctness c collection verb b = Inr ()"
    using checked[OF v(6)[unfolded validate_key_argument_distinctness_def] at] by simp
  show "procedure_check_binding c ix collection verb b = Inr ()"
    using checked[OF r(1)[unfolded check_procedure_arguments_def] at] by simp
  show "key_check_binding c ix collection verb b = Inr ()"
    using checked[OF r(2)[unfolded check_key_arguments_def] at] by simp
  show "required_check_binding c ix collection verb b = Inr ()"
    using checked[OF r(3)[unfolded check_required_arguments_def] at] by simp
qed

lemma accepted_filter_argument:
  assumes "registered_with c ix" and "binding_of c collection verb = Some b" and "verb \<noteq> ''insert''"
  obtains argument where "filter_argument b = Some argument"
    "procedure_argument ix (pb_procedure b) argument = Some ArgPredicate"
proof -
  from accepted(1)[OF assms] obtain argument where a: "filter_argument b = Some argument" by auto
  with accepted(7)[OF assms(1,2)]
  have "procedure_argument ix (pb_procedure b) argument = Some ArgPredicate"
    by (auto simp: procedure_check_binding_def requirements_def check_requirement_def Let_def
        result_simps split: if_splits option.splits)
  with a show thesis by (rule that)
qed

lemma accepted_procedure:
  "registered_with c ix \<Longrightarrow> binding_of c collection verb = Some b \<Longrightarrow> has_procedure ix (pb_procedure b)"
  using accepted(7)[of c ix collection verb b]
  by (auto simp: procedure_check_binding_def Let_def split: if_splits)

lemma accepted_distinct_arguments:
  assumes "registered_with c ix" and "binding_of c collection verb = Some b"
  shows "distinct (option_list (payload_argument b) @ option_list (filter_argument b)
           @ map snd (key_arguments b))"
proof -
  from accepted(5)[OF assms]
  have "distinct (option_list (payload_argument b) @ option_list (filter_argument b))"
    by (cases "payload_argument b"; cases "filter_argument b") (auto simp: argument_names_def)
  with accepted(6)[OF assms] show ?thesis by (simp add: check_binding_distinctness_def distinct_from_ok)
qed

lemma accepted_required:
  "registered_with c ix \<Longrightarrow> binding_of c collection verb = Some b \<Longrightarrow>
     set (required_arguments ix (pb_procedure b)) \<subseteq> set (supplied_arguments b verb)"
  using accepted(9)[of c ix collection verb b]
  by (auto simp: required_check_binding_def Let_def result_simps list_ex_iff split: if_splits)

text \<open>The accepted versions are exactly the patches of 0.2 from 0.2.4 on.\<close>

lemma check_version_ok:
  "is_ok (check_version connector version) \<longleftrightarrow>
     (\<exists>patch. parse_version version = Some (0, 2, patch) \<and> 4 \<le> patch)"
  by (auto simp: check_version_def split: option.splits prod.splits)

end
