(* ===== verification/Ndc_Translate.thy ===== *)
theory Ndc_Translate
  imports Ndc_Config
begin

text \<open>
  The translation between the neutral boundary and NDC (\<open>crates/fabric-connector-ndc/src/translate\<close>
  and the request and response types of \<open>wire/\<close>): predicates, queries, mutations as procedure
  calls, and the answers read back. \<open>ndc_eval\<close> is what a connector that honours the operators
  its schema declares makes of a predicate; the theorems compare it with \<open>eval3\<close>.
\<close>

section \<open>Predicates on the wire\<close>

datatype ndc_expression =
    NAnd "ndc_expression list"
  | NOr "ndc_expression list"
  | NNot ndc_expression
  | NIsNull string
  | NBinary string string json

text \<open>The internally tagged serialisation; a \<open>serde_json\<close> object sorts its keys.\<close>

definition column_json :: "string \<Rightarrow> json" where
  "column_json name = JObject [(''name'', JString name), (''type'', JString ''column'')]"

fun encode_expression :: "ndc_expression \<Rightarrow> json" where
  "encode_expression (NAnd es) =
     JObject [(''expressions'', JArray (map encode_expression es)), (''type'', JString ''and'')]"
| "encode_expression (NOr es) =
     JObject [(''expressions'', JArray (map encode_expression es)), (''type'', JString ''or'')]"
| "encode_expression (NNot e) =
     JObject [(''expression'', encode_expression e), (''type'', JString ''not'')]"
| "encode_expression (NIsNull column) =
     JObject [(''column'', column_json column), (''operator'', JString ''is_null''),
              (''type'', JString ''unary_comparison_operator'')]"
| "encode_expression (NBinary column operator v) =
     JObject [(''column'', column_json column), (''operator'', JString operator),
              (''type'', JString ''binary_comparison_operator''),
              (''value'', JObject [(''type'', JString ''scalar''), (''value'', v)])]"

section \<open>Translating a filter\<close>

definition comparison_to ::
  "collection_name \<Rightarrow> field_name \<Rightarrow> semantic_operator \<Rightarrow> json \<Rightarrow> schema_index
     \<Rightarrow> connector_error + ndc_expression" where
  "comparison_to collection f semantic value ix =
     map_ok (\<lambda>operator. NBinary (field_str f) operator value)
       (ok_or (refused_because (refused_feature semantic)
                (collection_str collection @ ''.'' @ field_str f @ '' has no '' @ semantic_str semantic
                 @ '' operator in the connector schema''))
         (operator_name_of ix collection f semantic))"

definition translate_null_check ::
  "collection_name \<Rightarrow> field_name \<Rightarrow> schema_index \<Rightarrow> connector_error + ndc_expression" where
  "translate_null_check collection f ix =
     (if \<not> has_field ix collection f
      then Inl (refused_because NullComparison
             (collection_str collection @ ''.'' @ field_str f @ '' is not a column in the connector schema''))
      else Inr (NIsNull (field_str f)))"

definition translate_membership ::
  "collection_name \<Rightarrow> field_name \<Rightarrow> json list \<Rightarrow> schema_index \<Rightarrow> connector_error + ndc_expression" where
  "translate_membership collection f values ix =
     (if values = []
      then Inl (InvalidOperation ''a membership test reached the connector with no values to match'')
      else case operator_name_of ix collection f SemIn of
          Some operator \<Rightarrow> Inr (NBinary (field_str f) operator (JArray values))
        | None \<Rightarrow> map_ok NOr (traverse (\<lambda>value. comparison_to collection f SemEqual value ix) values))"

fun to_expression ::
  "collection_name \<Rightarrow> filter_expr \<Rightarrow> schema_index \<Rightarrow> connector_error + ndc_expression"
and translate_all ::
  "collection_name \<Rightarrow> filter_expr list \<Rightarrow> schema_index \<Rightarrow> connector_error + ndc_expression list" where
  "to_expression collection (FAnd cs) ix = map_ok NAnd (translate_all collection cs ix)"
| "to_expression collection (FOr cs) ix = map_ok NOr (translate_all collection cs ix)"
| "to_expression collection (FNot c) ix = map_ok NNot (to_expression collection c ix)"
| "to_expression collection (FIsNull f) ix = translate_null_check collection f ix"
| "to_expression collection (FCompare f operator value) ix =
     (if operator = NotEqual then map_ok NNot (comparison_to collection f SemEqual value ix)
      else comparison_to collection f (for_neutral operator) value ix)"
| "to_expression collection (FIn f values) ix = translate_membership collection f values ix"
| "translate_all collection [] ix = Inr []"
| "translate_all collection (c # cs) ix =
     rbind (to_expression collection c ix) (\<lambda>e. map_ok (\<lambda>es. e # es) (translate_all collection cs ix))"

section \<open>Key arguments\<close>

fun direct_equality :: "string \<Rightarrow> filter_expr \<Rightarrow> json option" where
  "direct_equality f (FCompare candidate Equal value) =
     (if field_str candidate = f then Some value else None)"
| "direct_equality f _ = None"

fun direct_equalities :: "filter_expr \<Rightarrow> string \<Rightarrow> json list" where
  "direct_equalities (FAnd cs) f = filter_map (direct_equality f) cs"
| "direct_equalities flt f = (case direct_equality f flt of None \<Rightarrow> [] | Some v \<Rightarrow> [v])"

definition distinct_values :: "json list \<Rightarrow> json list" where
  "distinct_values vs =
     fold (\<lambda>v seen. if list_ex (\<lambda>x. json_eq x v) seen then seen else seen @ [v]) vs []"

definition single_equality :: "filter_expr \<Rightarrow> string \<Rightarrow> string + json" where
  "single_equality flt f =
     (case distinct_values (direct_equalities flt f) of
        [] \<Rightarrow> Inl ''the predicate has no equality for that field; a keyed procedure cannot be called without its key''
      | [v] \<Rightarrow> Inr v
      | _ \<Rightarrow> Inl ''the predicate has more than one differing equality for that field; a keyed procedure cannot be called against a contradictory predicate'')"

definition existing_setting :: "procedure_binding \<Rightarrow> string \<Rightarrow> string" where
  "existing_setting b argument =
     (if payload_argument b = Some argument then ''payload_argument''
      else if filter_argument b = Some argument then ''filter_argument''
      else case List.find (\<lambda>(_, other). other = argument) (key_arguments b) of
          None \<Rightarrow> ''another setting''
        | Some (f, _) \<Rightarrow> ''the key argument for field `'' @ f @ ''`'')"

fun add_keys ::
  "(string \<times> json) list \<Rightarrow> procedure_binding \<Rightarrow> filter_expr \<Rightarrow> mutation_spec \<Rightarrow> (string \<times> string) list
     \<Rightarrow> connector_error + (string \<times> json) list" where
  "add_keys arguments b flt spec [] = Inr arguments"
| "add_keys arguments b flt spec ((f, argument) # rest) =
     (let who = ''a '' @ operation_name spec @ '' on '' @ collection_str (mutation_collection spec)
            @ '' maps key field `'' @ f @ ''` to argument `'' @ argument @ ''`, but '' in
      rbind (map_err (\<lambda>reason. InvalidOperation (who @ reason)) (single_equality flt f)) (\<lambda>value.
        if map_of arguments argument \<noteq> None
        then Inl (InvalidOperation (who @ existing_setting b argument
               @ '' already writes that argument; one argument map, so the key would overwrite it rather than add to it''))
        else add_keys (btree_insert argument value arguments) b flt spec rest))"

definition add_key_arguments ::
  "(string \<times> json) list \<Rightarrow> procedure_binding \<Rightarrow> filter_expr \<Rightarrow> mutation_spec
     \<Rightarrow> connector_error + (string \<times> json) list" where
  "add_key_arguments arguments b flt spec = add_keys arguments b flt spec (key_arguments b)"

section \<open>Mutations\<close>

datatype mutation_fields =
    MfObject "(string \<times> result_field) list"
  | MfArray mutation_fields
and result_field = RfColumn string "mutation_fields option"

definition affected_rows_only :: mutation_fields where
  "affected_rows_only = MfObject [(''affected_rows'', RfColumn ''affected_rows'' None)]"

record ndc_procedure_call =
  call_name :: string
  call_arguments :: "(string \<times> json) list"
  call_fields :: "mutation_fields option"

record ndc_mutation_request =
  nm_operations :: "ndc_procedure_call list"
  nm_relationships :: "(string \<times> json) list"
  nm_request_arguments :: "(string \<times> json) list option"

definition require_binding ::
  "procedure_binding option \<Rightarrow> unsupported_feature \<Rightarrow> string \<Rightarrow> string \<Rightarrow> connector_error + procedure_binding" where
  "require_binding b feat operation collection =
     ok_or (refused_because feat
       (''no '' @ operation @ '' procedure is mapped for '' @ collection)) b"

definition payload_of :: "procedure_binding \<Rightarrow> json \<Rightarrow> connector_error + (string \<times> json) list" where
  "payload_of b value =
     map_ok (\<lambda>name. [(name, value)])
       (ok_or (InvalidOperation (''procedure '' @ pb_procedure b
          @ '' needs a payload_argument to carry the rows to write'')) (payload_argument b))"

definition row_to_json :: "row \<Rightarrow> json" where
  "row_to_json r = JObject (btree_of (map (\<lambda>(f, v). (field_str f, v)) r))"

fun shaped_row_to_json :: "row \<Rightarrow> payload_shape \<Rightarrow> json" where
  "shaped_row_to_json r ShapeValues = row_to_json r"
| "shaped_row_to_json r SetOperations =
     JObject (btree_of (map (\<lambda>(f, v). (field_str f, JObject [(''_set'', v)])) r))"

definition for_insert :: "procedure_binding \<Rightarrow> row list \<Rightarrow> connector_error + (string \<times> json) list" where
  "for_insert b rows = payload_of b (JArray (map row_to_json rows))"

definition add_predicate ::
  "(string \<times> json) list \<Rightarrow> procedure_binding \<Rightarrow> filter_expr option \<Rightarrow> mutation_spec \<Rightarrow> schema_index
     \<Rightarrow> connector_error + (string \<times> json) list \<times> filter_expr" where
  "add_predicate arguments b flt spec ix =
     rbind (ok_or (InvalidOperation (''procedure '' @ pb_procedure b
              @ '' has no filter_argument, so the tenant predicate could not be sent''))
             (filter_argument b)) (\<lambda>name.
     rbind (ok_or (InvalidOperation (''a '' @ operation_name spec @ '' on ''
              @ collection_str (mutation_collection spec) @ '' reached the connector with no predicate'')) flt)
       (\<lambda>f.
     rbind (to_expression (mutation_collection spec) f ix) (\<lambda>e.
       Inr (btree_insert name (encode_expression e) arguments, f))))"

fun unmapped_verb_feature :: "mutation_spec \<Rightarrow> unsupported_feature" where
  "unmapped_verb_feature (Insert _ _) = InsertsOnCollection"
| "unmapped_verb_feature (Update _ _ _) = UpdatesOnCollection"
| "unmapped_verb_feature (Delete _ _) = DeletesOnCollection"

definition ensure_procedure_accepts ::
  "procedure_binding \<Rightarrow> ndc_config \<Rightarrow> schema_index \<Rightarrow> connector_error + unit" where
  "ensure_procedure_accepts b c ix =
     (if \<not> has_procedure ix (pb_procedure b)
      then Inl (InvalidOperation (''connector '' @ connector_str (nc_id c)
             @ '' does not expose a procedure named '' @ pb_procedure b))
      else case filter_argument b of
          None \<Rightarrow> Inr ()
        | Some flt \<Rightarrow>
            if procedure_argument ix (pb_procedure b) flt = Some ArgPredicate then Inr ()
            else Inl (InvalidOperation (''connector '' @ connector_str (nc_id c) @ '': procedure ''
                   @ pb_procedure b @ '' does not declare '' @ flt
                   @ '' as a predicate argument, so the tenant predicate could not be sent where it would take effect'')))"

definition bound_arguments ::
  "mutation_spec \<Rightarrow> collection_procedures \<Rightarrow> schema_index
     \<Rightarrow> connector_error + procedure_binding \<times> (string \<times> json) list" where
  "bound_arguments spec procedures ix =
     (let require = (\<lambda>b. require_binding b (unmapped_verb_feature spec) (operation_name spec)
                           (collection_str (mutation_collection spec))) in
      case spec of
        Insert _ rows \<Rightarrow>
          rbind (require (on_insert procedures)) (\<lambda>b. map_ok (\<lambda>args. (b, args)) (for_insert b rows))
      | Update _ flt changes \<Rightarrow>
          rbind (require (on_update procedures)) (\<lambda>b.
          rbind (payload_of b (shaped_row_to_json changes (pb_payload_shape b))) (\<lambda>built.
          rbind (add_predicate built b flt spec ix) (\<lambda>(built, predicate).
            map_ok (\<lambda>args. (b, args)) (add_key_arguments built b predicate spec))))
      | Delete _ flt \<Rightarrow>
          rbind (require (on_delete procedures)) (\<lambda>b.
          rbind (add_predicate [] b flt spec ix) (\<lambda>(built, predicate).
            map_ok (\<lambda>args. (b, args)) (add_key_arguments built b predicate spec))))"

definition to_mutation_request ::
  "mutation_spec \<Rightarrow> (string \<times> json) list option \<Rightarrow> ndc_config \<Rightarrow> schema_index
     \<Rightarrow> connector_error + ndc_mutation_request" where
  "to_mutation_request spec request_args c ix =
     (let collection = mutation_collection spec in
      rbind (ok_or (refused_because WritesToCollection
               (''no procedure mapping is configured for '' @ collection_str collection))
              (map_of (nc_procedures c) (collection_str collection))) (\<lambda>procedures.
      rbind (bound_arguments spec procedures ix) (\<lambda>(b, args).
      rbind (ensure_procedure_accepts b c ix) (\<lambda>_.
        Inr \<lparr> nm_operations = [\<lparr> call_name = pb_procedure b, call_arguments = args,
                                  call_fields = Some affected_rows_only \<rparr>],
              nm_relationships = [], nm_request_arguments = request_args \<rparr>))))"

section \<open>Queries\<close>

record ndc_order_element =
  oe_direction :: sort_direction
  oe_path :: "json list"
  oe_name :: string

record ndc_query =
  nq_aggregates :: "(string \<times> json) list option"
  nq_fields :: "(string \<times> string) list option"
  nq_limit :: "u32 option"
  nq_offset :: "u32 option"
  nq_order_by :: "ndc_order_element list option"
  nq_predicate :: "ndc_expression option"
  nq_groups :: "json option"

definition NdcQuery_empty :: ndc_query where
  "NdcQuery_empty =
     \<lparr> nq_aggregates = None, nq_fields = None, nq_limit = None, nq_offset = None, nq_order_by = None,
       nq_predicate = None, nq_groups = None \<rparr>"

record ndc_query_request =
  nr_collection :: string
  nr_query :: ndc_query
  nr_arguments :: "(string \<times> json) list"
  nr_relationships :: "(string \<times> json) list"
  nr_variables :: "(string \<times> json) list list option"
  nr_request_arguments :: "(string \<times> json) list option"

definition ndc_projection :: "query_spec \<Rightarrow> (string \<times> string) list option" where
  "ndc_projection spec =
     (if q_fields spec = [] then None
      else Some (btree_of (map (\<lambda>f. (field_str f, field_str f)) (q_fields spec))))"

definition ordering :: "query_spec \<Rightarrow> ndc_order_element list option" where
  "ordering spec =
     (if q_sort spec = [] then None
      else Some (map (\<lambda>s. \<lparr> oe_direction = direction s, oe_path = [], oe_name = field_str (sort_by s) \<rparr>)
                  (q_sort spec)))"

definition to_query_request ::
  "query_spec \<Rightarrow> (string \<times> json) list option \<Rightarrow> schema_index \<Rightarrow> connector_error + ndc_query_request" where
  "to_query_request spec request_args ix =
     rbind (case q_filter spec of
              None \<Rightarrow> Inr None
            | Some flt \<Rightarrow> map_ok Some (to_expression (q_collection spec) flt ix)) (\<lambda>predicate.
       Inr \<lparr> nr_collection = collection_str (q_collection spec),
             nr_query = NdcQuery_empty\<lparr> nq_fields := ndc_projection spec, nq_limit := q_limit spec,
               nq_offset := q_offset spec, nq_order_by := ordering spec, nq_predicate := predicate \<rparr>,
             nr_arguments = [], nr_relationships = [], nr_variables = None,
             nr_request_arguments = request_args \<rparr>)"

section \<open>Answers\<close>

record ndc_row_set =
  rs_aggregates :: "(string \<times> json) list option"
  rs_rows :: "(string \<times> json) list list option"
  rs_groups :: "json option"

type_synonym ndc_query_response = "ndc_row_set list"

definition sole_row_set :: "ndc_query_response \<Rightarrow> ndc_row_set option" where
  "sole_row_set response = (case response of [row_set] \<Rightarrow> Some row_set | _ \<Rightarrow> None)"

definition wire_row :: "(string \<times> json) list \<Rightarrow> row" where
  "wire_row m =
     btree_of (filter_map (\<lambda>(name, value). map_option (\<lambda>f. (f, value)) (ok (FieldName_try_new name))) m)"

definition to_query_outcome :: "connector_id \<Rightarrow> ndc_query_response \<Rightarrow> connector_error + query_outcome" where
  "to_query_outcome connector response =
     map_ok (\<lambda>row_set.
         \<lparr> out_rows = map wire_row (case rs_rows row_set of None \<Rightarrow> [] | Some rows \<Rightarrow> rows),
           total_count = None \<rparr>)
       (ok_or (MalformedResponse connector
          (''the query response contained '' @ show_nat (length response)
           @ '' row sets; a request that sends no variables must produce exactly one''))
         (sole_row_set response))"

definition as_row :: "json \<Rightarrow> row option" where
  "as_row v = map_option wire_row (as_object v)"

definition interpret_result :: "json \<Rightarrow> mutation_outcome" where
  "interpret_result result =
     (case Option.bind (as_object result)
             (\<lambda>m. map_option (\<lambda>n. (m, n)) (Option.bind (map_of m ''affected_rows'') as_u64)) of
        Some (m, n) \<Rightarrow>
          with_rows (MutationOutcome_affected n)
            (case Option.bind (map_of m ''returning'') as_array of
               None \<Rightarrow> [] | Some rows \<Rightarrow> filter_map as_row rows)
      | None \<Rightarrow>
          (case result of
             JNull \<Rightarrow> MutationOutcome_affected 0
           | JArray rows \<Rightarrow>
               with_rows (MutationOutcome_affected (of_nat (length rows))) (filter_map as_row rows)
           | JObject _ \<Rightarrow>
               with_rows (MutationOutcome_affected 1) (case as_row result of None \<Rightarrow> [] | Some r \<Rightarrow> [r])
           | _ \<Rightarrow> MutationOutcome_affected 1))"

definition to_mutation_outcome :: "connector_id \<Rightarrow> json list \<Rightarrow> connector_error + mutation_outcome" where
  "to_mutation_outcome connector operation_results =
     (case operation_results of
        [] \<Rightarrow> Inl (MalformedResponse connector ''the mutation response contained no operation results'')
      | result # _ \<Rightarrow> Inr (interpret_result result))"

definition to_capabilities :: "ndc_capabilities \<Rightarrow> schema_index \<Rightarrow> ndc_config \<Rightarrow> connector_capabilities" where
  "to_capabilities capabilities ix c =
     \<lparr> cap_filtering = True, cap_ordering = True, cap_paging = True, cap_mutations = has_writes c,
       cap_transactional_mutations = supports_transactional_mutations capabilities,
       cap_total_count = False, cap_null_checks = True, cap_comparisons = ix_supported ix \<rparr>"

section \<open>What a connector makes of a predicate\<close>

text \<open>
  \<open>means scalar operator v w\<close> is the connector's verdict on a column value \<open>v\<close> of that scalar
  type. \<open>operators_honoured\<close> is the NDC specification's promise for the definitions this
  platform uses: the verdict is the comparison the definition names, unknown on a null;
  \<open>in\<close> is membership in an array; the case-insensitive \<open>contains\<close> is some wider predicate.
\<close>

type_synonym operator_meaning = "string \<Rightarrow> string \<Rightarrow> json \<Rightarrow> json \<Rightarrow> bool option"

fun neutral_of :: "semantic_operator \<Rightarrow> comparison_operator" where
  "neutral_of SemEqual = Equal"
| "neutral_of SemIn = Equal"
| "neutral_of SemLessThan = LessThan"
| "neutral_of SemLessThanOrEqual = LessThanOrEqual"
| "neutral_of SemGreaterThan = GreaterThan"
| "neutral_of SemGreaterThanOrEqual = GreaterThanOrEqual"
| "neutral_of SemContains = Contains"

definition promised ::
  "comparison \<Rightarrow> (json \<Rightarrow> json \<Rightarrow> bool) \<Rightarrow> semantic_operator \<Rightarrow> operator_fit \<Rightarrow> json \<Rightarrow> json \<Rightarrow> bool option" where
  "promised cmp wide semantic fit v w =
     (if semantic = SemIn
      then (case w of JArray ws \<Rightarrow> k_or (map (compare3 cmp Equal v) ws) | _ \<Rightarrow> None)
      else if v = JNull \<or> w = JNull then None
      else Some (if fit = Widened then wide v w else cmp (neutral_of semantic) v w))"

definition operators_honoured ::
  "ndc_schema \<Rightarrow> operator_meaning \<Rightarrow> comparison \<Rightarrow> (json \<Rightarrow> json \<Rightarrow> bool) \<Rightarrow> bool" where
  "operators_honoured s means cmp wide =
     (\<forall>scalar ops name d semantic fit. map_of (sc_scalars s) scalar = Some ops \<longrightarrow> (name, d) \<in> set ops
        \<longrightarrow> from_definition d = Some (semantic, fit) \<longrightarrow> means scalar name = promised cmp wide semantic fit)"

definition column_scalar :: "schema_index \<Rightarrow> collection_name \<Rightarrow> string \<Rightarrow> string option" where
  "column_scalar ix collection column =
     Option.bind (map_of (ix_collections ix) (collection_str collection))
       (\<lambda>fs. Option.bind (map_of fs column) id)"

fun ndc_eval :: "operator_meaning \<Rightarrow> (string \<Rightarrow> string option) \<Rightarrow> row \<Rightarrow> ndc_expression \<Rightarrow> bool option" where
  "ndc_eval means scalar r (NAnd es) = k_and (map (ndc_eval means scalar r) es)"
| "ndc_eval means scalar r (NOr es) = k_or (map (ndc_eval means scalar r) es)"
| "ndc_eval means scalar r (NNot e) = k_not (ndc_eval means scalar r e)"
| "ndc_eval means scalar r (NIsNull column) = Some (cell r (FieldName column) = JNull)"
| "ndc_eval means scalar r (NBinary column operator v) =
     Option.bind (scalar column) (\<lambda>s. means s operator (cell r (FieldName column)) v)"

section \<open>The translation preserves the meaning\<close>

lemma operator_name_scalar:
  assumes "operator_name_of (SchemaIndex_build s) collection f semantic = Some name"
    and "operators_honoured s means cmp wide"
  obtains scalar fit where "column_scalar (SchemaIndex_build s) collection (field_str f) = Some scalar"
    "means scalar name = promised cmp wide semantic fit"
    "fit = Widened \<Longrightarrow> semantic = SemContains"
proof -
  from assms(1) obtain scalar by_semantic where
    c: "column_scalar (SchemaIndex_build s) collection (field_str f) = Some scalar"
    and o: "map_of (operator_index_build s) scalar = Some by_semantic" "map_of by_semantic semantic = Some name"
    by (auto simp: operator_name_of_def column_scalar_def SchemaIndex_build_def Let_def bind_eq_Some_conv)
  from o obtain ops where ops: "map_of (sc_scalars s) scalar = Some ops" "by_semantic = best_names ops"
    by (auto simp: map_of_operator_index)
  from o(2)[unfolded ops(2)] obtain d fit where d: "(name, d) \<in> set ops" "from_definition d = Some (semantic, fit)"
    by (rule best_names_declared)
  have "fit = Widened \<Longrightarrow> semantic = SemContains"
    using d(2) by (cases d) auto
  with that[OF c] assms(2) ops(1) d show thesis unfolding operators_honoured_def by blast
qed

lemma comparison_to_eval:
  assumes "comparison_to collection f semantic v (SchemaIndex_build s) = Inr e"
    and "operators_honoured s means cmp wide" and "semantic \<noteq> SemIn"
    and "semantic = SemContains \<Longrightarrow> wide = cmp Contains"
  shows "ndc_eval means (column_scalar (SchemaIndex_build s) collection) r e
           = (if cell r f = JNull \<or> v = JNull then None else Some (cmp (neutral_of semantic) (cell r f) v))"
proof -
  from assms(1) obtain name where name: "operator_name_of (SchemaIndex_build s) collection f semantic = Some name"
    and e: "e = NBinary (field_str f) name v"
    by (auto simp: comparison_to_def result_simps)
  from name assms(2) obtain scalar fit where
    "column_scalar (SchemaIndex_build s) collection (field_str f) = Some scalar"
    "means scalar name = promised cmp wide semantic fit" "fit = Widened \<Longrightarrow> semantic = SemContains"
    by (rule operator_name_scalar) blast
  with assms(3,4) show ?thesis
    by (cases fit) (auto simp: e promised_def)
qed

lemma comparison_to_equal:
  "comparison_to collection f SemEqual v (SchemaIndex_build s) = Inr e \<Longrightarrow>
     operators_honoured s means cmp wide \<Longrightarrow>
     ndc_eval means (column_scalar (SchemaIndex_build s) collection) r e = compare3 cmp Equal (cell r f) v"
  by (drule (1) comparison_to_eval[where r = r]) (auto simp: compare3_def)

lemma translate_membership_eval:
  assumes "translate_membership collection f vs (SchemaIndex_build s) = Inr e"
    and "operators_honoured s means cmp wide"
  shows "ndc_eval means (column_scalar (SchemaIndex_build s) collection) r e
           = k_or (map (compare3 cmp Equal (cell r f)) vs)"
proof (cases "operator_name_of (SchemaIndex_build s) collection f SemIn")
  case None
  let ?eval = "ndc_eval means (column_scalar (SchemaIndex_build s) collection) r"
  from None assms(1) obtain es where e: "e = NOr es"
    and es: "list_all2 (\<lambda>v e. comparison_to collection f SemEqual v (SchemaIndex_build s) = Inr e) vs es"
    by (auto simp: translate_membership_def result_simps traverse_Inr split: if_splits)
  from es have "map ?eval es = map (compare3 cmp Equal (cell r f)) vs"
    by (induction rule: list_all2_induct) (simp_all add: comparison_to_equal[OF _ assms(2)])
  then show ?thesis by (simp only: e ndc_eval.simps)
next
  case (Some name)
  with assms(1) have e: "e = NBinary (field_str f) name (JArray vs)"
    by (auto simp: translate_membership_def split: if_splits)
  from Some assms(2) obtain scalar fit where
    "column_scalar (SchemaIndex_build s) collection (field_str f) = Some scalar"
    "means scalar name = promised cmp wide SemIn fit"
    by (rule operator_name_scalar) blast
  then show ?thesis by (simp add: e promised_def)
qed

lemma neutral_of_for_neutral: "op \<noteq> NotEqual \<Longrightarrow> neutral_of (for_neutral op) = op"
  by (cases op) simp_all

lemma for_neutral_In [simp]: "for_neutral op \<noteq> SemIn"
  by (cases op) simp_all

lemma for_neutral_Contains [simp]: "for_neutral op = SemContains \<longleftrightarrow> op = Contains"
  by (cases op) simp_all

lemma to_expression_eval:
  assumes "operators_honoured s means cmp wide"
  shows "to_expression collection f (SchemaIndex_build s) = Inr e \<Longrightarrow>
      (Contains \<in> set (collect_operators f) \<longrightarrow> wide = cmp Contains) \<Longrightarrow>
      ndc_eval means (column_scalar (SchemaIndex_build s) collection) r e = eval3 cmp r f"
    and "translate_all collection fs (SchemaIndex_build s) = Inr es \<Longrightarrow>
      (\<forall>f\<in>set fs. Contains \<in> set (collect_operators f) \<longrightarrow> wide = cmp Contains) \<Longrightarrow>
      map (ndc_eval means (column_scalar (SchemaIndex_build s) collection) r) es = map (eval3 cmp r) fs"
proof (induction collection f "SchemaIndex_build s" and collection fs "SchemaIndex_build s"
    arbitrary: e and es rule: to_expression_translate_all.induct)
  case (1 collection cs)
  from "1.prems"(1) obtain es where es: "translate_all collection cs (SchemaIndex_build s) = Inr es" "e = NAnd es"
    by (auto simp: result_simps)
  from "1.hyps"[OF es(1)] "1.prems"(2) show ?case by (simp only: es(2) ndc_eval.simps eval3.simps) force
next
  case (2 collection cs)
  from "2.prems"(1) obtain es where es: "translate_all collection cs (SchemaIndex_build s) = Inr es" "e = NOr es"
    by (auto simp: result_simps)
  from "2.hyps"[OF es(1)] "2.prems"(2) show ?case by (simp only: es(2) ndc_eval.simps eval3.simps) force
next
  case (3 collection c)
  then show ?case by (auto simp: result_simps)
next
  case (4 collection f)
  then show ?case by (auto simp: translate_null_check_def split: if_splits)
next
  case (5 collection f op v)
  show ?case
  proof (cases "op = NotEqual")
    case True
    with "5.prems" obtain e' where "comparison_to collection f SemEqual v (SchemaIndex_build s) = Inr e'"
      "e = NNot e'" by (auto simp: result_simps)
    with True show ?thesis by (simp add: comparison_to_equal[OF _ assms] compare3_def k_not_def)
  next
    case False
    with "5.prems"(1) have e: "comparison_to collection f (for_neutral op) v (SchemaIndex_build s) = Inr e"
      by simp
    from comparison_to_eval[OF e assms] "5.prems"(2) False show ?thesis
      by (simp add: compare3_def neutral_of_for_neutral)
  qed
next
  case (6 collection f vs)
  then show ?case by (simp add: translate_membership_eval[OF _ assms])
next
  case (7 collection)
  then show ?case by simp
next
  case (8 collection c cs)
  from "8.prems"(1) obtain e es' where e: "to_expression collection c (SchemaIndex_build s) = Inr e"
    "translate_all collection cs (SchemaIndex_build s) = Inr es'" "es = e # es'"
    by (auto simp: result_simps)
  from "8.hyps"(1)[OF e(1)] "8.hyps"(2)[OF e(2)] "8.prems"(2) e(3) show ?case by simp
qed

text \<open>Whatever the caller's part of a conjunction uses, the tenant's equality is sent and binds.\<close>

lemma translate_all_set:
  "translate_all collection fs ix = Inr es \<Longrightarrow> f \<in> set fs \<Longrightarrow>
     \<exists>e\<in>set es. to_expression collection f ix = Inr e"
  by (induction fs arbitrary: es) (auto simp: result_simps)

lemma filter_and_compare:
  "\<exists>cs. filter_and a (FCompare f op v) = FAnd cs \<and> FCompare f op v \<in> set cs"
  by (cases a) simp_all

lemma tenant_conjunct_binds:
  assumes "to_expression collection (conjoin caller (FCompare f Equal v)) (SchemaIndex_build s) = Inr e"
    and "operators_honoured s means cmp wide"
    and "ndc_eval means (column_scalar (SchemaIndex_build s) collection) r e = Some True"
  shows "compare3 cmp Equal (cell r f) v = Some True"
proof (cases caller)
  case None
  with assms(1) have "comparison_to collection f SemEqual v (SchemaIndex_build s) = Inr e"
    by (simp add: conjoin_def)
  with assms(2,3) show ?thesis by (simp add: comparison_to_equal)
next
  case (Some a)
  obtain cs where cs: "filter_and a (FCompare f Equal v) = FAnd cs" "FCompare f Equal v \<in> set cs"
    using filter_and_compare by blast
  from assms(1) Some cs(1) obtain es where es: "translate_all collection cs (SchemaIndex_build s) = Inr es"
    "e = NAnd es" by (auto simp: conjoin_def result_simps)
  from translate_all_set[OF es(1) cs(2)] obtain e' where e': "e' \<in> set es"
    "comparison_to collection f SemEqual v (SchemaIndex_build s) = Inr e'" by auto
  from assms(3) e'(1) es(2)
  have "ndc_eval means (column_scalar (SchemaIndex_build s) collection) r e' = Some True"
    by (auto simp: k_and_True)
  with comparison_to_equal[OF e'(2) assms(2)] show ?thesis by simp
qed

text \<open>The encoding loses nothing: two predicates with one document are one predicate.\<close>

lemma encode_expression_inj: "encode_expression a = encode_expression b \<Longrightarrow> a = b"
proof (induction a arbitrary: b)
  case (NAnd es)
  then obtain fs where "b = NAnd fs" "map encode_expression es = map encode_expression fs"
    by (cases b) simp_all
  with NAnd.IH show ?case using list.inj_map_strong[of es fs encode_expression encode_expression] by simp
next
  case (NOr es)
  then obtain fs where "b = NOr fs" "map encode_expression es = map encode_expression fs"
    by (cases b) simp_all
  with NOr.IH show ?case using list.inj_map_strong[of es fs encode_expression encode_expression] by simp
next
  case (NNot a)
  then show ?case by (cases b) simp_all
next
  case (NIsNull c)
  then show ?case by (cases b) (simp_all add: column_json_def)
next
  case (NBinary c op v)
  then show ?case by (cases b) (simp_all add: column_json_def)
qed

section \<open>Procedure calls\<close>

lemma direct_equality_selected:
  "direct_equality k flt = Some v \<Longrightarrow> eval3 cmp r flt = Some True \<Longrightarrow>
     compare3 cmp Equal (cell r (FieldName k)) v = Some True"
  by (induction k flt rule: direct_equality.induct) (auto split: if_splits)

lemma direct_equalities_selected:
  "v \<in> set (direct_equalities flt k) \<Longrightarrow> eval3 cmp r flt = Some True \<Longrightarrow>
     compare3 cmp Equal (cell r (FieldName k)) v = Some True"
  by (cases "(flt, k)" rule: direct_equalities.cases)
    (auto simp: set_filter_map k_and_True direct_equality_selected split: option.splits
      dest!: direct_equality_selected[rotated])

lemma set_distinct_values: "set (distinct_values vs) \<subseteq> set vs"
proof -
  have "set (fold (\<lambda>v seen. if list_ex (\<lambda>x. json_eq x v) seen then seen else seen @ [v]) vs seen)
      \<subseteq> set seen \<union> set vs" for seen
  proof (induction vs arbitrary: seen)
    case (Cons v vs)
    from Cons.IH[of seen] Cons.IH[of "seen @ [v]"] show ?case by auto
  qed simp
  from this[of "[]"] show ?thesis by (simp add: distinct_values_def)
qed

lemma single_equality_direct: "single_equality flt k = Inr v \<Longrightarrow> v \<in> set (direct_equalities flt k)"
  using set_distinct_values[of "direct_equalities flt k"]
  by (auto simp: single_equality_def split: list.splits)

lemma single_equality_selected:
  "single_equality flt k = Inr v \<Longrightarrow> eval3 cmp r flt = Some True \<Longrightarrow>
     compare3 cmp Equal (cell r (FieldName k)) v = Some True"
  by (rule direct_equalities_selected[OF single_equality_direct])

text \<open>Key arguments join the others: nothing already written is touched.\<close>

lemma add_keys_result:
  "add_keys arguments b flt spec keys = Inr out \<Longrightarrow>
     (\<forall>a v. map_of arguments a = Some v \<longrightarrow> map_of out a = Some v)
     \<and> (\<forall>(k, a)\<in>set keys. \<exists>v. single_equality flt k = Inr v \<and> map_of out a = Some v)"
proof (induction keys arbitrary: arguments)
  case (Cons ka keys)
  obtain k a where ka: "ka = (k, a)" by (cases ka)
  from Cons.prems ka obtain v where v: "single_equality flt k = Inr v" "map_of arguments a = None"
    "add_keys (btree_insert a v arguments) b flt spec keys = Inr out"
    by (auto simp: Let_def result_simps split: if_splits)
  note IH = Cons.IH[OF v(3)]
  from IH have a: "map_of out a = Some v" by simp
  have "map_of out a' = Some w" if "map_of arguments a' = Some w" for a' w
    using IH that v(2) by (cases "a' = a") auto
  with IH a v(1) ka show ?case by auto
qed simp

lemma add_keys_ok:
  "distinct (map snd keys) \<Longrightarrow> \<forall>a\<in>snd ` set keys. map_of arguments a = None \<Longrightarrow>
     \<forall>(k, a)\<in>set keys. is_ok (single_equality flt k) \<Longrightarrow> is_ok (add_keys arguments b flt spec keys)"
proof (induction keys arbitrary: arguments)
  case (Cons ka keys)
  obtain k a where ka: "ka = (k, a)" by (cases ka)
  from Cons.prems(3) ka obtain v where v: "single_equality flt k = Inr v" by (auto simp: result_simps)
  have "is_ok (add_keys (btree_insert a v arguments) b flt spec keys)"
    using Cons.prems ka by (intro Cons.IH) (auto simp: image_iff)
  with Cons.prems(2) v ka show ?case by (simp add: Let_def)
qed simp

lemma add_predicate_Inr:
  "add_predicate arguments b flt spec ix = Inr (out, f) \<longleftrightarrow>
     (\<exists>name e. filter_argument b = Some name \<and> flt = Some f
        \<and> to_expression (mutation_collection spec) f ix = Inr e
        \<and> out = btree_insert name (encode_expression e) arguments)"
  by (auto simp: add_predicate_def result_simps)

lemma payload_of_Inr:
  "payload_of b value = Inr args \<longleftrightarrow> (\<exists>name. payload_argument b = Some name \<and> args = [(name, value)])"
  by (auto simp: payload_of_def result_simps)

text \<open>The one call a request makes, and the binding it came from.\<close>

definition verb_binding :: "mutation_spec \<Rightarrow> collection_procedures \<Rightarrow> procedure_binding option" where
  "verb_binding spec p =
     (case spec of Insert _ _ \<Rightarrow> on_insert p | Update _ _ _ \<Rightarrow> on_update p | Delete _ _ \<Rightarrow> on_delete p)"

lemma to_mutation_request_Inr:
  assumes "to_mutation_request spec ra c ix = Inr req"
  obtains p b args where "map_of (nc_procedures c) (collection_str (mutation_collection spec)) = Some p"
    "bound_arguments spec p ix = Inr (b, args)" "verb_binding spec p = Some b"
    "nm_operations req = [\<lparr> call_name = pb_procedure b, call_arguments = args,
        call_fields = Some affected_rows_only \<rparr>]"
    "nm_request_arguments req = ra"
    "\<And>name. filter_argument b = Some name \<Longrightarrow> procedure_argument ix (pb_procedure b) name = Some ArgPredicate"
proof -
  from assms obtain p b args where p: "map_of (nc_procedures c) (collection_str (mutation_collection spec)) = Some p"
      "bound_arguments spec p ix = Inr (b, args)" "ensure_procedure_accepts b c ix = Inr ()"
    and req: "nm_operations req = [\<lparr> call_name = pb_procedure b, call_arguments = args,
        call_fields = Some affected_rows_only \<rparr>]" "nm_request_arguments req = ra"
    unfolding to_mutation_request_def Let_def by (auto simp: rbind_Inr ok_or_Inr split: prod.splits)
  have "verb_binding spec p = Some b"
    using p(2) by (cases spec) (auto simp: bound_arguments_def verb_binding_def require_binding_def
        Let_def result_simps split: prod.splits)
  with p req show thesis
    by (intro that[of p b args]) (auto simp: ensure_procedure_accepts_def split: if_splits)
qed

lemma bound_arguments_scoped:
  assumes "bound_arguments spec p ix = Inr (b, args)" and "\<nexists>col rows. spec = Insert col rows"
  obtains name f e where "filter_argument b = Some name" "mutation_filter spec = Some f"
    "to_expression (mutation_collection spec) f ix = Inr e"
    "map_of args name = Some (encode_expression e)"
    "\<forall>(k, a)\<in>set (key_arguments b). \<exists>v. single_equality f k = Inr v \<and> map_of args a = Some v"
proof -
  from assms have "\<exists>built built' f. add_predicate built b (mutation_filter spec) spec ix = Inr (built', f)
      \<and> add_key_arguments built' b f spec = Inr args"
    by (cases spec) (auto simp: bound_arguments_def Let_def result_simps split: prod.splits)
  then obtain built built' f where a: "add_predicate built b (mutation_filter spec) spec ix = Inr (built', f)"
    "add_key_arguments built' b f spec = Inr args" by blast
  from a(1) obtain name e where n: "filter_argument b = Some name" "mutation_filter spec = Some f"
    "to_expression (mutation_collection spec) f ix = Inr e"
    "built' = btree_insert name (encode_expression e) built" by (auto simp: add_predicate_Inr)
  from add_keys_result[OF a(2)[unfolded add_key_arguments_def]] n(4) have
    "map_of args name = Some (encode_expression e)"
    "\<forall>(k, a)\<in>set (key_arguments b). \<exists>v. single_equality f k = Inr v \<and> map_of args a = Some v"
    by simp_all
  with n show thesis by (intro that)
qed

lemma row_to_json_get:
  assumes "btree r"
  shows "\<exists>m. row_to_json r = JObject m \<and> (\<forall>f. map_of m (field_str f) = row_get r f)"
    and "\<exists>m. shaped_row_to_json r SetOperations = JObject m
           \<and> (\<forall>f. map_of m (field_str f) = map_option (\<lambda>v. JObject [(''_set'', v)]) (row_get r f))"
proof -
  have inj: "map_of (btree_of (map (\<lambda>(f, v). (field_str f, g v)) r)) (field_str f) = map_option g (row_get r f)"
    for g :: "json \<Rightarrow> json" and f
  proof -
    have "map_of (map (\<lambda>(f, v). (field_str f, g v)) q) (field_str f) = map_option g (map_of q f)" for q
      by (induction q) (auto simp: field_name.expand)
    from this[of "rev r"] btree_distinct[OF assms] show ?thesis
      by (simp add: map_of_btree_of rev_map map_of_rev_distinct row_get_def)
  qed
  from inj[of "\<lambda>v. v"] show "\<exists>m. row_to_json r = JObject m \<and> (\<forall>f. map_of m (field_str f) = row_get r f)"
    by (auto simp: row_to_json_def option.map_ident)
  from inj[of "\<lambda>v. JObject [(''_set'', v)]"] show "\<exists>m. shaped_row_to_json r SetOperations = JObject m
           \<and> (\<forall>f. map_of m (field_str f) = map_option (\<lambda>v. JObject [(''_set'', v)]) (row_get r f))"
    by simp
qed

end
