(* ===== verification/Ndc_Connector.thy ===== *)
theory Ndc_Connector
  imports Ndc_Translate
begin

text \<open>
  The NDC connector as the data boundary meets it (\<open>crates/fabric-connector-ndc/src\<close>:
  \<open>routing.rs\<close>, \<open>client/\<close>, \<open>connector.rs\<close>, \<open>registration.rs\<close>): what routes a tenant's request, how
  an HTTP exchange becomes a result or an error, and how a connector is built. The HTTP client,
  \<open>serde_json\<close> and the status-line texts are the arguments in \<open>ndc_wire\<close>, over a world \<open>'w\<close>. The
  theorems say what a registered connector can send, and what its errors mean for the write.
\<close>

section \<open>The wire\<close>

datatype transport_error = ConnectFailed | BuilderFailed | OtherTransport

datatype ndc_body = QueryBody ndc_query_request | MutationBody ndc_mutation_request

datatype http_call = HttpGet string | HttpPost string ndc_body

record http_response =
  resp_status :: u16
  resp_body :: "transport_error + string"

record 'w ndc_wire =
  wire_send :: "'w \<Rightarrow> string \<Rightarrow> http_call \<Rightarrow> (transport_error + http_response) \<times> 'w"
  wire_builds :: "ndc_config \<Rightarrow> string option"
  status_text :: "u16 \<Rightarrow> string"
  parse_error_message :: "string \<Rightarrow> string option"
  parse_capabilities :: "string \<Rightarrow> string + ndc_capabilities"
  parse_schema :: "string \<Rightarrow> string + ndc_schema"
  parse_query_response :: "string \<Rightarrow> string + ndc_query_response"
  parse_mutation_response :: "string \<Rightarrow> string + json list"

section \<open>Errors and bodies\<close>

definition transport_failure :: "connector_id \<Rightarrow> transport_error \<Rightarrow> connector_error" where
  "transport_failure connector e =
     (if e = ConnectFailed \<or> e = BuilderFailed then Unreachable connector else OutcomeUnknown connector)"

definition is_success :: "u16 \<Rightarrow> bool" where
  "is_success status = (200 \<le> status \<and> status < 300)"

definition rejected :: "'w ndc_wire \<Rightarrow> connector_id \<Rightarrow> u16 \<Rightarrow> string \<Rightarrow> connector_error" where
  "rejected wire connector status body =
     Rejected connector status
       (case parse_error_message wire body of
          None \<Rightarrow> ''connector returned '' @ status_text wire status | Some message \<Rightarrow> message)"

definition decode_body ::
  "'w ndc_wire \<Rightarrow> (string \<Rightarrow> string + 'a) \<Rightarrow> connector_id \<Rightarrow> u16 \<Rightarrow> string \<Rightarrow> connector_error + 'a" where
  "decode_body wire parse connector status body =
     (if \<not> is_success status then Inl (rejected wire connector status body)
      else map_err (MalformedResponse connector) (parse body))"

definition decode ::
  "'w ndc_wire \<Rightarrow> (string \<Rightarrow> string + 'a) \<Rightarrow> connector_id \<Rightarrow> http_response \<Rightarrow> connector_error + 'a" where
  "decode wire parse connector response =
     (case resp_body response of
        Inr body \<Rightarrow> decode_body wire parse connector (resp_status response) body
      | Inl _ \<Rightarrow>
          if is_success (resp_status response) then Inl (ResultLost connector)
          else Inl (rejected wire connector (resp_status response) []))"

section \<open>The client\<close>

record ndc_client =
  cl_endpoint :: string
  cl_connector :: connector_id

definition NdcHttpClient_new :: "'w ndc_wire \<Rightarrow> ndc_config \<Rightarrow> string + ndc_client" where
  "NdcHttpClient_new wire c =
     (case wire_builds wire c of
        Some e \<Rightarrow> Inl (''could not build an HTTP client for '' @ connector_str (nc_id c) @ '': '' @ e)
      | None \<Rightarrow> Inr \<lparr> cl_endpoint = rev (dropWhile (\<lambda>x. x = CHR ''/'') (rev (nc_endpoint c))),
                       cl_connector = nc_id c \<rparr>)"

definition client_exchange ::
  "'w ndc_wire \<Rightarrow> (string \<Rightarrow> string + 'a) \<Rightarrow> ndc_client \<Rightarrow> http_call \<Rightarrow> 'w \<Rightarrow> (connector_error + 'a) \<times> 'w" where
  "client_exchange wire parse client call w =
     (case wire_send wire w (cl_endpoint client) call of
        (Inl e, w') \<Rightarrow> (Inl (transport_failure (cl_connector client) e), w')
      | (Inr response, w') \<Rightarrow> (decode wire parse (cl_connector client) response, w'))"

section \<open>Routing\<close>

definition routing_argument ::
  "ndc_config \<Rightarrow> string option \<Rightarrow> string \<Rightarrow> string \<Rightarrow> connector_error + string" where
  "routing_argument c argument routing setting =
     ok_or (InvalidOperation (''connector '' @ connector_str (nc_id c) @ '' has a tenant routed '' @ routing
        @ '', but no '' @ setting
        @ '' is configured, so there is no request-level argument to carry the routing'')) argument"

type_synonym secret_resolver = "secret_ref \<Rightarrow> connector_error + string"

definition request_arguments ::
  "ndc_config \<Rightarrow> connection_selector \<Rightarrow> secret_resolver option
     \<Rightarrow> connector_error + (string \<times> json) list option" where
  "request_arguments c selector secrets =
     (case selector of
        SelDefault \<Rightarrow> Inr None
      | SelNamed name \<Rightarrow>
          rbind (routing_argument c (connection_name_argument c) ''by connection name''
                   ''connection_name_argument'') (\<lambda>argument.
            Inr (Some [(argument, JString (connection_str name))]))
      | SelSecret reference \<Rightarrow>
          rbind (routing_argument c (connection_string_argument c) ''by connection string''
                   ''connection_string_argument'') (\<lambda>argument.
          rbind (ok_or (InvalidOperation (''connector '' @ connector_str (nc_id c)
                   @ '' has a tenant bound to secret '' @ secret_str reference
                   @ '' but no secret resolver was configured'')) secrets) (\<lambda>resolver.
          rbind (resolver reference) (\<lambda>secret. Inr (Some [(argument, JString secret)])))))"

section \<open>The connector\<close>

record ndc_connector =
  cn_config :: ndc_config
  cn_client :: ndc_client
  cn_capabilities :: connector_capabilities
  cn_schema :: schema_index
  cn_secrets :: "secret_resolver option"

text \<open>What \<open>query\<close> and \<open>mutate\<close> do before anything is sent.\<close>

definition prepared_query ::
  "ndc_connector \<Rightarrow> execution_target \<Rightarrow> query_spec \<Rightarrow> connector_error + ndc_query_request" where
  "prepared_query conn t spec =
     rbind (ensure_supports_query (cn_capabilities conn) spec) (\<lambda>_.
     rbind (request_arguments (cn_config conn) (tgt_connection t) (cn_secrets conn)) (\<lambda>arguments.
       to_query_request spec arguments (cn_schema conn)))"

definition prepared_mutation ::
  "ndc_connector \<Rightarrow> execution_target \<Rightarrow> mutation_spec \<Rightarrow> connector_error + ndc_mutation_request" where
  "prepared_mutation conn t spec =
     rbind (ensure_supports_mutation (cn_capabilities conn) spec) (\<lambda>_.
     rbind (request_arguments (cn_config conn) (tgt_connection t) (cn_secrets conn)) (\<lambda>arguments.
       to_mutation_request spec arguments (cn_config conn) (cn_schema conn)))"

definition ndc_query_run ::
  "'w ndc_wire \<Rightarrow> ndc_connector \<Rightarrow> 'w \<Rightarrow> execution_target \<Rightarrow> query_spec
     \<Rightarrow> (connector_error + query_outcome) \<times> 'w" where
  "ndc_query_run wire conn w t spec =
     (case prepared_query conn t spec of
        Inl e \<Rightarrow> (Inl e, w)
      | Inr request \<Rightarrow>
          apfst (\<lambda>answer. rbind answer (to_query_outcome (nc_id (cn_config conn))))
            (client_exchange wire (parse_query_response wire) (cn_client conn)
               (HttpPost ''/query'' (QueryBody request)) w))"

definition ndc_mutate ::
  "'w ndc_wire \<Rightarrow> ndc_connector \<Rightarrow> 'w \<Rightarrow> execution_target \<Rightarrow> mutation_spec
     \<Rightarrow> (connector_error + mutation_outcome) \<times> 'w" where
  "ndc_mutate wire conn w t spec =
     (case prepared_mutation conn t spec of
        Inl e \<Rightarrow> (Inl e, w)
      | Inr request \<Rightarrow>
          apfst (\<lambda>answer. rbind answer (to_mutation_outcome (nc_id (cn_config conn))))
            (client_exchange wire (parse_mutation_response wire) (cn_client conn)
               (HttpPost ''/mutation'' (MutationBody request)) w))"

definition ndc_data_connector :: "'w ndc_wire \<Rightarrow> ndc_connector \<Rightarrow> 'w data_connector" where
  "ndc_data_connector wire conn =
     \<lparr> conn_id = nc_id (cn_config conn), conn_query = ndc_query_run wire conn,
       conn_mutate = ndc_mutate wire conn \<rparr>"

section \<open>Building a connector\<close>

fun connector_error_str :: "connector_error \<Rightarrow> string" where
  "connector_error_str (UnknownConnector i) = ''no connector is registered with id '' @ connector_str i"
| "connector_error_str (Unsupported feat _) = ''connector does not support '' @ feature_str feat"
| "connector_error_str (UnknownCollection c) =
     ''collection '' @ collection_str c @ '' does not exist in the connector schema''"
| "connector_error_str (SecretUnavailable r) = ''could not resolve secret '' @ r"
| "connector_error_str (Unreachable i) = ''connector '' @ connector_str i @ '' is unreachable''"
| "connector_error_str (OutcomeUnknown i) =
     ''connector '' @ connector_str i @ '' did not answer; the operation may have been carried out''"
| "connector_error_str (ResultLost i) =
     ''connector '' @ connector_str i @ '' succeeded but its response was lost in transit''"
| "connector_error_str (Rejected i status message) =
     ''connector '' @ connector_str i @ '' rejected the operation with '' @ show_nat (unat status)
       @ '': '' @ message"
| "connector_error_str (MalformedResponse i detail) =
     ''connector '' @ connector_str i @ '' returned a malformed response: '' @ detail"
| "connector_error_str (InvalidOperation detail) = ''invalid operation: '' @ detail"

text \<open>What is checked once the schema is read, and the connector that passes.\<close>

definition registered_connector ::
  "ndc_config \<Rightarrow> ndc_client \<Rightarrow> secret_resolver option \<Rightarrow> ndc_capabilities \<Rightarrow> ndc_schema
     \<Rightarrow> string + ndc_connector" where
  "registered_connector c client secrets capabilities s =
     (let ix = SchemaIndex_build s in
      rbind (check_routing_arguments c s) (\<lambda>_.
      rbind (check_procedure_arguments c ix) (\<lambda>_.
      rbind (check_key_arguments c ix) (\<lambda>_.
      rbind (check_required_arguments c ix) (\<lambda>_.
        Inr \<lparr> cn_config = c, cn_client = client, cn_capabilities = to_capabilities capabilities ix c,
              cn_schema = ix, cn_secrets = secrets \<rparr>)))))"

definition build_ndc_connector ::
  "'w ndc_wire \<Rightarrow> ndc_config \<Rightarrow> secret_resolver option \<Rightarrow> 'w \<Rightarrow> (string + ndc_connector) \<times> 'w" where
  "build_ndc_connector wire c secrets w =
     (let who = ''connector '' @ connector_str (nc_id c) in
      case rbind (ndc_validate c) (\<lambda>_. NdcHttpClient_new wire c) of
        Inl e \<Rightarrow> (Inl e, w)
      | Inr client \<Rightarrow>
          (case client_exchange wire (parse_capabilities wire) client (HttpGet ''/capabilities'') w of
             (Inl e, w') \<Rightarrow> (Inl (who @ '': could not read capabilities: '' @ connector_error_str e), w')
           | (Inr capabilities, w') \<Rightarrow>
               (case check_version (connector_str (nc_id c)) (ncap_version capabilities) of
                  Inl e \<Rightarrow> (Inl e, w')
                | Inr _ \<Rightarrow>
                    (case client_exchange wire (parse_schema wire) client (HttpGet ''/schema'') w' of
                       (Inl e, w'') \<Rightarrow> (Inl (who @ '': could not read schema: '' @ connector_error_str e), w'')
                     | (Inr s, w'') \<Rightarrow> (registered_connector c client secrets capabilities s, w'')))))"

section \<open>Calls of a registered connector\<close>

lemma keys_add_keys:
  "add_keys arguments b flt spec keys = Inr out \<Longrightarrow> fst ` set out = fst ` set arguments \<union> snd ` set keys"
proof (induction keys arbitrary: arguments)
  case (Cons ka keys)
  obtain k a where ka: "ka = (k, a)" by (cases ka)
  from Cons.prems ka obtain v where "add_keys (btree_insert a v arguments) b flt spec keys = Inr out"
    by (auto simp: Let_def result_simps split: if_splits)
  from Cons.IH[OF this] ka show ?case by auto
qed simp

lemma set_option_list: "set (option_list m) = (case m of None \<Rightarrow> {} | Some x \<Rightarrow> {x})"
  by (cases m) simp_all

lemma binding_of_verb:
  assumes "map_of (nc_procedures c) (collection_str (mutation_collection spec)) = Some p"
  shows "binding_of c (collection_str (mutation_collection spec)) (operation_name spec) = verb_binding spec p"
  using assms by (cases spec) (simp_all add: binding_of_def all_procedures_def verb_binding_def)

lemma bound_arguments_supplied:
  assumes "bound_arguments spec p ix = Inr (b, args)"
  shows "fst ` set args = set (supplied_arguments b (operation_name spec))"
proof (cases spec)
  case (Insert col rows)
  with assms show ?thesis
    by (auto simp: bound_arguments_def for_insert_def payload_of_Inr supplied_arguments_def Let_def
        result_simps)
next
  case (Update col flt changes)
  with assms obtain built built' f where
    "payload_of b (shaped_row_to_json changes (pb_payload_shape b)) = Inr built"
    "add_predicate built b flt spec ix = Inr (built', f)" "add_key_arguments built' b f spec = Inr args"
    by (auto simp: bound_arguments_def Let_def result_simps split: prod.splits)
  then obtain pa fa where "payload_argument b = Some pa" "filter_argument b = Some fa"
    "fst ` set built' = {fa, pa}" "fst ` set args = fst ` set built' \<union> snd ` set (key_arguments b)"
    by (auto simp: add_predicate_Inr payload_of_Inr add_key_arguments_def dest!: keys_add_keys
        simp del: btree_insert.simps)
  with Update show ?thesis by (simp add: supplied_arguments_def Let_def insert_commute)
next
  case (Delete col flt)
  with assms obtain built' f where
    "add_predicate [] b flt spec ix = Inr (built', f)" "add_key_arguments built' b f spec = Inr args"
    by (auto simp: bound_arguments_def Let_def result_simps split: prod.splits)
  then obtain fa where "filter_argument b = Some fa" "fst ` set built' = {fa}"
    "fst ` set args = fst ` set built' \<union> snd ` set (key_arguments b)"
    by (auto simp: add_predicate_Inr add_key_arguments_def dest!: keys_add_keys)
  with Delete show ?thesis by (simp add: supplied_arguments_def Let_def)
qed

lemma bound_arguments_verb:
  "bound_arguments spec p ix = Inr (b', args) \<Longrightarrow> verb_binding spec p = Some b \<Longrightarrow> b' = b"
  by (cases spec) (auto simp: bound_arguments_def verb_binding_def require_binding_def Let_def
      result_simps split: prod.splits)

text \<open>What the answer to a request that was sent says of the write.\<close>

lemma success_not_refusal: "is_success status \<Longrightarrow> status \<noteq> 400 \<and> status \<noteq> 422"
  by (auto simp: is_success_def)

lemma exchange_effect:
  assumes "\<And>e parsed. interpret_answer parsed = Inl e \<Longrightarrow> effect e = Applied"
  shows "(case rbind (decode wire parse connector response) interpret_answer of
            Inl e \<Rightarrow> effect e | Inr _ \<Rightarrow> Applied)
       = (if is_success (resp_status response) then Applied
          else if resp_status response = 400 \<or> resp_status response = 422 then NotApplied
          else EffectUnknown)"
  using success_not_refusal[of "resp_status response"] assms
  by (auto simp: decode_def decode_body_def rejected_def rejection_effect_def rbind_def map_err_def
      split: sum.splits)

lemma to_mutation_outcome_effect:
  "to_mutation_outcome connector results = Inl e \<Longrightarrow> effect e = Applied"
  by (auto simp: to_mutation_outcome_def split: list.splits)

text \<open>The ways a write through a registered mapping can still be refused.\<close>

definition write_refusable :: "mutation_spec \<Rightarrow> procedure_binding \<Rightarrow> schema_index \<Rightarrow> connector_error \<Rightarrow> bool" where
  "write_refusable spec b ix e =
     (operation_name spec \<noteq> ''insert''
      \<and> (case mutation_filter spec of
           None \<Rightarrow> True
         | Some f \<Rightarrow> to_expression (mutation_collection spec) f ix = Inl e
             \<or> list_ex (\<lambda>(k, _). \<not> is_ok (single_equality f k)) (key_arguments b)))"

lemma add_predicate_Inl:
  assumes "add_predicate arguments b flt spec ix = Inl e" and "filter_argument b \<noteq> None"
  shows "case flt of None \<Rightarrow> True | Some f \<Rightarrow> to_expression (mutation_collection spec) f ix = Inl e"
  using assms by (auto simp: add_predicate_def result_simps split: option.splits)

lemma scoped_arguments_Inl:
  assumes "rbind (add_predicate built b flt spec ix) (\<lambda>(built, predicate).
             map_ok (\<lambda>args. (b, args)) (add_key_arguments built b predicate spec)) = Inl e"
    and "filter_argument b \<noteq> None" and "mutation_filter spec = flt" and "operation_name spec \<noteq> ''insert''"
    and "distinct (map snd (key_arguments b))"
    and "\<forall>a\<in>snd ` set (key_arguments b). a \<notin> fst ` set built \<and> filter_argument b \<noteq> Some a"
  shows "write_refusable spec b ix e"
proof (cases "add_predicate built b flt spec ix")
  case (Inl e')
  with assms add_predicate_Inl[OF Inl assms(2)] show ?thesis
    by (auto simp: write_refusable_def split: option.splits)
next
  case (Inr bf)
  obtain built' f where bf: "bf = (built', f)" by (cases bf)
  from Inr[unfolded bf add_predicate_Inr] obtain name x where a: "filter_argument b = Some name" "flt = Some f"
    "built' = btree_insert name x built" by blast
  have "\<not> is_ok (add_keys built' b f spec (key_arguments b))"
    using assms(1) Inr bf by (auto simp: add_key_arguments_def result_simps)
  moreover have "\<forall>k\<in>snd ` set (key_arguments b). map_of built' k = None"
    using assms(6) a by (auto simp: map_of_eq_None_keys)
  ultimately have "\<not> (\<forall>(k, a)\<in>set (key_arguments b). is_ok (single_equality f k))"
    using add_keys_ok[OF assms(5)] by blast
  with assms(3,4) a(2) show ?thesis by (auto simp: write_refusable_def list_ex_iff)
qed

lemma bound_arguments_Inl:
  assumes "registered_with c ix"
    and "map_of (nc_procedures c) (collection_str (mutation_collection spec)) = Some p"
    and "verb_binding spec p = Some b" and "bound_arguments spec p ix = Inl e"
  shows "write_refusable spec b ix e"
proof -
  have b: "binding_of c (collection_str (mutation_collection spec)) (operation_name spec) = Some b"
    using binding_of_verb[OF assms(2)] assms(3) by simp
  note acc = accepted[OF assms(1) b] and dist = accepted_distinct_arguments[OF assms(1) b]
  show ?thesis
  proof (cases spec)
    case (Insert col rows)
    with acc(2) assms(3,4) show ?thesis
      by (auto simp: bound_arguments_def require_binding_def verb_binding_def for_insert_def
          payload_of_def Let_def result_simps)
  next
    case (Update col flt changes)
    with acc(1,2) obtain pa where pa: "payload_argument b = Some pa" and fa: "filter_argument b \<noteq> None" by auto
    with assms(3,4) Update have "rbind (add_predicate [(pa, shaped_row_to_json changes (pb_payload_shape b))] b flt spec ix)
        (\<lambda>(built, predicate). map_ok (\<lambda>args. (b, args)) (add_key_arguments built b predicate spec)) = Inl e"
      by (simp add: bound_arguments_def require_binding_def verb_binding_def payload_of_def Let_def)
    from scoped_arguments_Inl[OF this fa] Update dist pa fa show ?thesis by (fastforce simp: image_iff)
  next
    case (Delete col flt)
    with acc(1) have fa: "filter_argument b \<noteq> None" by auto
    from assms(3,4) Delete have "rbind (add_predicate [] b flt spec ix)
        (\<lambda>(built, predicate). map_ok (\<lambda>args. (b, args)) (add_key_arguments built b predicate spec)) = Inl e"
      by (simp add: bound_arguments_def require_binding_def verb_binding_def Let_def)
    from scoped_arguments_Inl[OF this fa] Delete dist fa show ?thesis by (auto simp: image_iff)
  qed
qed

lemma routing_declared:
  assumes "check_routing_arguments c s = Inr ()"
    and "argument \<in> set (option_list (connection_name_argument c) @ option_list (connection_string_argument c))"
  shows "\<exists>r. sc_request_arguments s = Some r \<and> declares_for_query r argument \<and> declares_for_mutation r argument"
proof -
  from assms obtain setting where "routing_check_one c (sc_request_arguments s) setting argument = Inr ()"
    unfolding check_routing_arguments_def configured_arguments_def
    by (auto simp: set_option_list rbind_Inr split: option.splits)
  then show ?thesis
    by (auto simp: routing_check_one_def missing_request_kinds_def Let_def split: option.splits if_splits)
qed

section \<open>What is promised\<close>

text \<open>
  A document that sets a column, in either payload shape; and a call whose predicate argument lets
  the connector touch rows of one tenant only.
\<close>

definition document_sets :: "payload_shape \<Rightarrow> field_name \<Rightarrow> json \<Rightarrow> json \<Rightarrow> bool" where
  "document_sets shape f v document =
     (case as_object document of
        None \<Rightarrow> False
      | Some m \<Rightarrow> map_of m (field_str f)
          = Some (case shape of ShapeValues \<Rightarrow> v | SetOperations \<Rightarrow> JObject [(''_set'', v)]))"

definition call_confined_to ::
  "ndc_schema \<Rightarrow> operator_meaning \<Rightarrow> comparison \<Rightarrow> collection_name \<Rightarrow> field_name \<Rightarrow> string
     \<Rightarrow> procedure_binding \<Rightarrow> ndc_procedure_call \<Rightarrow> bool" where
  "call_confined_to s means cmp collection f v b call =
     (\<exists>name e. filter_argument b = Some name
        \<and> procedure_argument (SchemaIndex_build s) (call_name call) name = Some ArgPredicate
        \<and> map_of (call_arguments call) name = Some (encode_expression e)
        \<and> (\<forall>r. ndc_eval means (column_scalar (SchemaIndex_build s) collection) r e = Some True \<longrightarrow>
             compare3 cmp Equal (cell r f) (JString v) = Some True))"

fun rows_are_maps :: "mutation_spec \<Rightarrow> bool" where
  "rows_are_maps (Insert _ rows) = (\<forall>r\<in>set rows. btree r)"
| "rows_are_maps (Update _ _ changes) = btree changes"
| "rows_are_maps (Delete _ _) = True"

lemma stamped_document:
  assumes "tgt_isolation t = IsoDiscriminator f v" and "btree r"
  shows "document_sets shape f (JString v) (shaped_row_to_json (stamp r t) shape)"
proof -
  have sorted: "btree (stamp r t)" using assms by (simp add: stamp_def row_with_def)
  have get: "row_get (stamp r t) f = Some (JString v)" using assms(1) by (simp add: stamp_def)
  show ?thesis
  proof (cases shape)
    case ShapeValues
    with row_to_json_get(1)[OF sorted] get show ?thesis by (auto simp: document_sets_def)
  next
    case SetOperations
    with row_to_json_get(2)[OF sorted] get show ?thesis by (auto simp: document_sets_def)
  qed
qed

lemma scoped_call_confined:
  assumes "bound_arguments spec p (SchemaIndex_build s) = Inr (b, args)"
    and "mutation_filter spec = Some (conjoin caller (FCompare f Equal (JString v)))"
    and "operators_honoured s means cmp wide"
    and "\<And>name. filter_argument b = Some name \<Longrightarrow>
           procedure_argument (SchemaIndex_build s) (pb_procedure b) name = Some ArgPredicate"
  shows "call_confined_to s means cmp (mutation_collection spec) f v b
           \<lparr> call_name = pb_procedure b, call_arguments = args, call_fields = fields' \<rparr>"
proof -
  have "\<nexists>col rows. spec = Insert col rows" using assms(2) by auto
  with assms(1) obtain name e where n: "filter_argument b = Some name"
    "to_expression (mutation_collection spec) (conjoin caller (FCompare f Equal (JString v)))
       (SchemaIndex_build s) = Inr e"
    "map_of args name = Some (encode_expression e)"
    by (rule bound_arguments_scoped) (use assms(2) in simp)
  from tenant_conjunct_binds[OF n(2) assms(3)] n(1,3) assms(4)[OF n(1)] show ?thesis
    unfolding call_confined_to_def by auto
qed

lemma bound_update_payload:
  assumes "bound_arguments (Update c flt changes) p ix = Inr (b, args)"
    and "\<And>payload flt. argument_names b = Some (payload, flt) \<Longrightarrow> payload \<noteq> flt"
  shows "\<exists>a. payload_argument b = Some a
     \<and> map_of args a = Some (shaped_row_to_json changes (pb_payload_shape b))"
proof -
  let ?spec = "Update c flt changes"
  from assms(1) obtain built built' f where
    "payload_of b (shaped_row_to_json changes (pb_payload_shape b)) = Inr built"
    "add_predicate built b flt ?spec ix = Inr (built', f)" "add_key_arguments built' b f ?spec = Inr args"
    by (auto simp: bound_arguments_def Let_def result_simps split: prod.splits)
  with assms(2) show ?thesis
    by (auto simp: payload_of_Inr add_predicate_Inr add_key_arguments_def argument_names_def
        simp del: btree_insert.simps dest!: add_keys_result)
qed

lemma bound_keys_agree:
  assumes "bound_arguments spec p ix = Inr (b, args)" and "mutation_filter spec = Some f"
    and "(k, a) \<in> set (key_arguments b)"
  shows "\<exists>v. map_of args a = Some v
     \<and> (\<forall>cmp r. selects cmp f r \<longrightarrow> compare3 cmp Equal (cell r (FieldName k)) v = Some True)"
proof -
  have "\<nexists>col rows. spec = Insert col rows" using assms(2) by auto
  with assms(1) obtain f' where "mutation_filter spec = Some f'"
    "\<forall>(k, a)\<in>set (key_arguments b). \<exists>v. single_equality f' k = Inr v \<and> map_of args a = Some v"
    by (rule bound_arguments_scoped) blast
  with assms(2,3) show ?thesis by (fastforce simp: selects_def dest: single_equality_selected)
qed

text \<open>
  C3: A write sent to a connector stays with its tenant. For a connector registered over the
  schema \<open>s\<close> and a tenant separated by a discriminator, whatever write is sent is one call of the
  mapped procedure; an insert or an update carries the tenant's own value in every row it sends,
  in the mapping's payload shape; and an update or a delete carries, in an argument the procedure
  declares as a predicate, the document of a predicate under which a connector that honours its
  declared operators touches only rows holding the tenant's value.
\<close>

theorem sent_writes_stay_with_the_tenant:
  assumes registered: "registered_with (cn_config conn) (SchemaIndex_build s)"
    and schema: "cn_schema conn = SchemaIndex_build s"
    and honoured: "operators_honoured s means cmp wide"
    and tenant: "tgt_isolation t = IsoDiscriminator column value"
    and rows: "rows_are_maps m"
    and sent: "prepared_mutation conn t (mutation_for_target m t) = Inr req"
  shows "\<exists>b call. binding_of (cn_config conn) (collection_str (mutation_collection m)) (operation_name m) = Some b
     \<and> nm_operations req = [call] \<and> call_name call = pb_procedure b
     \<and> (case m of
          Insert _ _ \<Rightarrow> (\<exists>a docs. map_of (call_arguments call) a = Some (JArray docs)
              \<and> payload_argument b = Some a
              \<and> list_all (document_sets ShapeValues column (JString value)) docs)
        | Update c _ _ \<Rightarrow> call_confined_to s means cmp c column value b call
            \<and> (\<exists>a doc. map_of (call_arguments call) a = Some doc \<and> payload_argument b = Some a
                \<and> document_sets (pb_payload_shape b) column (JString value) doc)
        | Delete c _ \<Rightarrow> call_confined_to s means cmp c column value b call)"
proof -
  let ?spec = "mutation_for_target m t"
  from sent schema obtain ra where request:
    "to_mutation_request ?spec ra (cn_config conn) (SchemaIndex_build s) = Inr req"
    by (auto simp: prepared_mutation_def result_simps)
  from request obtain p b args where p:
    "map_of (nc_procedures (cn_config conn)) (collection_str (mutation_collection ?spec)) = Some p"
    "bound_arguments ?spec p (SchemaIndex_build s) = Inr (b, args)" "verb_binding ?spec p = Some b"
    "nm_operations req = [\<lparr> call_name = pb_procedure b, call_arguments = args,
        call_fields = Some affected_rows_only \<rparr>]"
    "\<And>name. filter_argument b = Some name \<Longrightarrow>
       procedure_argument (SchemaIndex_build s) (pb_procedure b) name = Some ArgPredicate"
    by (rule to_mutation_request_Inr) blast
  have b: "binding_of (cn_config conn) (collection_str (mutation_collection m)) (operation_name m) = Some b"
    using binding_of_verb[OF p(1)] p(3) by simp
  note confined = scoped_call_confined[OF p(2) _ honoured p(5)]
  show ?thesis
  proof (cases m)
    case (Insert c given)
    with tenant p(2) obtain a where "payload_argument b = Some a"
      "map_of args a = Some (JArray (map (\<lambda>r. row_to_json (stamp r t)) given))"
      by (auto simp: mutation_for_target_def bound_arguments_def for_insert_def payload_of_Inr Let_def
          result_simps comp_def)
    moreover have "list_all (document_sets ShapeValues column (JString value))
        (map (\<lambda>r. row_to_json (stamp r t)) given)"
      using stamped_document[OF tenant, where shape = ShapeValues] rows Insert by (simp add: list_all_iff)
    ultimately show ?thesis using b p(4) Insert by auto
  next
    case (Update c flt changes)
    with tenant have spec: "?spec = Update c (Some (conjoin flt (FCompare column Equal (JString value)))) (stamp changes t)"
      by (simp add: mutation_for_target_def)
    with p(2) obtain a where "payload_argument b = Some a"
      "map_of args a = Some (shaped_row_to_json (stamp changes t) (pb_payload_shape b))"
      using bound_update_payload[OF _ accepted(5)[OF registered b]] by metis
    with stamped_document[OF tenant] rows Update confined[of flt column "value"] spec b p(4) show ?thesis
      by auto
  next
    case (Delete c flt)
    with tenant have "?spec = Delete c (Some (conjoin flt (FCompare column Equal (JString value))))"
      by (simp add: mutation_for_target_def)
    with confined[of flt column "value"] b p(4) Delete show ?thesis by auto
  qed
qed

text \<open>
  A registered mapping is always sendable. Through a mapping that passed registration, a write
  whose routing is configured is refused for one of two reasons only: its predicate has no
  translation (or there is none), or a mapped key has no single value in the predicate. Otherwise
  the one call made supplies every argument its procedure requires, and each key argument agrees with
  every row the predicate selects.
\<close>

theorem registered_mappings_are_sendable:
  assumes registered: "registered_with (cn_config conn) (cn_schema conn)"
    and mapped: "binding_of (cn_config conn) (collection_str (mutation_collection spec)) (operation_name spec) = Some b"
    and supported: "ensure_supports_mutation (cn_capabilities conn) spec = Inr ()"
    and routed: "request_arguments (cn_config conn) (tgt_connection t) (cn_secrets conn) = Inr ra"
  shows "case prepared_mutation conn t spec of
      Inl e \<Rightarrow> write_refusable spec b (cn_schema conn) e
    | Inr req \<Rightarrow> (\<exists>args. nm_operations req = [\<lparr> call_name = pb_procedure b, call_arguments = args,
          call_fields = Some affected_rows_only \<rparr>] \<and> nm_request_arguments req = ra
        \<and> set (required_arguments (cn_schema conn) (pb_procedure b)) \<subseteq> fst ` set args
        \<and> (\<forall>f k a. mutation_filter spec = Some f \<and> (k, a) \<in> set (key_arguments b) \<longrightarrow>
             (\<exists>v. map_of args a = Some v
                \<and> (\<forall>cmp r. selects cmp f r \<longrightarrow> compare3 cmp Equal (cell r (FieldName k)) v = Some True))))"
proof -
  let ?c = "cn_config conn" and ?ix = "cn_schema conn"
  from mapped obtain p where p: "map_of (nc_procedures ?c) (collection_str (mutation_collection spec)) = Some p"
    by (auto simp: binding_of_def bind_eq_Some_conv)
  with mapped binding_of_verb[OF p] have v: "verb_binding spec p = Some b" by simp
  have prepared: "prepared_mutation conn t spec = to_mutation_request spec ra ?c ?ix"
    by (simp add: prepared_mutation_def supported routed)
  show ?thesis
  proof (cases "prepared_mutation conn t spec")
    case (Inl e)
    have "ensure_procedure_accepts b ?c ?ix = Inr ()"
      using accepted_procedure[OF registered mapped] accepted_filter_argument[OF registered mapped]
        accepted(7)[OF registered mapped]
      by (auto simp: ensure_procedure_accepts_def procedure_check_binding_def requirements_def
          check_requirement_def Let_def result_simps split: option.splits if_splits)
    with Inl p have "bound_arguments spec p ?ix = Inl e"
      unfolding prepared to_mutation_request_def Let_def
      by (cases "bound_arguments spec p ?ix") (auto dest: bound_arguments_verb[OF _ v])
    with bound_arguments_Inl[OF registered p v] Inl show ?thesis by simp
  next
    case (Inr req)
    from Inr[unfolded prepared] obtain p' b' args where r:
      "map_of (nc_procedures ?c) (collection_str (mutation_collection spec)) = Some p'"
      "bound_arguments spec p' ?ix = Inr (b', args)" "verb_binding spec p' = Some b'"
      "nm_operations req = [\<lparr> call_name = pb_procedure b', call_arguments = args,
          call_fields = Some affected_rows_only \<rparr>]" "nm_request_arguments req = ra"
      by (rule to_mutation_request_Inr) blast
    with p v have b: "b' = b" by simp
    have req: "set (required_arguments ?ix (pb_procedure b)) \<subseteq> fst ` set args"
      using accepted_required[OF registered mapped] bound_arguments_supplied[OF r(2)] b by simp
    note agree = bound_keys_agree[OF r(2)[unfolded b]]
    with req r(4,5) b Inr show ?thesis by auto
  qed
qed



text \<open>
  C26: An error says what became of the write. A write refused before it is sent leaves the world
  as it was. Once it is sent, an error that claims nothing was applied means the connection was
  never made or the connector refused the request as such (400, 422); one that claims the write was
  applied, like a result, means the connector answered with success; and what else can go wrong
  claims neither.
\<close>

theorem errors_tell_what_became_of_the_write:
  "case prepared_mutation conn t spec of
     Inl e \<Rightarrow> ndc_mutate wire conn w t spec = (Inl e, w)
   | Inr req \<Rightarrow>
       (let (answer, w') = wire_send wire w (cl_endpoint (cn_client conn))
                             (HttpPost ''/mutation'' (MutationBody req));
            (result, w'') = ndc_mutate wire conn w t spec in
        w'' = w'
        \<and> (case (case result of Inl e \<Rightarrow> effect e | Inr _ \<Rightarrow> Applied) of
             NotApplied \<Rightarrow> (case answer of
                 Inl e \<Rightarrow> e = ConnectFailed \<or> e = BuilderFailed
               | Inr response \<Rightarrow> resp_status response = 400 \<or> resp_status response = 422)
           | Applied \<Rightarrow> (case answer of
                 Inl _ \<Rightarrow> False | Inr response \<Rightarrow> is_success (resp_status response))
           | EffectUnknown \<Rightarrow> (case answer of
                 Inl e \<Rightarrow> e = OtherTransport
               | Inr response \<Rightarrow> \<not> is_success (resp_status response)
                   \<and> resp_status response \<notin> {400, 422})))"
proof (cases "prepared_mutation conn t spec")
  case (Inl e)
  then show ?thesis by (simp add: ndc_mutate_def)
next
  case (Inr req)
  obtain answer w' where sent: "wire_send wire w (cl_endpoint (cn_client conn))
      (HttpPost ''/mutation'' (MutationBody req)) = (answer, w')" by (cases "wire_send wire w
      (cl_endpoint (cn_client conn)) (HttpPost ''/mutation'' (MutationBody req))")
  show ?thesis
  proof (cases answer)
    case Inl': (Inl e)
    then show ?thesis
      by (cases e) (simp_all add: Inr sent ndc_mutate_def client_exchange_def transport_failure_def)
  next
    case Inr': (Inr response)
    have "(case rbind (decode wire (parse_mutation_response wire) (cl_connector (cn_client conn)) response)
          (to_mutation_outcome (nc_id (cn_config conn))) of Inl e \<Rightarrow> effect e | Inr _ \<Rightarrow> Applied)
        = (if is_success (resp_status response) then Applied
           else if resp_status response = 400 \<or> resp_status response = 422 then NotApplied
           else EffectUnknown)"
      by (rule exchange_effect) (rule to_mutation_outcome_effect)
    then show ?thesis
      using success_not_refusal[of "resp_status response"]
      by (simp add: Inr Inr' sent ndc_mutate_def client_exchange_def)
  qed
qed

text \<open>
  What a schema has to declare for a mapping, read off the schema's own lists and not off the
  checks: the procedure, its arguments in their kinds, and no required argument left out.
\<close>

definition mapping_supported :: "ndc_schema \<Rightarrow> string \<Rightarrow> procedure_binding \<Rightarrow> bool" where
  "mapping_supported s verb b =
     list_ex (\<lambda>p. pi_name p = pb_procedure b
         \<and> list_all (\<lambda>a. map_option kind_of (map_of (pi_arguments p) a) = Some ArgValue)
             (option_list (payload_argument b) @ map snd (key_arguments b))
         \<and> list_all (\<lambda>a. map_option kind_of (map_of (pi_arguments p) a) = Some ArgPredicate)
             (option_list (filter_argument b))
         \<and> list_all (\<lambda>(a, t). is_nullable t \<or> a \<in> set (supplied_arguments b verb)) (pi_arguments p))
       (sc_procedures s)"

definition mappings_supported :: "ndc_schema \<Rightarrow> ndc_config \<Rightarrow> bool" where
  "mappings_supported s c =
     list_all (\<lambda>(collection, p). list_all (\<lambda>(verb, m). case m of None \<Rightarrow> True | Some b \<Rightarrow> mapping_supported s verb b)
         (all_procedures p)) (nc_procedures c)"

lemma map_of_procedures:
  assumes "map_of (ix_procedures (SchemaIndex_build s)) name = Some as"
  obtains p where "p \<in> set (sc_procedures s)" "pi_name p = name"
    "as = map (\<lambda>(a, t). (a, \<lparr> ai_kind = kind_of t, ai_required = (\<not> is_nullable t) \<rparr>)) (pi_arguments p)"
proof -
  have "(name, as) \<in> set (map (\<lambda>p. (pi_name p,
       map (\<lambda>(a, t). (a, \<lparr> ai_kind = kind_of t, ai_required = (\<not> is_nullable t) \<rparr>)) (pi_arguments p)))
       (sc_procedures s))"
    using map_of_SomeD[OF assms] set_btree_of
    unfolding SchemaIndex_build_def Let_def schema_index.simps procedure_index_build_def by blast
  with that show thesis by auto
qed

lemma map_of_arguments:
  "map_of (map (\<lambda>(a, t). (a, \<lparr> ai_kind = kind_of t, ai_required = (\<not> is_nullable t) \<rparr>)) args) a
     = map_option (\<lambda>t. \<lparr> ai_kind = kind_of t, ai_required = (\<not> is_nullable t) \<rparr>) (map_of args a)"
  by (induction args) auto

lemma registered_supported:
  assumes "registered_with c (SchemaIndex_build s)"
  shows "mappings_supported s c"
proof -
  let ?ix = "SchemaIndex_build s"
  have "mapping_supported s verb b"
    if at: "(collection, q) \<in> set (nc_procedures c)" "(verb, Some b) \<in> set (all_procedures q)" for collection q verb b
  proof -
    have checks: "procedure_check_binding c ?ix collection verb b = Inr ()"
      "key_check_binding c ?ix collection verb b = Inr ()" "required_check_binding c ?ix collection verb b = Inr ()"
      using assms at unfolding registered_with_def check_procedure_arguments_def check_key_arguments_def
        check_required_arguments_def each_binding_ok by blast+
    then have "has_procedure ?ix (pb_procedure b)"
      by (auto simp: procedure_check_binding_def Let_def split: if_splits)
    then obtain as where as: "map_of (ix_procedures ?ix) (pb_procedure b) = Some as"
      by (auto simp: has_procedure_def)
    obtain p where p: "p \<in> set (sc_procedures s)" "pi_name p = pb_procedure b"
      "as = map (\<lambda>(a, t). (a, \<lparr> ai_kind = kind_of t, ai_required = (\<not> is_nullable t) \<rparr>)) (pi_arguments p)"
      by (rule map_of_procedures[OF as])
    have kind: "procedure_argument ?ix (pb_procedure b) a = map_option kind_of (map_of (pi_arguments p) a)" for a
      by (simp add: procedure_argument_def as p(3) map_of_arguments option.map_comp o_def)
    have payload: "map_option kind_of (map_of (pi_arguments p) a) = Some ArgValue" if "payload_argument b = Some a" for a
      using checks(1) that by (auto simp: procedure_check_binding_def Let_def requirements_def check_requirement_def kind
          rbind_Inr split: if_splits option.splits)
    have flt: "map_option kind_of (map_of (pi_arguments p) a) = Some ArgPredicate" if "filter_argument b = Some a" for a
      using checks(1) that by (auto simp: procedure_check_binding_def Let_def requirements_def check_requirement_def kind
          rbind_Inr split: if_splits option.splits)
    have keys: "map_option kind_of (map_of (pi_arguments p) a) = Some ArgValue" if "a \<in> snd ` set (key_arguments b)" for a
      using checks(2) that by (auto simp: key_check_binding_def Let_def try_each_Inr kind rbind_Inr
          split: option.splits argument_kind.splits)
    have "set (required_arguments ?ix (pb_procedure b)) \<subseteq> set (supplied_arguments b verb)"
      using checks(3) by (auto simp: required_check_binding_def Let_def try_each_Inr list_ex_iff split: if_splits)
    moreover have "a \<in> set (required_arguments ?ix (pb_procedure b))" if "(a, t) \<in> set (pi_arguments p)" "\<not> is_nullable t" for a t
      using that by (force simp: required_arguments_def as p(3))
    ultimately have required: "is_nullable t \<or> a \<in> set (supplied_arguments b verb)" if "(a, t) \<in> set (pi_arguments p)" for a t
      using that by blast
    show ?thesis
      unfolding mapping_supported_def list_ex_iff
    proof (intro bexI[OF _ p(1)] conjI p(2))
      show "list_all (\<lambda>a. map_option kind_of (map_of (pi_arguments p) a) = Some ArgValue)
          (option_list (payload_argument b) @ map snd (key_arguments b))"
        using payload keys by (cases "payload_argument b") (auto simp: list_all_iff)
      show "list_all (\<lambda>a. map_option kind_of (map_of (pi_arguments p) a) = Some ArgPredicate) (option_list (filter_argument b))"
        using flt by (cases "filter_argument b") auto
      show "list_all (\<lambda>(a, t). is_nullable t \<or> a \<in> set (supplied_arguments b verb)) (pi_arguments p)"
        using required by (auto simp: list_all_iff)
    qed
  qed
  then show ?thesis by (auto simp: mappings_supported_def list_all_iff split: option.split)
qed

text \<open>
  C27: What is built is registered. A connector comes out of \<open>build_ndc_connector\<close> only after the
  connector behind it answered twice: with a protocol version that is a patch of 0.2 no earlier than
  0.2.4, and with a schema that supports the whole mapping: every mapped procedure is declared, its
  payload and key arguments as values, its filter argument as a predicate, and no argument the
  procedure requires is one the mapping does not supply; and both kinds of request argument are
  declared for every configured routing argument.
\<close>

theorem built_connectors_are_registered:
  assumes "build_ndc_connector wire c secrets w = (Inr conn, w'')"
  shows "\<exists>client capabilities s patch w'. NdcHttpClient_new wire c = Inr client
    \<and> client_exchange wire (parse_capabilities wire) client (HttpGet ''/capabilities'') w = (Inr capabilities, w')
    \<and> client_exchange wire (parse_schema wire) client (HttpGet ''/schema'') w' = (Inr s, w'')
    \<and> parse_version (ncap_version capabilities) = Some (0, 2, patch) \<and> 4 \<le> patch
    \<and> cn_config conn = c \<and> cn_schema conn = SchemaIndex_build s \<and> registered_with c (cn_schema conn)
    \<and> mappings_supported s c
    \<and> (\<forall>argument. argument \<in> set (option_list (connection_name_argument c)
           @ option_list (connection_string_argument c)) \<longrightarrow>
         (\<exists>r. sc_request_arguments s = Some r
            \<and> declares_for_query r argument \<and> declares_for_mutation r argument))"
proof -
  from assms obtain client where client: "ndc_validate c = Inr ()" "NdcHttpClient_new wire c = Inr client"
    by (cases "rbind (ndc_validate c) (\<lambda>_. NdcHttpClient_new wire c)")
      (auto simp: build_ndc_connector_def Let_def rbind_Inr)
  from assms obtain capabilities w' where caps:
    "client_exchange wire (parse_capabilities wire) client (HttpGet ''/capabilities'') w = (Inr capabilities, w')"
    by (cases "client_exchange wire (parse_capabilities wire) client (HttpGet ''/capabilities'') w")
      (auto simp: build_ndc_connector_def Let_def client split: sum.splits)
  from assms caps have version: "is_ok (check_version (connector_str (nc_id c)) (ncap_version capabilities))"
    by (auto simp: build_ndc_connector_def Let_def client split: sum.splits)
  from assms caps version obtain s where
    "client_exchange wire (parse_schema wire) client (HttpGet ''/schema'') w' = (Inr s, w'')"
    "registered_connector c client secrets capabilities s = Inr conn"
    by (cases "client_exchange wire (parse_schema wire) client (HttpGet ''/schema'') w'")
      (auto simp: build_ndc_connector_def Let_def client is_ok_iff split: sum.splits)
  moreover from this(2) have "check_routing_arguments c s = Inr ()" "cn_config conn = c"
    "cn_schema conn = SchemaIndex_build s" "registered_with c (cn_schema conn)"
    by (auto simp: registered_connector_def Let_def rbind_Inr registered_with_def client(1))
  ultimately show ?thesis
    using client(2) caps version[unfolded check_version_ok] routing_declared[of c s]
      registered_supported[of c s] by metis
qed

section \<open>A connector\<close>

definition example_ndc_schema :: ndc_schema where
  "example_ndc_schema =
     \<lparr> sc_scalars = [(''text'', [(''_eq'', DefEqual), (''_ilike'', DefContainsInsensitive)])],
       sc_objects = [(''order'', [(''id'', TNamed ''text''), (''tenant'', TNamed ''text'')])],
       sc_collections = [\<lparr> ci_name = ''orders'', ci_type = ''order'' \<rparr>],
       sc_procedures = [\<lparr> pi_name = ''update_orders'',
         pi_arguments = [(''key_id'', TNamed ''text''), (''set'', TNamed ''order_set''),
                         (''where'', TPredicate ''order'')] \<rparr>],
       sc_request_arguments = Some \<lparr> ra_query = [(''db'', JNull)], ra_mutation = [(''db'', JNull)] \<rparr> \<rparr>"

definition example_ndc_config :: ndc_config where
  "example_ndc_config =
     \<lparr> nc_id = ConnectorId ''pg'', nc_endpoint = ''http'', http_timeout_seconds = 10,
       http_connect_timeout_seconds = 5, connection_name_argument = Some ''db'',
       connection_string_argument = None,
       nc_procedures = [(''orders'', \<lparr> on_insert = None,
         on_update = Some \<lparr> pb_procedure = ''update_orders'', payload_argument = Some ''set'',
           filter_argument = Some ''where'', key_arguments = [(''id'', ''key_id'')],
           pb_payload_shape = SetOperations \<rparr>, on_delete = None \<rparr>)] \<rparr>"

definition example_wire :: "unit ndc_wire" where
  "example_wire =
     \<lparr> wire_send = (\<lambda>w _ _. (Inr \<lparr> resp_status = 200, resp_body = Inr [] \<rparr>, w)),
       wire_builds = (\<lambda>_. None), status_text = (\<lambda>_. []), parse_error_message = (\<lambda>_. None),
       parse_capabilities = (\<lambda>_. Inr \<lparr> ncap_version = ''0.2.4'', ncap_capabilities = JNull \<rparr>),
       parse_schema = (\<lambda>_. Inr example_ndc_schema),
       parse_query_response = (\<lambda>_. Inr [\<lparr> rs_aggregates = None, rs_rows = None, rs_groups = None \<rparr>]),
       parse_mutation_response = (\<lambda>_. Inr [JNull]) \<rparr>"

definition example_ndc :: ndc_connector where
  "example_ndc =
     \<lparr> cn_config = example_ndc_config,
       cn_client = \<lparr> cl_endpoint = ''http'', cl_connector = ConnectorId ''pg'' \<rparr>,
       cn_capabilities = to_capabilities \<lparr> ncap_version = ''0.2.4'', ncap_capabilities = JNull \<rparr>
         (SchemaIndex_build example_ndc_schema) example_ndc_config,
       cn_schema = SchemaIndex_build example_ndc_schema, cn_secrets = None \<rparr>"

definition example_ndc_target :: execution_target where
  "example_ndc_target =
     ExecutionTarget_new (TenantId ''acme'') 1 (DataSourceId ''main'') 1 (ConnectorId ''pg'')
       (SelNamed (ConnectionName ''shared'')) (IsoDiscriminator (FieldName ''tenant'') ''acme'')"

definition example_update :: mutation_spec where
  "example_update =
     Update (CollectionName ''orders'') (Some (FCompare (FieldName ''id'') Equal (JString ''7'')))
       [(FieldName ''id'', JString ''8'')]"

text \<open>A connector whose operators compare texts as they are written.\<close>

definition example_meaning :: operator_meaning where
  "example_meaning scalar operator v w =
     (if operator = ''_eq'' then promised (\<lambda>_ v w. v = w) (\<lambda>v w. v = w) SemEqual Exact v w
      else promised (\<lambda>_ v w. v = w) (\<lambda>v w. v = w) SemContains Widened v w)"

lemma example_honoured: "operators_honoured example_ndc_schema example_meaning (\<lambda>_ v w. v = w) (\<lambda>v w. v = w)"
  by (auto simp: operators_honoured_def example_ndc_schema_def example_meaning_def fun_eq_iff
      split: if_splits)

lemma example_ndc_registered: "registered_with example_ndc_config (SchemaIndex_build example_ndc_schema)"
proof -
  have "trim (nc_endpoint example_ndc_config) \<noteq> []"
    unfolding example_ndc_config_def ndc_config.simps by (rule trim_ascii_nonempty) code_simp+
  then have "validate_transport example_ndc_config = Inr ()"
    by (simp add: validate_transport_def Let_def) (simp add: example_ndc_config_def)
  moreover have "validate_predicate_arguments example_ndc_config = Inr ()" by code_simp
  moreover have "validate_payload_arguments example_ndc_config = Inr ()" by code_simp
  moreover have "validate_delete_has_no_payload_argument example_ndc_config = Inr ()" by code_simp
  moreover have "validate_distinct_arguments example_ndc_config = Inr ()" by code_simp
  moreover have "validate_key_arguments_on_insert example_ndc_config = Inr ()" by code_simp
  moreover have "validate_key_argument_distinctness example_ndc_config = Inr ()" by code_simp
  moreover have "validate_payload_shape example_ndc_config = Inr ()" by code_simp
  moreover have "check_procedure_arguments example_ndc_config (SchemaIndex_build example_ndc_schema) = Inr ()"
    by code_simp
  moreover have "check_key_arguments example_ndc_config (SchemaIndex_build example_ndc_schema) = Inr ()"
    by code_simp
  moreover have "check_required_arguments example_ndc_config (SchemaIndex_build example_ndc_schema) = Inr ()"
    by code_simp
  ultimately show ?thesis by (simp add: registered_with_def ndc_validate_ok)
qed

lemma example_ndc_routing: "check_routing_arguments example_ndc_config example_ndc_schema = Inr ()"
  by code_simp

lemma example_ndc_prepared:
  "is_ok (prepared_mutation example_ndc example_ndc_target (mutation_for_target example_update example_ndc_target))"
  by code_simp

theorem sent_writes_stay_with_the_tenant_witness:
  "case prepared_mutation example_ndc example_ndc_target
          (mutation_for_target example_update example_ndc_target) of
     Inl _ \<Rightarrow> False
   | Inr req \<Rightarrow> (\<exists>b call. nm_operations req = [call]
       \<and> call_confined_to example_ndc_schema example_meaning (\<lambda>_ v w. v = w) (CollectionName ''orders'')
           (FieldName ''tenant'') ''acme'' b call
       \<and> (\<exists>a doc. map_of (call_arguments call) a = Some doc \<and> payload_argument b = Some a
           \<and> document_sets (pb_payload_shape b) (FieldName ''tenant'') (JString ''acme'') doc))"
proof -
  obtain req where req: "prepared_mutation example_ndc example_ndc_target
      (mutation_for_target example_update example_ndc_target) = Inr req"
    using example_ndc_prepared by (auto simp: is_ok_iff)
  have "registered_with (cn_config example_ndc) (SchemaIndex_build example_ndc_schema)"
    by (simp add: example_ndc_def example_ndc_registered)
  moreover have "cn_schema example_ndc = SchemaIndex_build example_ndc_schema"
    by (simp add: example_ndc_def)
  moreover have "tgt_isolation example_ndc_target = IsoDiscriminator (FieldName ''tenant'') ''acme''"
    by (simp add: example_ndc_target_def ExecutionTarget_new_def)
  moreover have "rows_are_maps example_update" by (simp add: example_update_def btree_def)
  ultimately show ?thesis
    using sent_writes_stay_with_the_tenant[OF _ _ example_honoured _ _ req] req
    by (auto simp: example_update_def)
qed

theorem registered_mappings_are_sendable_witness:
  "\<exists>req args. prepared_mutation example_ndc example_ndc_target
        (mutation_for_target example_update example_ndc_target) = Inr req
     \<and> map_option call_arguments (List.find (\<lambda>_. True) (nm_operations req)) = Some args
     \<and> {''set'', ''where'', ''key_id''} \<subseteq> fst ` set args"
proof -
  let ?spec = "mutation_for_target example_update example_ndc_target"
  obtain req where req: "prepared_mutation example_ndc example_ndc_target ?spec = Inr req"
    using example_ndc_prepared by (auto simp: is_ok_iff)
  obtain b where b: "binding_of (cn_config example_ndc) (collection_str (mutation_collection ?spec))
      (operation_name ?spec) = Some b" and p: "pb_procedure b = ''update_orders''"
    by (simp add: example_ndc_def example_ndc_config_def example_update_def binding_of_def all_procedures_def)
  have "required_arguments (cn_schema example_ndc) ''update_orders'' = [''key_id'', ''set'', ''where'']"
    by code_simp
  moreover have "registered_with (cn_config example_ndc) (cn_schema example_ndc)"
    by (simp add: example_ndc_def example_ndc_registered)
  moreover have "ensure_supports_mutation (cn_capabilities example_ndc) ?spec = Inr ()" by code_simp
  moreover have "request_arguments (cn_config example_ndc) (tgt_connection example_ndc_target)
      (cn_secrets example_ndc) = Inr (Some [(''db'', JString ''shared'')])" by code_simp
  ultimately show ?thesis
    using registered_mappings_are_sendable[OF _ b, of example_ndc_target] req p by force
qed


theorem built_connectors_are_registered_witness:
  "\<exists>conn. build_ndc_connector example_wire example_ndc_config None () = (Inr conn, ())
     \<and> registered_with example_ndc_config (cn_schema conn)"
proof -
  let ?client = "\<lparr> cl_endpoint = rev (dropWhile (\<lambda>x. x = CHR ''/'') (rev (nc_endpoint example_ndc_config))),
      cl_connector = nc_id example_ndc_config \<rparr>"
  let ?capabilities = "\<lparr> ncap_version = ''0.2.4'', ncap_capabilities = JNull \<rparr>"
  define conn where "conn = \<lparr> cn_config = example_ndc_config, cn_client = ?client,
      cn_capabilities = to_capabilities ?capabilities (SchemaIndex_build example_ndc_schema) example_ndc_config,
      cn_schema = SchemaIndex_build example_ndc_schema, cn_secrets = None \<rparr>"
  have conn: "registered_connector example_ndc_config ?client None ?capabilities example_ndc_schema = Inr conn"
    using example_ndc_registered example_ndc_routing
    by (simp add: registered_connector_def registered_with_def Let_def conn_def)
  have "parse_version ''0.2.4'' = Some (0, 2, 4)"
    by (simp add: parse_version_def parse_u32_def byte_def is_ascii_digit_def ch_def)
  then have "is_ok (check_version (connector_str (nc_id example_ndc_config)) ''0.2.4'')"
    by (simp add: check_version_ok)
  then obtain v where v: "check_version (connector_str (nc_id example_ndc_config)) ''0.2.4'' = Inr v"
    by (auto simp: is_ok_iff)
  have valid: "ndc_validate example_ndc_config = Inr ()"
    using example_ndc_registered by (simp add: registered_with_def)
  have wire: "wire_builds example_wire = (\<lambda>_. None)"
    "parse_capabilities example_wire = (\<lambda>_. Inr \<lparr> ncap_version = ''0.2.4'', ncap_capabilities = JNull \<rparr>)"
    "parse_schema example_wire = (\<lambda>_. Inr example_ndc_schema)" by (simp_all add: example_wire_def)
  have exchange: "client_exchange example_wire parse client call ()
      = (map_err (MalformedResponse (cl_connector client)) (parse []), ())" for parse client call
    by (simp add: client_exchange_def example_wire_def decode_def decode_body_def is_success_def)
  have "build_ndc_connector example_wire example_ndc_config None () = (Inr conn, ())"
    by (simp add: build_ndc_connector_def valid NdcHttpClient_new_def wire exchange v conn)
  with built_connectors_are_registered[OF this] show ?thesis by blast
qed

end
