(* ===== verification/Publication_Reads.thy ===== *)
theory Publication_Reads
  imports Reader Publication
begin

text \<open>
  A publisher and a reader of the same target: what \<open>read_generation\<close> (theory \<open>Reader\<close>) makes of
  the files while \<open>publish\<close> (theory \<open>Publication\<close>) replaces them one by one, and after it. The two
  crates meet in the bytes of the record, so what is assumed of \<open>serde_json\<close> and SHA-256 is stated
  here: a record is read back as it was rendered, the reader's struct takes the same fields from the
  same bytes, both hash alike, and the documents in play do not collide.
\<close>

section \<open>What is assumed of the code outside\<close>

definition reader_record_of :: "publication_record \<Rightarrow> reader_record" where
  "reader_record_of r =
     \<lparr> minimum_reader_contract = pr_minimum_reader_contract r, generation_of = pr_generation r,
       tenants_sha256 = rcd_sha256 (rds_tenants (pr_documents r)),
       data_sources_sha256 = rcd_sha256 (rds_data_sources (pr_documents r)),
       catalog_sha256 = rcd_sha256 (rds_catalog (pr_documents r)) \<rparr>"

definition codecs_agree :: "publisher_codec \<Rightarrow> 'c codec \<Rightarrow> bool" where
  "codecs_agree px gx \<longleftrightarrow>
     pc_sha256 px = sha256 gx
     \<and> (\<forall>r bytes. to_canonical_bytes (pretty_record px) r = Inr bytes \<longrightarrow> from_record px bytes = Inr r)
     \<and> (\<forall>r bytes. from_record px bytes = Inr r \<longrightarrow> read_record gx bytes = Inr (reader_record_of r))
     \<and> (\<forall>m bytes. to_canonical_bytes (pretty_manifest px) m = Inr bytes \<longrightarrow> from_manifest px bytes = Inr m)"

definition contents_in :: "target \<Rightarrow> string set" where
  "contents_in files = {bytes. \<exists>d. files (payload_file d) = FileContents bytes}"

definition collision_free :: "'c codec \<Rightarrow> string set \<Rightarrow> bool" where
  "collision_free gx texts \<longleftrightarrow> inj_on (sha256_hex gx) texts"

text \<open>The four files as a pass of the reader meets them.\<close>

definition pass_over :: "target \<Rightarrow> pass_world \<Rightarrow> pass_world" where
  "pass_over files w =
     w\<lparr> file_record := files RecordFile, file_data_sources := files DataSourcesPayload,
        file_tenants := files TenantsPayload, file_catalog := files CatalogPayload \<rparr>"

section \<open>The planned state\<close>

lemma read_target_Inr:
  "read_target f d = Inr (Some b) \<longleftrightarrow> f = FileContents b"
  "read_target f d = Inr None \<longleftrightarrow> (\<exists>c. f = FileMissing c)"
  by (cases f; simp)+

lemma read_held_document_Inr:
  assumes "read_held_document x files d = Inr doc"
  shows "hd_payload doc = Some bytes \<Longrightarrow> files (payload_file d) = FileContents bytes"
    and "hd_manifest doc = Some m \<Longrightarrow>
           \<exists>b. files (manifest_file d) = FileContents b \<and> from_manifest x b = Inr m \<and> dm_document m = d"
    and "hd_manifest doc = None \<Longrightarrow> \<exists>c. files (manifest_file d) = FileMissing c"
  using assms
  by (auto simp: read_held_document_def read_held_manifest_def result_simps read_target_Inr
      split: option.splits if_splits)

lemma held_for_read:
  assumes "read_held x files = Inr h"
  shows "read_held_document x files d = Inr (held_for h d)"
  using assms by (cases d) (auto simp: read_held_def result_simps)

lemma held_record_read:
  assumes "read_held x files = Inr h"
  shows "held_record h = Some b \<Longrightarrow> files RecordFile = FileContents b"
    and "held_registry h = Some b \<Longrightarrow> files RegistryFile = FileContents b"
  using assms by (auto simp: read_held_def result_simps read_target_Inr)

text \<open>Once everything is written, the payloads are the planned bytes and the record names them.\<close>

lemma changes_of_document:
  assumes "f = payload_file d \<or> f = manifest_file d"
  shows "(f, b) \<in> set (document_part x p @ record_part p) \<longleftrightarrow> (f, b) \<in> set (document_changes x d (plan_for p d))"
proof -
  have files: "(f, b) \<in> set (document_changes x e q) \<Longrightarrow> f = payload_file e \<or> f = manifest_file e" for f b e q
    by (auto simp: document_changes_def split: if_splits sum.splits)
  from assms show ?thesis
    unfolding document_part_def record_part_def
    by (cases d) (auto dest: files split: option.splits if_splits)
qed

lemma planned_file:
  assumes "new = put (document_part x p @ record_part p) files"
  shows "(f, b) \<in> set (document_part x p @ record_part p) \<Longrightarrow> new f = FileContents b"
    and "\<forall>b. (f, b) \<notin> set (document_part x p @ record_part p) \<Longrightarrow> new f = files f"
proof -
  show "new f = FileContents b" if "(f, b) \<in> set (document_part x p @ record_part p)"
    using that unfolding assms put_eq[OF plan_changes_distinct]
    by (simp only: map_of_eq_Some_iff[OF plan_changes_distinct, symmetric] option.case)
  show "new f = files f" if "\<forall>b. (f, b) \<notin> set (document_part x p @ record_part p)"
  proof -
    have "map_of (document_part x p @ record_part p) f = None"
      using that by (subst map_of_eq_None_iff) force
    then show ?thesis unfolding assms put_eq[OF plan_changes_distinct] by (simp only: option.case)
  qed
qed

lemma planned_state:
  assumes "read_held x files = Inr h" "plan_publication x s h = Inr p"
    and new: "new = put (document_part x p @ record_part p) files"
  shows "new (payload_file d) = FileContents (dp_bytes (plan_for p d))"
    and "dp_outcome (plan_for p d) = Unchanged \<Longrightarrow> new (manifest_file d) = files (manifest_file d)"
    and "dp_outcome (plan_for p d) \<noteq> Unchanged \<Longrightarrow> to_canonical_bytes (pretty_manifest x)
           (DocumentManifest_new d (dp_revision (plan_for p d))) = Inr m \<Longrightarrow> new (manifest_file d) = FileContents m"
proof -
  note payload = changes_of_document[OF disjI1[OF refl]]
    and manifest = changes_of_document[OF disjI2[OF refl]]
  show "new (payload_file d) = FileContents (dp_bytes (plan_for p d))"
  proof (cases "dp_outcome (plan_for p d) = Unchanged")
    case True
    obtain recorded revision bytes where
      "decide_document d (held_at (held_for h d) recorded) revision bytes = Inr (plan_for p d)"
      using plan_publication_documents[OF assms(2)] by blast
    from decide_document_Unchanged(1)[OF this True]
    have "files (payload_file d) = FileContents (dp_bytes (plan_for p d))"
      by (rule read_held_document_Inr(1)[OF held_for_read[OF assms(1)]])
    moreover have "new (payload_file d) = files (payload_file d)"
      using True by (intro planned_file(2)[OF new]) (simp only: payload, simp add: document_changes_def)
    ultimately show ?thesis by simp
  next
    case False
    then have "(payload_file d, dp_bytes (plan_for p d)) \<in> set (document_changes x d (plan_for p d))"
      by (simp add: document_changes_def)
    then show ?thesis by (intro planned_file(1)[OF new]) (simp only: payload)
  qed
  show "new (manifest_file d) = files (manifest_file d)" if "dp_outcome (plan_for p d) = Unchanged"
    using that by (intro planned_file(2)[OF new]) (simp only: manifest, simp add: document_changes_def)
  show "new (manifest_file d) = FileContents m" if "dp_outcome (plan_for p d) \<noteq> Unchanged"
    "to_canonical_bytes (pretty_manifest x) (DocumentManifest_new d (dp_revision (plan_for p d))) = Inr m"
    using that by (intro planned_file(1)[OF new]) (simp only: manifest, simp add: document_changes_def)
qed

text \<open>The record that stands then is one the publisher reads as the planned record.\<close>

lemma planned_record_file:
  assumes "read_held x files = Inr h" "plan_publication x s h = Inr p"
    and new: "new = put (document_part x p @ record_part p) files"
    and readable: "\<forall>r bytes. to_canonical_bytes (pretty_record x) r = Inr bytes \<longrightarrow> from_record x bytes = Inr r"
  obtains b where "new RecordFile = FileContents b" "from_record x b = Inr (rcp_record (plan_record p))"
    "stamp_sha256 (rcp_stamp (plan_record p)) = pc_sha256 x b"
proof (rule plan_publication_record[OF assms(2)])
  fix record_held resources
  assume decided: "decide_record x record_held (plan_data_sources p) (plan_catalog p) (plan_tenants p) resources
      (plan_registry p) = Inr (plan_record p)"
    and held: "\<And>r b. record_held = Some (r, b) \<Longrightarrow> held_record h = Some b \<and> from_record x b = Inr r"
  have elsewhere: "(RecordFile, b) \<notin> set (document_part x p)" for b
    using record_not_in_documents[of x p] by force
  show thesis
  proof (cases "rcp_outcome (plan_record p)")
    case Unchanged
    from decide_record_Inr(2)[OF decided this] obtain b where
      b: "record_held = Some (rcp_record (plan_record p), b)" "stamp_sha256 (rcp_stamp (plan_record p)) = pc_sha256 x b"
      by blast
    have "new RecordFile = files RecordFile"
      using elsewhere Unchanged by (intro planned_file(2)[OF new]) (simp add: record_part_def)
    with held[OF b(1)] held_record_read(1)[OF assms(1)] b(2) show thesis by (intro that) simp_all
  next
    case Written
    have "(RecordFile, rcp_bytes (plan_record p)) \<in> set (document_part x p @ record_part p)"
      using Written by (simp add: record_part_def)
    from planned_file(1)[OF new this] decide_record_Inr(3)[OF decided Written] readable
    show thesis by (intro that) simp_all
  qed
qed

section \<open>What a reader makes of the files\<close>

lemma read_generation_Some:
  "read_generation gx q (pass_over files w) = Inr (Some g) \<longleftrightarrow>
     files RecordFile = FileContents (cg_record g) \<and> files DataSourcesPayload = FileContents (cg_data_sources g)
     \<and> files TenantsPayload = FileContents (cg_tenants g) \<and> files CatalogPayload = FileContents (cg_catalog g)
     \<and> digests_match gx g"
proof -
  have opt: "read_optional f origin = Inr (Some b) \<longleftrightarrow> f = FileContents b"
    and whole: "read_file f origin = Inr b \<longleftrightarrow> f = FileContents b" for f b origin
    by (cases f; simp)+
  have none: "read_optional f origin = Inr None \<Longrightarrow> \<forall>b. f \<noteq> FileContents b" for f origin
    by (cases f) simp_all
  show ?thesis
  proof
    assume "read_generation gx q (pass_over files w) = Inr (Some g)"
    then obtain rec ds ts cat where
      "files RecordFile = FileContents rec" "files DataSourcesPayload = FileContents ds"
      "files TenantsPayload = FileContents ts" "files CatalogPayload = FileContents cat"
      "CompleteGeneration_verify gx rec ds ts cat (described_as q) = Inr g"
      by (auto simp: read_generation_def Let_def pass_over_def result_simps opt whole split: option.splits)
    then show "files RecordFile = FileContents (cg_record g) \<and> files DataSourcesPayload = FileContents (cg_data_sources g)
      \<and> files TenantsPayload = FileContents (cg_tenants g) \<and> files CatalogPayload = FileContents (cg_catalog g)
      \<and> digests_match gx g"
      by (auto dest!: verify_gives_digests_match)
  next
    assume a: "files RecordFile = FileContents (cg_record g) \<and> files DataSourcesPayload = FileContents (cg_data_sources g)
      \<and> files TenantsPayload = FileContents (cg_tenants g) \<and> files CatalogPayload = FileContents (cg_catalog g)
      \<and> digests_match gx g"
    then have "CompleteGeneration_verify gx (cg_record g) (cg_data_sources g) (cg_tenants g) (cg_catalog g)
        (described_as q) = Inr g"
      by (simp add: verify_digests_match)
    with a show "read_generation gx q (pass_over files w) = Inr (Some g)"
      by (simp add: read_generation_def pass_over_def rbind_def map_ok_def)
  qed
qed

text \<open>The generation a plan makes, once every file of it is in place.\<close>

lemma planned_generation:
  assumes agree: "codecs_agree px gx"
    and held: "read_held px files = Inr h" "plan_publication px s h = Inr p"
    and new: "new = put (document_part px p @ record_part p) files"
  obtains g where "read_generation gx q (pass_over new w) = Inr (Some g)"
    "cg_generation g = stamp_generation (rcp_stamp (plan_record p))"
    "record_digest_of gx g = stamp_sha256 (rcp_stamp (plan_record p))"
    "cg_data_sources g = dp_bytes (plan_data_sources p)" "cg_tenants g = dp_bytes (plan_tenants p)"
    "cg_catalog g = dp_bytes (plan_catalog p)"
proof (rule planned_record_file[OF held new])
  show "\<forall>r bytes. to_canonical_bytes (pretty_record px) r = Inr bytes \<longrightarrow> from_record px bytes = Inr r"
    using agree by (simp add: codecs_agree_def)
  fix b
  assume b: "new RecordFile = FileContents b" "from_record px b = Inr (rcp_record (plan_record p))"
    "stamp_sha256 (rcp_stamp (plan_record p)) = pc_sha256 px b"
  let ?g = "\<lparr> cg_record = b, cg_generation = pr_generation (rcp_record (plan_record p)),
    cg_data_sources = dp_bytes (plan_data_sources p), cg_tenants = dp_bytes (plan_tenants p),
    cg_catalog = dp_bytes (plan_catalog p) \<rparr>"
  have "read_record gx b = Inr (reader_record_of (rcp_record (plan_record p)))"
    using agree b(2) by (simp add: codecs_agree_def)
  moreover have "digest_hex px = sha256_hex gx"
    using agree by (simp add: codecs_agree_def digest_hex_def sha256_hex_def fun_eq_iff)
  ultimately have "digests_match gx ?g"
    by (simp add: digests_match_def reader_record_of_def planned_record[OF held(2)] recorded_of_plans_def
        RecordedDocument_of_def MINIMUM_READER_CONTRACT_def READER_CONTRACT_def)
  moreover have "new DataSourcesPayload = FileContents (dp_bytes (plan_data_sources p))"
    "new TenantsPayload = FileContents (dp_bytes (plan_tenants p))"
    "new CatalogPayload = FileContents (dp_bytes (plan_catalog p))"
    using planned_state(1)[OF held new, of KindDataSources] planned_state(1)[OF held new, of KindTenants]
      planned_state(1)[OF held new, of KindCatalog] by simp_all
  ultimately have "read_generation gx q (pass_over new w) = Inr (Some ?g)"
    using b(1) by (simp add: read_generation_Some)
  then show thesis
    using b(3) agree by (intro that[of ?g])
      (simp_all add: planned_record(4)[OF held(2)] record_digest_of_def codecs_agree_def)
qed

text \<open>Two generations whose records are the same bytes have the same documents.\<close>

lemma same_record_same_generation:
  assumes "digests_match gx g" "digests_match gx g'" "cg_record g = cg_record g'"
    and "collision_free gx A"
    and "{cg_data_sources g, cg_tenants g, cg_catalog g} \<subseteq> A" "{cg_data_sources g', cg_tenants g', cg_catalog g'} \<subseteq> A"
  shows "g = g'"
proof -
  have "sha256_hex gx (cg_data_sources g) = sha256_hex gx (cg_data_sources g')"
    "sha256_hex gx (cg_tenants g) = sha256_hex gx (cg_tenants g')"
    "sha256_hex gx (cg_catalog g) = sha256_hex gx (cg_catalog g')"
    "cg_generation g = cg_generation g'"
    using assms(1-3) by (auto simp: digests_match_def split: sum.splits)
  with assms(4-6) have "cg_data_sources g = cg_data_sources g'" "cg_tenants g = cg_tenants g'"
    "cg_catalog g = cg_catalog g'" "cg_generation g = cg_generation g'"
    by (auto simp: collision_free_def inj_on_def)
  with assms(3) show ?thesis by simp
qed

lemma documents_read:
  assumes "read_generation gx q (pass_over files w) = Inr (Some g)"
  shows "{cg_data_sources g, cg_tenants g, cg_catalog g} \<subseteq> contents_in files"
    and "digests_match gx g" and "files RecordFile = FileContents (cg_record g)"
proof -
  note r = assms[unfolded read_generation_Some]
  then have "files (payload_file KindDataSources) = FileContents (cg_data_sources g)"
    "files (payload_file KindTenants) = FileContents (cg_tenants g)"
    "files (payload_file KindCatalog) = FileContents (cg_catalog g)" by simp_all
  then show "{cg_data_sources g, cg_tenants g, cg_catalog g} \<subseteq> contents_in files"
    unfolding contents_in_def by blast
  show "digests_match gx g" "files RecordFile = FileContents (cg_record g)" using r by simp_all
qed

lemma decide_document_bytes: "decide_document d held revision bytes = Inr q \<Longrightarrow> bytes = Inr (dp_bytes q)"
  by (auto simp: decide_document_def result_simps)

lemma publish_done:
  assumes "publish px lock faults s old = (Inr report, new)"
  obtains h p where "read_held px old = Inr h" "plan_publication px s h = Inr p" "report = report_of p"
    "new = put (document_part px p @ record_part p) old" "is_ok (fst (write_plan px faults p old))"
proof -
  from publish_run[OF assms] obtain h p where p: "read_held px old = Inr h" "plan_publication px s h = Inr p"
    "report = report_of p" "new = put (document_part px p @ record_part p) old"
    by (auto simp: is_ok_def)
  moreover have "is_ok (fst (write_plan px faults p old))"
    using assms p(1,2)
    by (cases "write_plan px faults p old")
       (auto simp: publish_def and_then_def rbind_def is_ok_def split: option.splits sum.splits)
  ultimately show thesis by (rule that)
qed

text \<open>Every error of the writing phase is a write that failed.\<close>

lemma write_plan_errors:
  assumes "write_plan x faults p files = (Inl e, files')"
  shows "\<exists>document cause. e = PubUnwritable document cause"
proof -
  have wrote: "\<exists>document cause. e = PubUnwritable document cause"
    if "atomic_write faults f d b t = (Inl e, t')" for f d b t t'
    using that by (auto simp: atomic_write_def split: write_fault.splits)
  have needed: "\<exists>document cause. e = PubUnwritable document cause"
    if "write_if_needed x faults d q t = (Inl e, t')" for d q t t'
    using that wrote
    by (auto simp: write_if_needed_def and_then_def split: if_splits prod.splits sum.splits)
  from assms show ?thesis
    by (auto simp: write_plan_def and_then_def write_registry_if_needed_def write_record_if_needed_def
        dest!: needed dest: wrote split: if_splits prod.splits sum.splits option.splits)
qed

lemma unwritten:
  assumes "publish x lock faults s old = (Inl e, new)" "\<forall>document cause. e \<noteq> PubUnwritable document cause"
  shows "new = old"
  using assms
  by (auto simp: publish_def and_then_def dest!: write_plan_errors split: option.splits sum.splits prod.splits)

text \<open>What \<open>inspect_target\<close> finds of each part once everything is written.\<close>

fun text_in :: "file_read \<Rightarrow> string option" where
  "text_in (FileContents bytes) = Some bytes"
| "text_in (FileMissing _) = None"
| "text_in (FileUnreadable _) = None"

fun part_of :: "document_kind \<Rightarrow> recorded_part" where
  "part_of KindTenants = PartTenants"
| "part_of KindDataSources = PartDataSources"
| "part_of KindCatalog = PartCatalog"

definition observed_at :: "target \<Rightarrow> document_kind \<Rightarrow> observed_document" where
  "observed_at files d =
     \<lparr> od_manifest = text_in (files (manifest_file d)), od_payload = text_in (files (payload_file d)) \<rparr>"

lemma read_held_readable:
  assumes "read_held x files = Inr h"
  shows "files f \<noteq> FileUnreadable c"
  using assms
  by (cases f) (auto simp: read_held_def read_held_document_def read_held_manifest_def result_simps)

lemma observe_target_readable:
  assumes "\<forall>f c. files f \<noteq> FileUnreadable c"
  shows "observe_target files = Inr \<lparr> ob_record = text_in (files RecordFile), ob_tenants = observed_at files KindTenants,
    ob_data_sources = observed_at files KindDataSources, ob_catalog = observed_at files KindCatalog,
    ob_registry = text_in (files RegistryFile) \<rparr>"
proof -
  have "read_target (files f) d = Inr (text_in (files f))" for f d
    using assms by (cases "files f") auto
  then show ?thesis
    by (simp add: observe_target_def observe_document_def observed_at_def map_err_def rbind_def)
qed

lemma put_readable:
  assumes "\<forall>f c. files f \<noteq> FileUnreadable c"
  shows "\<forall>f c. put changes files f \<noteq> FileUnreadable c"
  using assms by (induction changes arbitrary: files) auto

lemma planned_manifest:
  assumes agree: "codecs_agree px gx" and done_: "is_ok (fst (write_plan px faults p files))"
    and held: "read_held px files = Inr h" "plan_publication px s h = Inr p"
    and new: "new = put (document_part px p @ record_part p) files"
  shows "(\<exists>b m. new (manifest_file d) = FileContents b \<and> from_manifest px b = Inr m \<and> dm_document m = d
            \<and> dm_revision m = dp_revision (plan_for p d))
    \<or> (\<exists>c. new (manifest_file d) = FileMissing c \<and> files (manifest_file d) = FileMissing c
            \<and> dp_outcome (plan_for p d) = Unchanged)"
proof (cases "dp_outcome (plan_for p d) = Unchanged")
  case True
  obtain recorded revision bytes where
    decided: "decide_document d (held_at (held_for h d) recorded) revision bytes = Inr (plan_for p d)"
    using plan_publication_documents[OF held(2)] by blast
  note doc = read_held_document_Inr(2,3)[OF held_for_read[OF held(1)], of d]
  have kept: "new (manifest_file d) = files (manifest_file d)"
    by (rule planned_state(2)[OF held new True])
  show ?thesis
  proof (cases "hd_manifest (held_for h d)")
    case None
    with doc(2) True kept show ?thesis by auto
  next
    case (Some m)
    with doc(1) decide_document_Unchanged(2)[OF decided True Some] kept show ?thesis by auto
  qed
next
  case False
  have "\<exists>m. to_canonical_bytes (pretty_manifest px) (DocumentManifest_new d (dp_revision (plan_for p d))) = Inr m"
  proof (cases "to_canonical_bytes (pretty_manifest px) (DocumentManifest_new d (dp_revision (plan_for p d)))")
    case (Inl cause)
    have "write_if_needed px faults d (plan_for p d) t \<noteq> (Inr u, t')" for t t' u
      using False Inl by (auto simp: write_if_needed_def and_then_def split: prod.splits sum.splits)
    with done_ have False
      by (cases d) (auto simp: write_plan_def and_then_def split: prod.splits sum.splits)
    then show ?thesis ..
  qed blast
  then obtain b where b: "to_canonical_bytes (pretty_manifest px) (DocumentManifest_new d (dp_revision (plan_for p d))) = Inr b"
    by blast
  moreover have "from_manifest px b = Inr (DocumentManifest_new d (dp_revision (plan_for p d)))"
    using agree b unfolding codecs_agree_def by blast
  ultimately show ?thesis
    using planned_state(3)[OF held new False b] by (auto simp: DocumentManifest_new_def)
qed

lemma planned_gaps:
  assumes "codecs_agree px gx" "is_ok (fst (write_plan px faults p files))"
    and held: "read_held px files = Inr h" "plan_publication px s h = Inr p"
    and new: "new = put (document_part px p @ record_part p) files"
    and recorded: "recorded = RecordedDocument_of px (dp_revision (plan_for p d)) (dp_bytes (plan_for p d))"
    and gap: "g \<in> set (document_gaps px (part_of d) d (observed_at new d) recorded)"
  shows "g = (part_of d, ManifestMissing) \<and> dp_outcome (plan_for p d) = Unchanged
    \<and> (\<exists>c. files (manifest_file d) = FileMissing c)"
proof -
  have "od_payload (observed_at new d) = Some (dp_bytes (plan_for p d))"
    by (simp add: observed_at_def planned_state(1)[OF held new])
  with gap planned_manifest[OF assms(1-5), of d] show ?thesis
    by (auto simp: document_gaps_def payload_gap_def observed_at_def recorded RecordedDocument_of_def)
qed

lemma planned_registry_file:
  assumes held: "read_held x files = Inr h" "plan_publication x s h = Inr p"
    and new: "new = put (document_part x p @ record_part p) files" and r: "plan_registry p = Some r"
  shows "new RegistryFile = FileContents (rp_bytes r)"
proof (cases "rp_outcome r = Unchanged")
  case True
  have "(RegistryFile, b) \<notin> set (document_changes x d q)" for b d q
    by (cases d) (auto simp: document_changes_def split: sum.splits)
  then have "\<forall>b. (RegistryFile, b) \<notin> set (document_part x p @ record_part p)"
    using True r by (simp add: document_part_def record_part_def)
  from planned_file(2)[OF new this] show ?thesis
    using held_record_read(2)[OF held(1) plan_publication_registry[OF held(2) r True]] by simp
next
  case False
  then have "(RegistryFile, rp_bytes r) \<in> set (document_part x p @ record_part p)"
    using r by (simp add: document_part_def)
  then show ?thesis by (rule planned_file(1)[OF new])
qed

text \<open>A success leaves a complete target, but for manifests that were missing and stay so.\<close>

fun outcome_for :: "publication_report \<Rightarrow> document_kind \<Rightarrow> document_outcome" where
  "outcome_for r KindTenants = rep_tenants r"
| "outcome_for r KindDataSources = rep_data_sources r"
| "outcome_for r KindCatalog = rep_catalog r"

lemma outcome_for_report: "outcome_for (report_of p) d = dp_outcome (plan_for p d)"
  by (cases d) (simp_all add: report_of_def)

lemma inspected_after:
  assumes agree: "codecs_agree px gx" and run: "publish px lock faults s old = (Inr report, new)"
  shows "\<exists>gaps. inspect_target px new (new RecordFile)
      = (if gaps = [] then Complete (rep_record report) else Incomplete (rep_record report) gaps)
    \<and> (\<forall>g\<in>set gaps. \<exists>d c. g = (part_of d, ManifestMissing) \<and> outcome_for report d = Unchanged
         \<and> old (manifest_file d) = FileMissing c)"
proof (rule publish_done[OF run], rule planned_record_file)
  fix h p
  assume p: "read_held px old = Inr h" "plan_publication px s h = Inr p" "report = report_of p"
    "new = put (document_part px p @ record_part p) old" "is_ok (fst (write_plan px faults p old))"
  then show "read_held px old = Inr h" "plan_publication px s h = Inr p"
    "new = put (document_part px p @ record_part p) old" by simp_all
  show "\<forall>r bytes. to_canonical_bytes (pretty_record px) r = Inr bytes \<longrightarrow> from_record px bytes = Inr r"
    using agree by (simp add: codecs_agree_def)
  fix b
  assume b: "new RecordFile = FileContents b" "from_record px b = Inr (rcp_record (plan_record p))"
    "stamp_sha256 (rcp_stamp (plan_record p)) = pc_sha256 px b"
  let ?rec = "rcp_record (plan_record p)"
  let ?gaps = "\<lambda>d r. document_gaps px (part_of d) d (observed_at new d) (r (pr_documents ?rec))"
  let ?all = "?gaps KindTenants rds_tenants @ ?gaps KindDataSources rds_data_sources @ ?gaps KindCatalog rds_catalog"
  have readable: "\<forall>f c. new f \<noteq> FileUnreadable c"
    unfolding p(4) using read_held_readable[OF p(1)] by (intro put_readable) blast
  have registry: "(case pr_registry ?rec of None \<Rightarrow> []
      | Some r \<Rightarrow> payload_gap px PartIssuerRegistry (text_in (new RegistryFile)) (rr_sha256 r)) = []"
    by (cases "plan_registry p")
       (simp_all add: planned_record[OF p(2)] payload_gap_def registry_recorded_def
          planned_registry_file[OF p(1,2,4)])
  have stamp: "rep_record report = \<lparr> stamp_generation = pr_generation ?rec, stamp_sha256 = pc_sha256 px b \<rparr>"
    using b(3) planned_record(4)[OF p(2)] p(3) by (simp add: report_of_def)
  have after: "read_target (new RecordFile) KindTenants = Inr (Some b)" using b(1) by simp
  have "inspect_target px new (new RecordFile)
      = (if ?all = [] then Complete (rep_record report) else Incomplete (rep_record report) ?all)"
    unfolding inspect_target_def observe_target_readable[OF readable] after
    using registry
    by (cases "pr_registry ?rec") (simp_all add: rbind_def map_err_def map_ok_def assess_def b(1,2) stamp Let_def)
  moreover have "\<exists>d c. g = (part_of d, ManifestMissing) \<and> outcome_for report d = Unchanged
      \<and> old (manifest_file d) = FileMissing c" if "g \<in> set ?all" for g
  proof -
    let ?named = "\<lambda>d. RecordedDocument_of px (dp_revision (plan_for p d)) (dp_bytes (plan_for p d))"
    have "rds_tenants (pr_documents ?rec) = ?named KindTenants"
      "rds_data_sources (pr_documents ?rec) = ?named KindDataSources"
      "rds_catalog (pr_documents ?rec) = ?named KindCatalog"
      by (simp_all add: planned_record(1)[OF p(2)] recorded_of_plans_def)
    with that obtain d where "g \<in> set (document_gaps px (part_of d) d (observed_at new d) (?named d))"
      unfolding set_append by (metis UnE)
    from planned_gaps[OF agree p(5) p(1,2,4) refl this] show ?thesis
      using p(3) outcome_for_report by metis
  qed
  ultimately show ?thesis by blast
qed

section \<open>Examples\<close>

definition example_snapshot :: runtime_snapshot where
  "example_snapshot =
     \<lparr> snap_tenants = \<lparr> di_revision = 1, di_payload = [example_tenant ''acme'' ''own'' IsoDatabase],
         di_emptying = NotIntended \<rparr>,
       snap_data_sources = \<lparr> di_revision = 1,
         di_payload = [example_source ''own'' Dedicated (SelSecret (SecretRef ''tenant/acme/db''))],
         di_emptying = NotIntended \<rparr>,
       snap_catalog = \<lparr> di_revision = 1,
         di_payload = [(LogicalResourceName ''orders'',
            \<lparr> rdd_data_source = LogicalDataSourceName ''primary'', rdd_collection = CollectionName ''orders'',
              rdd_key_field = FieldName ''id'', rdd_operations = [], rdd_queryable_fields = [] \<rparr>)],
         di_emptying = NotIntended \<rparr>,
       snap_registry = None \<rparr>"

text \<open>A digest short enough to evaluate: the length, which tells the example's texts apart.\<close>

definition example_digest :: "string \<Rightarrow> record_digest" where
  "example_digest bytes = RecordDigest [of_nat (length bytes)]"

definition example_recorded :: "string \<Rightarrow> recorded_document" where
  "example_recorded bytes =
     \<lparr> rcd_revision = 1, rcd_sha256 = RecordDigest_to_string (example_digest bytes) \<rparr>"

definition example_publication_record :: publication_record where
  "example_publication_record =
     PublicationRecord_new 1
       \<lparr> rds_tenants = example_recorded (''tenants'' @ [CHR 0x0A]),
         rds_data_sources = example_recorded (''data-sources'' @ [CHR 0x0A]),
         rds_catalog = example_recorded (''catalogue'' @ [CHR 0x0A]) \<rparr>
       (history_including ResourceHistory_default (di_payload (snap_tenants example_snapshot))
         (di_payload (snap_data_sources example_snapshot)))"

definition example_manifest_name :: "document_manifest \<Rightarrow> string option" where
  "example_manifest_name m =
     (if m = DocumentManifest_new KindTenants 1 then Some ''t''
      else if m = DocumentManifest_new KindDataSources 1 then Some ''d''
      else if m = DocumentManifest_new KindCatalog 1 then Some ''c'' else None)"

definition example_from_manifest :: "string \<Rightarrow> string + document_manifest" where
  "example_from_manifest bytes =
     (if bytes = ''t'' @ [CHR 0x0A] then Inr (DocumentManifest_new KindTenants 1)
      else if bytes = ''d'' @ [CHR 0x0A] then Inr (DocumentManifest_new KindDataSources 1)
      else if bytes = ''c'' @ [CHR 0x0A] then Inr (DocumentManifest_new KindCatalog 1)
      else Inl ''not a manifest'')"

definition example_publisher :: publisher_codec where
  "example_publisher =
     \<lparr> pc_sha256 = example_digest, pretty_tenants = (\<lambda>ts. if ts = di_payload (snap_tenants example_snapshot) then Inr ''tenants''
                              else Inl ''other tenants''),
       pretty_data_sources = (\<lambda>ds. if ds = di_payload (snap_data_sources example_snapshot) then Inr ''data-sources''
                                else Inl ''other data sources''),
       pretty_catalog = (\<lambda>_. Inr ''catalogue''),
       pretty_registry = (\<lambda>_. Inl ''none offered''),
       pretty_record = (\<lambda>r. if r = example_publication_record then Inr ''record'' else Inl ''another record''),
       pretty_manifest = (\<lambda>m. case example_manifest_name m of Some n \<Rightarrow> Inr n | None \<Rightarrow> Inl ''another manifest''),
       from_tenants = (\<lambda>_. Inr (di_payload (snap_tenants example_snapshot))),
       from_data_sources = (\<lambda>_. Inr (di_payload (snap_data_sources example_snapshot))),
       from_catalog = (\<lambda>_. Inr (di_payload (snap_catalog example_snapshot))),
       from_registry = (\<lambda>_. Inl ''none held''),
       from_record = (\<lambda>bytes. if bytes = ''record'' @ [CHR 0x0A] then Inr example_publication_record
                              else Inl ''not a record''),
       from_floor = (\<lambda>_. Inr 1),
       from_manifest = example_from_manifest,
       tenant_value = (\<lambda>_. Inr JNull), data_source_value = (\<lambda>_. Inr JNull) \<rparr>"

definition example_reader_codec :: "unit codec" where
  "example_reader_codec =
     example_codec\<lparr>sha256 := example_digest, read_record := (\<lambda>bytes.
       if bytes = ''record'' @ [CHR 0x0A] then Inr (reader_record_of example_publication_record)
       else Inl ''not a record'')\<rparr>"

definition example_empty_target :: target where
  "example_empty_target = (\<lambda>_. FileMissing ''no such file'')"

lemma example_codecs_agree: "codecs_agree example_publisher example_reader_codec"
proof -
  have manifests: "example_from_manifest (n @ [CHR 0x0A]) = Inr m" if "example_manifest_name m = Some n" for m n
    using that by (auto simp: example_manifest_name_def example_from_manifest_def split: if_splits)
  have "from_record example_publisher bytes = Inr r \<Longrightarrow> read_record example_reader_codec bytes = Inr (reader_record_of r)"
    for r bytes
    by (simp add: example_publisher_def example_reader_codec_def split: if_splits)
  moreover have "to_canonical_bytes (pretty_record example_publisher) r = Inr bytes \<Longrightarrow> from_record example_publisher bytes = Inr r"
    for r bytes
    by (auto simp: to_canonical_bytes_def map_ok_Inr example_publisher_def split: if_splits)
  moreover have "to_canonical_bytes (pretty_manifest example_publisher) m = Inr bytes \<Longrightarrow> from_manifest example_publisher bytes = Inr m"
    for m bytes
    using manifests by (auto simp: to_canonical_bytes_def map_ok_Inr example_publisher_def split: option.splits)
  ultimately show ?thesis
    by (simp add: codecs_agree_def example_publisher_def example_reader_codec_def example_codec_def)
qed

text \<open>A target a first run was stopped on, after the data sources, and the run that completes it.\<close>

definition example_interrupted :: target where
  "example_interrupted f =
     (if f = DataSourcesPayload then FileContents (''data-sources'' @ [CHR 0x0A])
      else if f = DataSourcesManifest then FileContents (''d'' @ [CHR 0x0A])
      else FileMissing ''no such file'')"

fun example_complete_target :: target where
  "example_complete_target DataSourcesPayload = FileContents (''data-sources'' @ [CHR 0x0A])"
| "example_complete_target DataSourcesManifest = FileContents (''d'' @ [CHR 0x0A])"
| "example_complete_target CatalogPayload = FileContents (''catalogue'' @ [CHR 0x0A])"
| "example_complete_target CatalogManifest = FileContents (''c'' @ [CHR 0x0A])"
| "example_complete_target TenantsPayload = FileContents (''tenants'' @ [CHR 0x0A])"
| "example_complete_target TenantsManifest = FileContents (''t'' @ [CHR 0x0A])"
| "example_complete_target RegistryFile = FileMissing ''no such file''"
| "example_complete_target RecordFile = FileContents (''record'' @ [CHR 0x0A])"

definition example_plan :: "(document_kind \<Rightarrow> document_outcome) \<Rightarrow> document_outcome \<Rightarrow> publication_plan" where
  "example_plan outcome record_outcome =
     \<lparr> plan_data_sources = \<lparr> dp_outcome = outcome KindDataSources, dp_bytes = ''data-sources'' @ [CHR 0x0A], dp_revision = 1 \<rparr>,
       plan_catalog = \<lparr> dp_outcome = outcome KindCatalog, dp_bytes = ''catalogue'' @ [CHR 0x0A], dp_revision = 1 \<rparr>,
       plan_tenants = \<lparr> dp_outcome = outcome KindTenants, dp_bytes = ''tenants'' @ [CHR 0x0A], dp_revision = 1 \<rparr>,
       plan_registry = None,
       plan_record = \<lparr> rcp_outcome = record_outcome, rcp_record = example_publication_record,
         rcp_bytes = ''record'' @ [CHR 0x0A],
         rcp_stamp = \<lparr> stamp_generation = 1, stamp_sha256 = example_digest (''record'' @ [CHR 0x0A]) \<rparr> \<rparr> \<rparr>"

definition example_held :: "target \<Rightarrow> held_documents" where
  "example_held files =
     (let at = (\<lambda>d. \<lparr> hd_manifest = Option.bind (text_in (files (manifest_file d))) (\<lambda>b. ok (example_from_manifest b)),
                       hd_payload = text_in (files (payload_file d)) \<rparr>)
      in \<lparr> held_tenants = at KindTenants, held_data_sources = at KindDataSources, held_catalog = at KindCatalog,
           held_record = text_in (files RecordFile), held_registry = text_in (files RegistryFile) \<rparr>)"

lemma example_interrupted_planned:
  "read_held example_publisher example_interrupted = Inr (example_held example_interrupted)"
  "plan_publication example_publisher example_snapshot (example_held example_interrupted)
     = Inr (example_plan (\<lambda>d. if d = KindDataSources then Unchanged else Written) Written)"
  by code_simp+

lemma example_complete_planned:
  "read_held example_publisher example_complete_target = Inr (example_held example_complete_target)"
  "plan_publication example_publisher example_snapshot (example_held example_complete_target)
     = Inr (example_plan (\<lambda>_. Unchanged) Unchanged)"
  by code_simp+

lemma example_publishes:
  "publish example_publisher None (\<lambda>_. WriteOk) example_snapshot example_interrupted
     = (Inr (report_of (example_plan (\<lambda>d. if d = KindDataSources then Unchanged else Written) Written)),
        example_complete_target)"
proof -
  let ?p = "example_plan (\<lambda>d. if d = KindDataSources then Unchanged else Written) Written"
  have manifests: "to_canonical_bytes (pretty_manifest example_publisher) (DocumentManifest_new KindCatalog 1) = Inr (''c'' @ [CHR 0x0A])"
    "to_canonical_bytes (pretty_manifest example_publisher) (DocumentManifest_new KindTenants 1) = Inr (''t'' @ [CHR 0x0A])"
    by (simp_all add: to_canonical_bytes_def map_ok_def example_publisher_def example_manifest_name_def DocumentManifest_new_def)
  have "write_plan example_publisher (\<lambda>_. WriteOk) ?p example_interrupted = (Inr (), example_complete_target)"
    apply (simp add: write_plan_def example_plan_def and_then_def write_if_needed_def atomic_write_def manifests
        write_record_if_needed_def)
    apply (rule ext)
    subgoal for f by (cases f) (simp_all add: example_interrupted_def)
    done
  then show ?thesis
    by (simp add: publish_def rbind_def example_interrupted_planned and_then_def)
qed

lemma example_republishes:
  "publish example_publisher None (\<lambda>_. WriteOk) example_snapshot example_complete_target
     = (Inr (report_of (example_plan (\<lambda>_. Unchanged) Unchanged)), example_complete_target)"
  by (simp add: publish_def rbind_def example_complete_planned and_then_def write_plan_def example_plan_def
      write_if_needed_def write_record_if_needed_def)

definition example_published_paths :: published_paths where
  "example_published_paths =
     \<lparr> path_tenants = [Normal ''tenants.json''], path_data_sources = [Normal ''data-sources.json''],
       path_catalog = [Normal ''catalog.json''], path_record = [Normal ''publication.json''],
       path_store_directory = [Normal ''kept''], shown_tenants = ''tenants.json'',
       shown_data_sources = ''data-sources.json'', shown_catalog = ''catalog.json'',
       shown_record = ''publication.json'' \<rparr>"

definition example_pass :: pass_world where
  "example_pass =
     \<lparr> file_record = FileMissing ''none'', file_data_sources = FileMissing ''none'',
       file_tenants = FileMissing ''none'', file_catalog = FileMissing ''none'', store_write = ReplaceDone,
       paths = \<lparr> canonicalize = CanonicalPath, current_dir = Inr [] \<rparr> \<rparr>"

lemma example_target_reads:
  "\<exists>g. read_generation example_reader_codec example_published_paths (pass_over example_complete_target example_pass)
     = Inr (Some g)"
  using planned_generation[OF example_codecs_agree example_interrupted_planned, of _ example_published_paths example_pass]
    publish_run[OF example_publishes] example_interrupted_planned
  by (metis is_ok_iff sum.inject(2))

lemma example_collision_free:
  "collision_free example_reader_codec (contents_in example_interrupted \<union> contents_in example_complete_target)"
proof -
  have "contents_in example_interrupted \<union> contents_in example_complete_target
      \<subseteq> {''data-sources'' @ [CHR 0x0A], ''catalogue'' @ [CHR 0x0A], ''tenants'' @ [CHR 0x0A]}"
  proof
    fix b assume "b \<in> contents_in example_interrupted \<union> contents_in example_complete_target"
    then obtain d where "example_interrupted (payload_file d) = FileContents b
        \<or> example_complete_target (payload_file d) = FileContents b"
      by (auto simp: contents_in_def)
    then show "b \<in> {''data-sources'' @ [CHR 0x0A], ''catalogue'' @ [CHR 0x0A], ''tenants'' @ [CHR 0x0A]}"
      by (cases d) (auto simp: example_interrupted_def)
  qed
  moreover have "inj_on (sha256_hex example_reader_codec)
      {''data-sources'' @ [CHR 0x0A], ''catalogue'' @ [CHR 0x0A], ''tenants'' @ [CHR 0x0A]}"
    by (simp add: inj_on_def sha256_hex_def example_reader_codec_def example_digest_def) code_simp
  ultimately show ?thesis unfolding collision_free_def by (rule inj_on_subset[rotated])
qed

section \<open>What the two crates promise each other\<close>

text \<open>
  C4: A reader that reads while a publisher writes never sees half a publication. Each of the four
  files it reads may be the old one or the new one, in any mixture, and the publisher may have
  failed or been stopped at any write; if the reader accepts what it read, it is the generation that
  stood before, whole, or the one being published, whole.
\<close>

theorem a_torn_read_is_one_generation:
  assumes agree: "codecs_agree px gx"
    and run: "publish px lock faults s old = (r, new)"
    and mixed: "\<forall>f. seen f = old f \<or> seen f = new f"
    and free: "collision_free gx (contents_in old \<union> contents_in new)"
    and before: "(\<exists>cause. old RecordFile = FileMissing cause)
      \<or> (\<exists>g0. read_generation gx q (pass_over old w) = Inr (Some g0))"
    and read: "read_generation gx q (pass_over seen w) = Inr (Some g)"
  shows "read_generation gx q (pass_over old w) = Inr (Some g)
    \<or> read_generation gx q (pass_over new w) = Inr (Some g)"
proof -
  have documents: "{cg_data_sources g, cg_tenants g, cg_catalog g} \<subseteq> contents_in old \<union> contents_in new"
  proof -
    have "contents_in seen \<subseteq> contents_in old \<union> contents_in new"
    proof
      fix b assume "b \<in> contents_in seen"
      then obtain d where "seen (payload_file d) = FileContents b" by (auto simp: contents_in_def)
      with mixed have "old (payload_file d) = FileContents b \<or> new (payload_file d) = FileContents b" by metis
      then show "b \<in> contents_in old \<union> contents_in new" by (auto simp: contents_in_def)
    qed
    with documents_read(1)[OF read] show ?thesis by blast
  qed
  have same: "g' = g" if "read_generation gx q (pass_over files w) = Inr (Some g')"
    "files RecordFile = seen RecordFile" "contents_in files \<subseteq> contents_in old \<union> contents_in new" for files g'
  proof (rule same_record_same_generation[OF documents_read(2)[OF that(1)] documents_read(2)[OF read] _ free _ documents])
    show "cg_record g' = cg_record g"
      using documents_read(3)[OF that(1)] documents_read(3)[OF read] that(2) by simp
    show "{cg_data_sources g', cg_tenants g', cg_catalog g'} \<subseteq> contents_in old \<union> contents_in new"
      using documents_read(1)[OF that(1)] that(3) by (rule subset_trans)
  qed
  show ?thesis
  proof (cases "seen RecordFile = old RecordFile")
    case True
    with before documents_read(3)[OF read] obtain g0 where
      "read_generation gx q (pass_over old w) = Inr (Some g0)" by auto
    with same[OF this] True show ?thesis by auto
  next
    case False
    with mixed have record_new: "seen RecordFile = new RecordFile" "new RecordFile \<noteq> old RecordFile" by metis+
    with publish_run[OF run] obtain h p where "read_held px old = Inr h" "plan_publication px s h = Inr p"
      "new = put (document_part px p @ record_part p) old" by auto
    from planned_generation[OF agree this] obtain g' where
      "read_generation gx q (pass_over new w) = Inr (Some g')" by metis
    with same[OF this] record_new(1) show ?thesis by auto
  qed
qed

theorem a_torn_read_is_one_generation_witness:
  "\<exists>g. read_generation example_reader_codec example_published_paths (pass_over example_interrupted example_pass)
        = Inr (Some g)
      \<or> read_generation example_reader_codec example_published_paths (pass_over example_complete_target example_pass)
        = Inr (Some g)"
proof -
  obtain g where "read_generation example_reader_codec example_published_paths
      (pass_over example_complete_target example_pass) = Inr (Some g)"
    using example_target_reads by blast
  moreover have "\<exists>cause. example_interrupted RecordFile = FileMissing cause"
    by (simp add: example_interrupted_def)
  ultimately show ?thesis
    using a_torn_read_is_one_generation[OF example_codecs_agree example_publishes _ example_collision_free,
        of example_complete_target example_published_paths example_pass g] by blast
qed


text \<open>
  C28: A publication that succeeds is the generation readers read next, whatever stood in the target
  before: its number and record digest are those of the report, and its three documents are the
  canonical bytes of the documents offered.
\<close>

theorem a_publication_is_read_back:
  assumes agree: "codecs_agree px gx"
    and run: "publish px lock faults s old = (Inr report, new)"
  shows "\<exists>g. read_generation gx q (pass_over new w) = Inr (Some g)
    \<and> cg_generation g = stamp_generation (rep_record report)
    \<and> record_digest_of gx g = stamp_sha256 (rep_record report)
    \<and> data_sources_canonical_json px (di_payload (snap_data_sources s)) = Inr (cg_data_sources g)
    \<and> tenants_canonical_json px (di_payload (snap_tenants s)) = Inr (cg_tenants g)
    \<and> to_canonical_bytes (pretty_catalog px) (di_payload (snap_catalog s)) = Inr (cg_catalog g)"
proof (rule publish_done[OF run])
  fix h p
  assume p: "read_held px old = Inr h" "plan_publication px s h = Inr p" "report = report_of p"
    "new = put (document_part px p @ record_part p) old"
  have bytes: "data_sources_canonical_json px (di_payload (snap_data_sources s)) = Inr (dp_bytes (plan_data_sources p))"
    "tenants_canonical_json px (di_payload (snap_tenants s)) = Inr (dp_bytes (plan_tenants p))"
    "to_canonical_bytes (pretty_catalog px) (di_payload (snap_catalog s)) = Inr (dp_bytes (plan_catalog p))"
    by (rule plan_publication_steps[OF p(2)], drule decide_document_bytes, assumption)+
  from planned_generation[OF agree p(1,2,4)] obtain g where
    "read_generation gx q (pass_over new w) = Inr (Some g)"
    "cg_generation g = stamp_generation (rcp_stamp (plan_record p))"
    "record_digest_of gx g = stamp_sha256 (rcp_stamp (plan_record p))"
    "cg_data_sources g = dp_bytes (plan_data_sources p)" "cg_tenants g = dp_bytes (plan_tenants p)"
    "cg_catalog g = dp_bytes (plan_catalog p)" by metis
  with bytes p(3) show ?thesis by (auto simp: report_of_def)
qed

theorem a_publication_is_read_back_witness:
  "\<exists>g. read_generation example_reader_codec example_published_paths (pass_over example_complete_target example_pass)
        = Inr (Some g)
      \<and> cg_generation g = 1 \<and> cg_tenants g = ''tenants'' @ [CHR 0x0A]"
proof -
  have "tenants_canonical_json example_publisher (di_payload (snap_tenants example_snapshot))
      = Inr (''tenants'' @ [CHR 0x0A])"
    by (simp add: tenants_canonical_json_def to_canonical_bytes_def map_ok_def example_publisher_def example_snapshot_def)
  then show ?thesis
    using a_publication_is_read_back[OF example_codecs_agree example_publishes, of example_published_paths example_pass]
    by (auto simp: report_of_def example_plan_def)
qed


text \<open>
  A publication that is refused writes nothing. Only a write that failed can end a publication
  with other files than it began with; every other error, whatever the offer or the target, leaves
  every file as it was.
\<close>

theorem a_refused_publication_writes_nothing:
  assumes "publish px lock faults s old = (Inl e, new)"
    and "\<forall>document cause. e \<noteq> PubUnwritable document cause"
  shows "new = old"
  by (rule unwritten[OF assms])

theorem a_refused_publication_writes_nothing_witness:
  "snd (publish example_publisher None (\<lambda>_. WriteOk)
     (example_snapshot\<lparr>snap_catalog := \<lparr> di_revision = 2, di_payload = [], di_emptying = Intended \<rparr>\<rparr>)
     example_complete_target) = example_complete_target"
proof -
  let ?s = "example_snapshot\<lparr>snap_catalog := \<lparr> di_revision = 2, di_payload = [], di_emptying = Intended \<rparr>\<rparr>"
  have "plan_publication example_publisher ?s (example_held example_complete_target) = Inl EmptyCatalogue"
    by code_simp
  then have "publish example_publisher None (\<lambda>_. WriteOk) ?s example_complete_target
      = (Inl EmptyCatalogue, example_complete_target)"
    by (simp add: publish_def rbind_def example_complete_planned)
  from a_refused_publication_writes_nothing[OF this] this show ?thesis by simp
qed


text \<open>
  A publication that succeeds leaves a complete target. The inspection that follows it finds the
  generation of the report; it can only miss a document's manifest that was already missing, beside a
  document the run found unchanged and so did not write.
\<close>

theorem a_publication_is_complete:
  assumes "codecs_agree px gx" "publish px lock faults s old = (Inr report, new)"
  shows "\<exists>gaps. inspect_target px new (new RecordFile)
      = (if gaps = [] then Complete (rep_record report) else Incomplete (rep_record report) gaps)
    \<and> (\<forall>g\<in>set gaps. \<exists>d c. g = (part_of d, ManifestMissing) \<and> outcome_for report d = Unchanged
         \<and> old (manifest_file d) = FileMissing c)"
  by (rule inspected_after[OF assms])

theorem a_publication_is_complete_witness:
  "\<exists>gaps. inspect_target example_publisher example_complete_target (example_complete_target RecordFile)
      = (if gaps = [] then Complete \<lparr> stamp_generation = 1, stamp_sha256 = example_digest (''record'' @ [CHR 0x0A]) \<rparr>
         else Incomplete \<lparr> stamp_generation = 1, stamp_sha256 = example_digest (''record'' @ [CHR 0x0A]) \<rparr> gaps)"
  using a_publication_is_complete[OF example_codecs_agree example_publishes]
  by (auto simp: report_of_def example_plan_def)


end
