(* ===== verification/Publication_Revisions.thy ===== *)
theory Publication_Revisions
  imports Publication_Reads
begin

text \<open>
  What the guard on resource revisions (\<open>refuse_resource_changes\<close>, \<open>resource_history.rs\<close>) comes
  to over any number of publications, with interrupted ones in between: a revision of a tenant or of
  a data source names one content for good. The argument is made once, in the locale
  \<open>advancing\<close>, over a set of documents with a key and a revision, and used for both kinds.
\<close>

section \<open>Equality of JSON values composes\<close>

lemma f64_eq_trans: "f64_eq a b \<Longrightarrow> f64_eq b c \<Longrightarrow> f64_eq a c"
  by (auto simp: f64_eq_def)

lemma number_eq_trans: "number_eq a b \<Longrightarrow> number_eq b c \<Longrightarrow> number_eq a c"
  by (cases a; cases b; cases c) (auto dest: f64_eq_trans)

lemma json_eq_iff:
  "json_eq JNull c \<longleftrightarrow> c = JNull"
  "json_eq (JBool t) c \<longleftrightarrow> c = JBool t"
  "json_eq (JNumber m) c \<longleftrightarrow> (\<exists>n. c = JNumber n \<and> number_eq m n)"
  "json_eq (JArray xs) c \<longleftrightarrow> (\<exists>ys. c = JArray ys \<and> json_list_eq xs ys)"
  "json_eq (JObject fs) c \<longleftrightarrow> (\<exists>gs. c = JObject gs \<and> json_fields_eq fs gs)"
  by (cases c; auto)+

lemma json_list_eq_iff:
  "json_list_eq [] ys \<longleftrightarrow> ys = []"
  "json_list_eq (x # xs) ys \<longleftrightarrow> (\<exists>y zs. ys = y # zs \<and> json_eq x y \<and> json_list_eq xs zs)"
  by (cases ys; auto)+

lemma json_fields_eq_iff:
  "json_fields_eq [] gs \<longleftrightarrow> gs = []"
  "json_fields_eq ((k, x) # fs) gs \<longleftrightarrow> (\<exists>y hs. gs = (k, y) # hs \<and> json_eq x y \<and> json_fields_eq fs hs)"
  by (cases gs; auto)+

lemmas json_inversion = json_eq_iff json_list_eq_iff json_fields_eq_iff

text \<open>Induction over a value, the items of an array and the fields of an object.\<close>

lemma json_induct:
  assumes "P JNull" "\<And>t. P (JBool t)" "\<And>n. P (JNumber n)" "\<And>s. P (JString s)"
    and "\<And>xs. (\<forall>x\<in>set xs. P x) \<Longrightarrow> P (JArray xs)" "\<And>fs. (\<forall>f\<in>set fs. P (snd f)) \<Longrightarrow> P (JObject fs)"
  shows "P v"
  using assms by (induction v) (auto simp: snds.simps)

lemma json_list_eq_trans:
  "\<forall>x\<in>set xs. \<forall>b c. json_eq x b \<longrightarrow> json_eq b c \<longrightarrow> json_eq x c \<Longrightarrow>
     json_list_eq xs ys \<Longrightarrow> json_list_eq ys zs \<Longrightarrow> json_list_eq xs zs"
  by (induction xs arbitrary: ys zs) (auto simp: json_list_eq_iff)

lemma json_fields_eq_trans:
  "\<forall>f\<in>set fs. \<forall>b c. json_eq (snd f) b \<longrightarrow> json_eq b c \<longrightarrow> json_eq (snd f) c \<Longrightarrow>
     json_fields_eq fs gs \<Longrightarrow> json_fields_eq gs hs \<Longrightarrow> json_fields_eq fs hs"
  by (induction fs arbitrary: gs hs) (auto simp: json_fields_eq_iff)

lemma json_eq_trans: "json_eq a b \<Longrightarrow> json_eq b c \<Longrightarrow> json_eq a c"
proof (induction a arbitrary: b c rule: json_induct)
  case (5 xs)
  then show ?case using json_list_eq_trans[of xs] by (auto simp: json_eq_iff)
next
  case (6 fs)
  then show ?case using json_fields_eq_trans[of fs] by (auto simp: json_eq_iff)
next
  case (3 n)
  then show ?case by (auto simp only: json_eq_iff) (blast intro: number_eq_trans)
qed (simp_all add: json_eq_iff)

lemma same_content_trans:
  "same_content to_value a b \<Longrightarrow> same_content to_value b c \<Longrightarrow> same_content to_value a c"
  using json_eq_trans by (auto simp: same_content_def split: sum.splits)

section \<open>The history as a map of floors\<close>

lemma raise_floor:
  "map_of (raise k r history) i =
     (if i = k then Some (case map_of history k of None \<Rightarrow> r | Some f \<Rightarrow> max f r) else map_of history i)"
  by (auto simp: raise_def max_def split: option.split)

lemma raise_all_keeps:
  "map_of history i = Some f \<Longrightarrow>
     \<exists>f'. map_of (fold (\<lambda>d. raise (key d) (rev_of d)) ds history) i = Some f' \<and> f \<le> f'"
proof (induction ds arbitrary: history f)
  case (Cons d ds)
  have "\<exists>f'. map_of (raise (key d) (rev_of d) history) i = Some f' \<and> f \<le> f'"
    using Cons.prems by (auto simp: raise_floor)
  then obtain f' where "map_of (raise (key d) (rev_of d) history) i = Some f'" "f \<le> f'" by blast
  with Cons.IH[OF this(1)] show ?case by (auto intro: order_trans)
qed simp

lemma raise_all_covers:
  "d \<in> set ds \<Longrightarrow>
     \<exists>f. map_of (fold (\<lambda>d. raise (key d) (rev_of d)) ds history) (key d) = Some f \<and> rev_of d \<le> f"
proof (induction ds arbitrary: history)
  case (Cons e ds)
  show ?case
  proof (cases "d = e")
    case True
    have "\<exists>f. map_of (raise (key e) (rev_of e) history) (key e) = Some f \<and> rev_of e \<le> f"
      by (auto simp: raise_floor split: option.split)
    then obtain f where "map_of (raise (key e) (rev_of e) history) (key e) = Some f" "rev_of e \<le> f" by blast
    from raise_all_keeps[OF this(1), of key rev_of ds] this(2) True show ?thesis by (auto intro: order_trans)
  next
    case False
    with Cons show ?thesis by simp
  qed
qed simp

section \<open>One revision, one content\<close>

text \<open>
  \<open>accepted\<close> is what an offered document has passed: its revision is above the floor, or it is the
  held copy, at the floor, over again. \<open>settled\<close> is the invariant: every document recorded so far
  is covered by the history, and a held document of its key and revision is it or has its content.
\<close>

definition accepted ::
  "('d \<Rightarrow> 'k) \<Rightarrow> ('d \<Rightarrow> binding_revision) \<Rightarrow> ('d \<Rightarrow> 'd \<Rightarrow> bool) \<Rightarrow> ('k \<rightharpoonup> binding_revision) \<Rightarrow> 'd list \<Rightarrow> 'd \<Rightarrow> bool"
  where
  "accepted key rev_of same floors held d \<longleftrightarrow>
     (\<forall>f. floors (key d) = Some f \<longrightarrow>
        rev_of d > f \<or> (\<exists>u\<in>set held. key u = key d \<and> rev_of u = rev_of d \<and> same d u))"

definition settled ::
  "('d \<Rightarrow> 'k) \<Rightarrow> ('d \<Rightarrow> binding_revision) \<Rightarrow> ('d \<Rightarrow> 'd \<Rightarrow> bool) \<Rightarrow> 'd set \<Rightarrow> ('k \<rightharpoonup> binding_revision) \<Rightarrow> 'd list \<Rightarrow> bool"
  where
  "settled key rev_of same recorded floors held \<longleftrightarrow>
     (\<forall>t\<in>recorded. (\<exists>f. floors (key t) = Some f \<and> rev_of t \<le> f)
        \<and> (\<forall>u\<in>set held. key u = key t \<and> rev_of u = rev_of t \<longrightarrow> u = t \<or> same u t))"

locale advancing =
  fixes key :: "'d \<Rightarrow> 'k" and rev_of :: "'d \<Rightarrow> binding_revision" and same :: "'d \<Rightarrow> 'd \<Rightarrow> bool"
  assumes same_trans: "same a b \<Longrightarrow> same b c \<Longrightarrow> same a c"
begin

lemma accepted_content:
  assumes "settled key rev_of same recorded floors held" "accepted key rev_of same floors held d"
    and "t \<in> recorded" "key d = key t" "rev_of d = rev_of t"
  shows "d = t \<or> same d t"
proof -
  from assms(1,3) obtain f where f: "floors (key t) = Some f" "rev_of t \<le> f"
    by (auto simp: settled_def)
  with assms(2,4,5) obtain u where "u \<in> set held" "key u = key t" "rev_of u = rev_of t" "same d u"
    unfolding accepted_def by (metis leD)
  with assms(1,3) have "same d u" "u = t \<or> same u t" by (auto simp: settled_def)
  then show ?thesis by (metis same_trans)
qed

text \<open>The documents are replaced and the record is not.\<close>

lemma settled_replaced:
  assumes "settled key rev_of same recorded floors held"
    and "\<And>i f. floors i = Some f \<Longrightarrow> \<exists>f'. floors' i = Some f' \<and> f \<le> f'"
    and "\<forall>d\<in>set offers. accepted key rev_of same floors held d"
  shows "settled key rev_of same recorded floors' offers"
  unfolding settled_def
proof (intro ballI conjI impI)
  fix t assume t: "t \<in> recorded"
  then obtain f where "floors (key t) = Some f" "rev_of t \<le> f"
    using assms(1) by (auto simp: settled_def)
  with assms(2) show "\<exists>f. floors' (key t) = Some f \<and> rev_of t \<le> f" by (metis order_trans)
  show "u = t \<or> same u t" if "u \<in> set offers" "key u = key t \<and> rev_of u = rev_of t" for u
    using accepted_content[OF assms(1) _ t] assms(3) that by blast
qed

lemma settled_floors:
  "settled key rev_of same recorded floors held \<Longrightarrow> settled key rev_of same recorded floors' held' \<Longrightarrow>
     settled key rev_of same recorded floors held'"
  by (auto simp: settled_def)

lemma settled_rises:
  assumes "settled key rev_of same recorded floors held"
    and "\<And>i f. floors i = Some f \<Longrightarrow> \<exists>f'. floors' i = Some f' \<and> f \<le> f'"
  shows "settled key rev_of same recorded floors' held"
  unfolding settled_def
proof (intro ballI conjI)
  fix t assume t: "t \<in> recorded"
  with assms(1) obtain f where "floors (key t) = Some f" "rev_of t \<le> f" by (auto simp: settled_def)
  with assms(2) show "\<exists>f. floors' (key t) = Some f \<and> rev_of t \<le> f" by (metis order_trans)
next
  fix t u assume "t \<in> recorded" "u \<in> set held"
  with assms(1) show "key u = key t \<and> rev_of u = rev_of t \<longrightarrow> u = t \<or> same u t" by (simp add: settled_def)
qed

text \<open>And then the record too.\<close>

lemma settled_recorded:
  assumes "settled key rev_of same recorded floors offers"
    and "distinct (map key offers)"
    and "\<forall>d\<in>set offers. \<exists>f. floors (key d) = Some f \<and> rev_of d \<le> f"
  shows "settled key rev_of same (recorded \<union> set offers) floors offers"
proof -
  have "u = t" if "u \<in> set offers" "t \<in> set offers" "key u = key t" for u t
    using assms(2) that by (auto simp: distinct_map inj_on_def)
  with assms(1,3) show ?thesis by (auto simp: settled_def)
qed

end

interpretation tenant_revisions: advancing tb_tenant tb_revision "same_content to_value" for to_value
  by unfold_locales (rule same_content_trans)

interpretation source_revisions: advancing ds_id ds_revision "same_content to_value" for to_value
  by unfold_locales (rule same_content_trans)

section \<open>What the guard accepts\<close>

text \<open>\<open>raised\<close> says that the history covers the held documents, as \<open>held_resources\<close> makes it do.\<close>

lemma refuse_unadvanced_accepts:
  assumes "refuse_unadvanced document to_value held offers (\<lambda>d. (show_key (key d), rev_of d, floors (key d))) = Inr ()"
    and inj: "inj show_key"
    and raised: "\<And>u. u \<in> set held \<Longrightarrow> \<exists>f. floors (key u) = Some f \<and> rev_of u \<le> f"
    and d: "d \<in> set offers"
  shows "accepted key rev_of (same_content to_value) floors held d"
  unfolding accepted_def
proof (intro allI impI)
  fix f assume f: "floors (key d) = Some f"
  let ?held = "map_of (rev (map (\<lambda>u. (show_key (key u), (rev_of u, u))) held))"
  have copy: "u \<in> set held \<and> key u = key d \<and> r = rev_of u" if "?held (show_key (key d)) = Some (r, u)" for r u
    using map_of_SomeD[OF that] inj by (auto simp: inj_eq)
  have "max (map_option fst (?held (show_key (key d)))) (floors (key d)) = Some f"
  proof (cases "?held (show_key (key d))")
    case None
    then show ?thesis by (simp add: f)
  next
    case (Some c)
    with copy[of "fst c" "snd c"] raised[of "snd c"] f show ?thesis by (auto simp: max_def)
  qed
  moreover have "(case max (map_option fst (?held (show_key (key d)))) (floors (key d)) of
      None \<Rightarrow> Inr ()
    | Some f \<Rightarrow> if \<not> advanced to_value d (rev_of d) (?held (show_key (key d))) f
        then Inl (ResourceRevisionNotAdvanced document (show_key (key d)) f (rev_of d)) else Inr ()) = Inr ()"
    using assms(1) d by (simp only: refuse_unadvanced_def Let_def try_each_Inr prod.case)
  ultimately have "advanced to_value d (rev_of d) (?held (show_key (key d))) f"
    by (simp only: option.case split: if_splits) simp
  then consider "rev_of d > f" | r u where "?held (show_key (key d)) = Some (r, u)" "rev_of d = r"
      "same_content to_value d u"
    unfolding advanced_def by (cases "?held (show_key (key d))") auto
  then show "rev_of d > f \<or> (\<exists>u\<in>set held. key u = key d \<and> rev_of u = rev_of d \<and> same_content to_value d u)"
  proof cases
    case 2
    with copy[OF 2(1)] show ?thesis by metis
  qed blast
qed

lemma inj_data_source_str: "inj data_source_str"
  by (rule injI) (metis data_source_id.expand)

lemma inj_tenant_str: "inj tenant_str"
  by (rule injI) (metis tenant_id.expand)

section \<open>A target between publications\<close>

definition reads_back :: "publisher_codec \<Rightarrow> bool" where
  "reads_back x \<longleftrightarrow>
     (\<forall>r bytes. to_canonical_bytes (pretty_record x) r = Inr bytes \<longrightarrow> from_record x bytes = Inr r)
     \<and> (\<forall>ts bytes. tenants_canonical_json x ts = Inr bytes \<longrightarrow> from_tenants x bytes = Inr (sort_key tb_tenant ts))
     \<and> (\<forall>ds bytes. data_sources_canonical_json x ds = Inr bytes \<longrightarrow> from_data_sources x bytes = Inr (sort_key ds_id ds))"

definition parsed_at :: "(string \<Rightarrow> string + 'a) \<Rightarrow> 'a \<Rightarrow> file_read \<Rightarrow> 'a" where
  "parsed_at reader missing f =
     (case text_in f of None \<Rightarrow> missing | Some b \<Rightarrow> (case reader b of Inl _ \<Rightarrow> missing | Inr v \<Rightarrow> v))"

definition tenants_at :: "publisher_codec \<Rightarrow> target \<Rightarrow> tenant_document list" where
  "tenants_at x files = parsed_at (from_tenants x) [] (files TenantsPayload)"

definition sources_at :: "publisher_codec \<Rightarrow> target \<Rightarrow> data_source_document list" where
  "sources_at x files = parsed_at (from_data_sources x) [] (files DataSourcesPayload)"

definition history_at :: "publisher_codec \<Rightarrow> target \<Rightarrow> resource_history" where
  "history_at x files =
     parsed_at (map_ok pr_resources \<circ> from_record x) ResourceHistory_default (files RecordFile)"

lemma parsed_at_contents: "f = FileContents b \<Longrightarrow> reader b = Inr v \<Longrightarrow> parsed_at reader missing f = v"
  by (simp add: parsed_at_def)

lemma held_payload_text:
  assumes "read_held x files = Inr h"
  shows "hd_payload (held_for h d) = text_in (files (payload_file d))"
    and "held_record h = text_in (files RecordFile)"
proof -
  have seen: "read_target f d = Inr t \<Longrightarrow> t = text_in f" for f d t
    by (cases f) auto
  have payload: "read_held_document x files d = Inr doc \<Longrightarrow> hd_payload doc = text_in (files (payload_file d))" for doc d
    by (auto simp: read_held_document_def result_simps dest!: seen)
  show "hd_payload (held_for h d) = text_in (files (payload_file d))"
    using held_for_read[OF assms, of d] payload by simp
  show "held_record h = text_in (files RecordFile)"
    using assms by (auto simp: read_held_def result_simps dest!: seen)
qed

lemma parse_held_documents_Inr:
  "parse_held_documents reader manifest payload d = Inr ts \<Longrightarrow> payload = text_in f \<Longrightarrow> ts = parsed_at reader [] f"
  by (auto simp: parse_held_documents_def parse_documents_def parsed_at_def result_simps split: option.splits)

lemma held_resources_at:
  assumes "read_held x files = Inr h" "held_resources x h = Inr q"
  shows "pub_tenants q = tenants_at x files" "pub_data_sources q = sources_at x files"
    and "pub_history q =
           history_including (history_at x files) (tenants_at x files) (sources_at x files)"
proof -
  from assms(2) obtain rec ts ds where
    rec: "transpose_opt (parse_held x) (held_record h) = Inr rec"
    and ts: "parse_held_documents (from_tenants x) (hd_manifest (held_tenants h))
        (hd_payload (held_for h KindTenants)) KindTenants = Inr ts"
    and ds: "parse_held_documents (from_data_sources x) (hd_manifest (held_data_sources h))
        (hd_payload (held_for h KindDataSources)) KindDataSources = Inr ds"
    and made: "pub_tenants q = ts" "pub_data_sources q = ds"
      "pub_history q = history_including
         (case rec of None \<Rightarrow> ResourceHistory_default | Some r \<Rightarrow> pr_resources r) ts ds"
    by (auto simp: held_resources_def rbind_Inr)
  have "ts = tenants_at x files" "ds = sources_at x files"
    unfolding tenants_at_def sources_at_def
    using parse_held_documents_Inr[OF ts held_payload_text(1)[OF assms(1)]]
      parse_held_documents_Inr[OF ds held_payload_text(1)[OF assms(1)]] by simp_all
  moreover have "(case rec of None \<Rightarrow> ResourceHistory_default | Some r \<Rightarrow> pr_resources r) = history_at x files"
  proof (cases "held_record h")
    case None
    with rec held_payload_text(2)[OF assms(1)] show ?thesis
      by (simp add: transpose_opt_def history_at_def parsed_at_def)
  next
    case (Some b)
    with rec obtain r where r: "rec = Some r" "from_record x b = Inr r"
      by (auto simp: transpose_opt_def parse_held_def result_simps)
    have "map_ok pr_resources (from_record x b) = Inr (pr_resources r)" by (simp add: map_ok_Inr r)
    with r Some held_payload_text(2)[OF assms(1)] show ?thesis
      by (simp add: history_at_def parsed_at_def)
  qed
  ultimately show "pub_tenants q = tenants_at x files" "pub_data_sources q = sources_at x files"
    "pub_history q = history_including (history_at x files) (tenants_at x files) (sources_at x files)"
    using made by simp_all
qed

section \<open>Any number of publications\<close>

text \<open>
  \<open>publications x start recorded files\<close>: from the target \<open>start\<close>, a number of runs, each with
  whatever faults, has led to \<open>files\<close>; \<open>recorded\<close> are the snapshots, in order, of the runs that
  succeeded or put a new record in place. Every snapshot offered names each resource once.
\<close>

definition names_each_once :: "runtime_snapshot \<Rightarrow> bool" where
  "names_each_once s \<longleftrightarrow>
     distinct (map tb_tenant (di_payload (snap_tenants s))) \<and> distinct (map ds_id (di_payload (snap_data_sources s)))"

inductive publications :: "publisher_codec \<Rightarrow> target \<Rightarrow> runtime_snapshot list \<Rightarrow> target \<Rightarrow> bool"
  for x start where
  at_start: "publications x start [] start"
| run_unrecorded: "publications x start ss files \<Longrightarrow> names_each_once s \<Longrightarrow>
    publish x lock faults s files = (Inl e, files') \<Longrightarrow> files' RecordFile = files RecordFile \<Longrightarrow>
    publications x start ss files'"
| run_recorded: "publications x start ss files \<Longrightarrow> names_each_once s \<Longrightarrow>
    publish x lock faults s files = (r, files') \<Longrightarrow> is_ok r \<or> files' RecordFile \<noteq> files RecordFile \<Longrightarrow>
    publications x start (ss @ [s]) files'"

text \<open>What one run does to the documents and the history.\<close>

lemma set_parsed_documents:
  assumes "reads_back x" "read_held x files = Inr h" "plan_publication x s h = Inr p"
  shows "files' TenantsPayload = FileContents (dp_bytes (plan_tenants p)) \<Longrightarrow>
           set (tenants_at x files') = set (di_payload (snap_tenants s))"
    and "files' DataSourcesPayload = FileContents (dp_bytes (plan_data_sources p)) \<Longrightarrow>
           set (sources_at x files') = set (di_payload (snap_data_sources s))"
proof -
  have bytes: "tenants_canonical_json x (di_payload (snap_tenants s)) = Inr (dp_bytes (plan_tenants p))"
    "data_sources_canonical_json x (di_payload (snap_data_sources s)) = Inr (dp_bytes (plan_data_sources p))"
    by (rule plan_publication_steps[OF assms(3)], drule decide_document_bytes, assumption)+
  then have "from_tenants x (dp_bytes (plan_tenants p)) = Inr (sort_key tb_tenant (di_payload (snap_tenants s)))"
    "from_data_sources x (dp_bytes (plan_data_sources p)) = Inr (sort_key ds_id (di_payload (snap_data_sources s)))"
    using assms(1) unfolding reads_back_def by blast+
  then show "files' TenantsPayload = FileContents (dp_bytes (plan_tenants p)) \<Longrightarrow>
      set (tenants_at x files') = set (di_payload (snap_tenants s))"
    "files' DataSourcesPayload = FileContents (dp_bytes (plan_data_sources p)) \<Longrightarrow>
      set (sources_at x files') = set (di_payload (snap_data_sources s))"
    by (simp_all add: tenants_at_def sources_at_def parsed_at_def)
qed

lemma history_keeps:
  "map_of (rh_tenants h) i = Some f \<Longrightarrow> \<exists>f'. map_of (rh_tenants (history_including h ts ds)) i = Some f' \<and> f \<le> f'"
  "map_of (rh_data_sources h) j = Some f \<Longrightarrow>
     \<exists>f'. map_of (rh_data_sources (history_including h ts ds)) j = Some f' \<and> f \<le> f'"
  unfolding history_including_def
  using raise_all_keeps[of "rh_tenants h" i f tb_tenant tb_revision ts]
    raise_all_keeps[of "rh_data_sources h" j f ds_id ds_revision ds] by simp_all

lemma history_covers:
  "t \<in> set ts \<Longrightarrow> \<exists>f. map_of (rh_tenants (history_including h ts ds)) (tb_tenant t) = Some f \<and> tb_revision t \<le> f"
  "d \<in> set ds \<Longrightarrow> \<exists>f. map_of (rh_data_sources (history_including h ts ds)) (ds_id d) = Some f \<and> ds_revision d \<le> f"
  unfolding history_including_def
  using raise_all_covers[of t ts tb_tenant tb_revision "rh_tenants h"]
    raise_all_covers[of d ds ds_id ds_revision "rh_data_sources h"] by simp_all

text \<open>What a plan has accepted, over the history that covers the held documents.\<close>

lemma plan_accepts:
  assumes "read_held x files = Inr h" "plan_publication x s h = Inr p"
  defines "past \<equiv> history_including (history_at x files) (tenants_at x files) (sources_at x files)"
  shows "\<forall>t\<in>set (di_payload (snap_tenants s)). accepted tb_tenant tb_revision (same_content (tenant_value x))
      (map_of (rh_tenants past)) (tenants_at x files) t"
    and "\<forall>d\<in>set (di_payload (snap_data_sources s)). accepted ds_id ds_revision (same_content (data_source_value x))
      (map_of (rh_data_sources past)) (sources_at x files) d"
proof -
  obtain q where q: "held_resources x h = Inr q" "refuse_resource_changes x s q = Inr ()"
    by (rule plan_publication_steps[OF assms(2)])
  note at = held_resources_at[OF assms(1) q(1)]
  from q(2) have guard: "refuse_unadvanced KindDataSources (data_source_value x) (sources_at x files)
      (di_payload (snap_data_sources s))
      (\<lambda>d. (data_source_str (ds_id d), ds_revision d, map_of (rh_data_sources past) (ds_id d))) = Inr ()"
    "refuse_unadvanced KindTenants (tenant_value x) (tenants_at x files) (di_payload (snap_tenants s))
      (\<lambda>t. (tenant_str (tb_tenant t), tb_revision t, map_of (rh_tenants past) (tb_tenant t))) = Inr ()"
    by (simp_all add: refuse_resource_changes_def result_simps at past_def data_source_revision_of_def[abs_def]
        tenant_revision_of_def[abs_def])
  show "\<forall>t\<in>set (di_payload (snap_tenants s)). accepted tb_tenant tb_revision (same_content (tenant_value x))
      (map_of (rh_tenants past)) (tenants_at x files) t"
    using refuse_unadvanced_accepts[OF guard(2) inj_tenant_str history_covers(1)[of _ "tenants_at x files"
        "history_at x files" "sources_at x files", folded past_def]] by blast
  show "\<forall>d\<in>set (di_payload (snap_data_sources s)). accepted ds_id ds_revision (same_content (data_source_value x))
      (map_of (rh_data_sources past)) (sources_at x files) d"
    using refuse_unadvanced_accepts[OF guard(1) inj_data_source_str history_covers(2)[of _ "sources_at x files"
        "history_at x files" "tenants_at x files", folded past_def]] by blast
qed

text \<open>The history a run that recorded leaves behind.\<close>

lemma recorded_history:
  assumes codec: "reads_back x" and was: "read_held x files = Inr h" "plan_publication x s h = Inr p"
    and new: "files' = put (document_part x p @ record_part p) files"
  shows "history_at x files' = history_including
    (history_including (history_at x files) (tenants_at x files) (sources_at x files))
    (di_payload (snap_tenants s)) (di_payload (snap_data_sources s))"
proof (rule planned_record_file[OF was new])
  show "\<forall>r bytes. to_canonical_bytes (pretty_record x) r = Inr bytes \<longrightarrow> from_record x bytes = Inr r"
    using codec by (simp add: reads_back_def)
  fix b
  assume b: "files' RecordFile = FileContents b" "from_record x b = Inr (rcp_record (plan_record p))"
  obtain q record_held where q: "held_resources x h = Inr q"
    "decide_record x record_held (plan_data_sources p) (plan_catalog p) (plan_tenants p)
       (history_including (pub_history q) (di_payload (snap_tenants s)) (di_payload (snap_data_sources s)))
       (plan_registry p) = Inr (plan_record p)"
    by (rule plan_publication_steps[OF was(2)])
  have "history_at x files' = pr_resources (rcp_record (plan_record p))"
    by (simp add: history_at_def parsed_at_def b map_ok_def)
  also have "\<dots> = history_including (pub_history q) (di_payload (snap_tenants s)) (di_payload (snap_data_sources s))"
    by (subst decide_record_shape[OF q(2)]) (simp add: with_registry_def PublicationRecord_new_def)
  finally show ?thesis by (simp add: held_resources_at(3)[OF was(1) q(1)])
qed

text \<open>One run keeps both kinds settled.\<close>

definition tenants_settled :: "publisher_codec \<Rightarrow> tenant_document set \<Rightarrow> target \<Rightarrow> bool" where
  "tenants_settled x recorded files = settled tb_tenant tb_revision (same_content (tenant_value x)) recorded
     (map_of (rh_tenants (history_at x files))) (tenants_at x files)"

definition sources_settled :: "publisher_codec \<Rightarrow> data_source_document set \<Rightarrow> target \<Rightarrow> bool" where
  "sources_settled x recorded files = settled ds_id ds_revision (same_content (data_source_value x)) recorded
     (map_of (rh_data_sources (history_at x files))) (sources_at x files)"

lemma settled_cong:
  "set held = set held' \<Longrightarrow> settled key rev_of same recorded floors held = settled key rev_of same recorded floors held'"
  by (simp add: settled_def)

lemma unrecorded_run_settled:
  assumes codec: "reads_back x" and run: "publish x lock faults s files = (r, files')"
    and record_kept: "files' RecordFile = files RecordFile"
  shows "tenants_settled x T files \<Longrightarrow> tenants_settled x T files'"
    and "sources_settled x D files \<Longrightarrow> sources_settled x D files'"
proof -
  let ?past = "history_including (history_at x files) (tenants_at x files) (sources_at x files)"
  have hist: "history_at x files' = history_at x files"
    by (simp add: history_at_def record_kept)
  show "tenants_settled x T files'" if before: "tenants_settled x T files"
  proof (cases "files' TenantsPayload = files TenantsPayload")
    case True
    then have "tenants_at x files' = tenants_at x files" by (simp add: tenants_at_def)
    with before hist show ?thesis by (simp add: tenants_settled_def)
  next
    case False
    with publish_run[OF run] obtain p h where was: "read_held x files = Inr h" "plan_publication x s h = Inr p"
      and payload: "files' TenantsPayload = put (document_part x p @ record_part p) files TenantsPayload" by metis
    from payload have "files' TenantsPayload = FileContents (dp_bytes (plan_tenants p))"
      using planned_state(1)[OF was refl, of KindTenants] by simp
    from set_parsed_documents(1)[where files' = files', OF codec was this]
    have offers: "set (tenants_at x files') = set (di_payload (snap_tenants s))" .
    have "settled tb_tenant tb_revision (same_content (tenant_value x)) T (map_of (rh_tenants ?past))
        (di_payload (snap_tenants s))"
      by (rule tenant_revisions.settled_replaced[OF tenant_revisions.settled_rises[OF before[unfolded tenants_settled_def]]
            _ plan_accepts(1)[OF was]]) (auto dest: history_keeps(1))
    from tenant_revisions.settled_floors[OF before[unfolded tenants_settled_def] this] show ?thesis
      unfolding tenants_settled_def hist settled_cong[OF offers] .
  qed
  show "sources_settled x D files'" if before: "sources_settled x D files"
  proof (cases "files' DataSourcesPayload = files DataSourcesPayload")
    case True
    then have "sources_at x files' = sources_at x files" by (simp add: sources_at_def)
    with before hist show ?thesis by (simp add: sources_settled_def)
  next
    case False
    with publish_run[OF run] obtain p h where was: "read_held x files = Inr h" "plan_publication x s h = Inr p"
      and payload: "files' DataSourcesPayload = put (document_part x p @ record_part p) files DataSourcesPayload" by metis
    from payload have "files' DataSourcesPayload = FileContents (dp_bytes (plan_data_sources p))"
      using planned_state(1)[OF was refl, of KindDataSources] by simp
    from set_parsed_documents(2)[where files' = files', OF codec was this]
    have offers: "set (sources_at x files') = set (di_payload (snap_data_sources s))" .
    have "settled ds_id ds_revision (same_content (data_source_value x)) D (map_of (rh_data_sources ?past))
        (di_payload (snap_data_sources s))"
      by (rule source_revisions.settled_replaced[OF source_revisions.settled_rises[OF before[unfolded sources_settled_def]]
            _ plan_accepts(2)[OF was]]) (auto dest: history_keeps(2))
    from source_revisions.settled_floors[OF before[unfolded sources_settled_def] this] show ?thesis
      unfolding sources_settled_def hist settled_cong[OF offers] .
  qed
qed

lemma recorded_run_settled:
  assumes codec: "reads_back x" and run: "publish x lock faults s files = (r, files')"
    and once: "names_each_once s" and recorded: "is_ok r \<or> files' RecordFile \<noteq> files RecordFile"
  shows "tenants_settled x T files \<Longrightarrow> tenants_settled x (T \<union> set (di_payload (snap_tenants s))) files'"
    and "sources_settled x D files \<Longrightarrow> sources_settled x (D \<union> set (di_payload (snap_data_sources s))) files'"
proof -
  from publish_run[OF run] recorded obtain p h where was: "read_held x files = Inr h" "plan_publication x s h = Inr p"
    and new: "files' = put (document_part x p @ record_part p) files" by auto
  let ?past = "history_including (history_at x files) (tenants_at x files) (sources_at x files)"
  let ?T = "di_payload (snap_tenants s)" and ?D = "di_payload (snap_data_sources s)"
  note hist = recorded_history[OF codec was new]
  have offers: "set (tenants_at x files') = set ?T" "set (sources_at x files') = set ?D"
    using planned_state(1)[OF was new, of KindTenants] planned_state(1)[OF was new, of KindDataSources]
    by (simp_all add: set_parsed_documents[OF codec was])
  have rises: "map_of (rh_tenants (history_at x files)) i = Some f \<Longrightarrow>
      \<exists>f'. map_of (rh_tenants ?past) i = Some f' \<and> f \<le> f'"
    "map_of (rh_data_sources (history_at x files)) j = Some f \<Longrightarrow>
      \<exists>f'. map_of (rh_data_sources ?past) j = Some f' \<and> f \<le> f'" for i j f
    by (rule history_keeps, assumption)+
  have distinct: "distinct (map tb_tenant ?T)" "distinct (map ds_id ?D)"
    using once by (simp_all add: names_each_once_def)
  show "tenants_settled x (T \<union> set ?T) files'" if before: "tenants_settled x T files"
    unfolding tenants_settled_def settled_cong[OF offers(1)] hist
    by (intro tenant_revisions.settled_recorded[OF tenant_revisions.settled_replaced[OF
          tenant_revisions.settled_rises[OF before[unfolded tenants_settled_def] rises(1)] _
          plan_accepts(1)[OF was]] distinct(1)] ballI history_covers(1)) (auto dest: history_keeps(1))
  show "sources_settled x (D \<union> set ?D) files'" if before: "sources_settled x D files"
    unfolding sources_settled_def settled_cong[OF offers(2)] hist
    by (intro source_revisions.settled_recorded[OF source_revisions.settled_replaced[OF
          source_revisions.settled_rises[OF before[unfolded sources_settled_def] rises(2)] _
          plan_accepts(2)[OF was]] distinct(2)] ballI history_covers(2)) (auto dest: history_keeps(2))
qed

lemma publications_settled:
  assumes "publications x start ss files" "reads_back x"
  shows "tenants_settled x (\<Union>s\<in>set ss. set (di_payload (snap_tenants s))) files
    \<and> sources_settled x (\<Union>s\<in>set ss. set (di_payload (snap_data_sources s))) files"
  using assms(1)
proof induction
  case at_start
  then show ?case by (simp add: tenants_settled_def sources_settled_def settled_def)
next
  case (run_unrecorded ss files s lock faults e files')
  then show ?case using unrecorded_run_settled[OF assms(2) run_unrecorded.hyps(3,4)] by blast
next
  case (run_recorded ss files s lock faults r files')
  let ?T = "\<Union>s\<in>set ss. set (di_payload (snap_tenants s))"
  let ?D = "\<Union>s\<in>set ss. set (di_payload (snap_data_sources s))"
  from run_recorded.IH recorded_run_settled(1)[OF assms(2) run_recorded.hyps(3,2,4), of ?T]
    recorded_run_settled(2)[OF assms(2) run_recorded.hyps(3,2,4), of ?D]
  show ?case by (simp add: Un_commute)
qed

lemma recorded_offers:
  assumes codec: "reads_back x" and run: "publish x lock faults s files = (r, files')"
    and recorded: "is_ok r \<or> files' RecordFile \<noteq> files RecordFile"
  shows "set (tenants_at x files') = set (di_payload (snap_tenants s))"
    and "set (sources_at x files') = set (di_payload (snap_data_sources s))"
proof -
  from publish_run[OF run] recorded obtain p h where was: "read_held x files = Inr h" "plan_publication x s h = Inr p"
    and new: "files' = put (document_part x p @ record_part p) files" by auto
  show "set (tenants_at x files') = set (di_payload (snap_tenants s))"
    "set (sources_at x files') = set (di_payload (snap_data_sources s))"
    using planned_state(1)[OF was new, of KindTenants] planned_state(1)[OF was new, of KindDataSources]
    by (simp_all add: set_parsed_documents[OF codec was])
qed

text \<open>A later snapshot against an earlier one.\<close>

definition consistent_after :: "publisher_codec \<Rightarrow> runtime_snapshot \<Rightarrow> runtime_snapshot \<Rightarrow> bool" where
  "consistent_after x s s' \<longleftrightarrow>
     (\<forall>t\<in>set (di_payload (snap_tenants s)). \<forall>u\<in>set (di_payload (snap_tenants s')).
        tb_tenant u = tb_tenant t \<and> tb_revision u = tb_revision t
          \<longrightarrow> u = t \<or> same_content (tenant_value x) u t)
     \<and> (\<forall>d\<in>set (di_payload (snap_data_sources s)). \<forall>e\<in>set (di_payload (snap_data_sources s')).
        ds_id e = ds_id d \<and> ds_revision e = ds_revision d
          \<longrightarrow> e = d \<or> same_content (data_source_value x) e d)"

lemma settled_content:
  "settled key rev_of same recorded floors held \<Longrightarrow> t \<in> recorded \<Longrightarrow> u \<in> set held \<Longrightarrow>
     key u = key t \<and> rev_of u = rev_of t \<longrightarrow> u = t \<or> same u t"
  by (simp add: settled_def)

lemma settled_consistent:
  assumes "tenants_settled x T files" "sources_settled x D files"
    and "set (di_payload (snap_tenants s)) \<subseteq> T" "set (di_payload (snap_data_sources s)) \<subseteq> D"
    and "set (tenants_at x files) = set (di_payload (snap_tenants s'))"
    and "set (sources_at x files) = set (di_payload (snap_data_sources s'))"
  shows "consistent_after x s s'"
  unfolding consistent_after_def assms(5,6)[symmetric]
  using settled_content[OF assms(1)[unfolded tenants_settled_def]]
    settled_content[OF assms(2)[unfolded sources_settled_def]] assms(3,4) by blast

lemma publications_consistent:
  assumes "publications x start ss files" "reads_back x"
  shows "sorted_wrt (consistent_after x) ss"
  using assms(1)
proof induction
  case (run_recorded ss files s lock faults r files')
  let ?T = "\<Union>s\<in>set ss. set (di_payload (snap_tenants s))"
  let ?D = "\<Union>s\<in>set ss. set (di_payload (snap_data_sources s))"
  note run = assms(2) run_recorded.hyps(3)
  note kept = publications_settled[OF run_recorded.hyps(1) assms(2)]
  have "consistent_after x e s" if "e \<in> set ss" for e
    by (rule settled_consistent[OF
          recorded_run_settled(1)[OF run run_recorded.hyps(2,4) conjunct1[OF kept]]
          recorded_run_settled(2)[OF run run_recorded.hyps(2,4) conjunct2[OF kept]]
          _ _ recorded_offers[OF run run_recorded.hyps(4)]])
      (use that in blast)+
  with run_recorded.IH show ?case by (simp add: sorted_wrt_append)
qed simp_all

lemma example_reads_back: "reads_back example_publisher"
proof -
  have record_back: "to_canonical_bytes (pretty_record example_publisher) r = Inr bytes \<Longrightarrow> from_record example_publisher bytes = Inr r"
    for r bytes
    using example_codecs_agree by (simp add: codecs_agree_def)
  have "from_tenants example_publisher bytes = Inr (sort_key tb_tenant ts)"
    if "tenants_canonical_json example_publisher ts = Inr bytes" for ts bytes
    using that by (auto simp: tenants_canonical_json_def to_canonical_bytes_def map_ok_Inr example_publisher_def split: if_splits)
  moreover have "from_data_sources example_publisher bytes = Inr (sort_key ds_id ds)"
    if "data_sources_canonical_json example_publisher ds = Inr bytes" for ds bytes
    using that by (auto simp: data_sources_canonical_json_def to_canonical_bytes_def map_ok_Inr example_publisher_def split: if_splits)
  ultimately show ?thesis using record_back by (simp add: reads_back_def)
qed

lemma example_publications:
  "publications example_publisher example_interrupted [example_snapshot, example_snapshot] example_complete_target"
proof -
  have once: "names_each_once example_snapshot" by (simp add: names_each_once_def example_snapshot_def)
  have "publications example_publisher example_interrupted ([] @ [example_snapshot]) example_complete_target"
    by (rule run_recorded[OF at_start once example_publishes]) simp
  from run_recorded[OF this once example_republishes] show ?thesis by simp
qed

section \<open>A revision names one content\<close>

text \<open>
  C5: A revision of a tenant or a data source never names two contents. Over any sequence of
  publications from any target, some of them failed or stopped at any write, with snapshots that
  name each resource once: where a tenant or a data source is in two recorded snapshots at the same
  revision, the later one is the earlier one, or its JSON value is equal to the earlier one's.
\<close>

theorem a_revision_names_one_content:
  assumes "reads_back x" "publications x start ss files" "i < j" "j < length ss"
  shows "(\<forall>t\<in>set (di_payload (snap_tenants (ss ! i))). \<forall>u\<in>set (di_payload (snap_tenants (ss ! j))).
      tb_tenant u = tb_tenant t \<and> tb_revision u = tb_revision t
        \<longrightarrow> u = t \<or> same_content (tenant_value x) u t)
    \<and> (\<forall>d\<in>set (di_payload (snap_data_sources (ss ! i))). \<forall>e\<in>set (di_payload (snap_data_sources (ss ! j))).
      ds_id e = ds_id d \<and> ds_revision e = ds_revision d
        \<longrightarrow> e = d \<or> same_content (data_source_value x) e d)"
  using sorted_wrt_nth_less[OF publications_consistent[OF assms(2,1)] assms(3,4)]
  by (simp only: consistent_after_def)

theorem a_revision_names_one_content_witness:
  "consistent_after example_publisher example_snapshot example_snapshot"
  using a_revision_names_one_content[OF example_reads_back example_publications, of 0 1]
  by (simp add: consistent_after_def)

end
