(* ===== verification/Publication_Recovery.thy ===== *)
theory Publication_Recovery
  imports Publication_Reads
begin

text \<open>
  Putting back a document the record names (\<open>crates/fabric-runtime-publication/src/held_recovery\<close>
  and \<open>filesystem/recovery.rs\<close>): the diagnosis of a target, the plan of a restore with its refusals,
  and the restore itself. A detail built from values is a constructor of \<open>held_detail\<close>; the text
  \<open>sanitized\<close> makes of a \<open>serde_json\<close> error, the reading of arbitrary JSON and the audit are
  arguments. The lock, the record's second reading and the faults of each write are as in
  \<open>Publication\<close>.
\<close>

section \<open>Problems and refusals\<close>

datatype problem_part =
  InObservation | InRecord | InTenants | InDataSources | InCatalog | InIssuerRegistry

fun part_from :: "document_kind \<Rightarrow> problem_part" where
  "part_from KindTenants = InTenants"
| "part_from KindDataSources = InDataSources"
| "part_from KindCatalog = InCatalog"

datatype problem_kind = ProblemUnstable | BlocksPublication | ProblemMismatch | ProblemUnusable

datatype held_detail =
    RecordChanged
  | JsonError string
  | FloorRefusal publication_error
  | RecordOtherwiseUnusable
  | NotAJsonObject
  | UnsupportedManifest string
  | DescribesOther document_kind document_kind
  | StampedNewer u32
  | UnreadableManifest held_detail
  | ConflictingManifest held_detail
  | PayloadGone
  | UnreadablePayload held_detail
  | PayloadNotRecorded
  | RevisionNotRecorded document_revision document_revision
  | TenantBoundTwice nat nat
  | TenantWithoutData nat
  | SourceDeclaredTwice nat nat
  | TenantDangling nat
  | RegistryNotHeld
  | RegistryNotRecorded
  | RegistryUnparseable held_detail
  | RegistrySchema u32
  | RegistryGenerationOther
  | IssuerTwice nat nat
  | IssuerTenantUnbound nat

record held_problem =
  hp_part :: problem_part
  hp_kind :: problem_kind
  hp_detail :: held_detail

datatype restore_refusal =
    NotRestorable document_kind
  | OwnershipUnestablished
  | RestoreUnstable
  | HeldReadable document_kind
  | NoRecord
  | RecordUnusable held_detail
  | RestoreDigestMismatch document_kind string string
  | ManifestDisagrees document_kind document_revision document_revision
  | ManifestConflicts document_kind held_detail
  | OfferedUnparseable document_kind held_detail
  | OfferedInvalid document_kind "held_detail list"

record recovery_codec =
  rc_publisher :: publisher_codec
  rc_value :: "string \<Rightarrow> string + json"
  rc_sanitized :: "string \<Rightarrow> string"

definition sanitized :: "recovery_codec \<Rightarrow> string \<Rightarrow> held_detail" where
  "sanitized y cause = JsonError (rc_sanitized y cause)"

fun record_refusal :: "recovery_codec \<Rightarrow> publication_error \<Rightarrow> held_detail" where
  "record_refusal y (PubUnreadable _ cause) = sanitized y cause"
| "record_refusal y (BelowRollbackFloor a b) = FloorRefusal (BelowRollbackFloor a b)"
| "record_refusal y _ = RecordOtherwiseUnusable"

section \<open>Reading the parts\<close>

datatype manifest_reading =
    ManifestAbsent
  | ManifestMalformed held_detail
  | ManifestConflicting held_detail
  | ManifestNewer document_manifest
  | ManifestValid document_manifest

definition read_manifest :: "recovery_codec \<Rightarrow> string option \<Rightarrow> document_kind \<Rightarrow> manifest_reading" where
  "read_manifest y bytes document =
     (case bytes of
        None \<Rightarrow> ManifestAbsent
      | Some bytes \<Rightarrow>
          (case rc_value y bytes of
             Inl cause \<Rightarrow> ManifestMalformed (sanitized y cause)
           | Inr (JObject _) \<Rightarrow>
               (case from_manifest (rc_publisher y) bytes of
                  Inl cause \<Rightarrow> ManifestConflicting (UnsupportedManifest (rc_sanitized y cause))
                | Inr manifest \<Rightarrow>
                    if dm_document manifest \<noteq> document
                    then ManifestConflicting (DescribesOther (dm_document manifest) document)
                    else if dm_contract_version manifest > CONTRACT_VERSION then ManifestNewer manifest
                    else ManifestValid manifest)
           | Inr _ \<Rightarrow> ManifestMalformed NotAJsonObject))"

datatype parsed_payload =
    ParsedTenants "tenant_document list" | ParsedDataSources "data_source_document list" | ParsedCatalog

definition parse_payload :: "recovery_codec \<Rightarrow> string \<Rightarrow> document_kind \<Rightarrow> held_detail + parsed_payload" where
  "parse_payload y bytes document =
     map_err (sanitized y)
       (case document of
          KindTenants \<Rightarrow> map_ok ParsedTenants (from_tenants (rc_publisher y) bytes)
        | KindDataSources \<Rightarrow> map_ok ParsedDataSources (from_data_sources (rc_publisher y) bytes)
        | KindCatalog \<Rightarrow> Inr ParsedCatalog)"

definition blocking :: "recovery_codec \<Rightarrow> document_kind \<Rightarrow> observed_document \<Rightarrow> held_detail option" where
  "blocking y document held =
     (let manifest = read_manifest y (od_manifest held) document;
          payload_state = (case od_payload held of
            None \<Rightarrow> if manifest \<noteq> ManifestAbsent \<and> document \<noteq> KindCatalog then Some PayloadGone else None
          | Some bytes \<Rightarrow> (case parse_payload y bytes document of
                Inl detail \<Rightarrow> Some (UnreadablePayload detail) | Inr _ \<Rightarrow> None))
      in case manifest of
           ManifestMalformed detail \<Rightarrow> Some (UnreadableManifest detail)
         | ManifestConflicting detail \<Rightarrow> Some (ConflictingManifest detail)
         | _ \<Rightarrow> payload_state)"

definition parsed_tenants :: "recovery_codec \<Rightarrow> target_observation \<Rightarrow> tenant_document list option" where
  "parsed_tenants y ob =
     Option.bind (od_payload (ob_tenants ob)) (\<lambda>bytes.
       case parse_payload y bytes KindTenants of Inr (ParsedTenants ts) \<Rightarrow> Some ts | _ \<Rightarrow> None)"

definition parsed_data_sources :: "recovery_codec \<Rightarrow> target_observation \<Rightarrow> data_source_document list option" where
  "parsed_data_sources y ob =
     Option.bind (od_payload (ob_data_sources ob)) (\<lambda>bytes.
       case parse_payload y bytes KindDataSources of Inr (ParsedDataSources ds) \<Rightarrow> Some ds | _ \<Rightarrow> None)"

section \<open>What is wrong with the contents\<close>

fun repeats_from :: "nat \<Rightarrow> ('k \<times> nat) list \<Rightarrow> 'k list \<Rightarrow> (nat \<times> nat) list" where
  "repeats_from index seen [] = []"
| "repeats_from index seen (k # ks) =
     (case map_of seen k of
        Some earlier \<Rightarrow> (earlier, index) # repeats_from (Suc index) seen ks
      | None \<Rightarrow> repeats_from (Suc index) ((k, index) # seen) ks)"

definition repeats :: "'k list \<Rightarrow> (nat \<times> nat) list" where
  "repeats keys = repeats_from 0 [] keys"

definition positions :: "('a \<Rightarrow> bool) \<Rightarrow> 'a list \<Rightarrow> nat list" where
  "positions p xs = map fst (filter (\<lambda>(_, v). p v) (enumerate 0 xs))"

definition tenant_problems :: "tenant_document list \<Rightarrow> held_detail list" where
  "tenant_problems tenants =
     map (\<lambda>(earlier, index). TenantBoundTwice index earlier) (repeats (map tb_tenant tenants))
     @ map TenantWithoutData (positions (\<lambda>t. tb_data t = []) tenants)"

definition data_source_problems :: "data_source_document list \<Rightarrow> held_detail list" where
  "data_source_problems sources =
     map (\<lambda>(earlier, index). SourceDeclaredTwice index earlier) (repeats (map ds_id sources))"

definition dangling :: "tenant_document list \<Rightarrow> data_source_document list \<Rightarrow> held_detail list" where
  "dangling tenants sources =
     map TenantDangling (positions (\<lambda>t. \<exists>b\<in>set (tb_data t). bd_data_source (snd b) \<notin> ds_id ` set sources) tenants)"

definition registry_problems ::
  "recovery_codec \<Rightarrow> string option \<Rightarrow> recorded_registry \<Rightarrow> tenant_document list option \<Rightarrow> held_detail list" where
  "registry_problems y bytes recorded tenants =
     (case bytes of
        None \<Rightarrow> [RegistryNotHeld]
      | Some bytes \<Rightarrow>
          if digest_hex (rc_publisher y) bytes \<noteq> rr_sha256 recorded then [RegistryNotRecorded]
          else case from_registry (rc_publisher y) bytes of
              Inl cause \<Rightarrow> [RegistryUnparseable (sanitized y cause)]
            | Inr registry \<Rightarrow>
                (if ird_schema_version registry \<noteq> REGISTRY_SCHEMA_VERSION
                 then [RegistrySchema (ird_schema_version registry)] else [])
                @ (if ird_generation registry \<noteq> rr_generation recorded then [RegistryGenerationOther] else [])
                @ map (\<lambda>(earlier, index). IssuerTwice index earlier) (repeats (map ir_issuer (ird_issuers registry)))
                @ (case tenants of
                     None \<Rightarrow> []
                   | Some ts \<Rightarrow> map IssuerTenantUnbound
                       (positions (\<lambda>r. ir_tenant r \<notin> tb_tenant ` set ts) (ird_issuers registry))))"

definition resource_problems ::
  "recovery_codec \<Rightarrow> target_observation \<Rightarrow> recorded_registry option \<Rightarrow> held_problem list" where
  "resource_problems y ob recorded =
     (let problem = (\<lambda>part detail. \<lparr> hp_part = part, hp_kind = ProblemUnusable, hp_detail = detail \<rparr>);
          tenants = parsed_tenants y ob; sources = parsed_data_sources y ob
      in map (problem InTenants) (case tenants of None \<Rightarrow> [] | Some ts \<Rightarrow> tenant_problems ts)
         @ map (problem InDataSources) (case sources of None \<Rightarrow> [] | Some ds \<Rightarrow> data_source_problems ds)
         @ map (problem InTenants)
             (case (tenants, sources) of (Some ts, Some ds) \<Rightarrow> dangling ts ds | _ \<Rightarrow> [])
         @ map (problem InIssuerRegistry)
             (case recorded of None \<Rightarrow> [] | Some r \<Rightarrow> registry_problems y (ob_registry ob) r tenants))"

section \<open>The diagnosis\<close>

record held_observation =
  ho_observation :: target_observation
  ho_stable :: bool

datatype record_state = RecordAbsent | RecordHeld u64 string | RecordStateUnusable held_detail string

datatype manifest_state =
    MsAbsent
  | MsHeld document_revision
  | MsNewer document_revision u32
  | MsMalformed held_detail
  | MsConflicting held_detail

record document_diagnosis =
  dd_manifest :: manifest_state
  dd_payload_sha256 :: "string option"
  dd_recorded :: "recorded_document option"
  dd_matches_record :: "bool option"

record registry_diagnosis =
  rd_recorded :: "recorded_registry option"
  rd_held_sha256 :: "string option"
  rd_held_generation :: "u64 option"

record held_diagnosis =
  hdg_stable :: bool
  hdg_record :: record_state
  hdg_tenants :: document_diagnosis
  hdg_data_sources :: document_diagnosis
  hdg_catalog :: document_diagnosis
  hdg_issuer_registry :: registry_diagnosis
  hdg_problems :: "held_problem list"
  hdg_clear :: bool

definition held_record_state :: "recovery_codec \<Rightarrow> string option \<Rightarrow> record_state \<times> publication_record option" where
  "held_record_state y bytes =
     (case bytes of
        None \<Rightarrow> (RecordAbsent, None)
      | Some bytes \<Rightarrow>
          (let digest = digest_hex (rc_publisher y) bytes in
           case parse_held (rc_publisher y) bytes of
             Inr r \<Rightarrow> (RecordHeld (pr_generation r) digest, Some r)
           | Inl e \<Rightarrow> (RecordStateUnusable (record_refusal y e) digest, None)))"

fun manifest_state_of :: "manifest_reading \<Rightarrow> manifest_state" where
  "manifest_state_of ManifestAbsent = MsAbsent"
| "manifest_state_of (ManifestValid m) = MsHeld (dm_revision m)"
| "manifest_state_of (ManifestNewer m) = MsNewer (dm_revision m) (dm_contract_version m)"
| "manifest_state_of (ManifestMalformed d) = MsMalformed d"
| "manifest_state_of (ManifestConflicting d) = MsConflicting d"

definition document_diagnosis_of ::
  "recovery_codec \<Rightarrow> document_kind \<Rightarrow> observed_document \<Rightarrow> recorded_document option \<Rightarrow> document_diagnosis" where
  "document_diagnosis_of y kind held recorded =
     (let payload_sha256 = map_option (digest_hex (rc_publisher y)) (od_payload held) in
      \<lparr> dd_manifest = manifest_state_of (read_manifest y (od_manifest held) kind),
        dd_payload_sha256 = payload_sha256, dd_recorded = recorded,
        dd_matches_record = map_option (\<lambda>r. payload_sha256 = Some (rcd_sha256 r)) recorded \<rparr>)"

definition document_held_problems ::
  "recovery_codec \<Rightarrow> document_kind \<Rightarrow> observed_document \<Rightarrow> recorded_document option \<Rightarrow> held_problem list" where
  "document_held_problems y kind held recorded =
     (let diagnosis = document_diagnosis_of y kind held recorded in
      (case blocking y kind held of
         None \<Rightarrow> []
       | Some reason \<Rightarrow> [\<lparr> hp_part = part_from kind, hp_kind = BlocksPublication, hp_detail = reason \<rparr>])
      @ (if dd_matches_record diagnosis = Some False
         then [\<lparr> hp_part = part_from kind, hp_kind = ProblemMismatch, hp_detail = PayloadNotRecorded \<rparr>] else [])
      @ (case (dd_manifest diagnosis, recorded) of
           (MsHeld revision, Some r) \<Rightarrow>
             if revision \<noteq> rcd_revision r
             then [\<lparr> hp_part = part_from kind, hp_kind = ProblemMismatch,
                     hp_detail = RevisionNotRecorded revision (rcd_revision r) \<rparr>] else []
         | _ \<Rightarrow> []))"

definition diagnose :: "recovery_codec \<Rightarrow> held_observation \<Rightarrow> held_diagnosis" where
  "diagnose y held =
     (let ob = ho_observation held;
          (state, parsed) = held_record_state y (ob_record ob);
          documents = map_option pr_documents parsed;
          registry = Option.bind parsed pr_registry;
          at = (\<lambda>f. map_option f documents);
          problems =
            (if \<not> ho_stable held
             then [\<lparr> hp_part = InObservation, hp_kind = ProblemUnstable, hp_detail = RecordChanged \<rparr>] else [])
            @ (case state of
                 RecordStateUnusable detail _ \<Rightarrow>
                   [\<lparr> hp_part = InRecord, hp_kind = BlocksPublication, hp_detail = detail \<rparr>]
               | _ \<Rightarrow> [])
            @ document_held_problems y KindTenants (ob_tenants ob) (at rds_tenants)
            @ document_held_problems y KindDataSources (ob_data_sources ob) (at rds_data_sources)
            @ document_held_problems y KindCatalog (ob_catalog ob) (at rds_catalog)
            @ resource_problems y ob registry
      in \<lparr> hdg_stable = ho_stable held, hdg_record = state,
           hdg_tenants = document_diagnosis_of y KindTenants (ob_tenants ob) (at rds_tenants),
           hdg_data_sources = document_diagnosis_of y KindDataSources (ob_data_sources ob) (at rds_data_sources),
           hdg_catalog = document_diagnosis_of y KindCatalog (ob_catalog ob) (at rds_catalog),
           hdg_issuer_registry =
             \<lparr> rd_recorded = registry,
               rd_held_sha256 = map_option (digest_hex (rc_publisher y)) (ob_registry ob),
               rd_held_generation = Option.bind (ob_registry ob)
                 (\<lambda>bytes. map_option ird_generation (ok (from_registry (rc_publisher y) bytes))) \<rparr>,
           hdg_problems = problems, hdg_clear = (problems = []) \<rparr>)"

section \<open>The plan of a restore\<close>

record restore_plan =
  rsp_document :: document_kind
  rsp_revision :: document_revision
  rsp_generation :: u64
  rsp_record_sha256 :: string
  rsp_sha256 :: string
  rsp_held_payload_sha256 :: "string option"
  rsp_payload :: "string option"
  rsp_manifest :: "document_manifest option"
  rsp_peers :: "held_problem list"

definition already_restored :: "restore_plan \<Rightarrow> bool" where
  "already_restored p = (rsp_payload p = None \<and> rsp_manifest p = None)"

definition manifest_plan ::
  "recovery_codec \<Rightarrow> string option \<Rightarrow> document_kind \<Rightarrow> document_revision
     \<Rightarrow> restore_refusal + document_manifest option" where
  "manifest_plan y held document recorded =
     (case read_manifest y held document of
        ManifestAbsent \<Rightarrow> Inr (Some (DocumentManifest_new document recorded))
      | ManifestMalformed _ \<Rightarrow> Inr (Some (DocumentManifest_new document recorded))
      | ManifestValid m \<Rightarrow>
          if dm_revision m = recorded then Inr None
          else Inl (ManifestDisagrees document (dm_revision m) recorded)
      | ManifestConflicting detail \<Rightarrow> Inl (ManifestConflicts document detail)
      | ManifestNewer m \<Rightarrow> Inl (ManifestConflicts document (StampedNewer (dm_contract_version m))))"

definition offered_problems ::
  "recovery_codec \<Rightarrow> parsed_payload \<Rightarrow> target_observation \<Rightarrow> publication_record \<Rightarrow> held_detail list" where
  "offered_problems y parsed ob rec =
     (case parsed of
        ParsedTenants ts \<Rightarrow>
          tenant_problems ts
          @ (case parsed_data_sources y ob of None \<Rightarrow> [] | Some ds \<Rightarrow> dangling ts ds)
          @ (case pr_registry rec of
               None \<Rightarrow> []
             | Some r \<Rightarrow> if registry_problems y (ob_registry ob) r None = []
                         then registry_problems y (ob_registry ob) r (Some ts) else [])
      | ParsedDataSources ds \<Rightarrow>
          data_source_problems ds @ (case parsed_tenants y ob of None \<Rightarrow> [] | Some ts \<Rightarrow> dangling ts ds)
      | ParsedCatalog \<Rightarrow> [])"

definition plan_restore ::
  "recovery_codec \<Rightarrow> held_observation \<Rightarrow> document_kind \<Rightarrow> string \<Rightarrow> restore_refusal + restore_plan" where
  "plan_restore y held document offer =
     (let ob = ho_observation held in
      rbind (case document of
               KindTenants \<Rightarrow> Inr (ob_tenants ob)
             | KindDataSources \<Rightarrow> Inr (ob_data_sources ob)
             | KindCatalog \<Rightarrow> Inl (NotRestorable document)) (\<lambda>held_document.
      if \<not> ho_stable held then Inl RestoreUnstable
      else
        rbind (ok_or NoRecord (ob_record ob)) (\<lambda>record_bytes.
        rbind (map_err (\<lambda>e. RecordUnusable (record_refusal y e)) (parse_held (rc_publisher y) record_bytes)) (\<lambda>rec.
          let recorded = (if document = KindTenants then rds_tenants (pr_documents rec)
                          else rds_data_sources (pr_documents rec));
              offered_sha256 = digest_hex (rc_publisher y) offer in
        rbind (manifest_plan y (od_manifest held_document) document (rcd_revision recorded)) (\<lambda>manifest.
        if offered_sha256 \<noteq> rcd_sha256 recorded
        then Inl (RestoreDigestMismatch document (rcd_sha256 recorded) offered_sha256)
        else
          rbind (map_err (OfferedUnparseable document) (parse_payload y offer document)) (\<lambda>parsed.
            let peers = filter (\<lambda>p. hp_part p \<noteq> part_from document) (hdg_problems (diagnose y held));
                problems = offered_problems y parsed ob rec in
          if problems \<noteq> [] then Inl (OfferedInvalid document problems)
          else
            rbind (case od_payload held_document of
                     None \<Rightarrow> Inr (Some offer)
                   | Some bytes \<Rightarrow>
                       if bytes = offer then Inr None
                       else if is_ok (parse_payload y bytes document) then Inl (HeldReadable document)
                       else Inr (Some offer)) (\<lambda>payload.
            Inr \<lparr> rsp_document = document, rsp_revision = rcd_revision recorded,
                  rsp_generation = pr_generation rec,
                  rsp_record_sha256 = digest_hex (rc_publisher y) record_bytes,
                  rsp_sha256 = rcd_sha256 recorded,
                  rsp_held_payload_sha256 = map_option (digest_hex (rc_publisher y)) (od_payload held_document),
                  rsp_payload = payload, rsp_manifest = manifest, rsp_peers = peers \<rparr>)))))))"

section \<open>The restore\<close>

datatype recovery_error =
    RecoveryRefused restore_refusal
  | RecoveryTarget publication_error
  | RecoveryAudit string
  | RecoveryFailed publication_error
  | RecoveryUncertain publication_error

text \<open>\<open>after\<close> is the record file as it is when it is read again.\<close>

definition observe_raw :: "target \<Rightarrow> file_read \<Rightarrow> publication_error + held_observation" where
  "observe_raw files after =
     map_err (PubUnreadable KindTenants)
       (rbind (observe_target files) (\<lambda>ob.
        rbind (map_err (\<lambda>_. ''unavailable'') (read_target after KindTenants)) (\<lambda>rec.
          Inr \<lparr> ho_observation = ob, ho_stable = (rec = ob_record ob) \<rparr>)))"

definition file_holds :: "file_read \<Rightarrow> string \<Rightarrow> bool" where
  "file_holds f bytes =
     (case f of FileContents held \<Rightarrow> held = bytes | FileMissing _ \<Rightarrow> False | FileUnreadable _ \<Rightarrow> True)"

fun write_steps ::
  "document_kind \<Rightarrow> (target_file \<Rightarrow> write_fault) \<Rightarrow> (target_file \<times> string option) list \<Rightarrow> bool \<Rightarrow> target
     \<Rightarrow> (recovery_error + unit) \<times> target" where
  "write_steps document faults [] landed files = (Inr (), files)"
| "write_steps document faults ((f, None) # steps) landed files = write_steps document faults steps landed files"
| "write_steps document faults ((f, Some bytes) # steps) landed files =
     (case atomic_write faults f document bytes files of
        (Inl e, files') \<Rightarrow>
          (Inl (if landed \<or> file_holds (files' f) bytes then RecoveryUncertain e else RecoveryFailed e), files')
      | (Inr _, files') \<Rightarrow> write_steps document faults steps True files')"

definition restore_write ::
  "recovery_codec \<Rightarrow> (target_file \<Rightarrow> write_fault) \<Rightarrow> document_kind \<Rightarrow> restore_plan \<Rightarrow> target
     \<Rightarrow> (recovery_error + unit) \<times> target" where
  "restore_write y faults document p files =
     (case transpose_opt (to_canonical_bytes (pretty_manifest (rc_publisher y))) (rsp_manifest p) of
        Inl cause \<Rightarrow> (Inl (RecoveryFailed (PubUnwritable document cause)), files)
      | Inr manifest \<Rightarrow>
          write_steps document faults
            [(payload_file document, rsp_payload p), (manifest_file document, manifest)] False files)"

definition restore ::
  "recovery_codec \<Rightarrow> string option \<Rightarrow> (restore_plan \<Rightarrow> string + unit) \<Rightarrow> (target_file \<Rightarrow> write_fault)
     \<Rightarrow> file_read \<Rightarrow> document_kind \<Rightarrow> string \<Rightarrow> target \<Rightarrow> (recovery_error + restore_plan) \<times> target" where
  "restore y lock audit faults after document offer files =
     (if document = KindCatalog then (Inl (RecoveryRefused (NotRestorable document)), files)
      else case lock of
        Some cause \<Rightarrow> (Inl (RecoveryTarget (PubUnwritable KindTenants cause)), files)
      | None \<Rightarrow>
          (case rbind (map_err RecoveryTarget (observe_raw files after))
                  (\<lambda>held. map_err RecoveryRefused (plan_restore y held document offer)) of
             Inl e \<Rightarrow> (Inl e, files)
           | Inr p \<Rightarrow>
               if already_restored p then (Inr p, files)
               else case audit p of
                   Inl cause \<Rightarrow> (Inl (RecoveryAudit cause), files)
                 | Inr _ \<Rightarrow> and_then (restore_write y faults document p files) (\<lambda>_ files. (Inr p, files))))"

section \<open>What a restore may do\<close>

fun recorded_for :: "recorded_documents \<Rightarrow> document_kind \<Rightarrow> recorded_document" where
  "recorded_for r KindTenants = rds_tenants r"
| "recorded_for r KindDataSources = rds_data_sources r"
| "recorded_for r KindCatalog = rds_catalog r"

fun observed_for :: "target_observation \<Rightarrow> document_kind \<Rightarrow> observed_document" where
  "observed_for ob KindTenants = ob_tenants ob"
| "observed_for ob KindDataSources = ob_data_sources ob"
| "observed_for ob KindCatalog = ob_catalog ob"

lemma plan_restore_Inr:
  assumes "plan_restore y held d offer = Inr p"
  obtains b rec where "d \<noteq> KindCatalog" "ho_stable held"
    "ob_record (ho_observation held) = Some b" "parse_held (rc_publisher y) b = Inr rec"
    "digest_hex (rc_publisher y) offer = rcd_sha256 (recorded_for (pr_documents rec) d)"
    "manifest_plan y (od_manifest (observed_for (ho_observation held) d)) d
       (rcd_revision (recorded_for (pr_documents rec) d)) = Inr (rsp_manifest p)"
    "rsp_payload p = None \<and> od_payload (observed_for (ho_observation held) d) = Some offer
     \<or> rsp_payload p = Some offer
       \<and> (\<forall>b. od_payload (observed_for (ho_observation held) d) = Some b \<longrightarrow> \<not> is_ok (parse_payload y b d))"
proof -
  from assms have d: "d \<noteq> KindCatalog" by (auto simp: plan_restore_def result_simps)
  then have kinds: "(case d of KindTenants \<Rightarrow> Inr (ob_tenants ob) | KindDataSources \<Rightarrow> Inr (ob_data_sources ob)
      | KindCatalog \<Rightarrow> Inl (NotRestorable d)) = Inr (observed_for ob d)"
    "(if d = KindTenants then rds_tenants r else rds_data_sources r) = recorded_for r d" for ob r
    by (cases d; simp)+
  let ?held = "observed_for (ho_observation held) d"
  from assms obtain b rec pl where stable: "ho_stable held" and b: "ob_record (ho_observation held) = Some b"
    and rec: "parse_held (rc_publisher y) b = Inr rec"
    and digest: "digest_hex (rc_publisher y) offer = rcd_sha256 (recorded_for (pr_documents rec) d)"
    and manifest: "manifest_plan y (od_manifest ?held) d (rcd_revision (recorded_for (pr_documents rec) d))
      = Inr (rsp_manifest p)"
    and pl: "(case od_payload ?held of
          None \<Rightarrow> Inr (Some offer)
        | Some bytes \<Rightarrow>
            if bytes = offer then Inr None
            else if is_ok (parse_payload y bytes d) then Inl (HeldReadable d)
            else Inr (Some offer)) = Inr pl" "rsp_payload p = pl"
    unfolding plan_restore_def Let_def kinds by (fastforce simp: rbind_Inr result_simps split: if_splits)
  from pl have "rsp_payload p = None \<and> od_payload ?held = Some offer
     \<or> rsp_payload p = Some offer \<and> (\<forall>b. od_payload ?held = Some b \<longrightarrow> \<not> is_ok (parse_payload y b d))"
    by (auto split: option.splits if_splits)
  with d stable b rec digest manifest show thesis by (rule that)
qed

lemma observe_raw_Inr:
  assumes "observe_raw files after = Inr held"
  shows "ob_record (ho_observation held) = text_in (files RecordFile)"
    and "od_manifest (observed_for (ho_observation held) d) = text_in (files (manifest_file d))"
    and "od_payload (observed_for (ho_observation held) d) = text_in (files (payload_file d))"
proof -
  have seen: "map_err (\<lambda>_. ''unavailable'') (read_target f k) = Inr t \<Longrightarrow> t = text_in f" for f k t
    by (cases f) (auto simp: map_err_def)
  obtain ob where ob: "observe_target files = Inr ob" "ho_observation held = ob"
    using assms by (auto simp: observe_raw_def result_simps)
  have doc: "observe_document files k = Inr o' \<Longrightarrow>
      od_manifest o' = text_in (files (manifest_file k)) \<and> od_payload o' = text_in (files (payload_file k))" for k o'
    by (auto simp: observe_document_def Let_def rbind_Inr dest!: seen)
  from ob(1) show "ob_record (ho_observation held) = text_in (files RecordFile)"
    unfolding ob(2) by (auto simp: observe_target_def Let_def rbind_Inr dest: seen)
  have "observe_document files d = Inr (observed_for ob d)"
    using ob(1) by (cases d) (auto simp: observe_target_def Let_def rbind_Inr)
  from doc[OF this] show "od_manifest (observed_for (ho_observation held) d) = text_in (files (manifest_file d))"
    "od_payload (observed_for (ho_observation held) d) = text_in (files (payload_file d))"
    by (simp_all add: ob(2))
qed

text \<open>Each step of the writing leaves the file as it was or holds the planned bytes.\<close>

lemma write_steps_within:
  assumes "write_steps d faults steps landed files = (r, files')" "distinct (map fst steps)"
  shows "\<forall>f. files' f = files f \<or> (\<exists>bytes. (f, Some bytes) \<in> set steps \<and> files' f = FileContents bytes)"
    and "is_ok r \<Longrightarrow> (f, Some bytes) \<in> set steps \<Longrightarrow> files' f = FileContents bytes"
    and "is_ok r \<Longrightarrow> \<forall>bytes. (f, Some bytes) \<notin> set steps \<Longrightarrow> files' f = files f"
proof -
  have "(\<forall>f. files' f = files f \<or> (\<exists>bytes. (f, Some bytes) \<in> set steps \<and> files' f = FileContents bytes))
      \<and> (is_ok r \<longrightarrow> (\<forall>f bytes. (f, Some bytes) \<in> set steps \<longrightarrow> files' f = FileContents bytes))"
    using assms
  proof (induction d faults steps landed files rule: write_steps.induct)
    case (3 document faults f bytes steps landed files)
    show ?case
    proof (cases "faults f")
      case WriteOk
      let ?mid = "files(f := FileContents bytes)"
      have "write_steps document faults steps True ?mid = (r, files')" "distinct (map fst steps)"
        "f \<notin> fst ` set steps"
        using 3(2,3) WriteOk by (auto simp: atomic_write_def)
      moreover from this have rest: "(\<forall>g. files' g = ?mid g \<or> (\<exists>b. (g, Some b) \<in> set steps \<and> files' g = FileContents b))
          \<and> (is_ok r \<longrightarrow> (\<forall>g b. (g, Some b) \<in> set steps \<longrightarrow> files' g = FileContents b))"
        by (intro 3(1)) (simp_all add: atomic_write_def WriteOk fun_upd_def)
      moreover have "files' f = FileContents bytes"
        using rest \<open>f \<notin> fst ` set steps\<close> by force
      ultimately show ?thesis by (auto split: if_splits)
    next
      case (FailsAfter cause)
      with 3(2) show ?thesis by (auto simp: atomic_write_def split: if_splits intro!: exI[of _ bytes])
    qed (use 3(2) in \<open>auto simp: atomic_write_def\<close>)
  qed auto
  then show "\<forall>f. files' f = files f \<or> (\<exists>bytes. (f, Some bytes) \<in> set steps \<and> files' f = FileContents bytes)"
    "is_ok r \<Longrightarrow> (f, Some bytes) \<in> set steps \<Longrightarrow> files' f = FileContents bytes"
    "is_ok r \<Longrightarrow> \<forall>bytes. (f, Some bytes) \<notin> set steps \<Longrightarrow> files' f = files f" by blast+
qed

section \<open>A restore only completes what the record names\<close>

lemma manifest_plan_Inr:
  assumes "manifest_plan y held d revision = Inr m"
  shows "m = Some (DocumentManifest_new d revision)
      \<and> (read_manifest y held d = ManifestAbsent \<or> (\<exists>e. read_manifest y held d = ManifestMalformed e))
    \<or> m = None \<and> (\<exists>n. read_manifest y held d = ManifestValid n \<and> dm_revision n = revision)"
  using assms by (auto simp: manifest_plan_def split: manifest_reading.splits if_splits)

lemma read_manifest_Valid:
  "read_manifest y bytes d = ManifestValid n \<Longrightarrow>
     \<exists>b. bytes = Some b \<and> from_manifest (rc_publisher y) b = Inr n \<and> dm_document n = d"
  by (auto simp: read_manifest_def split: option.splits sum.splits json.splits if_splits)


lemma text_in_Some [simp]: "text_in f = Some b \<longleftrightarrow> f = FileContents b"
  by (cases f) auto


lemma restore_runs:
  assumes "restore y lock audit faults after d offer files = (r, files')"
  shows "files' = files \<and> (\<forall>p. r = Inr p \<longrightarrow> already_restored p \<and> (\<exists>held. observe_raw files after = Inr held
            \<and> plan_restore y held d offer = Inr p))
    \<or> (\<exists>held p manifest r' . observe_raw files after = Inr held \<and> plan_restore y held d offer = Inr p
        \<and> transpose_opt (to_canonical_bytes (pretty_manifest (rc_publisher y))) (rsp_manifest p) = Inr manifest
        \<and> write_steps d faults [(payload_file d, rsp_payload p), (manifest_file d, manifest)] False files = (r', files')
        \<and> (is_ok r \<longrightarrow> is_ok r' \<and> r = Inr p))"
  using assms
  by (auto simp: restore_def restore_write_def and_then_def result_simps
      split: if_splits option.splits sum.splits prod.splits)

section \<open>A lost document\<close>

definition example_recovery :: recovery_codec where
  "example_recovery =
     \<lparr> rc_publisher = example_publisher, rc_value = (\<lambda>_. Inr (JObject [])), rc_sanitized = (\<lambda>cause. cause) \<rparr>"

definition example_lost :: target where
  "example_lost f = (if f = TenantsPayload then FileMissing ''no such file'' else example_complete_target f)"

definition example_restored :: "(recovery_error + restore_plan) \<times> target" where
  "example_restored = restore example_recovery None (\<lambda>_. Inr ()) (\<lambda>_. WriteOk)
     (FileContents (''record'' @ [CHR 0x0A])) KindTenants (''tenants'' @ [CHR 0x0A]) example_lost"

lemma example_restored_ok: "is_ok (fst example_restored)"
  by code_simp



text \<open>After a restore that succeeded, whether or not it had to write.\<close>

lemma restored_state:
  assumes run: "restore y lock audit faults after d offer files = (Inr p, files')"
  obtains b rec where "files' RecordFile = FileContents b" "parse_held (rc_publisher y) b = Inr rec"
    "digest_hex (rc_publisher y) offer = rcd_sha256 (recorded_for (pr_documents rec) d)"
    "files' (payload_file d) = FileContents offer"
    "(\<exists>m. files' (manifest_file d) = FileContents m \<and> to_canonical_bytes (pretty_manifest (rc_publisher y))
         (DocumentManifest_new d (rcd_revision (recorded_for (pr_documents rec) d))) = Inr m)
     \<or> (\<exists>m n. files' (manifest_file d) = FileContents m \<and> from_manifest (rc_publisher y) m = Inr n
         \<and> dm_document n = d \<and> dm_revision n = rcd_revision (recorded_for (pr_documents rec) d))"
proof -
  have files: "payload_file d \<noteq> manifest_file d" "RecordFile \<noteq> payload_file d" "RecordFile \<noteq> manifest_file d"
    by (cases d; simp)+
  obtain held manifest where held: "observe_raw files after = Inr held"
    and p: "plan_restore y held d offer = Inr p"
    and manifest: "transpose_opt (to_canonical_bytes (pretty_manifest (rc_publisher y))) (rsp_manifest p) = Inr manifest"
    and state: "files' RecordFile = files RecordFile"
      "rsp_payload p = None \<Longrightarrow> files' (payload_file d) = files (payload_file d)"
      "rsp_payload p = Some offer \<Longrightarrow> files' (payload_file d) = FileContents offer"
      "manifest = None \<Longrightarrow> files' (manifest_file d) = files (manifest_file d)"
      "\<And>m. manifest = Some m \<Longrightarrow> files' (manifest_file d) = FileContents m"
  proof (rule disjE[OF restore_runs[OF run]])
    assume "files' = files \<and> (\<forall>q. Inr p = Inr q \<longrightarrow> already_restored q \<and> (\<exists>held. observe_raw files after = Inr held
        \<and> plan_restore y held d offer = Inr q))"
    then obtain held where "files' = files" "already_restored p" "observe_raw files after = Inr held"
      "plan_restore y held d offer = Inr p" by blast
    then show thesis by (intro that[of held None]) (simp_all add: already_restored_def transpose_opt_def)
  next
    assume "\<exists>held q manifest r'. observe_raw files after = Inr held \<and> plan_restore y held d offer = Inr q
        \<and> transpose_opt (to_canonical_bytes (pretty_manifest (rc_publisher y))) (rsp_manifest q) = Inr manifest
        \<and> write_steps d faults [(payload_file d, rsp_payload q), (manifest_file d, manifest)] False files = (r', files')
        \<and> (is_ok (Inr p) \<longrightarrow> is_ok r' \<and> Inr p = Inr q)"
    then obtain held manifest r' where w: "observe_raw files after = Inr held" "plan_restore y held d offer = Inr p"
      "transpose_opt (to_canonical_bytes (pretty_manifest (rc_publisher y))) (rsp_manifest p) = Inr manifest"
      "write_steps d faults [(payload_file d, rsp_payload p), (manifest_file d, manifest)] False files = (r', files')"
      "is_ok r'" by auto
    have distinct: "distinct (map fst [(payload_file d, rsp_payload p), (manifest_file d, manifest)])"
      using files by simp
    note kept = write_steps_within(1)[OF w(4) distinct, rule_format]
      and put = write_steps_within(2)[OF w(4) distinct w(5)]
    show thesis
      using kept[of RecordFile] kept[of "payload_file d"] kept[of "manifest_file d"]
        put[of "payload_file d" offer] put[of "manifest_file d"] files
      by (intro that[OF w(1-3)]) auto
  qed
  obtain b rec where plan: "ob_record (ho_observation held) = Some b" "parse_held (rc_publisher y) b = Inr rec"
    "digest_hex (rc_publisher y) offer = rcd_sha256 (recorded_for (pr_documents rec) d)"
    "manifest_plan y (od_manifest (observed_for (ho_observation held) d)) d
       (rcd_revision (recorded_for (pr_documents rec) d)) = Inr (rsp_manifest p)"
    "rsp_payload p = None \<and> od_payload (observed_for (ho_observation held) d) = Some offer
     \<or> rsp_payload p = Some offer
       \<and> (\<forall>b. od_payload (observed_for (ho_observation held) d) = Some b \<longrightarrow> \<not> is_ok (parse_payload y b d))"
    by (rule plan_restore_Inr[OF p])
  note at = observe_raw_Inr[OF held]
  show thesis
  proof (rule that[OF _ plan(2,3)])
    show "files' RecordFile = FileContents b" using state(1) plan(1) at(1) by simp
    show "files' (payload_file d) = FileContents offer" using plan(5) at(3) state(2,3) by auto
    show "(\<exists>m. files' (manifest_file d) = FileContents m \<and> to_canonical_bytes (pretty_manifest (rc_publisher y))
           (DocumentManifest_new d (rcd_revision (recorded_for (pr_documents rec) d))) = Inr m)
       \<or> (\<exists>m n. files' (manifest_file d) = FileContents m \<and> from_manifest (rc_publisher y) m = Inr n
           \<and> dm_document n = d \<and> dm_revision n = rcd_revision (recorded_for (pr_documents rec) d))"
    proof (cases "rsp_manifest p")
      case None
      with manifest have "manifest = None" by (simp add: transpose_opt_def)
      with manifest_plan_Inr[OF plan(4)] None at(2) state(4) show ?thesis
        by (auto dest!: read_manifest_Valid)
    next
      case (Some m)
      with manifest manifest_plan_Inr[OF plan(4)] state(5) show ?thesis
        by (auto simp: transpose_opt_def map_ok_Inr)
    qed
  qed
qed

text \<open>
  C30: A restore that succeeds closes every gap of the document: afterwards its manifest and its payload
  are the ones the held record names, so an inspection finds nothing missing in that part.
\<close>

theorem a_restored_document_has_no_gaps:
  assumes reads: "\<forall>m bytes. to_canonical_bytes (pretty_manifest (rc_publisher y)) m = Inr bytes
      \<longrightarrow> from_manifest (rc_publisher y) bytes = Inr m"
    and run: "restore y lock audit faults after d offer files = (Inr p, files')"
  shows "\<exists>b rec. files' RecordFile = FileContents b \<and> parse_held (rc_publisher y) b = Inr rec
    \<and> document_gaps (rc_publisher y) (part_of d) d (observed_at files' d) (recorded_for (pr_documents rec) d) = []"
proof (rule restored_state[OF run])
  fix b :: string and rec :: publication_record
  let ?recorded = "recorded_for (pr_documents rec) d"
  assume b: "files' RecordFile = FileContents b" "parse_held (rc_publisher y) b = Inr rec"
    "digest_hex (rc_publisher y) offer = rcd_sha256 ?recorded" "files' (payload_file d) = FileContents offer"
    and m: "(\<exists>m. files' (manifest_file d) = FileContents m \<and> to_canonical_bytes (pretty_manifest (rc_publisher y))
         (DocumentManifest_new d (rcd_revision ?recorded)) = Inr m)
     \<or> (\<exists>m n. files' (manifest_file d) = FileContents m \<and> from_manifest (rc_publisher y) m = Inr n
         \<and> dm_document n = d \<and> dm_revision n = rcd_revision ?recorded)"
  from m obtain m n where "files' (manifest_file d) = FileContents m" "from_manifest (rc_publisher y) m = Inr n"
    "dm_document n = d" "dm_revision n = rcd_revision ?recorded"
    using reads by (auto simp: DocumentManifest_new_def)
  with b show ?thesis
    by (auto simp: document_gaps_def payload_gap_def observed_at_def)
qed

theorem a_restored_document_has_no_gaps_witness:
  "\<exists>b rec. snd example_restored RecordFile = FileContents b \<and> parse_held example_publisher b = Inr rec
     \<and> document_gaps example_publisher PartTenants KindTenants (observed_at (snd example_restored) KindTenants)
         (rds_tenants (pr_documents rec)) = []"
proof -
  obtain p where "fst example_restored = Inr p"
    using example_restored_ok unfolding is_ok_iff by blast
  then have run: "restore example_recovery None (\<lambda>_. Inr ()) (\<lambda>_. WriteOk) (FileContents (''record'' @ [CHR 0x0A]))
      KindTenants (''tenants'' @ [CHR 0x0A]) example_lost = (Inr p, snd example_restored)"
    by (metis example_restored_def prod.collapse)
  have "\<forall>m bytes. to_canonical_bytes (pretty_manifest (rc_publisher example_recovery)) m = Inr bytes
      \<longrightarrow> from_manifest (rc_publisher example_recovery) bytes = Inr m"
    using example_codecs_agree by (simp add: example_recovery_def codecs_agree_def)
  from a_restored_document_has_no_gaps[OF this run] show ?thesis
    by (simp add: example_recovery_def)
qed

end
