(* ===== verification/Diagnostics.thy ===== *)
theory Diagnostics
  imports Publication_Issuers "HOL-Library.Sublist"
begin

text \<open>
  The text an operator may be shown (\<open>diagnostic.rs\<close>, \<open>diagnostic/redaction.rs\<close> of
  \<open>fabric-platform-management\<close>): what is taken out of a message, and where it is cut.
\<close>

section \<open>Redaction\<close>

definition CREDENTIAL_PREFIXES :: "string list" where
  "CREDENTIAL_PREFIXES =
     [''ghp_'', ''gho_'', ''ghu_'', ''ghs_'', ''ghr_'', ''github_pat_'', ''hvs.'', ''hvb.'']"

definition REDACTED :: string where
  "REDACTED = ''[redacted]''"

definition contains_str :: "string \<Rightarrow> string \<Rightarrow> bool" where
  "contains_str p s \<longleftrightarrow> split_once_str p s \<noteq> None"

text \<open>
  \<open>str::to_lowercase\<close>, as far as a comparison with an ASCII word sees it: ASCII capitals and the
  Kelvin sign become ASCII letters, and nothing else becomes ASCII.
\<close>

definition lowered :: "string \<Rightarrow> string" where
  "lowered s =
     concat (map (\<lambda>seg. if scalar_of seg = 0x212A then ''k'' else map to_ascii_lowercase seg) (segments s))"

definition trim_end_matches :: "char list \<Rightarrow> string \<Rightarrow> string" where
  "trim_end_matches cs s = rev (dropWhile (\<lambda>c. c \<in> set cs) (rev s))"

definition introduces_a_credential :: "string \<Rightarrow> bool" where
  "introduces_a_credential word =
     list_ex (\<lambda>name. trim_end_matches [CHR '':'', CHR ''=''] (lowered word) = name)
       [''bearer'', ''token'', ''password'', ''secret'', ''authorization:'', ''authorization'']"

definition redact_assignment :: "string \<Rightarrow> string" where
  "redact_assignment word =
     (case split_once CHR ''='' word of
        Some (name, _) \<Rightarrow> if introduces_a_credential name then name @ ''='' @ REDACTED else word
      | None \<Rightarrow> word)"

definition redact_word :: "string \<Rightarrow> string" where
  "redact_word word =
     (if list_ex (\<lambda>p. contains_str p word) CREDENTIAL_PREFIXES then REDACTED
      else case split_once CHR ''?'' word of
          Some (kept, _) \<Rightarrow>
            if starts_with ''http://'' word \<or> starts_with ''https://'' word then kept @ ''?'' @ REDACTED
            else redact_assignment word
        | None \<Rightarrow> redact_assignment word)"

fun redact_words :: "bool \<Rightarrow> string list \<Rightarrow> string list" where
  "redact_words previous [] = []"
| "redact_words previous (word # ws) =
     (if previous then REDACTED else redact_word word) # redact_words (introduces_a_credential word) ws"

fun join_spaces :: "string list \<Rightarrow> string" where
  "join_spaces [] = []"
| "join_spaces [w] = w"
| "join_spaces (w # ws) = w @ '' '' @ join_spaces ws"

definition redact :: "string \<Rightarrow> string" where
  "redact s =
     (case split_once_str ''-----BEGIN'' s of
        Some (kept, _) \<Rightarrow> kept @ REDACTED
      | None \<Rightarrow> join_spaces (redact_words False (split_whitespace s)))"

section \<open>The cap\<close>

definition MAX_DIAGNOSTIC :: nat where
  "MAX_DIAGNOSTIC = 200"

definition ELLIPSIS :: string where
  "ELLIPSIS = [CHR 0xE2, CHR 0x80, CHR 0xA6]"

datatype safe_diagnostic = SafeDiagnostic (diagnostic_str: string)

definition sanitise :: "string \<Rightarrow> safe_diagnostic" where
  "sanitise s =
     (let redacted = redact s in
      SafeDiagnostic
        (if length (segments redacted) \<le> MAX_DIAGNOSTIC then redacted
         else concat (take MAX_DIAGNOSTIC (segments redacted)) @ ELLIPSIS))"

section \<open>What is left of a credential\<close>

text \<open>A pattern without a separator that occurs in a joined text occurs in one of its pieces.\<close>

lemma split_once_str_None:
  assumes "p \<noteq> []"
  shows "split_once_str p s = None \<longleftrightarrow> \<not> sublist p s"
proof (induction s)
  case Nil
  then show ?case using assms by simp
next
  case (Cons c s)
  have "take (length p) (c # s) = p \<longleftrightarrow> prefix p (c # s)"
    by (metis append_take_drop_id prefix_def append_eq_conv_conj)
  with Cons show ?case by (simp add: sublist_Cons_right)
qed

lemma contains_str_sublist: "p \<noteq> [] \<Longrightarrow> contains_str p s \<longleftrightarrow> sublist p s"
  by (simp add: contains_str_def split_once_str_None)

lemma sublist_separated:
  assumes "c \<notin> set p" "p \<noteq> []" "sublist p (a @ c # b)"
  shows "sublist p a \<or> sublist p b"
proof -
  have "sublist p a \<or> sublist p (c # b) \<or> (\<exists>x y. p = x @ y \<and> suffix x a \<and> prefix y (c # b))"
    using assms(3) by (simp add: sublist_append)
  moreover have "sublist p (c # b) \<longleftrightarrow> sublist p b"
    using assms(1,2) by (cases p) (auto simp: sublist_Cons_right)
  moreover have "sublist p a" if "p = x @ y" "suffix x a" "prefix y (c # b)" for x y
    using that assms(1) by (cases y) (auto simp: suffix_imp_sublist)
  ultimately show ?thesis by blast
qed

lemma sublist_joined:
  assumes "CHR '' '' \<notin> set p" "p \<noteq> []"
  shows "sublist p (join_spaces ws) \<Longrightarrow> \<exists>w\<in>set ws. sublist p w"
proof (induction ws rule: join_spaces.induct)
  case (3 w v vs)
  then show ?case using sublist_separated[OF assms, of w "join_spaces (v # vs)"] by auto
qed (use assms in simp_all)

lemma credential_prefix:
  assumes "p \<in> set CREDENTIAL_PREFIXES"
  shows "p \<noteq> []" "CHR '' '' \<notin> set p" "CHR ''?'' \<notin> set p" "CHR ''='' \<notin> set p" "CHR ''[''  \<notin> set p"
    "CHR 0xE2 \<notin> set p" "\<not> sublist p REDACTED"
  using assms by (auto simp: CREDENTIAL_PREFIXES_def REDACTED_def sublist_code prefix_code)

lemma redact_word_hides:
  assumes "p \<in> set CREDENTIAL_PREFIXES"
  shows "\<not> sublist p (redact_word w)"
proof (cases "list_ex (\<lambda>p. contains_str p w) CREDENTIAL_PREFIXES")
  case True
  then show ?thesis using credential_prefix(7)[OF assms] by (simp add: redact_word_def)
next
  case False
  then have w: "\<not> sublist p w"
    using assms credential_prefix(1)[OF assms] by (auto simp: list_ex_iff contains_str_sublist)
  have cut: "\<not> sublist p (a @ c # REDACTED)" if "w = a @ c # b" "c \<notin> set p" for a b c
    using sublist_separated[OF that(2) credential_prefix(1)[OF assms], of a REDACTED] w that(1)
      credential_prefix(7)[OF assms] by (meson sublist_append_rightI sublist_order.order_trans)
  have "\<not> sublist p (redact_assignment w)"
    using w cut credential_prefix(4)[OF assms]
    by (auto simp: redact_assignment_def dest!: split_once_Some split: option.splits)
  with False w cut credential_prefix(3)[OF assms] show ?thesis
    by (auto simp: redact_word_def dest!: split_once_Some split: option.splits)
qed

lemma redact_words_hide:
  assumes "p \<in> set CREDENTIAL_PREFIXES" "w \<in> set (redact_words previous ws)"
  shows "\<not> sublist p w"
  using assms(2)
proof (induction ws arbitrary: previous)
  case (Cons v vs)
  then show ?case using redact_word_hides[OF assms(1)] credential_prefix(7)[OF assms(1)]
    by (auto split: if_splits)
qed simp

lemma sanitise_sublist:
  assumes "p \<in> set CREDENTIAL_PREFIXES" "sublist p (diagnostic_str (sanitise s))"
  shows "sublist p (redact s)"
proof (cases "length (segments (redact s)) \<le> MAX_DIAGNOSTIC")
  case True
  then show ?thesis using assms(2) by (simp add: sanitise_def)
next
  case False
  define kept where "kept = concat (take MAX_DIAGNOSTIC (segments (redact s)))"
  have "prefix kept (redact s)"
    unfolding kept_def by (metis concat_append append_take_drop_id concat_segments prefixI)
  from False assms(2) have "sublist p (kept @ CHR 0xE2 # [CHR 0x80, CHR 0xA6])"
    by (simp add: sanitise_def kept_def ELLIPSIS_def)
  then have "sublist p kept \<or> sublist p [CHR 0x80, CHR 0xA6]"
    by (rule sublist_separated[OF credential_prefix(6,1)[OF assms(1)]])
  moreover have "\<not> sublist p [CHR 0x80, CHR 0xA6]"
    using assms(1) by (auto simp: CREDENTIAL_PREFIXES_def sublist_code prefix_code)
  ultimately show ?thesis
    using \<open>prefix kept (redact s)\<close> by (meson prefix_imp_sublist sublist_order.order_trans)
qed

text \<open>
  C38: A message that holds no PEM block is shown without any of the credential shapes the platform
  knows: no text of one of the eight prefixes is left in it, whatever the message was.
\<close>

theorem a_diagnostic_shows_no_credential:
  assumes "\<not> contains_str ''-----BEGIN'' message" "p \<in> set CREDENTIAL_PREFIXES"
  shows "\<not> contains_str p (diagnostic_str (sanitise message))"
proof
  assume "contains_str p (diagnostic_str (sanitise message))"
  then have "sublist p (redact message)"
    using sanitise_sublist[OF assms(2)] credential_prefix(1)[OF assms(2)] by (simp add: contains_str_sublist)
  moreover have "split_once_str ''-----BEGIN'' message = None"
    using assms(1) unfolding contains_str_def by (rule contrapos_np) simp
  ultimately have "sublist p (join_spaces (redact_words False (split_whitespace message)))"
    by (simp add: redact_def)
  then show False
    using sublist_joined credential_prefix(1,2)[OF assms(2)] redact_words_hide[OF assms(2)] by blast
qed

theorem a_diagnostic_shows_no_credential_witness:
  "\<not> contains_str ''ghp_'' (diagnostic_str (sanitise ''refused ghp_a1 at https://h/p?sig=ghp_b2''))"
  by (rule a_diagnostic_shows_no_credential) (simp_all add: contains_str_def CREDENTIAL_PREFIXES_def)

text \<open>
  Text before a PEM block is kept as it is: a credential in front of one is shown.
\<close>

lemma a_credential_before_a_key_is_shown:
  "diagnostic_str (sanitise ''bad token=ghp_a1 -----BEGIN RSA'') = ''bad token=ghp_a1 [redacted]''"
  by code_simp

end
