(* ===== verification/Platform_State.thy ===== *)
theory Platform_State
  imports Placements Diagnostics
begin

text \<open>
  The port an environment's desired state is read and written through (\<open>desired_state/errors.rs\<close>,
  \<open>data_sources/port.rs\<close>, \<open>placements/port.rs\<close>, \<open>binding/repository.rs\<close>) and the late-bound
  repository in front of it (\<open>binding/\<close>): every revision it hands out is tagged with the connection
  it was read under.

  A call on a port changes the world of the port, so an operation of a port is a function from a
  world to a result and a world.
\<close>

section \<open>Errors and revisions\<close>

datatype desired_state_error =
    NotConnected
  | StateNotFound string
  | StateConflict
  | StateUnavailable string
  | StateRefused string

fun state_error_message :: "desired_state_error \<Rightarrow> string" where
  "state_error_message NotConnected = ''no platform repository is connected''"
| "state_error_message (StateNotFound what) = what @ '' is not something this platform describes''"
| "state_error_message StateConflict = ''desired state changed while it was being written''"
| "state_error_message (StateUnavailable detail) = ''desired state is unavailable: '' @ detail"
| "state_error_message (StateRefused detail) = ''desired state refused the change: '' @ detail"

datatype desired_revision = DesiredRevision (revision_text: string)

record data_sources_read =
  dr_revision :: "desired_revision option"
  dr_declarations :: "data_source_declaration list"

record placements_read =
  pr_placed_revision :: "desired_revision option"
  pr_placements :: "placement_record list"

record environment_write =
  ew_declarations :: "data_source_declaration list"
  ew_declarations_at :: "desired_revision option"
  ew_placements :: "placement_record list"
  ew_placements_at :: "desired_revision option"

section \<open>The port\<close>

type_synonym ('e, 'a, 'w) action = "'w \<Rightarrow> ('e + 'a) \<times> 'w"

definition then_do :: "('e, 'a, 'w) action \<Rightarrow> ('a \<Rightarrow> ('e, 'b, 'w) action) \<Rightarrow> ('e, 'b, 'w) action" where
  "then_do m k w = (case m w of (Inl e, w') \<Rightarrow> (Inl e, w') | (Inr a, w') \<Rightarrow> k a w')"

definition answer :: "'e + 'a \<Rightarrow> ('e, 'a, 'w) action" where
  "answer r w = (r, w)"

definition on_error :: "('d \<Rightarrow> 'e) \<Rightarrow> ('d, 'a, 'w) action \<Rightarrow> ('e, 'a, 'w) action" where
  "on_error f m w = (case m w of (r, w') \<Rightarrow> (map_err f r, w'))"

lemma then_do_Inr [result_simps]:
  "then_do m k w = (Inr b, w'') \<longleftrightarrow> (\<exists>a w'. m w = (Inr a, w') \<and> k a w' = (Inr b, w''))"
  by (auto simp: then_do_def split: prod.splits sum.splits)

lemma then_do_Inl [result_simps]:
  "then_do m k w = (Inl e, w'') \<longleftrightarrow> m w = (Inl e, w'') \<or> (\<exists>a w'. m w = (Inr a, w') \<and> k a w' = (Inl e, w''))"
  by (auto simp: then_do_def split: prod.splits sum.splits)

lemma answer_simps [simp]: "answer r w = (r', w') \<longleftrightarrow> r = r' \<and> w = w'"
  by (auto simp: answer_def)

lemma on_error_Inr [result_simps]: "on_error f m w = (Inr a, w') \<longleftrightarrow> m w = (Inr a, w')"
  by (auto simp: on_error_def map_err_def split: prod.splits sum.splits)

lemma on_error_Inl [result_simps]: "on_error f m w = (Inl e, w') \<longleftrightarrow> (\<exists>d. m w = (Inl d, w') \<and> e = f d)"
  by (auto simp: on_error_def map_err_def split: prod.splits sum.splits)

text \<open>
  What every step of an operation keeps, the operation keeps: the rule the invariants are proved with.
\<close>

definition keeps :: "('w \<Rightarrow> bool) \<Rightarrow> ('e, 'a, 'w) action \<Rightarrow> bool" where
  "keeps I m \<longleftrightarrow> (\<forall>w. I w \<longrightarrow> I (snd (m w)))"

lemma keeps_then_do:
  assumes "keeps I m" "\<And>a. keeps I (k a)"
  shows "keeps I (then_do m k)"
  using assms by (fastforce simp: keeps_def then_do_def split: prod.splits sum.splits)

lemma keeps_answer [simp]: "keeps I (answer r)"
  by (simp add: keeps_def answer_def)

lemma keeps_on_error [simp]: "keeps I (on_error f m) = keeps I m"
  by (simp add: keeps_def on_error_def case_prod_unfold)

record 'w platform_port =
  port_read_data_sources :: "string \<Rightarrow> (desired_state_error, data_sources_read, 'w) action"
  port_write_data_sources ::
    "string \<Rightarrow> data_source_declaration list \<Rightarrow> desired_revision option \<Rightarrow> string
       \<Rightarrow> (desired_state_error, unit, 'w) action"
  port_read_placements :: "string \<Rightarrow> (desired_state_error, placements_read, 'w) action"
  port_write_placements ::
    "string \<Rightarrow> placement_record list \<Rightarrow> desired_revision option \<Rightarrow> string
       \<Rightarrow> (desired_state_error, unit, 'w) action"
  port_write_environment :: "string \<Rightarrow> environment_write \<Rightarrow> string \<Rightarrow> (desired_state_error, unit, 'w) action"

section \<open>Generation tags\<close>

text \<open>\<open>str::parse::<u64>\<close>, as \<open>parse_u32\<close> at its width.\<close>

definition parse_u64 :: "string \<Rightarrow> u64 option" where
  "parse_u64 s =
     (let digits = (case s of c # r \<Rightarrow> if c = CHR ''+'' then r else s | [] \<Rightarrow> [])
      in if digits = [] then None
         else case parse_digits 0 digits of
                None \<Rightarrow> None
              | Some n \<Rightarrow> if n < 2 ^ 64 then Some (of_nat n) else None)"

definition tag :: "u64 \<Rightarrow> desired_revision \<Rightarrow> desired_revision" where
  "tag generation r = DesiredRevision (show_nat (unat generation) @ CHR '':'' # revision_text r)"

definition untag :: "u64 \<Rightarrow> desired_revision \<Rightarrow> desired_state_error + desired_revision" where
  "untag generation r =
     (case split_once CHR '':'' (revision_text r) of
        None \<Rightarrow> Inl StateConflict
      | Some (tagged, revision) \<Rightarrow>
          if parse_u64 tagged \<noteq> Some generation then Inl StateConflict else Inr (DesiredRevision revision))"

definition ABSENT :: string where
  "ABSENT = ''absent''"

definition PRESENT :: string where
  "PRESENT = ''present:''"

definition tag_presence :: "u64 \<Rightarrow> desired_revision option \<Rightarrow> desired_revision" where
  "tag_presence generation revision =
     (let payload = (case revision of None \<Rightarrow> ABSENT | Some r \<Rightarrow> PRESENT @ revision_text r) in
      DesiredRevision (show_nat (unat generation) @ CHR '':'' # payload))"

definition untag_presence :: "u64 \<Rightarrow> desired_revision \<Rightarrow> desired_state_error + desired_revision option" where
  "untag_presence generation r =
     (case split_once CHR '':'' (revision_text r) of
        None \<Rightarrow> Inl StateConflict
      | Some (tagged, payload) \<Rightarrow>
          if parse_u64 tagged \<noteq> Some generation then Inl StateConflict
          else if payload = ABSENT then Inr None
          else (case strip_prefix PRESENT payload of
                  Some revision \<Rightarrow> Inr (Some (DesiredRevision revision))
                | None \<Rightarrow> Inl StateConflict))"

section \<open>The late-bound repository\<close>

datatype 'w bound = BoundNothing | BoundRepository "'w platform_port" | BoundUnusable string

record 'w live =
  live_generation :: u64
  live_bound :: "'w bound"

definition live_unconnected :: "'w live" where
  "live_unconnected = \<lparr> live_generation = 0, live_bound = BoundNothing \<rparr>"

definition replace_bound :: "'w bound \<Rightarrow> 'w live \<Rightarrow> 'w live" where
  "replace_bound b l = \<lparr> live_generation = live_generation l + 1, live_bound = b \<rparr>"

definition bound_repository :: "'w live \<Rightarrow> desired_state_error + 'w platform_port" where
  "bound_repository l =
     (case live_bound l of
        BoundNothing \<Rightarrow> Inl NotConnected
      | BoundRepository p \<Rightarrow> Inr p
      | BoundUnusable detail \<Rightarrow> Inl (StateUnavailable detail))"

definition is_connected :: "'w live \<Rightarrow> bool" where
  "is_connected l = is_ok (bound_repository l)"
text \<open>Connecting, refusing a configuration and disconnecting: each starts a new generation.\<close>

definition connect_live :: "'w platform_port \<Rightarrow> 'w live \<Rightarrow> 'w live" where
  "connect_live p = replace_bound (BoundRepository p)"

definition unusable_live :: "string \<Rightarrow> 'w live \<Rightarrow> 'w live" where
  "unusable_live detail = replace_bound (BoundUnusable (diagnostic_str (sanitise detail)))"

definition disconnect_live :: "'w live \<Rightarrow> 'w live" where
  "disconnect_live = replace_bound BoundNothing"

text \<open>
  An operation holds the connection it started on for as long as it runs, so what is bound does
  not move under it. The world of the binding is what is bound, and the world of the repositories.
  The operation runs in a task of its own, which may end without an answer when it panics or the
  runtime shuts down: \<open>lost w = Some w'\<close> says that a task started in \<open>w\<close> ends so and leaves \<open>w'\<close>.
\<close>

definition NO_ANSWER :: desired_state_error where
  "NO_ANSWER = StateUnavailable ''the platform operation ended without an answer''"

definition through :: "('w \<Rightarrow> 'w option) \<Rightarrow> ('w platform_port \<Rightarrow> (desired_state_error, 'a, 'w) action)
    \<Rightarrow> (desired_state_error, 'a, 'w live \<times> 'w) action" where
  "through lost f lw =
     (case bound_repository (fst lw) of
        Inl e \<Rightarrow> (Inl e, lw)
      | Inr p \<Rightarrow>
          (case lost (snd lw) of
             Some w' \<Rightarrow> (Inl NO_ANSWER, (fst lw, w'))
           | None \<Rightarrow> (case f p (snd lw) of (r, w') \<Rightarrow> (r, (fst lw, w')))))"

definition bound_read_data_sources :: "('w \<Rightarrow> 'w option) \<Rightarrow> string \<Rightarrow> (desired_state_error, data_sources_read, 'w live \<times> 'w) action" where
  "bound_read_data_sources lost env lw =
     (case through lost (\<lambda>p. port_read_data_sources p env) lw of (r, lw') \<Rightarrow>
        (map_ok (\<lambda>rd. rd\<lparr>dr_revision := Some (tag_presence (live_generation (fst lw)) (dr_revision rd))\<rparr>) r, lw'))"

definition bound_read_placements :: "('w \<Rightarrow> 'w option) \<Rightarrow> string \<Rightarrow> (desired_state_error, placements_read, 'w live \<times> 'w) action" where
  "bound_read_placements lost env lw =
     (case through lost (\<lambda>p. port_read_placements p env) lw of (r, lw') \<Rightarrow>
        (map_ok (\<lambda>rd. rd\<lparr>pr_placed_revision :=
           Some (tag_presence (live_generation (fst lw)) (pr_placed_revision rd))\<rparr>) r, lw'))"

text \<open>A revision a caller sends back: present, and of the connection that is live now.\<close>

definition checked_at :: "'w live \<Rightarrow> desired_revision option \<Rightarrow> desired_state_error + desired_revision option" where
  "checked_at l token = rbind (ok_or StateConflict token) (untag_presence (live_generation l))"

definition bound_write_data_sources ::
  "('w \<Rightarrow> 'w option) \<Rightarrow> string \<Rightarrow> data_source_declaration list \<Rightarrow> desired_revision option \<Rightarrow> string
     \<Rightarrow> (desired_state_error, unit, 'w live \<times> 'w) action" where
  "bound_write_data_sources lost env declarations token message lw =
     (case rbind (bound_repository (fst lw)) (\<lambda>p. checked_at (fst lw) token) of
        Inl e \<Rightarrow> (Inl e, lw)
      | Inr token' \<Rightarrow> through lost (\<lambda>p. port_write_data_sources p env declarations token' message) lw)"

definition bound_write_placements ::
  "('w \<Rightarrow> 'w option) \<Rightarrow> string \<Rightarrow> placement_record list \<Rightarrow> desired_revision option \<Rightarrow> string
     \<Rightarrow> (desired_state_error, unit, 'w live \<times> 'w) action" where
  "bound_write_placements lost env placements token message lw =
     (case rbind (bound_repository (fst lw)) (\<lambda>p. checked_at (fst lw) token) of
        Inl e \<Rightarrow> (Inl e, lw)
      | Inr token' \<Rightarrow> through lost (\<lambda>p. port_write_placements p env placements token' message) lw)"

definition bound_write_environment ::
  "('w \<Rightarrow> 'w option) \<Rightarrow> string \<Rightarrow> environment_write \<Rightarrow> string \<Rightarrow> (desired_state_error, unit, 'w live \<times> 'w) action" where
  "bound_write_environment lost env wr message lw =
     (case rbind (bound_repository (fst lw)) (\<lambda>p.
             rbind (checked_at (fst lw) (ew_declarations_at wr)) (\<lambda>declarations_at.
             rbind (checked_at (fst lw) (ew_placements_at wr)) (\<lambda>placements_at.
               Inr (wr\<lparr>ew_declarations_at := declarations_at, ew_placements_at := placements_at\<rparr>)))) of
        Inl e \<Rightarrow> (Inl e, lw)
      | Inr wr' \<Rightarrow> through lost (\<lambda>p. port_write_environment p env wr' message) lw)"

definition bound_port :: "('w \<Rightarrow> 'w option) \<Rightarrow> ('w live \<times> 'w) platform_port" where
  "bound_port lost =
     \<lparr> port_read_data_sources = bound_read_data_sources lost, port_write_data_sources = bound_write_data_sources lost,
       port_read_placements = bound_read_placements lost, port_write_placements = bound_write_placements lost,
       port_write_environment = bound_write_environment lost \<rparr>"

section \<open>A revision belongs to one connection\<close>

lemma show_nat_digits: "\<forall>c\<in>set (show_nat n). is_ascii_digit (byte c)"
proof (induction n rule: show_nat.induct)
  case (1 n)
  then show ?case
    by (subst show_nat.simps) (auto simp: byte_char_of is_ascii_digit_def)
qed

lemma show_nat_no_colon: "CHR '':'' \<notin> set (show_nat n)"
  using show_nat_digits[of n] by (auto simp: is_ascii_digit_def byte_def)

lemma split_at_first: "d \<notin> set a \<Longrightarrow> split_once d (a @ d # b) = Some (a, b)"
  by (induction a) auto

lemma parse_u64_show: "parse_u64 (show_nat (unat (w :: u64))) = Some w"
proof -
  obtain c r where c: "show_nat (unat w) = c # r" "is_ascii_digit (byte c)"
    using show_nat_digit by blast
  then have "c \<noteq> CHR ''+''" by (auto simp: is_ascii_digit_def byte_def)
  moreover obtain k where "parse_digits 0 (show_nat (unat w)) = Some (10 ^ k * 0 + unat w)"
    using parse_digits_show by blast
  ultimately show ?thesis
    using c unsigned_less[of w] by (simp add: parse_u64_def)
qed

lemma untag_tag: "untag g (tag g' r) = (if g = g' then Inr r else Inl StateConflict)"
  by (cases r) (auto simp: untag_def tag_def split_at_first show_nat_no_colon parse_u64_show)

lemma untag_presence_tag:
  "untag_presence g (tag_presence g' r) = (if g = g' then Inr r else Inl StateConflict)"
proof (cases r)
  case None
  then show ?thesis
    by (auto simp: untag_presence_def tag_presence_def split_at_first show_nat_no_colon parse_u64_show Let_def)
next
  case (Some v)
  have "PRESENT @ revision_text v \<noteq> ABSENT" by (simp add: PRESENT_def ABSENT_def)
  moreover have "strip_prefix PRESENT (PRESENT @ revision_text v) = Some (revision_text v)"
    by (simp add: strip_prefix_def)
  ultimately show ?thesis using Some
    by (auto simp: untag_presence_def tag_presence_def split_at_first show_nat_no_colon parse_u64_show Let_def)
qed

text \<open>After any number of reconnections short of a whole turn of the counter, the generation differs.\<close>

inductive reconnected :: "nat \<Rightarrow> 'w live \<Rightarrow> 'w live \<Rightarrow> bool" where
  same: "reconnected 0 l l"
| swap: "reconnected n l l' \<Longrightarrow> reconnected (Suc n) l (replace_bound b l')"

lemma reconnected_generation: "reconnected n l l' \<Longrightarrow> live_generation l' = live_generation l + of_nat n"
  by (induction rule: reconnected.induct) (simp_all add: replace_bound_def)

lemma reconnected_differs:
  assumes "reconnected n l l'" "0 < n" "n < 2 ^ 64"
  shows "live_generation l' \<noteq> live_generation l"
proof -
  have "(of_nat n :: u64) \<noteq> 0" using assms(2,3) by (simp add: of_nat_eq_0_iff word_of_nat_eq_0_iff nat_dvd_not_less)
  then show ?thesis using reconnected_generation[OF assms(1)] by simp
qed
lemma checked_at_tagged:
  "checked_at l (Some (tag_presence g r)) = (if live_generation l = g then Inr r else Inl StateConflict)"
  by (simp add: checked_at_def untag_presence_tag)

lemma bound_read_placements_Inr:
  assumes "bound_read_placements lost env (l, w) = (Inr rd, lw)"
  obtains p rp w' where "live_bound l = BoundRepository p" "port_read_placements p env w = (Inr rp, w')"
    "rd = rp\<lparr>pr_placed_revision := Some (tag_presence (live_generation l) (pr_placed_revision rp))\<rparr>" "lw = (l, w')"
  using assms
  by (auto simp: bound_read_placements_def through_def bound_repository_def result_simps
      split: prod.splits sum.splits bound.splits option.splits)

lemma bound_read_data_sources_Inr:
  assumes "bound_read_data_sources lost env (l, w) = (Inr rd, lw)"
  obtains p rp w' where "live_bound l = BoundRepository p" "port_read_data_sources p env w = (Inr rp, w')"
    "rd = rp\<lparr>dr_revision := Some (tag_presence (live_generation l) (dr_revision rp))\<rparr>" "lw = (l, w')"
  using assms
  by (auto simp: bound_read_data_sources_def through_def bound_repository_def result_simps
      split: prod.splits sum.splits bound.splits option.splits)

text \<open>Whatever revision a read hands out, of the data sources or of the placements.\<close>

inductive handed_out :: "('w \<Rightarrow> 'w option) \<Rightarrow> 'w live \<Rightarrow> desired_revision option \<Rightarrow> bool"
  for lost :: "'w \<Rightarrow> 'w option" and l :: "'w live" where
  with_placements:
    "bound_read_placements lost env (l, w) = (Inr rd, lw) \<Longrightarrow> handed_out lost l (pr_placed_revision rd)"
| with_data_sources:
    "bound_read_data_sources lost env (l, w) = (Inr ds, lw) \<Longrightarrow> handed_out lost l (dr_revision ds)"

lemma handed_out_tagged:
  assumes "handed_out lost l token"
  obtains r where "token = Some (tag_presence (live_generation l) r)"
  using assms
proof cases
  case (with_placements env w rd lw)
  from with_placements(2) show thesis
    by (rule bound_read_placements_Inr) (use with_placements(1) in \<open>auto intro: that\<close>)
next
  case (with_data_sources env w ds lw)
  from with_data_sources(2) show thesis
    by (rule bound_read_data_sources_Inr) (use with_data_sources(1) in \<open>auto intro: that\<close>)
qed

lemma handed_out_stale:
  assumes "handed_out lost l token" "reconnected n l l'" "0 < n" "n < 2 ^ 64"
  shows "checked_at l' token = Inl StateConflict"
proof -
  obtain r where "token = Some (tag_presence (live_generation l) r)"
    by (rule handed_out_tagged[OF assms(1)])
  then show ?thesis using reconnected_differs[OF assms(2-4)] by (simp add: checked_at_tagged)
qed

lemma checked_at_Inl: "checked_at l token = Inl e \<Longrightarrow> e = StateConflict"
  by (auto simp: checked_at_def untag_presence_def rbind_Inl ok_or_def split: option.splits if_splits)

text \<open>
  A write refused with what is bound and the repositories' world as they were: for want of a
  connection, for an unusable configuration, or else as a conflict.
\<close>

definition refused_unasked :: "'w live \<Rightarrow> 'w \<Rightarrow> (desired_state_error + 'a) \<times> ('w live \<times> 'w) \<Rightarrow> bool" where
  "refused_unasked l w result =
     (result = (Inl (case live_bound l of
         BoundNothing \<Rightarrow> NotConnected | BoundUnusable detail \<Rightarrow> StateUnavailable detail
       | BoundRepository p \<Rightarrow> StateConflict), (l, w)))"

lemma bound_write_environment_refused:
  assumes "checked_at l (ew_declarations_at wr) = Inl StateConflict
    \<or> checked_at l (ew_placements_at wr) = Inl StateConflict"
  shows "refused_unasked l w (bound_write_environment lost env wr message (l, w))"
  using assms checked_at_Inl
  by (auto simp: bound_write_environment_def refused_unasked_def bound_repository_def rbind_def
      split: sum.splits bound.splits)

text \<open>
  C34: A revision read through one connection writes through no later one. After any number of
  reconnections (up to a whole turn of the 64-bit counter), every write that carries a revision read
  before them, be it of the placements or of the data sources, is refused: the write of the data
  sources, the write of the placements, and the write of both in which either revision is that one. It
  is a conflict if a repository is connected, and no repository is called.
\<close>

theorem a_revision_is_good_for_one_connection:
  assumes "handed_out lost l token" "reconnected n l l'" "0 < n" "n < 2 ^ 64"
  shows "refused_unasked l' w (port_write_data_sources (bound_port lost) env ds token message (l', w))
    \<and> refused_unasked l' w (port_write_placements (bound_port lost) env ps token message (l', w))
    \<and> (ew_declarations_at wr = token \<or> ew_placements_at wr = token \<longrightarrow>
        refused_unasked l' w (port_write_environment (bound_port lost) env wr message (l', w)))"
proof -
  note stale = handed_out_stale[OF assms]
  have "refused_unasked l' w (bound_write_data_sources lost env ds token message (l', w))"
    "refused_unasked l' w (bound_write_placements lost env ps token message (l', w))"
    by (simp_all add: bound_write_data_sources_def bound_write_placements_def refused_unasked_def
        bound_repository_def stale rbind_def split: bound.split)
  moreover have "refused_unasked l' w (bound_write_environment lost env wr message (l', w))"
    if "ew_declarations_at wr = token \<or> ew_placements_at wr = token"
    using that stale by (intro bound_write_environment_refused) auto
  ultimately show ?thesis by (simp add: bound_port_def)
qed

text \<open>A port that holds one placements document at one revision, for evaluating the binding.\<close>

definition example_port :: "unit platform_port" where
  "example_port =
     \<lparr> port_read_data_sources = (\<lambda>_. answer (Inr \<lparr> dr_revision = None, dr_declarations = [] \<rparr>)),
       port_write_data_sources = (\<lambda>_ _ _ _. answer (Inr ())),
       port_read_placements = (\<lambda>_. answer (Inr \<lparr> pr_placed_revision = Some (DesiredRevision ''9fc1''), pr_placements = [] \<rparr>)),
       port_write_placements = (\<lambda>_ _ _ _. answer (Inr ())),
       port_write_environment = (\<lambda>_ _ _. answer (Inr ())) \<rparr>"

definition example_token :: desired_revision where
  "example_token = tag_presence 1 (Some (DesiredRevision ''9fc1''))"

definition example_write :: environment_write where
  "example_write =
     \<lparr> ew_declarations = [], ew_declarations_at = Some (tag_presence 1 None),
       ew_placements = [], ew_placements_at = Some example_token \<rparr>"

definition example_live :: "unit live" where
  "example_live = connect_live example_port live_unconnected"

theorem a_revision_is_good_for_one_connection_witness:
  "(\<exists>e. port_write_environment (bound_port (\<lambda>_. None)) ''dev'' example_write ''m''
        (connect_live example_port example_live, ())
      = (Inl e, (connect_live example_port example_live, ())))
   \<and> port_write_environment (bound_port (\<lambda>_. None)) ''dev'' example_write ''m'' (example_live, ())
      = (Inr (), (example_live, ()))"
proof
  have live: "live_generation example_live = 1" "bound_repository example_live = Inr example_port"
    by (simp_all add: example_live_def connect_live_def replace_bound_def live_unconnected_def bound_repository_def)
  have "bound_read_placements (\<lambda>_. None) ''dev'' (example_live, ())
      = (Inr \<lparr> pr_placed_revision = Some example_token, pr_placements = [] \<rparr>, (example_live, ()))"
    by (simp add: bound_read_placements_def through_def live example_port_def answer_def example_token_def)
  from handed_out.with_placements[OF this]
  have handed: "handed_out (\<lambda>_. None) example_live (Some example_token)" by simp
  have swapped: "reconnected (Suc 0) example_live (connect_live example_port example_live)"
    using reconnected.swap[OF reconnected.same] by (simp add: connect_live_def)
  have "ew_placements_at example_write = Some example_token" by (simp add: example_write_def)
  with a_revision_is_good_for_one_connection[OF handed swapped, of "()" "''dev''" _ "''m''" _ example_write]
  have "refused_unasked (connect_live example_port example_live) ()
      (port_write_environment (bound_port (\<lambda>_. None)) ''dev'' example_write ''m''
        (connect_live example_port example_live, ()))" by simp
  then show "\<exists>e. port_write_environment (bound_port (\<lambda>_. None)) ''dev'' example_write ''m''
        (connect_live example_port example_live, ())
      = (Inl e, (connect_live example_port example_live, ()))"
    unfolding refused_unasked_def by blast
  show "port_write_environment (bound_port (\<lambda>_. None)) ''dev'' example_write ''m'' (example_live, ())
      = (Inr (), (example_live, ()))"
    by (simp add: bound_port_def bound_write_environment_def through_def live example_write_def checked_at_tagged
        example_token_def example_port_def answer_def)
qed

end
