(* ===== verification/Environments.thy ===== *)
theory Environments
  imports Platform_State
begin

text \<open>
  The services over an environment's declared data sources and recorded placements
  (\<open>data_sources/service.rs\<close>, \<open>service/published.rs\<close>, \<open>service/remove.rs\<close>,
  \<open>placements/service.rs\<close>, \<open>service/for_client.rs\<close>, \<open>service/stamp.rs\<close>, \<open>outcome.rs\<close>) over a
  port whose repository other writers use at the same time.
\<close>

section \<open>Errors\<close>

datatype registry_error = RegistryUnavailable string | RegistryRefused string | RegistryDenied string

datatype platform_error =
    PlatformState desired_state_error
  | PlatformRegistry registry_error
  | NotAdvancing string
  | NotRollable string string
  | PlatformBelowFloor string string string
  | InvalidDataSource data_source_rule
  | InvalidHeldDataSources string
  | PlacementRefused placement_refusal
  | InvalidHeldPlacements string
  | DataSourceInUse data_source_id "tenant_id list"
  | PublishedStateUnreadable

definition held_sources :: "data_source_declaration list \<Rightarrow> platform_error + unit" where
  "held_sources ds = map_err (\<lambda>e. InvalidHeldDataSources (held_sources_detail e)) (check_held ds)"

definition held_placements ::
  "rfc3339 \<Rightarrow> placement_record list \<Rightarrow> data_source_declaration list \<Rightarrow> platform_error + unit" where
  "held_placements t ps ds = map_err (\<lambda>e. InvalidHeldPlacements (held_placements_detail e)) (check_held_placements t ps ds)"

section \<open>Declaring\<close>

datatype declared = DeclaredWritten data_sources_read | DeclaredUnchanged data_sources_read

definition list_data_sources :: "'w platform_port \<Rightarrow> string \<Rightarrow> (platform_error, data_sources_read, 'w) action" where
  "list_data_sources port env =
     then_do (on_error PlatformState (port_read_data_sources port env)) (\<lambda>rd.
     then_do (answer (held_sources (dr_declarations rd))) (\<lambda>_.
       answer (Inr rd)))"

text \<open>
  What the publication target answers for an id: \<open>target\<close> is \<open>None\<close> where the service has no target,
  and otherwise the result of its \<open>published_resources\<close>.
\<close>

definition published_revision_of ::
  "(publication_error + published_resources) option \<Rightarrow> data_source_id
     \<Rightarrow> platform_error + published_revision option" where
  "published_revision_of target i =
     (case target of
        None \<Rightarrow> Inr None
      | Some resources \<Rightarrow>
          map_ok (\<lambda>res. map_option (\<lambda>revision.
              \<lparr> pr_revision = revision, pr_current = list_ex (\<lambda>d. ds_id d = i) (pub_data_sources res) \<rparr>)
              (map_of (rh_data_sources (pub_history res)) i))
            (map_err (\<lambda>_. PublishedStateUnreadable) resources))"

definition declare_message :: "data_source_declaration list \<Rightarrow> data_source_id \<Rightarrow> string \<Rightarrow> string" where
  "declare_message held i env =
     (if list_ex (\<lambda>d. ds_id d = i) held then ''Correct '' else ''Declare '') @ data_source_str i @ '' in '' @ env"

definition declare_data_source ::
  "'w platform_port \<Rightarrow> (publication_error + published_resources) option \<Rightarrow> string
     \<Rightarrow> data_source_declaration \<Rightarrow> desired_revision option \<Rightarrow> (platform_error, declared, 'w) action" where
  "declare_data_source port target env declaration token =
     then_do (answer (map_err InvalidDataSource (validate_declaration declaration))) (\<lambda>_.
     then_do (on_error PlatformState (port_read_data_sources port env)) (\<lambda>held.
     then_do (answer (held_sources (dr_declarations held))) (\<lambda>_.
       if token \<noteq> dr_revision held then answer (Inl (PlatformState StateConflict))
       else
         then_do (answer (published_revision_of target (ds_id declaration))) (\<lambda>published.
           case plan_declaration (dr_declarations held) declaration published of
             PlanUnchanged \<Rightarrow> answer (Inr (DeclaredUnchanged held))
           | PlanWrite declarations \<Rightarrow>
               then_do (on_error PlatformState (port_write_data_sources port env declarations token
                 (declare_message (dr_declarations held) (ds_id declaration) env))) (\<lambda>_.
               then_do (on_error PlatformState (port_read_data_sources port env)) (\<lambda>rd.
                 answer (Inr (DeclaredWritten rd))))))))"

section \<open>Removing\<close>

definition tenants_on :: "placement_record list \<Rightarrow> data_source_id \<Rightarrow> tenant_id list" where
  "tenants_on ps i = sort (remdups (map pl_tenant (filter (\<lambda>p. pl_data_source p = i) ps)))"

definition remove_message :: "data_source_id \<Rightarrow> string \<Rightarrow> string" where
  "remove_message i env = ''Remove '' @ data_source_str i @ '' from '' @ env"

definition remove_data_source ::
  "rfc3339 \<Rightarrow> 'w platform_port \<Rightarrow> string \<Rightarrow> data_source_id \<Rightarrow> desired_revision option
     \<Rightarrow> (platform_error, declared, 'w) action" where
  "remove_data_source t port env i token =
     then_do (on_error PlatformState (port_read_data_sources port env)) (\<lambda>held.
     then_do (answer (held_sources (dr_declarations held))) (\<lambda>_.
       if token \<noteq> dr_revision held then answer (Inl (PlatformState StateConflict))
       else
         then_do (on_error PlatformState (port_read_placements port env)) (\<lambda>placed.
         then_do (answer (held_placements t (pr_placements placed) (dr_declarations held))) (\<lambda>_.
           if tenants_on (pr_placements placed) i \<noteq> []
           then answer (Inl (DataSourceInUse i (tenants_on (pr_placements placed) i)))
           else if \<not> list_ex (\<lambda>d. ds_id d = i) (dr_declarations held)
           then answer (Inr (DeclaredUnchanged held))
           else
             then_do (on_error PlatformState (port_write_environment port env
               \<lparr> ew_declarations = filter (\<lambda>d. ds_id d \<noteq> i) (dr_declarations held), ew_declarations_at = token,
                 ew_placements = pr_placements placed, ew_placements_at = pr_placed_revision placed \<rparr>
               (remove_message i env))) (\<lambda>_.
             then_do (on_error PlatformState (port_read_data_sources port env)) (\<lambda>rd.
               answer (Inr (DeclaredWritten rd))))))))"

section \<open>Placing\<close>

definition placed_stamp :: "rfc3339 \<Rightarrow> u64 \<Rightarrow> desired_state_error + string" where
  "placed_stamp t now_unix_seconds =
     ok_or (StateUnavailable (''the clock'' @ [CHR 0x27] @ ''s time could not be formatted as RFC 3339''))
       (rfc_stamp t (min (uint now_unix_seconds) (2 ^ 63 - 1)))"

definition place_message :: "placement_record \<Rightarrow> string \<Rightarrow> string" where
  "place_message p env =
     ''Place '' @ tenant_str (pl_tenant p) @ '' '' @ logical_source_str (pl_logical p) @ '' on ''
     @ data_source_str (pl_data_source p) @ '' in '' @ env"

definition place_client ::
  "rfc3339 \<Rightarrow> 'w platform_port \<Rightarrow> u64 \<Rightarrow> string \<Rightarrow> string \<Rightarrow> logical_data_source_name \<Rightarrow> data_intent
     \<Rightarrow> desired_revision option \<Rightarrow> (platform_error, placements_read, 'w) action" where
  "place_client t port now_unix_seconds env client logical intent token =
     then_do (answer (map_err PlacementRefused (client_tenant_id client))) (\<lambda>tenant.
     then_do (on_error PlatformState (port_read_placements port env)) (\<lambda>held.
       if token \<noteq> pr_placed_revision held then answer (Inl (PlatformState StateConflict))
       else
         then_do (on_error PlatformState (port_read_data_sources port env)) (\<lambda>sources.
         then_do (answer (held_sources (dr_declarations sources))) (\<lambda>_.
         then_do (answer (held_placements t (pr_placements held) (dr_declarations sources))) (\<lambda>_.
         then_do (answer (map_err PlatformState (placed_stamp t now_unix_seconds))) (\<lambda>now.
         then_do (answer (map_err PlacementRefused
             (select intent tenant logical (dr_declarations sources) (pr_placements held) now))) (\<lambda>p.
         then_do (on_error PlatformState (port_write_environment port env
             \<lparr> ew_declarations = dr_declarations sources, ew_declarations_at = dr_revision sources,
               ew_placements = sort_placements (pr_placements held @ [p]), ew_placements_at = token \<rparr>
             (place_message p env))) (\<lambda>_.
           on_error PlatformState (port_read_placements port env)))))))))"

section \<open>What a client would get\<close>

datatype placement_outcome = OutcomePlaced placement_record | OutcomePlaceable | OutcomeRefused placement_refusal

record client_placements =
  cp_revision :: "desired_revision option"
  cp_entries :: "(logical_data_source_name \<times> placement_outcome) list"
  cp_bound :: "logical_data_source_name list"

definition outcome_of ::
  "tenant_id \<Rightarrow> data_source_declaration list \<Rightarrow> placement_record list \<Rightarrow> string
     \<Rightarrow> logical_data_source_name \<Rightarrow> data_intent \<Rightarrow> placement_outcome" where
  "outcome_of tenant declared held now logical intent =
     (case List.find (\<lambda>p. pl_tenant p = tenant \<and> pl_logical p = logical) held of
        Some existing \<Rightarrow> OutcomePlaced existing
      | None \<Rightarrow> (case select intent tenant logical declared held now of
            Inr _ \<Rightarrow> OutcomePlaceable
          | Inl e \<Rightarrow> OutcomeRefused e))"

definition for_client ::
  "rfc3339 \<Rightarrow> 'w platform_port \<Rightarrow> u64 \<Rightarrow> string \<Rightarrow> string \<Rightarrow> (logical_data_source_name \<times> data_intent) list
     \<Rightarrow> (platform_error, client_placements, 'w) action" where
  "for_client t port now_unix_seconds env client intents =
     then_do (answer (map_err PlacementRefused (client_tenant_id client))) (\<lambda>tenant.
     then_do (on_error PlatformState (port_read_data_sources port env)) (\<lambda>sources.
     then_do (answer (held_sources (dr_declarations sources))) (\<lambda>_.
     then_do (on_error PlatformState (port_read_placements port env)) (\<lambda>held.
     then_do (answer (held_placements t (pr_placements held) (dr_declarations sources))) (\<lambda>_.
     then_do (answer (map_err PlatformState (placed_stamp t now_unix_seconds))) (\<lambda>now.
       answer (Inr
         \<lparr> cp_revision = pr_placed_revision held,
           cp_entries = map (\<lambda>(logical, intent).
             (logical, outcome_of tenant (dr_declarations sources) (pr_placements held) now logical intent)) intents,
           cp_bound = sort (remdups (map pl_logical
             (filter (\<lambda>p. pl_tenant p = tenant) (pr_placements held)))) \<rparr>)))))))"
section \<open>A repository shared with other writers\<close>

text \<open>
  \<open>docs\<close> is what a world's repository holds for an environment, \<open>others\<close> what other writers may do
  between two of a service's calls. A port is faithful to them when a read answers what was held at
  one instant of it, and a
  write that succeeds replaced, at one instant, documents that were at the revisions it named; a
  write that fails may have been applied all the same. A revision names one content of a document.
\<close>

record environment_documents =
  env_sources :: data_sources_read
  env_placed :: placements_read

definition wrote ::
  "('w \<Rightarrow> string \<Rightarrow> environment_documents) \<Rightarrow> string \<Rightarrow> environment_write \<Rightarrow> 'w \<Rightarrow> 'w \<Rightarrow> bool" where
  "wrote docs env wr w w' \<longleftrightarrow>
     dr_revision (env_sources (docs w env)) = ew_declarations_at wr
     \<and> pr_placed_revision (env_placed (docs w env)) = ew_placements_at wr
     \<and> mset (dr_declarations (env_sources (docs w' env))) = mset (ew_declarations wr)
     \<and> mset (pr_placements (env_placed (docs w' env))) = mset (ew_placements wr)
     \<and> (\<forall>e. e \<noteq> env \<longrightarrow> docs w' e = docs w e)"

definition wrote_sources ::
  "('w \<Rightarrow> string \<Rightarrow> environment_documents) \<Rightarrow> string \<Rightarrow> data_source_declaration list
     \<Rightarrow> desired_revision option \<Rightarrow> 'w \<Rightarrow> 'w \<Rightarrow> bool" where
  "wrote_sources docs env ds token w w' \<longleftrightarrow>
     dr_revision (env_sources (docs w env)) = token
     \<and> mset (dr_declarations (env_sources (docs w' env))) = mset ds
     \<and> env_placed (docs w' env) = env_placed (docs w env)
     \<and> (\<forall>e. e \<noteq> env \<longrightarrow> docs w' e = docs w e)"

definition reads_held :: "'w platform_port \<Rightarrow> ('w \<Rightarrow> string \<Rightarrow> environment_documents) \<Rightarrow> ('w \<Rightarrow> 'w \<Rightarrow> bool) \<Rightarrow> bool" where
  "reads_held port docs others \<longleftrightarrow>
     (\<forall>env w r w'. port_read_data_sources port env w = (r, w') \<longrightarrow>
        others w w' \<and> (\<exists>mid. others w mid \<and> others mid w' \<and> (\<forall>rd. r = Inr rd \<longrightarrow> rd = env_sources (docs mid env))))
     \<and> (\<forall>env w r w'. port_read_placements port env w = (r, w') \<longrightarrow>
        others w w' \<and> (\<exists>mid. others w mid \<and> others mid w' \<and> (\<forall>rd. r = Inr rd \<longrightarrow> rd = env_placed (docs mid env))))"

definition writes_swap :: "'w platform_port \<Rightarrow> ('w \<Rightarrow> string \<Rightarrow> environment_documents) \<Rightarrow> ('w \<Rightarrow> 'w \<Rightarrow> bool) \<Rightarrow> bool" where
  "writes_swap port docs others \<longleftrightarrow>
     (\<forall>env wr message w r w'. port_write_environment port env wr message w = (r, w') \<longrightarrow>
        (\<exists>mid. others w mid \<and> (wrote docs env wr mid w' \<or> (r \<noteq> Inr () \<and> w' = mid))))
     \<and> (\<forall>env ds token message w r w'. port_write_data_sources port env ds token message w = (r, w') \<longrightarrow>
        (\<exists>mid. others w mid \<and> (wrote_sources docs env ds token mid w' \<or> (r \<noteq> Inr () \<and> w' = mid))))"

definition revisions_name_content :: "('w \<Rightarrow> string \<Rightarrow> environment_documents) \<Rightarrow> bool" where
  "revisions_name_content docs \<longleftrightarrow>
     (\<forall>env w w'. pr_placed_revision (env_placed (docs w env)) = pr_placed_revision (env_placed (docs w' env))
        \<longrightarrow> env_placed (docs w env) = env_placed (docs w' env))"

definition faithful_port :: "'w platform_port \<Rightarrow> ('w \<Rightarrow> string \<Rightarrow> environment_documents) \<Rightarrow> ('w \<Rightarrow> 'w \<Rightarrow> bool) \<Rightarrow> bool" where
  "faithful_port port docs others \<longleftrightarrow>
     reads_held port docs others \<and> writes_swap port docs others \<and> revisions_name_content docs"

definition others_keep :: "('w \<Rightarrow> bool) \<Rightarrow> ('w \<Rightarrow> 'w \<Rightarrow> bool) \<Rightarrow> bool" where
  "others_keep I others \<longleftrightarrow> (\<forall>w w'. others w w' \<longrightarrow> I w \<longrightarrow> I w')"

lemma keeps_bind:
  assumes "keeps I m" "\<And>a w w'. m w = (Inr a, w') \<Longrightarrow> keeps I (k a)"
  shows "keeps I (then_do m k)"
  unfolding keeps_def
proof (intro allI impI)
  fix w assume "I w"
  obtain r w' where m: "m w = (r, w')" by (cases "m w")
  with assms(1) \<open>I w\<close> have "I w'" by (fastforce simp: keeps_def)
  then show "I (snd (then_do m k w))"
    using m assms(2)[of w _ w'] by (cases r) (auto simp: then_do_def keeps_def)
qed

lemma keeps_answer_bind:
  assumes "\<And>a. r = Inr a \<Longrightarrow> keeps I (k a)"
  shows "keeps I (then_do (answer r) k)"
  by (rule keeps_bind) (use assms in simp_all)

lemma keeps_read_sources:
  assumes "faithful_port port docs others" "others_keep I others"
  shows "keeps I (on_error f (port_read_data_sources port env))"
  unfolding keeps_on_error unfolding keeps_def
proof (intro allI impI)
  fix w assume "I w"
  obtain r w' where "port_read_data_sources port env w = (r, w')" by fastforce
  moreover from this have "others w w'"
    using assms(1) unfolding faithful_port_def reads_held_def by blast
  ultimately show "I (snd (port_read_data_sources port env w))"
    using assms(2) \<open>I w\<close> by (auto simp: others_keep_def)
qed

lemma keeps_read_sources_bind:
  assumes port: "faithful_port port docs others" "others_keep I others"
    and k: "\<And>w. keeps I (k (env_sources (docs w env)))"
  shows "keeps I (then_do (on_error f (port_read_data_sources port env)) k)"
proof (rule keeps_bind[OF keeps_read_sources[OF port]])
  fix a w w'
  assume "on_error f (port_read_data_sources port env) w = (Inr a, w')"
  then have "port_read_data_sources port env w = (Inr a, w')" by (simp add: result_simps)
  then obtain mid where "a = env_sources (docs mid env)"
    using port(1) unfolding faithful_port_def reads_held_def by blast
  then show "keeps I (k a)" using k by simp
qed

lemma keeps_read_placements:
  assumes "faithful_port port docs others" "others_keep I others"
  shows "keeps I (on_error f (port_read_placements port env))"
  unfolding keeps_on_error unfolding keeps_def
proof (intro allI impI)
  fix w assume "I w"
  obtain r w' where "port_read_placements port env w = (r, w')" by fastforce
  moreover from this have "others w w'"
    using assms(1) unfolding faithful_port_def reads_held_def by blast
  ultimately show "I (snd (port_read_placements port env w))"
    using assms(2) \<open>I w\<close> by (auto simp: others_keep_def)
qed

lemma keeps_read_placements_bind:
  assumes port: "faithful_port port docs others" "others_keep I others"
    and k: "\<And>w. keeps I (k (env_placed (docs w env)))"
  shows "keeps I (then_do (on_error f (port_read_placements port env)) k)"
proof (rule keeps_bind[OF keeps_read_placements[OF port]])
  fix a w w'
  assume "on_error f (port_read_placements port env) w = (Inr a, w')"
  then have "port_read_placements port env w = (Inr a, w')" by (simp add: result_simps)
  then obtain mid where "a = env_placed (docs mid env)"
    using port(1) unfolding faithful_port_def reads_held_def by blast
  then show "keeps I (k a)" using k by simp
qed

lemma keeps_write_environment:
  assumes "faithful_port port docs others" "others_keep I others"
    and "\<And>mid w'. wrote docs env wr mid w' \<Longrightarrow> I mid \<Longrightarrow> I w'"
  shows "keeps I (port_write_environment port env wr message)"
  unfolding keeps_def
proof (intro allI impI)
  fix w assume "I w"
  obtain r w' where "port_write_environment port env wr message w = (r, w')" by fastforce
  moreover from this obtain mid where "others w mid" "wrote docs env wr mid w' \<or> w' = mid"
    using assms(1) unfolding faithful_port_def writes_swap_def by blast
  ultimately show "I (snd (port_write_environment port env wr message w))"
    using assms(2,3) \<open>I w\<close> unfolding others_keep_def by auto
qed

lemma keeps_write_sources:
  assumes "faithful_port port docs others" "others_keep I others"
    and "\<And>mid w'. wrote_sources docs env ds token mid w' \<Longrightarrow> I mid \<Longrightarrow> I w'"
  shows "keeps I (port_write_data_sources port env ds token message)"
  unfolding keeps_def
proof (intro allI impI)
  fix w assume "I w"
  obtain r w' where "port_write_data_sources port env ds token message w = (r, w')" by fastforce
  moreover from this obtain mid where "others w mid" "wrote_sources docs env ds token mid w' \<or> w' = mid"
    using assms(1) unfolding faithful_port_def writes_swap_def by blast
  ultimately show "I (snd (port_write_data_sources port env ds token message w))"
    using assms(2,3) \<open>I w\<close> unfolding others_keep_def by auto
qed
text \<open>
  What every write of both documents has in common: the documents it writes are coherent together,
  and hold every record of the placements it replaces.
\<close>

definition stamps_parse :: "rfc3339 \<Rightarrow> bool" where
  "stamps_parse t \<longleftrightarrow> (\<forall>n s. rfc_stamp t n = Some s \<longrightarrow> rfc_parses t s)"

definition guarded_write ::
  "rfc3339 \<Rightarrow> ('w \<Rightarrow> string \<Rightarrow> environment_documents) \<Rightarrow> string \<Rightarrow> environment_write \<Rightarrow> bool" where
  "guarded_write t docs env wr \<longleftrightarrow>
     check_held (ew_declarations wr) = Inr () \<and> coherent t (ew_declarations wr) (ew_placements wr)
     \<and> (\<exists>w. ew_placements_at wr = pr_placed_revision (env_placed (docs w env))
           \<and> set (pr_placements (env_placed (docs w env))) \<subseteq> set (ew_placements wr))"

lemma held_sources_ok: "held_sources ds = Inr u \<longleftrightarrow> check_held ds = Inr ()"
  by (simp add: held_sources_def map_err_Inr)

lemma held_placements_ok: "held_placements t ps ds = Inr u \<longleftrightarrow> coherent t ds ps"
  by (simp add: held_placements_def map_err_Inr check_held_placements_iff)

lemma placed_stamp_parses: "stamps_parse t \<Longrightarrow> placed_stamp t n = Inr now \<Longrightarrow> rfc_parses t now"
  by (auto simp: stamps_parse_def placed_stamp_def ok_or_Inr)

lemma keeps_if: "(b \<Longrightarrow> keeps I m) \<Longrightarrow> (\<not> b \<Longrightarrow> keeps I n) \<Longrightarrow> keeps I (if b then m else n)"
  by simp

lemma keeps_place_client:
  assumes port: "faithful_port port docs others" "others_keep I others" and t: "stamps_parse t"
    and step: "\<And>wr mid w'. guarded_write t docs env wr \<Longrightarrow> wrote docs env wr mid w' \<Longrightarrow> I mid \<Longrightarrow> I w'"
  shows "keeps I (place_client t port n env client logical intent token)"
proof -
  have final: "keeps I (on_error PlatformState (port_read_placements port env))"
    by (rule keeps_read_placements[OF port])
  have writes: "keeps I (port_write_environment port env
      \<lparr> ew_declarations = ds, ew_declarations_at = d, ew_placements = sort_placements (pr_placements held @ [p]),
        ew_placements_at = pr_placed_revision held \<rparr> message)"
    if "held = env_placed (docs w env)" "check_held ds = Inr ()" "coherent t ds (pr_placements held)"
      "placed_stamp t n = Inr now" "select intent tenant logical ds (pr_placements held) now = Inr p"
    for ds d held w tenant p message now
  proof (rule keeps_write_environment[OF port step])
    have "coherent t ds (p # pr_placements held)"
      using select_keeps_coherent[OF that(2,3,5)] placed_stamp_parses[OF t that(4)] by blast
    moreover have "mset (sort_placements (pr_placements held @ [p])) = mset (p # pr_placements held)" by simp
    ultimately have "coherent t ds (sort_placements (pr_placements held @ [p]))" using coherent_mset by blast
    moreover have "set (pr_placements held) \<subseteq> set (sort_placements (pr_placements held @ [p]))"
      by (metis mset_sort_placements mset_eq_setD set_append Un_upper1)
    ultimately show "guarded_write t docs env
      \<lparr> ew_declarations = ds, ew_declarations_at = d, ew_placements = sort_placements (pr_placements held @ [p]),
        ew_placements_at = pr_placed_revision held \<rparr>"
      using that(1,2) by (auto simp: guarded_write_def)
  qed
  show ?thesis
    unfolding place_client_def
    apply (rule keeps_answer_bind)
    apply (rule keeps_read_placements_bind[OF port])
    apply (rule keeps_if, simp)
    apply (rule keeps_read_sources_bind[OF port])
    apply (intro keeps_answer_bind keeps_bind final)
    apply (simp add: held_sources_ok held_placements_ok map_err_Inr)
    apply (rule writes, (rule refl | assumption)+)
    done
qed
lemma keeps_remove:
  assumes port: "faithful_port port docs others" "others_keep I others"
    and step: "\<And>wr mid w'. guarded_write t docs env wr \<Longrightarrow> wrote docs env wr mid w' \<Longrightarrow> I mid \<Longrightarrow> I w'"
  shows "keeps I (remove_data_source t port env i token)"
proof -
  have writes: "keeps I (port_write_environment port env
      \<lparr> ew_declarations = filter (\<lambda>d. ds_id d \<noteq> i) ds, ew_declarations_at = a,
        ew_placements = pr_placements placed, ew_placements_at = pr_placed_revision placed \<rparr> message)"
    if "placed = env_placed (docs w env)" "check_held ds = Inr ()" "coherent t ds (pr_placements placed)"
      "tenants_on (pr_placements placed) i = []" for ds a placed w message
  proof (rule keeps_write_environment[OF port step])
    have "\<forall>p\<in>set (pr_placements placed). pl_data_source p \<noteq> i"
      using that(4) by (simp add: tenants_on_def sort_key_Nil filter_empty_conv)
    moreover have "declared_as (filter (\<lambda>d. ds_id d \<noteq> i) ds) j = declared_as ds j" if "j \<noteq> i" for j
      using that by (induction ds) (auto simp: declared_as_def)
    ultimately have "coherent t (filter (\<lambda>d. ds_id d \<noteq> i) ds) (pr_placements placed)"
      using that(3) by (simp add: coherent_def placed_well_def)
    moreover have "check_held (filter (\<lambda>d. ds_id d \<noteq> i) ds) = Inr ()"
      using that(2) by (auto simp: check_held_iff distinct_map_filter)
    ultimately show "guarded_write t docs env
      \<lparr> ew_declarations = filter (\<lambda>d. ds_id d \<noteq> i) ds, ew_declarations_at = a,
        ew_placements = pr_placements placed, ew_placements_at = pr_placed_revision placed \<rparr>"
      using that(1) by (auto simp: guarded_write_def)
  qed
  show ?thesis
    unfolding remove_data_source_def
    apply (rule keeps_read_sources_bind[OF port])
    apply (rule keeps_answer_bind)
    apply (rule keeps_if, simp)
    apply (rule keeps_read_placements_bind[OF port])
    apply (rule keeps_answer_bind)
    apply (intro keeps_if keeps_answer keeps_bind[OF keeps_read_sources[OF port]] keeps_bind[where m = "on_error PlatformState (port_write_environment _ _ _ _)"])
    apply (simp add: held_sources_ok held_placements_ok)
    apply (rule writes, (rule refl | assumption)+)
    done
qed

lemma keeps_declare:
  assumes port: "faithful_port port docs others" "others_keep I others"
    and step: "\<And>ds a mid w'. wrote_sources docs env ds a mid w' \<Longrightarrow> I mid \<Longrightarrow> I w'"
  shows "keeps I (declare_data_source port target env declaration token)"
proof -
  have writes: "keeps I (port_write_data_sources port env ds a message)" for ds a message
    by (rule keeps_write_sources[OF port step])
  show ?thesis
    unfolding declare_data_source_def
    apply (rule keeps_answer_bind)
    apply (rule keeps_read_sources_bind[OF port])
    apply (rule keeps_answer_bind)
    apply (rule keeps_if, simp)
    apply (rule keeps_answer_bind)
    apply (simp split: declaration_plan.split)
    apply (intro allI impI keeps_answer keeps_bind[OF keeps_read_sources[OF port]]
        keeps_bind[where m = "on_error PlatformState (port_write_data_sources _ _ _ _ _)"])
    apply (simp add: writes)
    done
qed
section \<open>What stays true of an environment\<close>

text \<open>
  A document of placements is exclusive when no tenant's logical data source is placed twice, no two
  tenants own one discriminator value of a data source, and a data source that isolates by database
  holds one placement and nothing else.
\<close>

definition exclusive :: "placement_record list \<Rightarrow> bool" where
  "exclusive ps \<longleftrightarrow>
     distinct (map (\<lambda>p. (pl_tenant p, pl_logical p)) ps) \<and> one_owner (set ps)
     \<and> (\<forall>p\<in>set ps. \<forall>q\<in>set ps. pl_isolation p = IsoDatabase \<and> pl_data_source q = pl_data_source p \<longrightarrow> q = p)"

lemma distinct_map_eq: "distinct (map f xs) \<Longrightarrow> x \<in> set xs \<Longrightarrow> y \<in> set xs \<Longrightarrow> f x = f y \<Longrightarrow> x = y"
  by (simp add: distinct_map inj_on_def)

lemma matches_database: "isolation_matches_class c IsoDatabase \<Longrightarrow> isolation_matches_class c i \<Longrightarrow> i = IsoDatabase"
  by (cases c; cases i) simp_all

lemma coherent_exclusive:
  assumes "coherent t ds ps"
  shows "exclusive ps"
proof -
  have "q = p" if m: "p \<in> set ps" "q \<in> set ps" "pl_isolation p = IsoDatabase" "pl_data_source q = pl_data_source p" for p q
  proof -
    from assms m(1,2) have "placed_well t ds p" "placed_well t ds q" by (auto simp: coherent_def)
    with m(3,4) have "pl_isolation q = IsoDatabase"
      by (auto simp: placed_well_def intro: matches_database split: option.splits)
    with m have "p \<in> set (filter (\<lambda>p. pl_isolation p = IsoDatabase) ps)"
      "q \<in> set (filter (\<lambda>p. pl_isolation p = IsoDatabase) ps)" by simp_all
    moreover from assms have "distinct (map pl_data_source (filter (\<lambda>p. pl_isolation p = IsoDatabase) ps))"
      by (simp add: coherent_def whole_databases_def)
    ultimately show ?thesis using distinct_map_eq m(4) by metis
  qed
  with assms show ?thesis by (auto simp: exclusive_def coherent_def)
qed

lemma exclusive_mset:
  assumes "mset ps = mset qs"
  shows "exclusive ps \<longleftrightarrow> exclusive qs"
proof -
  have "set ps = set qs" using assms by (rule mset_eq_setD)
  moreover have "distinct (map (\<lambda>p. (pl_tenant p, pl_logical p)) ps)
      \<longleftrightarrow> distinct (map (\<lambda>p. (pl_tenant p, pl_logical p)) qs)"
    using assms by (intro mset_eq_imp_distinct_iff) simp
  ultimately show ?thesis by (simp only: exclusive_def)
qed

text \<open>The requests the services answer, and any history of them.\<close>

datatype request =
    RequestList
  | RequestDeclare "(publication_error + published_resources) option" data_source_declaration "desired_revision option"
  | RequestRemove data_source_id "desired_revision option"
  | RequestPlace u64 string logical_data_source_name data_intent "desired_revision option"
  | RequestForClient u64 string "(logical_data_source_name \<times> data_intent) list"

definition discarding :: "('e, 'a, 'w) action \<Rightarrow> ('e, unit, 'w) action" where
  "discarding m = then_do m (\<lambda>_. answer (Inr ()))"

fun serve :: "rfc3339 \<Rightarrow> 'w platform_port \<Rightarrow> string \<Rightarrow> request \<Rightarrow> (platform_error, unit, 'w) action" where
  "serve t port env RequestList = discarding (list_data_sources port env)"
| "serve t port env (RequestDeclare target d token) = discarding (declare_data_source port target env d token)"
| "serve t port env (RequestRemove i token) = discarding (remove_data_source t port env i token)"
| "serve t port env (RequestPlace n client logical intent token) =
     discarding (place_client t port n env client logical intent token)"
| "serve t port env (RequestForClient n client intents) = discarding (for_client t port n env client intents)"

fun is_declaration :: "request \<Rightarrow> bool" where
  "is_declaration (RequestDeclare _ _ _) = True"
| "is_declaration _ = False"

inductive session :: "rfc3339 \<Rightarrow> 'w platform_port \<Rightarrow> 'w \<Rightarrow> 'w \<Rightarrow> bool" for t port where
  idle: "session t port w w"
| served: "session t port w w' \<Longrightarrow> session t port w (snd (serve t port env req w'))"

lemma keeps_discarding: "keeps I m \<Longrightarrow> keeps I (discarding m)"
  unfolding discarding_def by (rule keeps_then_do) simp_all

text \<open>
  An invariant of every environment is kept by every request when each of the two kinds of write
  keeps it.
\<close>

lemma keeps_serve:
  assumes port: "faithful_port port docs others" "others_keep I others" and t: "stamps_parse t"
    and both: "\<And>env wr mid w'. guarded_write t docs env wr \<Longrightarrow> wrote docs env wr mid w' \<Longrightarrow> I mid \<Longrightarrow> I w'"
    and one: "\<And>env ds a mid w'. is_declaration req \<Longrightarrow> wrote_sources docs env ds a mid w' \<Longrightarrow> I mid \<Longrightarrow> I w'"
  shows "keeps I (serve t port env req)"
proof (cases req)
  case RequestList
  have "keeps I (list_data_sources port env)"
    unfolding list_data_sources_def
    by (intro keeps_read_sources_bind[OF port] keeps_answer_bind keeps_answer)
  with RequestList show ?thesis by (simp add: keeps_discarding)
next
  case (RequestDeclare target d token)
  with one show ?thesis by (simp add: keeps_discarding keeps_declare[OF port])
next
  case (RequestRemove i token)
  with both show ?thesis by (simp add: keeps_discarding keeps_remove[OF port])
next
  case (RequestPlace n client logical intent token)
  with both show ?thesis by (simp add: keeps_discarding keeps_place_client[OF port t])
next
  case (RequestForClient n client intents)
  have "keeps I (for_client t port n env client intents)"
    unfolding for_client_def
    by (intro keeps_answer_bind keeps_read_sources_bind[OF port] keeps_read_placements_bind[OF port] keeps_answer)
  with RequestForClient show ?thesis by (simp add: keeps_discarding)
qed

lemma session_keeps:
  assumes "session t port w w'" "I w" "\<And>env req. keeps I (serve t port env req)"
  shows "I w'"
  using assms by (induction rule: session.induct) (auto simp: keeps_def)

definition placements_in :: "('w \<Rightarrow> string \<Rightarrow> environment_documents) \<Rightarrow> 'w \<Rightarrow> string \<Rightarrow> placement_record list" where
  "placements_in docs w env = pr_placements (env_placed (docs w env))"

lemma wrote_exclusive:
  assumes "guarded_write t docs env wr" "wrote docs env wr mid w'" "\<forall>e. exclusive (placements_in docs mid e)"
  shows "\<forall>e. exclusive (placements_in docs w' e)"
proof
  fix e
  show "exclusive (placements_in docs w' e)"
  proof (cases "e = env")
    case True
    with assms(2) have "mset (placements_in docs w' e) = mset (ew_placements wr)"
      by (simp add: wrote_def placements_in_def)
    moreover have "exclusive (ew_placements wr)"
      using assms(1) coherent_exclusive by (auto simp: guarded_write_def)
    ultimately show ?thesis using exclusive_mset by blast
  next
    case False
    then show ?thesis using assms(2,3) by (simp add: wrote_def placements_in_def)
  qed
qed

lemma wrote_sources_placements: "wrote_sources docs env ds a mid w' \<Longrightarrow> placements_in docs w' e = placements_in docs mid e"
  by (cases "e = env") (simp_all add: wrote_sources_def placements_in_def)

text \<open>
  C31: Whatever the services are asked to do, in whatever order and with other writers in between, the
  recorded placements of every environment stay exclusive: two tenants never own one discriminator
  value of a data source, and a tenant that holds a whole database shares it with nobody.
\<close>

theorem placements_stay_exclusive:
  assumes "faithful_port port docs others" "stamps_parse t"
    and "others_keep (\<lambda>w. \<forall>env. exclusive (placements_in docs w env)) others"
    and "\<forall>env. exclusive (placements_in docs w env)"
    and "session t port w w'"
  shows "\<forall>env. exclusive (placements_in docs w' env)"
proof (rule session_keeps[OF assms(5), where I = "\<lambda>w. \<forall>env. exclusive (placements_in docs w env)"])
  show "\<forall>env. exclusive (placements_in docs w env)" by (rule assms(4))
next
  fix env req
  show "keeps (\<lambda>w. \<forall>env. exclusive (placements_in docs w env)) (serve t port env req)"
    by (rule keeps_serve[OF assms(1,3,2)]) (simp_all add: wrote_exclusive wrote_sources_placements)
qed

text \<open>
  C32: A recorded placement is never lost, moved or changed by the services: no request, over any
  history of requests and writes of others that keep it, takes a record out of an environment.
\<close>

theorem a_recorded_placement_stays:
  assumes "faithful_port port docs others" "stamps_parse t"
    and "others_keep (\<lambda>w. p \<in> set (placements_in docs w env)) others"
    and "p \<in> set (placements_in docs w env)" "session t port w w'"
  shows "p \<in> set (placements_in docs w' env)"
proof (rule session_keeps[OF assms(5), where I = "\<lambda>w. p \<in> set (placements_in docs w env)"])
  show "p \<in> set (placements_in docs w env)" by (rule assms(4))
next
  fix e req
  have "p \<in> set (placements_in docs w' env)"
    if g: "guarded_write t docs e wr" "wrote docs e wr mid w'" "p \<in> set (placements_in docs mid env)" for e wr mid w'
  proof (cases "env = e")
    case True
    from g(1) obtain v where v: "ew_placements_at wr = pr_placed_revision (env_placed (docs v e))"
      "set (placements_in docs v e) \<subseteq> set (ew_placements wr)"
      by (auto simp: guarded_write_def placements_in_def)
    have "env_placed (docs mid e) = env_placed (docs v e)"
      using g(2) v(1) assms(1) by (auto simp: wrote_def faithful_port_def revisions_name_content_def)
    with g(3) v(2) True have "p \<in> set (ew_placements wr)" by (auto simp: placements_in_def)
    moreover have "set (placements_in docs w' e) = set (ew_placements wr)"
      using g(2) by (auto simp: wrote_def placements_in_def dest: mset_eq_setD)
    ultimately show ?thesis using True by simp
  next
    case False
    then show ?thesis using g(2,3) by (simp add: wrote_def placements_in_def)
  qed
  then show "keeps (\<lambda>w. p \<in> set (placements_in docs w env)) (serve t port e req)"
    by (intro keeps_serve[OF assms(1,3,2)]) (simp_all add: wrote_sources_placements)
qed
text \<open>
  The two documents of an environment stay coherent together: every placement names a declared data
  source, of the class and with the column the placement is isolated by.
\<close>

definition environment_coherent :: "rfc3339 \<Rightarrow> environment_documents \<Rightarrow> bool" where
  "environment_coherent t d \<longleftrightarrow>
     check_held (dr_declarations (env_sources d)) = Inr ()
     \<and> coherent t (dr_declarations (env_sources d)) (pr_placements (env_placed d))"

lemma declared_as_mset:
  assumes "mset ds = mset es" "distinct (map ds_id ds)"
  shows "declared_as ds i = declared_as es i"
proof -
  have "distinct (map ds_id es)"
    using assms mset_eq_imp_distinct_iff[of "map ds_id ds" "map ds_id es"] by simp
  then have "declared_as ds i = Some d \<longleftrightarrow> declared_as es i = Some d" for d
    using declared_as_distinct assms mset_eq_setD[OF assms(1)] by metis
  then show ?thesis by (metis not_Some_eq)
qed

lemma coherent_mset_both:
  assumes "mset ds = mset es" "mset ps = mset qs" "check_held es = Inr ()" "coherent t es qs"
  shows "check_held ds = Inr () \<and> coherent t ds ps"
proof
  have d: "distinct (map ds_id ds)"
    using assms(1,3) mset_eq_imp_distinct_iff[of "map ds_id ds" "map ds_id es"] by (simp add: check_held_iff)
  then show "check_held ds = Inr ()"
    using assms(3) mset_eq_setD[OF assms(1)] by (simp add: check_held_iff)
  have "coherent t ds qs"
    using assms(4) declared_as_mset[OF assms(1) d] by (simp add: coherent_def placed_well_def)
  then show "coherent t ds ps" using coherent_mset[OF assms(2)] by blast
qed

lemma wrote_coherent:
  assumes "guarded_write t docs env wr" "wrote docs env wr mid w'" "\<forall>e. environment_coherent t (docs mid e)"
  shows "\<forall>e. environment_coherent t (docs w' e)"
proof
  fix e
  show "environment_coherent t (docs w' e)"
  proof (cases "e = env")
    case True
    have "check_held (dr_declarations (env_sources (docs w' env))) = Inr ()
        \<and> coherent t (dr_declarations (env_sources (docs w' env))) (pr_placements (env_placed (docs w' env)))"
      using assms(1,2) by (intro coherent_mset_both) (auto simp: wrote_def guarded_write_def)
    then show ?thesis using True by (simp add: environment_coherent_def)
  next
    case False
    then show ?thesis using assms(2,3) by (simp add: wrote_def)
  qed
qed

text \<open>
  C33: A placement never names a data source nothing is_declaration, or one of another class or column: over
  any history of placing, removing and reading, with other writers in between, a removal and a
  placement that race leave an environment whose two documents fit together.
\<close>

theorem an_environment_stays_coherent:
  assumes "faithful_port port docs others" "stamps_parse t"
    and "others_keep (\<lambda>w. \<forall>env. environment_coherent t (docs w env)) others"
    and "\<forall>env. environment_coherent t (docs w env)" "\<not> is_declaration req"
  shows "\<forall>env. environment_coherent t (docs (snd (serve t port env0 req w)) env)"
proof -
  have "keeps (\<lambda>w. \<forall>env. environment_coherent t (docs w env)) (serve t port env0 req)"
    using assms(5) by (intro keeps_serve[OF assms(1,3,2)]) (simp_all add: wrote_coherent)
  then show ?thesis using assms(4) by (simp add: keeps_def)
qed
section \<open>A repository in memory\<close>

text \<open>One shared data source, before and after the placement of one client.\<close>

definition example_docs :: "bool \<Rightarrow> string \<Rightarrow> environment_documents" where
  "example_docs w env =
     \<lparr> env_sources = \<lparr> dr_revision = Some (DesiredRevision ''s''), dr_declarations = [example_pool] \<rparr>,
       env_placed = (if w \<and> env = ''dev''
         then \<lparr> pr_placed_revision = Some (DesiredRevision ''p1''), pr_placements = [example_placement] \<rparr>
         else \<lparr> pr_placed_revision = Some (DesiredRevision ''p0''), pr_placements = [] \<rparr>) \<rparr>"

definition example_repository :: "bool platform_port" where
  "example_repository =
     \<lparr> port_read_data_sources = (\<lambda>env w. (Inr (env_sources (example_docs w env)), w)),
       port_write_data_sources = (\<lambda>_ _ _ _ w. (Inl StateConflict, w)),
       port_read_placements = (\<lambda>env w. (Inr (env_placed (example_docs w env)), w)),
       port_write_placements = (\<lambda>_ _ _ _ w. (Inl StateConflict, w)),
       port_write_environment = (\<lambda>env wr _ w.
         if \<not> w \<and> env = ''dev'' \<and> ew_declarations_at wr = Some (DesiredRevision ''s'')
            \<and> ew_placements_at wr = Some (DesiredRevision ''p0'')
            \<and> ew_declarations wr = [example_pool] \<and> ew_placements wr = [example_placement]
         then (Inr (), True) else (Inl StateConflict, w)) \<rparr>"

definition example_request :: request where
  "example_request =
     RequestPlace 1767225600 ''acme'' (LogicalDataSourceName ''primary'')
       \<lparr> intent_class = Shared, intent_provider = None, intent_region = Some ''nz'' \<rparr> (Some (DesiredRevision ''p0''))"

lemma example_faithful: "faithful_port example_repository example_docs (=)"
  unfolding faithful_port_def
proof (intro conjI)
  show "reads_held example_repository example_docs (=)"
    by (simp add: reads_held_def example_repository_def)
  show "writes_swap example_repository example_docs (=)"
    by (auto simp: writes_swap_def wrote_def example_repository_def example_docs_def)
  show "revisions_name_content example_docs"
    by (auto simp: revisions_name_content_def example_docs_def)
qed

lemma others_keep_eq: "others_keep I (=)"
  by (simp add: others_keep_def)

lemma example_exclusive: "exclusive (placements_in example_docs False env)"
  by (simp add: placements_in_def example_docs_def exclusive_def one_owner_def)

lemma example_stamps: "stamps_parse example_rfc"
  by (auto simp: stamps_parse_def example_rfc_def)

lemma example_placed: "snd (serve example_rfc example_repository ''dev'' example_request False) = True"
  by code_simp

lemma example_session: "session example_rfc example_repository False True"
  using session.served[OF session.idle[of example_rfc example_repository False], of "''dev''" example_request]
  by (simp only: example_placed)

theorem placements_stay_exclusive_witness:
  "\<forall>env. exclusive (placements_in example_docs True env)"
  by (rule placements_stay_exclusive[OF example_faithful example_stamps _ _ example_session])
    (simp_all only: others_keep_eq example_exclusive simp_thms)

lemma example_coherent: "environment_coherent example_rfc (example_docs False env)"
  by (simp add: environment_coherent_def example_docs_def coherent_def one_owner_def whole_databases_def) code_simp

theorem an_environment_stays_coherent_witness:
  "\<forall>env. environment_coherent example_rfc (example_docs
     (snd (serve example_rfc example_repository ''dev'' example_request False)) env)"
  by (rule an_environment_stays_coherent[OF example_faithful example_stamps])
    (simp_all only: others_keep_eq example_coherent example_request_def is_declaration.simps simp_thms)

theorem a_recorded_placement_stays_witness:
  "example_placement \<in> set (placements_in example_docs
     (snd (serve example_rfc example_repository ''dev'' example_request True)) ''dev'')"
  by (rule a_recorded_placement_stays[OF example_faithful example_stamps _ _ session.served[OF session.idle]])
    (rule others_keep_eq, simp add: placements_in_def example_docs_def)

end
