(* ===== verification/Publication_Pass.thy ===== *)
theory Publication_Pass
  imports Environments Snapshot_Composition
begin

text \<open>
  One publication pass of the control plane (\<open>publication/pass.rs\<close>, \<open>protocol.rs\<close>, \<open>reads.rs\<close>,
  \<open>registry_pass.rs\<close>, \<open>publish_error.rs\<close>, \<open>report_outcome.rs\<close>, \<open>publisher.rs\<close>, \<open>state.rs\<close>): reading
  what is published and what is desired, composing, offering with bounded retries, and what is
  remembered of it. The target, the catalogue and the issuer registry are arguments, each a function
  of the world it acts in.
\<close>

section \<open>Errors as texts\<close>

fun registry_refusal_message :: "registry_refusal \<Rightarrow> string" where
  "registry_refusal_message (DuplicateIssuer issuer) = ''issuer '' @ issuer @ '' is registered more than once''"
| "registry_refusal_message (TenantUnbound issuer t) =
     ''issuer '' @ issuer @ '' names tenant '' @ tenant_str t
     @ '', which this publication'' @ [CHR 0x27] @ ''s tenants document does not bind''"
| "registry_refusal_message (GenerationExhausted g) =
     ''issuer registry generation '' @ show_nat (unat g)
     @ '' is the last; changed registrations cannot be given a new one''"
| "registry_refusal_message (RegistryWithdrawn g) =
     ''issuer registry generation '' @ show_nat (unat g)
     @ '' is published, and this publication carries no registry''"

fun publication_error_message :: "publication_error \<Rightarrow> string" where
  "publication_error_message (StaleRevision k held offered_at) =
     kind_debug k @ '' is held at revision '' @ show_nat (unat held) @ '', but an older revision ''
     @ show_nat (unat offered_at) @ '' was offered''"
| "publication_error_message (DivergentPayload k r) =
     kind_debug k @ '' at revision '' @ show_nat (unat r) @ '' was offered with different bytes than are held''"
| "publication_error_message (DanglingDataSource t l d) =
     ''tenant '' @ tenant_str t @ [CHR 0x27] @ ''s '' @ logical_source_str l @ '' binding names data source ''
     @ data_source_str d @ '', which this publication does not include''"
| "publication_error_message (RetiredDataSourceStillBound d t) =
     ''data source '' @ data_source_str d
     @ '' was dropped, but the held tenants document still binds it to tenant '' @ tenant_str t"
| "publication_error_message (EmptyingNotIntended k) =
     kind_debug k @ '' would become empty, and Emptying::Intended was not given for it''"
| "publication_error_message EmptyCatalogue = ''the catalogue document has no entries''"
| "publication_error_message (EmptyTenantData t) =
     ''tenant '' @ tenant_str t @ [CHR 0x27] @ ''s data map has no entries, and would be dropped on arrival''"
| "publication_error_message (HeldPayloadLost k) =
     kind_debug k @ [CHR 0x27] @ ''s manifest is held, but its payload is gone -- restore the payload file or remove ''
     @ ''the manifest before publishing again''"
| "publication_error_message (ResourceRevisionNotAdvanced k resource held offered_at) =
     kind_debug k @ '' resource '' @ resource @ '' was published at revision '' @ show_nat (unat held)
     @ '' and is offered at '' @ show_nat (unat offered_at) @ '' without advancing''"
| "publication_error_message (TenantRemoved t held) =
     ''tenant '' @ tenant_str t @ '', published at revision '' @ show_nat (unat held) @ '', would be removed''"
| "publication_error_message (CatalogueEntryUnbound resource l) =
     ''catalogue resource '' @ resource_str resource @ '' is on '' @ logical_source_str l
     @ '', which no tenant binds''"
| "publication_error_message (BelowRollbackFloor floor_contract publisher) =
     ''the held publication record requires publisher contract '' @ show_nat (unat floor_contract)
     @ ''; this publisher is '' @ show_nat (unat publisher)"
| "publication_error_message (PubRegistry e) = registry_refusal_message e"
| "publication_error_message (PubUnreadable k cause) = kind_debug k @ '' could not be read: '' @ cause"
| "publication_error_message (PubUnwritable k cause) = kind_debug k @ '' could not be written: '' @ cause"

section \<open>Outcomes\<close>

datatype waiting_reason = NoResources | PlatformNotConnected

datatype pass_outcome =
    PassPublished document_outcome document_outcome document_outcome published_revisions
  | PassUnchanged published_revisions
  | PassWaiting waiting_reason
  | PassRefused safe_diagnostic
  | PassFailed safe_diagnostic

datatype halt = HaltRefused safe_diagnostic | HaltFailed safe_diagnostic | HaltWaiting waiting_reason

fun into_outcome :: "halt \<Rightarrow> pass_outcome" where
  "into_outcome (HaltRefused reason) = PassRefused reason"
| "into_outcome (HaltFailed detail) = PassFailed detail"
| "into_outcome (HaltWaiting reason) = PassWaiting reason"

fun classify_state_error :: "desired_state_error \<Rightarrow> halt" where
  "classify_state_error (StateRefused d) = HaltRefused (sanitise (state_error_message (StateRefused d)))"
| "classify_state_error NotConnected = HaltWaiting PlatformNotConnected"
| "classify_state_error (StateUnavailable d) = HaltFailed (sanitise (state_error_message (StateUnavailable d)))"
| "classify_state_error StateConflict = HaltFailed (sanitise (state_error_message StateConflict))"
| "classify_state_error (StateNotFound w) = HaltFailed (sanitise (state_error_message (StateNotFound w)))"

fun refuses_offer :: "publication_error \<Rightarrow> bool" where
  "refuses_offer (PubUnwritable _ _) = False"
| "refuses_offer (PubUnreadable _ _) = False"
| "refuses_offer (StaleRevision _ _ _) = False"
| "refuses_offer _ = True"

definition outcome_from_publish_error :: "publication_error \<Rightarrow> pass_outcome" where
  "outcome_from_publish_error e =
     (if refuses_offer e then PassRefused (sanitise (publication_error_message e))
      else PassFailed (sanitise (publication_error_message e)))"

definition written_this_pass ::
  "document_outcome \<Rightarrow> document_revision option \<Rightarrow> document_revision option \<Rightarrow> document_outcome" where
  "written_this_pass reported held accepted_at = (if held = accepted_at then reported else Written)"

definition outcome_from_report ::
  "publication_report \<Rightarrow> published_revisions \<Rightarrow> published_revisions \<Rightarrow> pass_outcome" where
  "outcome_from_report r held revisions =
     (let tenants = written_this_pass (rep_tenants r) (prv_tenants held) (prv_tenants revisions);
          data_sources = written_this_pass (rep_data_sources r) (prv_data_sources held) (prv_data_sources revisions);
          catalog = written_this_pass (rep_catalog r) (prv_catalog held) (prv_catalog revisions) in
      if tenants = Unchanged \<and> data_sources = Unchanged \<and> catalog = Unchanged then PassUnchanged revisions
      else PassPublished tenants data_sources catalog revisions)"

section \<open>Offering with bounded retries\<close>

definition MAX_RETRIES :: nat where
  "MAX_RETRIES = 3"

definition MAX_INTERRUPTED_RETRIES :: nat where
  "MAX_INTERRUPTED_RETRIES = 2"

fun advance :: "runtime_snapshot \<Rightarrow> document_kind \<Rightarrow> document_revision \<Rightarrow> runtime_snapshot" where
  "advance s KindTenants r = s\<lparr>snap_tenants := (snap_tenants s)\<lparr>di_revision := saturating_add r 1\<rparr>\<rparr>"
| "advance s KindDataSources r = s\<lparr>snap_data_sources := (snap_data_sources s)\<lparr>di_revision := saturating_add r 1\<rparr>\<rparr>"
| "advance s KindCatalog r = s\<lparr>snap_catalog := (snap_catalog s)\<lparr>di_revision := saturating_add r 1\<rparr>\<rparr>"

type_synonym 'w offering = "runtime_snapshot \<Rightarrow> (publication_error, publication_report, 'w) action"

function publish_retrying ::
  "'w offering \<Rightarrow> nat \<Rightarrow> nat \<Rightarrow> runtime_snapshot
     \<Rightarrow> (publication_error, publication_report \<times> runtime_snapshot, 'w) action" where
  "publish_retrying target retries interrupted s w =
     (case target s w of
        (Inr report, w') \<Rightarrow> (Inr (report, s), w')
      | (Inl e, w') \<Rightarrow>
          (case e of
             DivergentPayload k r \<Rightarrow>
               if retries < MAX_RETRIES then publish_retrying target (Suc retries) interrupted (advance s k r) w'
               else (Inl e, w')
           | PubUnwritable _ _ \<Rightarrow>
               if interrupted < MAX_INTERRUPTED_RETRIES
               then publish_retrying target retries (Suc interrupted) s w'
               else (Inl e, w')
           | _ \<Rightarrow> (Inl e, w')))"
  by pat_completeness auto
termination
  by (relation "measure (\<lambda>(_, r, i, _, _). (MAX_RETRIES - r) + (MAX_INTERRUPTED_RETRIES - i))") auto

declare publish_retrying.simps [simp del]

definition publish_with_retry ::
  "'w offering \<Rightarrow> runtime_snapshot \<Rightarrow> (publication_error, publication_report \<times> runtime_snapshot, 'w) action" where
  "publish_with_retry target s = publish_retrying target 0 0 s"
section \<open>Evidence of an accepted pass\<close>

datatype exclusion = ExclusionNotReady "string list" | ExclusionRetired string | ExclusionNoClient | ExclusionInvalidIssuer string

fun exclusion_kind :: "exclusion \<Rightarrow> string" where
  "exclusion_kind (ExclusionNotReady _) = ''notReady''"
| "exclusion_kind (ExclusionRetired _) = ''retired''"
| "exclusion_kind ExclusionNoClient = ''noClient''"
| "exclusion_kind (ExclusionInvalidIssuer _) = ''invalidIssuer''"

record excluded =
  ex_tenant :: tenant_id
  ex_reason :: exclusion

record registrations =
  reg_registered :: "issuer_registration list"
  reg_excluded :: "excluded list"

record registry_evidence_summary =
  res_generation :: registry_generation
  res_registered :: "string list"
  res_excluded :: "excluded list"

record readiness_evidence =
  re_revisions :: published_revisions
  re_registry :: "registry_evidence_summary option"
  re_connectors :: "string list"
  re_record :: record_stamp

definition snapshot_revisions :: "runtime_snapshot \<Rightarrow> registry_generation option \<Rightarrow> published_revisions" where
  "snapshot_revisions s registry =
     \<lparr> prv_tenants = Some (di_revision (snap_tenants s)), prv_data_sources = Some (di_revision (snap_data_sources s)),
       prv_catalog = Some (di_revision (snap_catalog s)), prv_registry = registry \<rparr>"

definition ReadinessEvidence_of ::
  "runtime_snapshot \<Rightarrow> registry_generation option \<Rightarrow> record_stamp \<Rightarrow> excluded list \<Rightarrow> readiness_evidence" where
  "ReadinessEvidence_of s registry rec_stamp exclusions =
     \<lparr> re_revisions = snapshot_revisions s registry,
       re_registry = (case (snap_registry s, registry) of
          (Some registered, Some g) \<Rightarrow>
            Some \<lparr> res_generation = g,
                   res_registered = sort (remdups (map (tenant_str \<circ> ir_tenant) registered)),
                   res_excluded = exclusions \<rparr>
        | _ \<Rightarrow> None),
       re_connectors = sort (remdups (map (connector_str \<circ> ds_connector) (di_payload (snap_data_sources s)))),
       re_record = rec_stamp \<rparr>"

record accepted_pass =
  ap_tenants :: "(tenant_id \<times> binding_revision) list"
  ap_evidence :: readiness_evidence

section \<open>The pass\<close>

datatype catalogue_source_error = CatalogueConflict string string string | CatalogueUnavailable string

fun catalogue_error_message :: "catalogue_source_error \<Rightarrow> string" where
  "catalogue_error_message (CatalogueConflict resource a b) =
     resource @ '' is declared by both '' @ a @ '' and '' @ b"
| "catalogue_error_message (CatalogueUnavailable detail) = detail"

datatype registry_source_error = RegistrySourceUnavailable string

record 'w runtime_publisher =
  rpub_environment :: string
  rpub_platform :: "'w platform_port"
  rpub_rfc :: rfc3339
  rpub_catalogue :: "(catalogue_source_error, catalog_document, 'w) action"
  rpub_current :: "(publication_error, published_revisions, 'w) action"
  rpub_resources :: "(publication_error, published_resources, 'w) action"
  rpub_publish :: "'w offering"
  rpub_inspect :: "'w \<Rightarrow> publication_completeness \<times> 'w"
  rpub_registry :: "(placement_record list \<Rightarrow> tenant_document list
     \<Rightarrow> (registry_source_error, registrations, 'w) action) option"

definition coherence_refusal :: "string \<Rightarrow> halt" where
  "coherence_refusal detail = HaltRefused (sanitise detail)"

definition declared_data_sources :: "'w runtime_publisher \<Rightarrow> (halt, data_source_declaration list, 'w) action" where
  "declared_data_sources x =
     then_do (on_error classify_state_error (port_read_data_sources (rpub_platform x) (rpub_environment x))) (\<lambda>rd.
     then_do (answer (map_err (\<lambda>e. coherence_refusal (held_sources_detail e)) (check_held (dr_declarations rd)))) (\<lambda>_.
       answer (Inr (dr_declarations rd))))"

definition recorded_placements ::
  "'w runtime_publisher \<Rightarrow> data_source_declaration list \<Rightarrow> (halt, placement_record list, 'w) action" where
  "recorded_placements x declarations =
     then_do (on_error classify_state_error (port_read_placements (rpub_platform x) (rpub_environment x))) (\<lambda>rd.
     then_do (answer (map_err (\<lambda>e. coherence_refusal (held_placements_detail e))
         (check_held_placements (rpub_rfc x) (pr_placements rd) declarations))) (\<lambda>_.
       answer (Inr (pr_placements rd))))"

fun catalogue_halt :: "catalogue_source_error \<Rightarrow> halt" where
  "catalogue_halt (CatalogueConflict r a b) = HaltRefused (sanitise (catalogue_error_message (CatalogueConflict r a b)))"
| "catalogue_halt (CatalogueUnavailable detail) = HaltFailed (sanitise detail)"

definition pass_catalogue :: "'w runtime_publisher \<Rightarrow> (halt, catalog_document, 'w) action" where
  "pass_catalogue x = on_error catalogue_halt (rpub_catalogue x)"

definition pass_registry ::
  "'w runtime_publisher \<Rightarrow> placement_record list \<Rightarrow> runtime_snapshot
     \<Rightarrow> (halt, runtime_snapshot \<times> excluded list, 'w) action" where
  "pass_registry x placements s =
     (case rpub_registry x of
        None \<Rightarrow> answer (Inr (s, []))
      | Some source \<Rightarrow>
          then_do (on_error (\<lambda>e. case e of RegistrySourceUnavailable detail \<Rightarrow> HaltFailed (sanitise detail))
              (source placements (di_payload (snap_tenants s)))) (\<lambda>registered.
            answer (Inr (s\<lparr>snap_registry := Some (reg_registered registered)\<rparr>, reg_excluded registered))))"

definition accepted_of :: "publication_report \<Rightarrow> runtime_snapshot \<Rightarrow> excluded list \<Rightarrow> accepted_pass" where
  "accepted_of report s exclusions =
     \<lparr> ap_tenants = published_tenants (di_payload (snap_tenants s)),
       ap_evidence = ReadinessEvidence_of s (map_option ro_generation (rep_registry report)) (rep_record report) exclusions \<rparr>"

definition pass_body :: "'w runtime_publisher \<Rightarrow> (pass_outcome, pass_outcome \<times> accepted_pass, 'w) action" where
  "pass_body x =
     then_do (on_error outcome_from_publish_error (rpub_current x)) (\<lambda>held.
     then_do (on_error outcome_from_publish_error (rpub_resources x)) (\<lambda>res.
     then_do (on_error into_outcome (declared_data_sources x)) (\<lambda>declarations.
     then_do (on_error into_outcome (recorded_placements x declarations)) (\<lambda>placements.
     then_do (on_error into_outcome (pass_catalogue x)) (\<lambda>catalog.
       if catalog = [] then answer (Inl (PassWaiting NoResources))
       else
         then_do (answer (map_err (\<lambda>e. PassRefused (sanitise (compose_error_message e)))
             (compose declarations placements catalog held res))) (\<lambda>s.
         then_do (on_error into_outcome (pass_registry x placements (hold_unbound_catalogue res held s))) (\<lambda>(s', exclusions).
         then_do (on_error outcome_from_publish_error (publish_with_retry (rpub_publish x) s')) (\<lambda>(report, offered_last).
           answer (Inr (outcome_from_report report held
               (snapshot_revisions offered_last (map_option ro_generation (rep_registry report))),
             accepted_of report offered_last exclusions))))))))))"

text \<open>The outcome of a pass, and what it leaves in the slot of the accepted snapshot.\<close>

definition run_pass :: "'w runtime_publisher \<Rightarrow> 'w \<Rightarrow> (pass_outcome \<times> accepted_pass option) \<times> 'w" where
  "run_pass x w =
     (case pass_body x w of
        (Inl outcome, w') \<Rightarrow> ((outcome, None), w')
      | (Inr (outcome, acc), w') \<Rightarrow> ((outcome, Some acc), w'))"

section \<open>What is remembered of a pass\<close>

record last_pass =
  lp_at :: u64
  lp_outcome :: pass_outcome

record published_record =
  pt_at :: u64
  pt_tenants :: "(tenant_id \<times> binding_revision) list"

record completeness_observation =
  co_at :: u64
  co_completeness :: publication_completeness

record publication_state =
  ps_running :: bool
  ps_last :: "last_pass option"
  ps_published :: "published_record option"
  ps_evidence :: "readiness_evidence option"
  ps_completeness :: "completeness_observation option"

definition PublicationState_new :: publication_state where
  "PublicationState_new =
     \<lparr> ps_running = False, ps_last = None, ps_published = None, ps_evidence = None, ps_completeness = None \<rparr>"

definition expected_record :: "publication_state \<Rightarrow> record_stamp option" where
  "expected_record st = map_option re_record (ps_evidence st)"

definition record_pass ::
  "u64 \<Rightarrow> pass_outcome \<Rightarrow> accepted_pass option \<Rightarrow> publication_completeness \<Rightarrow> publication_state \<Rightarrow> publication_state" where
  "record_pass now outcome acc completeness st =
     (let st' = (case acc of
          Some a \<Rightarrow> st\<lparr>ps_published := Some \<lparr> pt_at = now, pt_tenants = ap_tenants a \<rparr>,
                        ps_evidence := Some (ap_evidence a)\<rparr>
        | None \<Rightarrow> st) in
      st'\<lparr>ps_completeness := Some \<lparr> co_at = now, co_completeness = completeness \<rparr>,
          ps_last := Some \<lparr> lp_at = now, lp_outcome = outcome \<rparr>\<rparr>)"

datatype pass_result = PassRan u64 pass_outcome | PassAlreadyRunning

text \<open>The running flag is taken on entry and given back when the pass is over.\<close>

definition publish_once ::
  "'w runtime_publisher \<Rightarrow> u64 \<Rightarrow> publication_state \<times> 'w \<Rightarrow> pass_result \<times> publication_state \<times> 'w" where
  "publish_once x now = (\<lambda>(st, w).
     if ps_running st then (PassAlreadyRunning, st, w)
     else (case run_pass x w of
         ((outcome, acc), w') \<Rightarrow>
           (case rpub_inspect x w' of
              (completeness, w'') \<Rightarrow> (PassRan now outcome, record_pass now outcome acc completeness st, w''))))"
section \<open>What a pass offers\<close>

text \<open>The same target, with a log of every snapshot it was offered.\<close>

definition logged :: "'w offering \<Rightarrow> ('w \<times> runtime_snapshot list) offering" where
  "logged target s wl = (case target s (fst wl) of (r, w') \<Rightarrow> (r, (w', snd wl @ [s])))"

definition same_payloads :: "runtime_snapshot \<Rightarrow> runtime_snapshot \<Rightarrow> bool" where
  "same_payloads s s' \<longleftrightarrow>
     di_payload (snap_tenants s') = di_payload (snap_tenants s)
     \<and> di_payload (snap_data_sources s') = di_payload (snap_data_sources s)
     \<and> di_payload (snap_catalog s') = di_payload (snap_catalog s) \<and> snap_registry s' = snap_registry s"

lemma same_payloads_refl [simp]: "same_payloads s s"
  by (simp add: same_payloads_def)

lemma same_payloads_advance: "same_payloads (advance s k r) s' \<longleftrightarrow> same_payloads s s'"
  by (cases k) (auto simp: same_payloads_def)

definition accepts_last ::
  "(publication_error + publication_report \<times> runtime_snapshot) \<Rightarrow> runtime_snapshot list \<Rightarrow> bool" where
  "accepts_last res offers = (case res of Inr (_, s) \<Rightarrow> s = last offers | Inl _ \<Rightarrow> True)"

definition offers_within ::
  "nat \<Rightarrow> runtime_snapshot \<Rightarrow> (publication_error + publication_report \<times> runtime_snapshot) \<Rightarrow> runtime_snapshot list \<Rightarrow> bool" where
  "offers_within n s res offers \<longleftrightarrow>
     offers \<noteq> [] \<and> length offers \<le> n \<and> list_all (same_payloads s) offers \<and> accepts_last res offers"

lemma offers_within_single: "0 < n \<Longrightarrow> accepts_last res [s] \<Longrightarrow> offers_within n s res [s]"
  by (simp add: offers_within_def)

lemma offers_within_Cons:
  assumes "offers_within n s' res offers" "\<And>o'. same_payloads s' o' \<Longrightarrow> same_payloads s o'" "n < m"
  shows "offers_within m s res (s # offers)"
  using assms by (auto simp: offers_within_def list_all_iff accepts_last_def split: sum.splits)

lemma retrying_log:
  assumes "r \<le> MAX_RETRIES" "i \<le> MAX_INTERRUPTED_RETRIES"
  shows "\<exists>offers. publish_retrying (logged target) r i s (w, log)
        = (fst (publish_retrying target r i s w), (snd (publish_retrying target r i s w), log @ offers))
      \<and> offers_within (Suc ((MAX_RETRIES - r) + (MAX_INTERRUPTED_RETRIES - i))) s (fst (publish_retrying target r i s w)) offers"
  using assms
proof (induction target r i s w arbitrary: log rule: publish_retrying.induct)
  case (1 target r i s w)
  obtain res w' where t: "target s w = (res, w')" by fastforce
  have l: "logged target s (w, log) = (res, (w', log @ [s]))" by (simp add: logged_def t)
  have stop: ?case if "publish_retrying target r i s w = (res', w')" "accepts_last res' [s]"
    "publish_retrying (logged target) r i s (w, log) = (res', (w', log @ [s]))" for res'
    using that by (intro exI[of _ "[s]"]) (simp add: offers_within_single)
  show ?case
  proof (cases res)
    case (Inr report)
    show ?thesis
      by (rule stop[of "Inr (report, s)"]) (simp_all add: publish_retrying.simps[of _ r i s] t l Inr accepts_last_def)
  next
    case (Inl e)
    have again: ?thesis
      if eq: "publish_retrying target r i s w = publish_retrying target r' i' s' w'"
        "publish_retrying (logged target) r i s (w, log) = publish_retrying (logged target) r' i' s' (w', log @ [s])"
      and IH: "\<exists>offers. publish_retrying (logged target) r' i' s' (w', log @ [s])
            = (fst (publish_retrying target r' i' s' w'), (snd (publish_retrying target r' i' s' w'), (log @ [s]) @ offers))
          \<and> offers_within (Suc ((MAX_RETRIES - r') + (MAX_INTERRUPTED_RETRIES - i'))) s' (fst (publish_retrying target r' i' s' w')) offers"
      and less: "(MAX_RETRIES - r') + (MAX_INTERRUPTED_RETRIES - i') < (MAX_RETRIES - r) + (MAX_INTERRUPTED_RETRIES - i)"
      and same: "\<And>o'. same_payloads s' o' \<Longrightarrow> same_payloads s o'" for r' i' s'
    proof -
      from IH obtain offers where o: "publish_retrying (logged target) r' i' s' (w', log @ [s])
            = (fst (publish_retrying target r' i' s' w'), (snd (publish_retrying target r' i' s' w'), (log @ [s]) @ offers))"
        "offers_within (Suc ((MAX_RETRIES - r') + (MAX_INTERRUPTED_RETRIES - i'))) s' (fst (publish_retrying target r' i' s' w')) offers"
        by blast
      from offers_within_Cons[OF o(2) same] less o(1) show ?thesis
        unfolding eq by (intro exI[of _ "s # offers"]) simp
    qed
    show ?thesis
    proof (cases "\<exists>k rv. e = DivergentPayload k rv \<and> r < MAX_RETRIES")
      case True
      then obtain k rv where k: "e = DivergentPayload k rv" "r < MAX_RETRIES" by blast
      show ?thesis
      proof (rule again[of "Suc r" i "advance s k rv"], goal_cases)
        case 3
        show ?case using 1(1)[where log = "log @ [s]"] 1(3,4) k t Inl by simp
      qed (use k t l Inl in \<open>simp_all add: publish_retrying.simps[of _ r i s] same_payloads_advance\<close>)
    next
      case no_divergence: False
      show ?thesis
      proof (cases "\<exists>k c. e = PubUnwritable k c \<and> i < MAX_INTERRUPTED_RETRIES")
        case True
        then obtain k c where k: "e = PubUnwritable k c" "i < MAX_INTERRUPTED_RETRIES" by blast
        show ?thesis
        proof (rule again[of r "Suc i" s], goal_cases)
          case 3
          show ?case using 1(2)[where log = "log @ [s]"] 1(3,4) k t Inl by simp
        qed (use k t l Inl in \<open>simp_all add: publish_retrying.simps[of _ r i s]\<close>)
      next
        case False
        with no_divergence show ?thesis
          by (intro stop[of "Inl e"])
            (auto simp: publish_retrying.simps[of _ r i s] t l Inl accepts_last_def split: publication_error.splits)
      qed
    qed
  qed
qed

text \<open>C39: Offering ends. Whatever the target answers, a pass offers its snapshot at most six times (one
  offer, three more for a divergent payload, two more for an interrupted write), every offer carries
  the payloads and the issuer registrations composed for the pass, only revisions moving between
  offers, and what is reported as accepted is the offer that was made last. Logging the offers changes
  nothing of what is answered.\<close>

theorem offering_ends:
  "case publish_with_retry (logged target) s (w, []) of
     (res, (w', offers)) \<Rightarrow>
       publish_with_retry target s w = (res, w') \<and> offers \<noteq> [] \<and> length offers \<le> 6
       \<and> list_all (same_payloads s) offers \<and> accepts_last res offers"
proof -
  obtain offers where
    "publish_retrying (logged target) 0 0 s (w, [])
       = (fst (publish_retrying target 0 0 s w), (snd (publish_retrying target 0 0 s w), [] @ offers))"
    "offers_within (Suc ((MAX_RETRIES - 0) + (MAX_INTERRUPTED_RETRIES - 0))) s (fst (publish_retrying target 0 0 s w)) offers"
    using retrying_log[of 0 0 target s w "[]"] by auto
  then show ?thesis
    by (auto simp: publish_with_retry_def offers_within_def MAX_RETRIES_def MAX_INTERRUPTED_RETRIES_def)
qed

section \<open>What a pass offers to the runtime\<close>

definition isolated_apart :: "tenant_data_document \<Rightarrow> tenant_data_document \<Rightarrow> bool" where
  "isolated_apart b c =
     (case (bd_isolation b, bd_isolation c) of
        (IsoDiscriminator x v, IsoDiscriminator y w) \<Rightarrow> x = y \<and> v \<noteq> w
      | _ \<Rightarrow> False)"

definition data_apart :: "tenant_document \<Rightarrow> tenant_document \<Rightarrow> bool" where
  "data_apart d e =
     list_all (\<lambda>(_, b). list_all (\<lambda>(_, c). bd_data_source c \<noteq> bd_data_source b \<or> isolated_apart b c) (tb_data e)) (tb_data d)"

text \<open>Two tenants of the snapshot that share a data source are told apart on it.\<close>

definition tells_apart :: "runtime_snapshot \<Rightarrow> bool" where
  "tells_apart s =
     list_all (\<lambda>d. list_all (\<lambda>e. tb_tenant e = tb_tenant d \<or> data_apart d e) (di_payload (snap_tenants s)))
       (di_payload (snap_tenants s))"

lemma composed_tells_apart:
  assumes "compose declarations ps catalog revisions res = Inr s" "coherent t declarations ps"
  shows "tells_apart s"
proof -
  have "isolated_apart b c"
    if "d \<in> set (di_payload (snap_tenants s))" "e \<in> set (di_payload (snap_tenants s))" "tb_tenant e \<noteq> tb_tenant d"
      "(l, b) \<in> set (tb_data d)" "(m, c) \<in> set (tb_data e)" "bd_data_source c = bd_data_source b" for d e l b m c
    using composed_tenants_apart[OF assms that(1,4,2,5,6,3)] by (auto simp: isolated_apart_def)
  then show ?thesis
    unfolding tells_apart_def data_apart_def list_all_iff by fast
qed

lemma tells_apart_same_payloads: "same_payloads s s' \<Longrightarrow> tells_apart s \<Longrightarrow> tells_apart s'"
  by (simp add: tells_apart_def same_payloads_def)

lemma tells_apart_hold [simp]: "tells_apart (hold_unbound_catalogue res held s) = tells_apart s"
  by (simp add: hold_unbound_catalogue_def tells_apart_def split: list.splits option.splits)

text \<open>The publisher, with a log of what it offers beside the world it acts in.\<close>

definition aside :: "('e, 'a, 'w) action \<Rightarrow> ('e, 'a, 'w \<times> 'l) action" where
  "aside m wl = (case m (fst wl) of (r, w') \<Rightarrow> (r, (w', snd wl)))"

definition port_aside :: "'w platform_port \<Rightarrow> ('w \<times> 'l) platform_port" where
  "port_aside port =
     \<lparr> port_read_data_sources = (\<lambda>env. aside (port_read_data_sources port env)),
       port_write_data_sources = (\<lambda>env ds held message. aside (port_write_data_sources port env ds held message)),
       port_read_placements = (\<lambda>env. aside (port_read_placements port env)),
       port_write_placements = (\<lambda>env ps held message. aside (port_write_placements port env ps held message)),
       port_write_environment = (\<lambda>env wr message. aside (port_write_environment port env wr message)) \<rparr>"

definition logged_publisher :: "'w runtime_publisher \<Rightarrow> ('w \<times> runtime_snapshot list) runtime_publisher" where
  "logged_publisher x =
     \<lparr> rpub_environment = rpub_environment x, rpub_platform = port_aside (rpub_platform x), rpub_rfc = rpub_rfc x,
       rpub_catalogue = aside (rpub_catalogue x), rpub_current = aside (rpub_current x),
       rpub_resources = aside (rpub_resources x), rpub_publish = logged (rpub_publish x),
       rpub_inspect = (\<lambda>wl. case rpub_inspect x (fst wl) of (c, w') \<Rightarrow> (c, (w', snd wl))),
       rpub_registry = map_option (\<lambda>source ps ts. aside (source ps ts)) (rpub_registry x) \<rparr>"

text \<open>An action that offers nothing, and the relation of an answer to what was offered for it.\<close>

definition silent :: "('e, 'a, 'w \<times> 'l) action \<Rightarrow> bool" where
  "silent m \<longleftrightarrow> (\<forall>wl. snd (snd (m wl)) = snd wl)"

definition offers :: "('e + 'a \<Rightarrow> 'l list \<Rightarrow> bool) \<Rightarrow> ('e, 'a, 'w \<times> 'l list) action \<Rightarrow> bool" where
  "offers P m \<longleftrightarrow> (\<forall>w. P (fst (m (w, []))) (snd (snd (m (w, [])))))"

lemma silent_aside [simp]: "silent (aside m)"
  by (simp add: silent_def aside_def case_prod_unfold)

lemma silent_answer [simp]: "silent (answer r)"
  by (simp add: silent_def answer_def)

lemma silent_on_error [simp]: "silent (on_error f m) = silent m"
  by (simp add: silent_def on_error_def case_prod_unfold)

lemma silent_then_do: "silent m \<Longrightarrow> (\<And>a. silent (k a)) \<Longrightarrow> silent (then_do m k)"
  by (simp add: silent_def then_do_def split: prod.splits sum.splits) (metis snd_conv)

lemma offers_answer: "offers P (answer r) = P r []"
  by (simp add: offers_def answer_def)

lemma offers_then_do:
  assumes "silent m" "\<And>e. P (Inl e) []" "\<And>w w' a. m (w, []) = (Inr a, w') \<Longrightarrow> offers P (k a)"
  shows "offers P (then_do m k)"
proof -
  have "P (fst (then_do m k (w, []))) (snd (snd (then_do m k (w, []))))" for w
  proof -
    obtain r w' l where m: "m (w, []) = (r, (w', l))" by (metis surj_pair)
    with assms(1) have l: "l = []" unfolding silent_def by (metis snd_conv)
    show ?thesis
    proof (cases r)
      case (Inl e)
      then show ?thesis using m l assms(2) by (simp add: then_do_def)
    next
      case (Inr a)
      then have "offers P (k a)" using m by (intro assms(3)) simp
      then show ?thesis using m l Inr by (simp add: then_do_def offers_def)
    qed
  qed
  then show ?thesis by (simp add: offers_def)
qed

text \<open>What an answer of a pass and its offers have to do with one another.\<close>

definition remembers_last_offer :: "accepted_pass \<Rightarrow> runtime_snapshot list \<Rightarrow> bool" where
  "remembers_last_offer a log =
     (log \<noteq> []
      \<and> ap_tenants a = published_tenants (di_payload (snap_tenants (last log)))
      \<and> prv_tenants (re_revisions (ap_evidence a)) = Some (di_revision (snap_tenants (last log)))
      \<and> prv_data_sources (re_revisions (ap_evidence a)) = Some (di_revision (snap_data_sources (last log)))
      \<and> prv_catalog (re_revisions (ap_evidence a)) = Some (di_revision (snap_catalog (last log))))"

definition well_offered :: "pass_outcome + pass_outcome \<times> accepted_pass \<Rightarrow> runtime_snapshot list \<Rightarrow> bool" where
  "well_offered r log =
     (length log \<le> 6 \<and> list_all tells_apart log
      \<and> (case r of Inr (_, a) \<Rightarrow> remembers_last_offer a log | Inl _ \<Rightarrow> True))"

lemma well_offered_halt [simp]: "well_offered (Inl e) []"
  by (simp add: well_offered_def)

lemma then_do_answer: "then_do m (\<lambda>a. answer (Inr (f a))) w = map_prod (map_sum id f) id (m w)"
  by (simp add: then_do_def answer_def split: prod.splits sum.splits)

lemma offers_publish:
  assumes "tells_apart s"
  shows "offers well_offered
     (then_do (on_error f (publish_with_retry (logged target) s)) (\<lambda>(report, offered_last).
        answer (Inr (g report offered_last, accepted_of report offered_last exclusions))))"
proof -
  have "well_offered (fst (m (w, []))) (snd (snd (m (w, []))))"
    if m: "m = then_do (on_error f (publish_with_retry (logged target) s)) (\<lambda>(report, offered_last).
        answer (Inr (g report offered_last, accepted_of report offered_last exclusions)))" for m and w
  proof -
    obtain log where log: "publish_with_retry (logged target) s (w, [])
          = (fst (publish_with_retry target s w), (snd (publish_with_retry target s w), [] @ log))"
        "offers_within 6 s (fst (publish_with_retry target s w)) log"
      using retrying_log[of 0 0 target s w "[]"]
      by (auto simp: publish_with_retry_def MAX_RETRIES_def MAX_INTERRUPTED_RETRIES_def)
    have apart: "list_all tells_apart log"
      using log(2) assms tells_apart_same_payloads by (auto simp: offers_within_def list_all_iff)
    obtain res w' where res: "publish_with_retry target s w = (res, w')" by fastforce
    show ?thesis
    proof (cases res)
      case (Inl e)
      then show ?thesis
        using log apart res by (simp add: m then_do_def on_error_def map_err_def well_offered_def offers_within_def)
    next
      case (Inr answered)
      obtain report s' where "answered = (report, s')" by fastforce
      with Inr log apart res show ?thesis
        by (simp add: m then_do_def on_error_def map_err_def answer_def well_offered_def offers_within_def accepts_last_def
            remembers_last_offer_def accepted_of_def ReadinessEvidence_of_def snapshot_revisions_def)
    qed
  qed
  then show ?thesis by (simp add: offers_def)
qed

lemma logged_publisher_simps [simp]:
  "rpub_current (logged_publisher x) = aside (rpub_current x)"
  "rpub_resources (logged_publisher x) = aside (rpub_resources x)"
  "rpub_catalogue (logged_publisher x) = aside (rpub_catalogue x)"
  "rpub_publish (logged_publisher x) = logged (rpub_publish x)"
  "rpub_rfc (logged_publisher x) = rpub_rfc x"
  "rpub_registry (logged_publisher x) = map_option (\<lambda>source ps ts. aside (source ps ts)) (rpub_registry x)"
  "port_read_data_sources (rpub_platform (logged_publisher x)) env = aside (port_read_data_sources (rpub_platform x) env)"
  "port_read_placements (rpub_platform (logged_publisher x)) env = aside (port_read_placements (rpub_platform x) env)"
  by (simp_all add: logged_publisher_def port_aside_def)

lemma silent_reads [simp]:
  "silent (declared_data_sources (logged_publisher x))"
  "silent (recorded_placements (logged_publisher x) declarations)"
  "silent (pass_catalogue (logged_publisher x))"
  "silent (pass_registry (logged_publisher x) ps s)"
  by (simp_all add: declared_data_sources_def recorded_placements_def pass_catalogue_def pass_registry_def
      silent_then_do split: option.split)

lemma recorded_placements_coherent:
  assumes "recorded_placements x declarations w = (Inr ps, w')"
  shows "coherent (rpub_rfc x) declarations ps"
proof -
  have "check_held_placements (rpub_rfc x) ps declarations = Inr ()"
    using assms by (simp add: recorded_placements_def then_do_Inr on_error_Inr map_err_Inr answer_simps del: check_held_placements_iff)
      (metis (full_types) old.unit.exhaust)
  then show ?thesis by (simp add: check_held_placements_iff)
qed

lemma pass_registry_tells_apart:
  "pass_registry x ps s w = (Inr (s', exclusions), w') \<Longrightarrow> tells_apart s' = tells_apart s"
  by (auto simp: pass_registry_def tells_apart_def result_simps split: option.splits)

text \<open>C9: Every snapshot a pass offers to the runtime, whatever the repository, the catalogue, the issuer
  registry and the target answer and however often it offers, tells tenants on one data source apart,
  by the column of that data source with different values. A pass offers at most six times, and what
  it remembers as published is the tenants and the revisions of the offer made last.\<close>

theorem a_pass_offers_isolated_tenants:
  "case pass_body (logged_publisher x) (w, []) of
     (res, (w', log)) \<Rightarrow> length log \<le> 6 \<and> list_all tells_apart log
       \<and> (case res of Inr (_, a) \<Rightarrow> remembers_last_offer a log | Inl _ \<Rightarrow> True)"
proof -
  have publish: "offers well_offered (then_do (on_error into_outcome (pass_registry y ps s)) (\<lambda>(s', exclusions).
       then_do (on_error outcome_from_publish_error (publish_with_retry (rpub_publish y) s')) (\<lambda>(report, offered_last).
         answer (Inr (outcome_from_report report held
             (snapshot_revisions offered_last (map_option ro_generation (rep_registry report))),
           accepted_of report offered_last exclusions)))))"
    if y: "y = logged_publisher x" and s: "tells_apart s" for y ps s held
  proof (rule offers_then_do)
    show "silent (on_error into_outcome (pass_registry y ps s))" by (simp add: y)
  next
    fix w0 w1 :: "'a \<times> runtime_snapshot list" and registered
    assume "on_error into_outcome (pass_registry y ps s) w0 = (Inr registered, w1)"
    then have "tells_apart (fst registered)"
      using pass_registry_tells_apart[of y ps s w0 "fst registered" "snd registered" w1] s by (simp add: on_error_Inr)
    then show "offers well_offered (case registered of (s', exclusions) \<Rightarrow>
       then_do (on_error outcome_from_publish_error (publish_with_retry (rpub_publish y) s')) (\<lambda>(report, offered_last).
         answer (Inr (outcome_from_report report held
             (snapshot_revisions offered_last (map_option ro_generation (rep_registry report))),
           accepted_of report offered_last exclusions))))"
      by (cases registered) (simp only: prod.case fst_conv y logged_publisher_simps offers_publish)
  qed simp
  have "offers well_offered (pass_body (logged_publisher x))"
    unfolding pass_body_def
  proof (intro offers_then_do, goal_cases)
    case (11 _ _ held _ _ res _ _ declarations w3 w3' placements _ _ catalog)
    then have coherent: "coherent (rpub_rfc x) declarations placements"
      using recorded_placements_coherent[of "logged_publisher x"] by (simp add: on_error_Inr)
    have step: "offers well_offered (then_do (answer (map_err f (compose declarations placements catalog held res))) k)"
      if "\<And>s. tells_apart s \<Longrightarrow> offers well_offered (k s)" for f k
      using that composed_tells_apart[OF _ coherent]
      by (intro offers_then_do) (auto simp: map_err_Inr)
    show ?case
    proof (cases "catalog = []")
      case False
      then show ?thesis by (simp only: if_False) (rule step, rule publish, simp_all)
    qed (simp add: offers_answer)
  qed simp_all
  then show ?thesis by (simp add: offers_def well_offered_def case_prod_unfold)
qed

end
