(* ===== verification/Publication_Readiness.thy ===== *)
theory Publication_Readiness
  imports Publication_Pass
begin

text \<open>
  What a publication pass establishes about the readiness of the runtime
  (\<open>publication/readiness.rs\<close>, \<open>documents_gate.rs\<close>, \<open>state.rs\<close> and the texts of
  \<open>fabric-runtime-publication/completeness.rs\<close>): the gates of an environment, decided from the evidence
  of the last accepted pass and the last inspection of the target.
\<close>

section \<open>What an inspection saw, as text\<close>

fun part_text :: "recorded_part \<Rightarrow> string" where
  "part_text PartTenants = ''tenants''"
| "part_text PartDataSources = ''data-sources''"
| "part_text PartCatalog = ''catalog''"
| "part_text PartIssuerRegistry = ''issuer registry''"

fun gap_kind_text :: "gap_kind \<Rightarrow> string" where
  "gap_kind_text PayloadMissing = ''payload is missing''"
| "gap_kind_text DigestMismatch = ''payload does not match the record'' @ [CHR 0x27] @ ''s digest''"
| "gap_kind_text ManifestMissing = ''manifest is missing''"
| "gap_kind_text ManifestUnreadable = ''manifest cannot be read''"
| "gap_kind_text RevisionMismatch = ''manifest is at another revision than the record names''"

definition gap_text :: "recorded_part \<times> gap_kind \<Rightarrow> string" where
  "gap_text g = part_text (fst g) @ '' '' @ gap_kind_text (snd g)"

fun unobserved_text :: "unobserved_reason \<Rightarrow> string" where
  "unobserved_text Unavailable = ''the publication target could not be read''"
| "unobserved_text Unstable = ''the publication record changed while the target was read''"
| "unobserved_text RecordUnreadable = ''the held publication record cannot be read''"

fun exclusion_message :: "exclusion \<Rightarrow> string" where
  "exclusion_message (ExclusionNotReady unmet_reasons) = ''not ready: '' @ join_with ''; '' unmet_reasons"
| "exclusion_message (ExclusionRetired state) = ''retirement is recorded ('' @ state @ '')''"
| "exclusion_message ExclusionNoClient = ''no client in desired state names this tenant''"
| "exclusion_message (ExclusionInvalidIssuer detail) = ''no valid issuer: '' @ detail"

section \<open>The gates\<close>

datatype gate_status = GateMet | GateUnmet "string list"

datatype registry_application = RegistryUnobserved

record readiness_report =
  rr_documents :: gate_status
  rr_identity :: gate_status
  rr_connectors :: gate_status
  rr_excluded :: "excluded list"
  rr_application :: registry_application

definition unmet :: "string \<Rightarrow> gate_status" where
  "unmet reason = GateUnmet [reason]"

fun incompleteness_of :: "publication_completeness \<Rightarrow> string option" where
  "incompleteness_of (Complete _) = None"
| "incompleteness_of (Incomplete rec_stamp gaps) =
     Some (''the target does not hold generation '' @ show_nat (unat (stamp_generation rec_stamp)) @ '' whole: ''
       @ join_with ''; '' (map gap_text gaps))"
| "incompleteness_of Unpublished = Some ''the target holds no publication record''"
| "incompleteness_of (Unobserved reason) =
     Some (''the target'' @ [CHR 0x27] @ ''s completeness is unobserved: '' @ unobserved_text reason)"

definition incompleteness :: "completeness_observation option \<Rightarrow> string option" where
  "incompleteness observed =
     (case observed of
        None \<Rightarrow> Some ''no publication pass has inspected the target since the control plane started''
      | Some seen \<Rightarrow> incompleteness_of (co_completeness seen))"

definition short :: "record_stamp \<Rightarrow> string" where
  "short rec_stamp = take 12 (RecordDigest_to_string (stamp_sha256 rec_stamp))"

definition record_mismatch :: "record_stamp option \<Rightarrow> completeness_observation option \<Rightarrow> string option" where
  "record_mismatch acc observed =
     (case (acc, map_option co_completeness observed) of
        (Some a, Some (Complete r)) \<Rightarrow>
          (if r \<noteq> a then
             Some (''the target holds generation '' @ show_nat (unat (stamp_generation r)) @ '' ('' @ short r
               @ '') whole, not generation '' @ show_nat (unat (stamp_generation a)) @ '' ('' @ short a
               @ '') that the last accepted pass published'')
           else None)
      | _ \<Rightarrow> None)"

definition document_reasons :: "published_revisions \<Rightarrow> string list" where
  "document_reasons revisions =
     map (\<lambda>(document, _). document @ '' is not published'')
       (filter (\<lambda>(_, r). r = None)
          [(''tenants'', prv_tenants revisions), (''data-sources'', prv_data_sources revisions),
           (''catalog'', prv_catalog revisions)])"

definition documents :: "(published_revisions \<times> record_stamp) option \<Rightarrow> completeness_observation option \<Rightarrow> gate_status" where
  "documents acc observed =
     (let reasons = (case acc of
            None \<Rightarrow> [''no publication pass has been accepted since the control plane started'']
          | Some (revisions, _) \<Rightarrow> document_reasons revisions)
          @ (case incompleteness observed of None \<Rightarrow> [] | Some reason \<Rightarrow> [reason])
          @ (case record_mismatch (map_option snd acc) observed of None \<Rightarrow> [] | Some reason \<Rightarrow> [reason]) in
      if reasons = [] then GateMet else GateUnmet reasons)"

definition identity_gate :: "registry_evidence_summary option \<Rightarrow> gate_status" where
  "identity_gate registry =
     (case registry of
        None \<Rightarrow> unmet ''Fabric publishes no issuer registry: no identity issuer origin is configured''
      | Some r \<Rightarrow>
          if res_registered r = [] then
            unmet (''issuer registry generation '' @ show_nat (unat (res_generation r))
              @ '' registers no issuer: no client is ready to route'')
          else GateMet)"

definition connectors_gate :: "string list \<Rightarrow> gate_status" where
  "connectors_gate connectors =
     (if connectors = [] then unmet ''no published data source names a connector''
      else unmet (''platform composition must deploy and configure '' @ join_with '', '' connectors
        @ ''; Fabric does not observe the runtime'' @ [CHR 0x27] @ ''s connectors''))"

definition ReadinessReport_of ::
  "readiness_evidence option \<Rightarrow> completeness_observation option \<Rightarrow> readiness_report" where
  "ReadinessReport_of evidence observed =
     (case evidence of
        None \<Rightarrow>
          (let none = unmet ''no publication pass has been accepted since the control plane started'' in
           \<lparr> rr_documents = documents None observed, rr_identity = none, rr_connectors = none, rr_excluded = [],
             rr_application = RegistryUnobserved \<rparr>)
      | Some ev \<Rightarrow>
          \<lparr> rr_documents = documents (Some (re_revisions ev, re_record ev)) observed,
            rr_identity = identity_gate (re_registry ev), rr_connectors = connectors_gate (re_connectors ev),
            rr_excluded = (case re_registry ev of None \<Rightarrow> [] | Some r \<Rightarrow> res_excluded r),
            rr_application = RegistryUnobserved \<rparr>)"

definition readiness :: "publication_state \<Rightarrow> readiness_report" where
  "readiness st = ReadinessReport_of (ps_evidence st) (ps_completeness st)"

section \<open>When the documents are ready\<close>

lemma incompleteness_None:
  "incompleteness observed = None \<longleftrightarrow> (\<exists>seen r. observed = Some seen \<and> co_completeness seen = Complete r)"
proof (cases observed)
  case (Some seen)
  then show ?thesis by (cases "co_completeness seen") (simp_all add: incompleteness_def)
qed (simp add: incompleteness_def)

lemma document_reasons_Nil:
  "document_reasons revisions = [] \<longleftrightarrow>
     prv_tenants revisions \<noteq> None \<and> prv_data_sources revisions \<noteq> None \<and> prv_catalog revisions \<noteq> None"
  by (simp add: document_reasons_def)

lemma documents_met:
  "documents acc observed = GateMet \<longleftrightarrow>
     (\<exists>revisions r seen. acc = Some (revisions, r) \<and> document_reasons revisions = []
        \<and> observed = Some seen \<and> co_completeness seen = Complete r)"
proof (cases "incompleteness observed")
  case None
  then obtain seen r where "observed = Some seen" "co_completeness seen = Complete r"
    using incompleteness_None by blast
  with None show ?thesis
    by (cases acc) (auto simp: documents_def record_mismatch_def Let_def)
next
  case (Some reason)
  then have "\<not> (\<exists>seen r. observed = Some seen \<and> co_completeness seen = Complete r)"
    using incompleteness_None[of observed] by simp
  with Some show ?thesis by (auto simp: documents_def Let_def)
qed

definition all_published :: "published_revisions \<Rightarrow> bool" where
  "all_published revisions \<longleftrightarrow>
     prv_tenants revisions \<noteq> None \<and> prv_data_sources revisions \<noteq> None \<and> prv_catalog revisions \<noteq> None"

text \<open>C40: After a pass that ran, the documents gate is met exactly when a pass was accepted with a revision
  of every document and the inspection made in this pass found the target to hold whole the very record
  that the last accepted pass published; a pass that was not accepted leaves the evidence of the last
  accepted one. While a pass runs, another changes nothing.\<close>

theorem documents_ready_iff_seen_whole:
  "case publish_once x now (st, w) of
     (PassAlreadyRunning, st', w') \<Rightarrow> ps_running st \<and> st' = st \<and> w' = w
   | (PassRan at_time outcome, st', w') \<Rightarrow>
       (case run_pass x w of ((outcome', acc), w1) \<Rightarrow>
          outcome = outcome' \<and> rpub_inspect x w1 = (fst (rpub_inspect x w1), w')
          \<and> ps_evidence st' = (case acc of None \<Rightarrow> ps_evidence st | Some a \<Rightarrow> Some (ap_evidence a))
          \<and> (rr_documents (readiness st') = GateMet
              \<longleftrightarrow> (\<exists>ev. ps_evidence st' = Some ev \<and> all_published (re_revisions ev)
                        \<and> fst (rpub_inspect x w1) = Complete (re_record ev))))"
proof -
  obtain outcome acc w1 where run: "run_pass x w = ((outcome, acc), w1)" by (metis surj_pair)
  obtain c w' where seen: "rpub_inspect x w1 = (c, w')" by fastforce
  show ?thesis
  proof (cases "ps_running st")
    case False
    let ?st' = "record_pass now outcome acc c st"
    have evidence: "ps_evidence ?st' = (case acc of None \<Rightarrow> ps_evidence st | Some a \<Rightarrow> Some (ap_evidence a))"
      by (simp add: record_pass_def Let_def split: option.split)
    have observed: "ps_completeness ?st' = Some \<lparr> co_at = now, co_completeness = c \<rparr>"
      by (simp add: record_pass_def Let_def)
    have "rr_documents (readiness ?st') = GateMet
        \<longleftrightarrow> (\<exists>ev. ps_evidence ?st' = Some ev \<and> all_published (re_revisions ev) \<and> c = Complete (re_record ev))"
      by (cases "ps_evidence ?st'")
        (auto simp: readiness_def ReadinessReport_of_def documents_met observed document_reasons_Nil all_published_def Let_def)
    with False run seen evidence show ?thesis by (simp add: publish_once_def)
  qed (simp add: publish_once_def)
qed

end
