(* ===== verification/Spec2Isabelle.thy ===== *)
theory Spec2Isabelle
  imports Published_Isolation Atomic_Replace Ndc_Connector Publication_Revisions Publication_Recovery
    Publication_Readiness
begin

text \<open>
  A model of the multi-tenant data runtime of this repository, checked against its Rust sources
  under \<open>crates/\<close>. A tenant's runtime resources are published, file by file, as a generation named by
  a record; the runtime reads it, keeps a last-known-good copy, installs it in two registries and pins a view; the
  Data API authenticates a request, authorises it, resolves its tenant on the pinned view to an
  execution target, and makes one call to a connector, which carries the tenant's predicate.

  \<^bold>\<open>Theories and sources.\<close> Results are sums (\<open>Inl\<close> an error), records are records, maps are
  association lists kept sorted (\<open>BTreeMap\<close>) or distinct (\<open>HashMap\<close>), machine integers are words.

  \<^item> \<open>Prelude\<close>, \<open>Rust_Text\<close>, \<open>Json\<close>: results, ordered maps, saturating arithmetic; \<open>str\<close> as UTF-8
    bytes with \<open>chars\<close>, \<open>trim\<close>, \<open>split\<close>, number parsing; \<open>serde_json::Value\<close>.
  \<^item> \<open>Identifiers\<close> (\<open>fabric-core\<close>): identifier grammars, subjects, revisions, operations, digests.
  \<^item> \<open>Filters\<close>, \<open>Connector\<close> (\<open>fabric-connector\<close>): rows, filters with a three-valued meaning, targets
    and isolation, scoping of queries and mutations (\<open>for_target\<close>), capabilities, errors, the
    registry of connectors. A connector is a record of functions over the backend's state.
  \<^item> \<open>Registry\<close>, \<open>Data_Source\<close>, \<open>Tenant\<close>, \<open>Resolution\<close> (\<open>fabric-tenant-runtime\<close>): the snapshot of
    each resource kind and its operations, facts derived of a set, the view and the resolver.
    The locales \<open>revisioned_store\<close> and \<open>set_facts\<close> are the interfaces between them.
  \<^item> \<open>Generation\<close>, \<open>Last_Known_Good\<close>, \<open>Atomic_Replace\<close>, \<open>Reader\<close>
    (\<open>fabric-tenant-runtime/publication\<close>, \<open>resource/refresher\<close>): a generation and its digests, the
    copy on disk, the replacement of a file as a step relation with crashes, and the reader's passes.
  \<^item> \<open>Identity\<close> (\<open>fabric-identity\<close>): bearer credentials, claims, the validity window, both token
    readers behind the locale \<open>token_reader\<close>, and the binding of a token to its issuer's tenant.
  \<^item> \<open>Data_Authorization\<close>, \<open>Data_Errors\<close>, \<open>Data_Catalog\<close>, \<open>Data_Query\<close>, \<open>Data_Service\<close>,
    \<open>Data_Isolation\<close>, \<open>Data_Requests\<close>, \<open>Data_Promises\<close> (\<open>fabric-data-api\<close>): the decision, the
    refusals, the catalogue and field rules, list queries, the operations, their plans (the locale
    \<open>planned_operation\<close>, interpreted on all five), requests, and what every request is promised.
  \<^item> \<open>Ndc_Schema\<close>, \<open>Ndc_Config\<close>, \<open>Ndc_Translate\<close>, \<open>Ndc_Connector\<close> (\<open>fabric-connector-ndc\<close>): the index
    of an NDC schema, the checks of a procedure mapping, the translation of predicates, queries and
    mutations, and the connector: what it sends for a tenant and what its errors mean.
  \<^item> \<open>Publication_Plan\<close>, \<open>Publication\<close>, \<open>Publication_Reads\<close>, \<open>Publication_Revisions\<close>,
    \<open>Publication_Recovery\<close>, \<open>Publication_Issuers\<close> (\<open>fabric-runtime-publication\<close>): the documents and
    the record, the checks of an offer, the plan and its writing file by file under faults; what a
    reader makes of any mixture of old and new files; what revisions mean over any sequence of
    publications (the locale \<open>advancing\<close>, interpreted on tenants and data sources); the restore of a
    lost document; the issuers a registry names.
  \<^item> \<open>Declarations\<close>, \<open>Placements\<close>, \<open>Platform_State\<close>, \<open>Environments\<close>, \<open>Diagnostics\<close>
    (\<open>fabric-platform-management\<close>): what an environment declares, where its tenants are placed, the
    port both are read and written through and the late-bound repository in front of it, the services
    over a port that other writers share (invariants of any history of requests, by rule induction on
    \<open>session\<close>), and what an operator may be shown.
  \<^item> \<open>Snapshot_Composition\<close> (\<open>publication/snapshot.rs\<close>, \<open>placement_history.rs\<close>): the snapshot a pass
    offers, made of the declarations and the placements, and what the publisher, the runtime and two
    tenants on one data source find in it. \<open>Publication_Pass\<close> (\<open>pass.rs\<close>, \<open>protocol.rs\<close>,
    \<open>publisher.rs\<close>, \<open>state.rs\<close>): the reads, the composition, the bounded retries and what is
    remembered; \<open>logged_publisher\<close> is the same publisher with a log of its offers, over which it is
    shown that every offer isolates tenants and that offering ends. \<open>Publication_Readiness\<close>
    (\<open>readiness.rs\<close>, \<open>documents_gate.rs\<close>): the gates decided from the last accepted pass and the last
    inspection.
  \<^item> \<open>Published_Isolation\<close> joins them: from checked placements over the composed snapshot and the
    installed generation to two requests, which touch no row in common on one data source.

  \<^bold>\<open>Parameters.\<close> SHA-256, JSON, Base64 and signature libraries, the clock's reading, the file
  system's answers, the router, the authorization service and the connectors are arguments;
  what a theorem assumes of one is a named hypothesis or definition (\<open>cuts_pages\<close>,
  \<open>exact_texts\<close>, \<open>codecs_agree\<close>, \<open>reads_back\<close>, \<open>collision_free\<close>, \<open>faithful_port\<close>,
  \<open>stamps_parse\<close>). Nothing runs on fuel: every loop of the modelled code is structural or has a
  termination proof.

  \<^bold>\<open>Not modelled.\<close> Logging and telemetry labels, timers and shutdown of background tasks, HTTP and
  TLS plumbing, concurrency beyond the order of steps (a registry's writer lock makes each operation
  one step), and the crates listed without definitions in the manifest: the control plane, the Git,
  Kubernetes, Keycloak and OpenBao adapters, and the web applications.
\<close>

section \<open>From a token to a row\<close>

text \<open>
  C1: A request reaches the data of no tenant but its issuer's. Over a validated identity
  configuration and a well-formed view, a request to the Data API is either answered without the
  backend, whatever state the backend is in, or makes exactly one call: for a caller whose token
  was in its window and named an issuer registered for the tenant, with the scope and relation
  check its operation needs, to the connector of that tenant's own target, and within the rows of
  that tenant.
\<close>

theorem a_request_reaches_only_its_tenant:
  assumes config: "IdentityConfig_validate config = Inr ()"
    and read: "read = trusted_ingress_read x now l \<or> read = validating_read x vr now \<and> l = vr_leeway vr"
    and wf: "view_wf (pin (svc_runtime svc))"
  shows "(\<exists>out. \<forall>w. handle config read parse_body svc headers route w = (out, w))
    \<or> (\<exists>token claims r c name conn call render.
         extract_bearer headers = Inr token \<and> read token = Inr claims \<and> in_window claims now l
         \<and> claim_string claims ''iss'' = Some (ti_issuer r) \<and> r \<in> set (trusted_issuers config)
         \<and> id_tenant (caller_identity c) = ti_tenant r
         \<and> id_scopes (caller_identity c) = claim_string_list claims (scope_claim config)
         \<and> LogicalResourceName_try_new (route_resource route) = Inr name
         \<and> permitted (svc_authorization svc) c (route_operation route) name (route_key route)
         \<and> tgt_tenant (call_target call) = ti_tenant r
         \<and> map_of (svc_connectors svc) (tgt_connector (call_target call)) = Some conn
         \<and> call_within (tgt_isolation (call_target call)) call
         \<and> (\<forall>w. handle config read parse_body svc headers route w = apfst render (perform conn call w)))"
proof (cases rule: handled[of config read parse_body svc headers route])
  case (refused out)
  then show ?thesis by blast
next
  case (called c name conn call render)
  have "resolve_identity config read headers = Inr (caller_identity c)"
    using called(1) by (auto simp: Caller_from_request_def rbind_Inr)
  from identity_origin[OF config read this] obtain token claims r where
    origin: "extract_bearer headers = Inr token" "read token = Inr claims" "in_window claims now l"
      "claim_string claims ''iss'' = Some (ti_issuer r)" "r \<in> set (trusted_issuers config)"
      "id_tenant (caller_identity c) = ti_tenant r"
      "id_scopes (caller_identity c) = claim_string_list claims (scope_claim config)" by blast
  have target: "tgt_tenant (call_target call) = ti_tenant r"
    using confined_tenant[OF wf called(3)] origin(6) by simp
  have "permitted (svc_authorization svc) c (route_operation route) name (route_key route)"
    "map_of (svc_connectors svc) (tgt_connector (call_target call)) = Some conn"
    "call_within (tgt_isolation (call_target call)) call"
    using called(3) by (simp_all add: call_confined_def)
  with origin target called(2,4) show ?thesis by blast
qed

theorem a_request_reaches_only_its_tenant_witness:
  "(\<exists>out. \<forall>table. handle example_identity_config
        (trusted_ingress_read example_library 1030 LEEWAY_DEFAULT) (\<lambda>_. Inr JNull) example_service
        example_headers (RouteRead ''orders'' ''7'') table = (out, table))
   \<or> (\<exists>call render. tgt_tenant (call_target call) = TenantId ''acme''
        \<and> call_within (tgt_isolation (call_target call)) call
        \<and> (\<forall>table. handle example_identity_config
              (trusted_ingress_read example_library 1030 LEEWAY_DEFAULT) (\<lambda>_. Inr JNull) example_service
              example_headers (RouteRead ''orders'' ''7'') table = apfst render (perform example_backend call table)))"
proof -
  have wf: "view_wf (pin (svc_runtime example_service))"
    by (simp add: example_service_def example_runtime_wf)
  have "map_of (svc_connectors example_service) i = Some conn \<Longrightarrow> conn = example_backend" for i conn
    by (simp add: example_service_def split: if_splits)
  moreover have "r \<in> set (trusted_issuers example_identity_config) \<Longrightarrow> ti_tenant r = TenantId ''acme''" for r
    by (simp add: example_identity_config_def)
  ultimately show ?thesis
    using a_request_reaches_only_its_tenant[OF example_config_valid disjI1[OF refl] wf,
        of example_library 1030 LEEWAY_DEFAULT "\<lambda>_. Inr JNull" example_headers "RouteRead ''orders'' ''7''"]
    by metis
qed

end
